(* ===== verification/Prelude.thy ===== *)
theory Prelude
  imports Main "HOL-Library.Word" "HOL-Library.List_Lexorder" "HOL-Library.Multiset"
    "HOL-Library.Product_Lexorder"
begin

text \<open>
  Shared vocabulary of the development: the machine types of the Go code, the results of
  fallible Go functions, the two loop shapes the code uses (a loop over a slice that stops at
  the first error, with and without an accumulator), and the SQL statements on one table
  (\<open>INSERT\<close> under a unique constraint, \<open>UPDATE ... WHERE\<close>).
  The collection \<open>res_simps\<close> decides when a result is a success.
\<close>

named_theorems res_simps \<open>when a chain of fallible calls succeeds\<close>

type_synonym byte = "8 word"
type_synonym uint32 = "32 word"
type_synonym int32 = "32 word"
type_synonym uint64 = "64 word"

text \<open>
  How a Go call can end other than by returning a value: with a non-nil \<open>error\<close>, with a
  run-time panic (nil dereference, write to a nil map), or in \<open>log.Fatalf\<close>, which
  terminates the process.
\<close>

datatype go_error = Err string | Panic string | Fatal string

type_synonym 'a result = "go_error + 'a"

definition ebind :: "'a result \<Rightarrow> ('a \<Rightarrow> 'b result) \<Rightarrow> 'b result" where
  "ebind m f = (case m of Inl e \<Rightarrow> Inl e | Inr x \<Rightarrow> f x)"

text \<open>\<open>for _, x := range xs { err = f(x); if err != nil { return err } }\<close> on a state.\<close>

fun for_each :: "('x \<Rightarrow> 's \<Rightarrow> 's result) \<Rightarrow> 'x list \<Rightarrow> 's \<Rightarrow> 's result" where
  "for_each f [] s = Inr s"
| "for_each f (x # xs) s = ebind (f x s) (for_each f xs)"

text \<open>A loop that collects one value per element and stops at the first error.\<close>

fun map_result :: "('x \<Rightarrow> 'y result) \<Rightarrow> 'x list \<Rightarrow> 'y list result" where
  "map_result f [] = Inr []"
| "map_result f (x # xs) = ebind (f x) (\<lambda>y. ebind (map_result f xs) (\<lambda>ys. Inr (y # ys)))"

text \<open>The same loop over calls that act on the outside world, whose state is \<open>'w\<close>: what was
  done before an error stays done.\<close>

fun for_each_io :: "('x \<Rightarrow> 'w \<Rightarrow> 'w \<times> unit result) \<Rightarrow> 'x list \<Rightarrow> 'w \<Rightarrow> 'w \<times> unit result" where
  "for_each_io f [] w = (w, Inr ())"
| "for_each_io f (x # xs) w =
     (case f x w of (w', Inl e) \<Rightarrow> (w', Inl e) | (w', Inr _) \<Rightarrow> for_each_io f xs w')"

text \<open>\<open>fmt.Errorf\<close> around an error; panics and exits pass through.\<close>

definition wrap_err :: "string \<Rightarrow> 'a result \<Rightarrow> 'a result" where
  "wrap_err msg r = (case r of Inl (Err _) \<Rightarrow> Inl (Err msg) | _ \<Rightarrow> r)"

text \<open>An error that is only logged; panics and exits are not errors.\<close>

definition swallow_err :: "unit result \<Rightarrow> unit result" where
  "swallow_err r = (case r of Inl (Err _) \<Rightarrow> Inr () | _ \<Rightarrow> r)"

text \<open>Nil-able pointers that the code dereferences without a check.\<close>

definition deref :: "'a option \<Rightarrow> 'a result" where
  "deref p = (case p of None \<Rightarrow> Inl (Panic ''nil pointer dereference'') | Some x \<Rightarrow> Inr x)"

text \<open>
  A table is the list of its rows in the order a scan visits them. \<open>update_where\<close> is
  \<open>UPDATE t SET ... WHERE ...\<close>; \<open>insert_unique\<close> is \<open>INSERT INTO t\<close> under a unique
  constraint on \<open>key\<close>.
\<close>

definition update_where :: "('r \<Rightarrow> bool) \<Rightarrow> ('r \<Rightarrow> 'r) \<Rightarrow> 'r list \<Rightarrow> 'r list" where
  "update_where P f t = map (\<lambda>r. if P r then f r else r) t"

definition insert_unique :: "('r \<Rightarrow> 'k) \<Rightarrow> 'r \<Rightarrow> 'r list \<Rightarrow> 'r list result" where
  "insert_unique key r t =
     (if key r \<in> set (map key t) then Inl (Err ''duplicate key value violates unique constraint'')
      else Inr (t @ [r]))"

text \<open>
  The aggregate and ordering clauses the queries use: \<open>MAX\<close> (\<open>None\<close> is SQL \<open>NULL\<close>),
  \<open>DISTINCT ON (key)\<close> over an ordered result, and \<open>ANY(list)\<close>.
\<close>

fun sql_max :: "'a::linorder list \<Rightarrow> 'a option" where
  "sql_max [] = None"
| "sql_max (x # xs) = Some (fold max xs x)"

fun distinct_on :: "('r \<Rightarrow> 'k) \<Rightarrow> 'r list \<Rightarrow> 'r list" where
  "distinct_on key [] = []"
| "distinct_on key (r # rs) = r # distinct_on key (filter (\<lambda>x. key x \<noteq> key r) rs)"

text \<open>\<open>bigint\<close> holds signed 64-bit values, so the driver refuses a \<open>uint64\<close> beyond.\<close>

definition bigint :: "uint64 \<Rightarrow> int result" where
  "bigint w = (if uint w < 2 ^ 63 then Inr (uint w) else Inl (Err ''value is greater than maximum value for bigint''))"

text \<open>
  What Go leaves open about an order (\<open>range\<close> over a map, \<open>sort.Slice\<close> on equal elements) is
  a function that permutes its argument.
\<close>

definition any_order :: "('a list \<Rightarrow> 'a list) \<Rightarrow> bool" where
  "any_order rng \<longleftrightarrow> (\<forall>ks. mset (rng ks) = mset ks)"

text \<open>
  Calls to the outside world, whose state is \<open>'w\<close>: \<open>None\<close> is a call that does not return,
  and what a call did before its error stays done.
\<close>

type_synonym ('w, 'a) io = "'w \<Rightarrow> ('w \<times> 'a result) option"

definition io_bind :: "('w, 'a) io \<Rightarrow> ('a \<Rightarrow> ('w, 'b) io) \<Rightarrow> ('w, 'b) io" where
  "io_bind m f w = (case m w of
       None \<Rightarrow> None
     | Some (w', Inl e) \<Rightarrow> Some (w', Inl e)
     | Some (w', Inr x) \<Rightarrow> f x w')"

definition io_lift :: "'a result \<Rightarrow> ('w, 'a) io" where
  "io_lift r w = Some (w, r)"

text \<open>
  \<open>for { select { case <-ctx.Done(): return timeout; default: ... } }\<close>: an attempt that gives
  \<open>None\<close> is followed by a pause and the next one.
\<close>

partial_function (option) poll :: "('w \<Rightarrow> bool) \<Rightarrow> ('w \<Rightarrow> 'w) \<Rightarrow> go_error \<Rightarrow> ('w, 'a option) io \<Rightarrow> ('w, 'a) io" where
  "poll isDone pause timeout attempt w =
     (if isDone w then Some (w, Inl timeout)
      else Option.bind (attempt w) (\<lambda>(w', r). case r of
          Inl e \<Rightarrow> Some (w', Inl e)
        | Inr (Some x) \<Rightarrow> Some (w', Inr x)
        | Inr None \<Rightarrow> poll isDone pause timeout attempt (pause w')))"

definition returns_within :: "('w \<Rightarrow> nat) \<Rightarrow> ('w, 'a) io \<Rightarrow> bool" where
  "returns_within left m \<longleftrightarrow> (\<forall>w. \<exists>w' r. m w = Some (w', r) \<and> left w' \<le> left w)"

subsection \<open>Results\<close>

lemma ebind_simps [simp]:
  "ebind (Inl e) f = Inl e"
  "ebind (Inr x) f = f x"
  by (simp_all add: ebind_def)

lemma ebind_Inr_iff [res_simps]: "ebind m f = Inr y \<longleftrightarrow> (\<exists>x. m = Inr x \<and> f x = Inr y)"
  by (cases m) auto

lemma ebind_Inl_iff:
  "ebind m f = Inl e \<longleftrightarrow> m = Inl e \<or> (\<exists>x. m = Inr x \<and> f x = Inl e)"
  by (cases m) auto

lemma ebind_assoc: "ebind (ebind m f) g = ebind m (\<lambda>x. ebind (f x) g)"
  by (cases m) auto

lemma ebind_cong [fundef_cong]:
  "m = m' \<Longrightarrow> (\<And>x. m' = Inr x \<Longrightarrow> f x = f' x) \<Longrightarrow> ebind m f = ebind m' f'"
  by (cases m') auto

lemma deref_simps [simp]:
  "deref None = Inl (Panic ''nil pointer dereference'')"
  "deref (Some x) = Inr x"
  by (simp_all add: deref_def)

lemma deref_Inr_iff [res_simps]: "deref p = Inr x \<longleftrightarrow> p = Some x"
  by (cases p) auto

lemma if_Inl_Inr_iff [res_simps]:
  "(if b then Inl e else m) = Inr y \<longleftrightarrow> \<not> b \<and> m = Inr y"
  "(if b then m else Inl e) = Inr y \<longleftrightarrow> b \<and> m = Inr y"
  by auto

lemma case_option_Inl_Inr_iff [res_simps]:
  "(case p of None \<Rightarrow> Inl e | Some x \<Rightarrow> f x) = Inr y \<longleftrightarrow> (\<exists>x. p = Some x \<and> f x = Inr y)"
  by (cases p) auto

lemma wrap_err_Inr_iff [res_simps]: "wrap_err msg r = Inr x \<longleftrightarrow> r = Inr x"
  by (auto simp: wrap_err_def split: sum.splits go_error.splits)

lemma for_each_append:
  "for_each f (xs @ ys) s = ebind (for_each f xs s) (for_each f ys)"
proof (induction xs arbitrary: s)
  case (Cons x xs)
  then have "for_each f (xs @ ys) = (\<lambda>s. ebind (for_each f xs s) (for_each f ys))"
    by (intro ext)
  then show ?case by (simp add: ebind_assoc)
qed simp

lemma map_result_Inr_iff:
  "map_result f xs = Inr ys \<longleftrightarrow> list_all2 (\<lambda>x y. f x = Inr y) xs ys"
  by (induction xs arbitrary: ys)
    (auto simp: res_simps list_all2_Cons1)

lemma map_result_Inr: "map_result (\<lambda>x. Inr (g x)) xs = Inr (map g xs)"
  by (induction xs) simp_all

lemma map_result_perm:
  assumes "map_result f xs = Inr ys" and "mset xs' = mset xs"
  obtains ys' where "map_result f xs' = Inr ys'" and "mset ys' = mset ys"
proof -
  define g where "g x = (case f x of Inr y \<Rightarrow> y)" for x
  have g: "map_result f zs = Inr (map g zs)" if "\<forall>x \<in> set zs. \<exists>y. f x = Inr y" for zs
    using that by (induction zs) (auto simp: g_def)
  have all: "\<forall>x \<in> set xs. \<exists>y. f x = Inr y"
    using assms(1) by (auto simp: map_result_Inr_iff list_all2_conv_all_nth in_set_conv_nth)
  have "map_result f xs' = Inr (map g xs')" using mset_eq_setD [OF assms(2)] all by (intro g) simp
  moreover have "ys = map g xs" using g [OF all] assms(1) by simp
  ultimately show thesis using assms(2) by (intro that [of "map g xs'"]) simp_all
qed

lemma find_SomeD: "find P xs = Some x \<Longrightarrow> x \<in> set xs \<and> P x"
  by (metis find_Some_iff nth_mem)

lemma map_result_length: "map_result f xs = Inr ys \<Longrightarrow> length ys = length xs"
  by (auto simp: map_result_Inr_iff dest: list_all2_lengthD)

subsection \<open>Orders and calls to the outside world\<close>

lemma any_order_set: "any_order rng \<Longrightarrow> set (rng ks) = set ks"
  unfolding any_order_def by (metis set_mset_mset)

lemma any_order_distinct: "any_order rng \<Longrightarrow> distinct (rng ks) = distinct ks"
  unfolding any_order_def by (metis mset_eq_imp_distinct_iff)

lemma any_order_id: "any_order (\<lambda>ks. ks)"
  by (simp add: any_order_def)

lemma io_lift_apply [simp]: "io_lift r w = Some (w, r)"
  by (simp add: io_lift_def)

lemma io_bind_Inr_iff [res_simps]:
  "io_bind m f w = Some (w'', Inr y) \<longleftrightarrow> (\<exists>w' x. m w = Some (w', Inr x) \<and> f x w' = Some (w'', Inr y))"
  by (auto simp: io_bind_def split: option.splits sum.splits)

lemma io_bind_Some:
  "m w = Some (w', Inr x) \<Longrightarrow> io_bind m f w = f x w'"
  "m w = Some (w', Inl e) \<Longrightarrow> io_bind m f w = Some (w', Inl e)"
  by (simp_all add: io_bind_def)

lemma io_bind_lift [simp]: "io_bind (io_lift (Inr x)) f w = f x w" "io_bind (io_lift (Inl e)) f w = Some (w, Inl e)"
  by (simp_all add: io_bind_def)

lemma poll_result:
  assumes "poll isDone pause timeout attempt w = Some (w', r)"
  shows "isDone w' \<and> r = Inl timeout \<or> (\<exists>v. \<not> isDone v \<and> attempt v = Some (w', map_sum id Some r))"
proof -
  let ?P = "\<lambda>isDone (pause :: 'a \<Rightarrow> 'a) (timeout :: go_error) (attempt :: ('a, 'b option) io) (w :: 'a) (r :: 'a \<times> 'b result).
      isDone (fst r) \<and> snd r = Inl timeout \<or> (\<exists>v. \<not> isDone v \<and> attempt v = Some (fst r, map_sum id Some (snd r)))"
  have "?P isDone pause timeout attempt w (w', r)"
  proof (rule poll.raw_induct [of ?P, OF _ assms])
    fix poll :: "('a \<Rightarrow> bool) \<Rightarrow> ('a \<Rightarrow> 'a) \<Rightarrow> go_error \<Rightarrow> ('a, 'b option) io \<Rightarrow> ('a, 'b) io"
      and isDone pause timeout w r and attempt :: "('a, 'b option) io"
    assume IH: "\<And>d p t a w r. poll d p t a w = Some r \<Longrightarrow> ?P d p t a w r"
      and step: "(if isDone w then Some (w, Inl timeout)
        else Option.bind (attempt w) (\<lambda>(w', r). case r of Inl e \<Rightarrow> Some (w', Inl e)
          | Inr (Some x) \<Rightarrow> Some (w', Inr x) | Inr None \<Rightarrow> poll isDone pause timeout attempt (pause w'))) = Some r"
    show "?P isDone pause timeout attempt w r"
    proof (cases "isDone w")
      case False
      with step obtain v q where v: "attempt w = Some (v, q)" by (cases "attempt w") auto
      consider e where "q = Inl e" | x where "q = Inr (Some x)" | "q = Inr None"
        by (metis option.exhaust sum.exhaust)
      then show ?thesis
      proof cases
        case 1
        with step False v have "r = (v, Inl e)" by simp
        with False v 1 show ?thesis by auto
      next
        case 2
        with step False v have "r = (v, Inr x)" by simp
        with False v 2 show ?thesis by auto
      next
        case 3
        with step False v have "poll isDone pause timeout attempt (pause v) = Some r" by simp
        then show ?thesis by (rule IH)
      qed
    qed (use step in auto)
  qed
  then show ?thesis by simp
qed

text \<open>
  Calls under a deadline: \<open>left\<close> counts the pauses until it, and a call returns without adding
  any. A polling loop of such calls returns.
\<close>

lemma returns_within_lift [simp]: "returns_within left (io_lift r)"
  by (simp add: returns_within_def)

lemma returns_within_bind:
  assumes "returns_within left m" and "\<And>x. returns_within left (f x)"
  shows "returns_within left (io_bind m f)"
  unfolding returns_within_def
proof
  fix w
  obtain w' r where w': "m w = Some (w', r)" "left w' \<le> left w"
    using assms(1) unfolding returns_within_def by blast
  show "\<exists>w'' r. io_bind m f w = Some (w'', r) \<and> left w'' \<le> left w"
  proof (cases r)
    case (Inr x)
    with assms(2) obtain w'' r' where "f x w' = Some (w'', r')" "left w'' \<le> left w'"
      unfolding returns_within_def by blast
    with w' Inr show ?thesis by (auto simp: io_bind_def)
  qed (use w' in \<open>auto simp: io_bind_def\<close>)
qed

lemma poll_returns:
  assumes deadline: "\<And>v. left v = 0 \<Longrightarrow> isDone v"
    and pause: "\<And>v. left (pause v) \<le> left v - 1"
    and attempt: "returns_within left attempt"
  shows "\<exists>v r. poll isDone pause timeout attempt w = Some (v, r)"
proof (induction "left w" arbitrary: w rule: less_induct)
  case less
  show ?case
  proof (cases "isDone w")
    case True
    then show ?thesis by (simp add: poll.simps)
  next
    case False
    obtain v r where v: "attempt w = Some (v, r)" "left v \<le> left w"
      using attempt unfolding returns_within_def by blast
    have "left w \<noteq> 0" using False deadline by blast
    then have "left (pause v) < left w" using pause [of v] v(2) by simp
    then have "\<exists>v' r. poll isDone pause timeout attempt (pause v) = Some (v', r)" by (rule less)
    with False v(1) show ?thesis
      by (cases r) (auto simp: poll.simps [of isDone pause timeout attempt w] split: option.splits)
  qed
qed

subsection \<open>Tables\<close>

lemma set_update_where:
  "set (update_where P f t) = {if P r then f r else r |r. r \<in> set t}"
  by (auto simp: update_where_def)

lemma length_update_where [simp]: "length (update_where P f t) = length t"
  by (simp add: update_where_def)

lemma update_where_Nil [simp]: "update_where P f [] = []"
  by (simp add: update_where_def)

lemma update_where_none:
  "(\<And>r. r \<in> set t \<Longrightarrow> \<not> P r) \<Longrightarrow> update_where P f t = t"
  by (simp add: update_where_def map_idI)

lemma map_update_where:
  "(\<And>r. P r \<Longrightarrow> key (f r) = key r) \<Longrightarrow> map key (update_where P f t) = map key t"
  by (auto simp: update_where_def)

lemma update_where_twice:
  assumes "\<And>r. P r \<Longrightarrow> f (f r) = f r" and "\<And>r. Q (f r) = Q r"
  shows "update_where Q f (update_where P f t) = update_where (\<lambda>r. P r \<or> Q r) f t"
  using assms by (auto simp: update_where_def)

lemma insert_unique_Inr_iff:
  "insert_unique key r t = Inr t' \<longleftrightarrow> key r \<notin> key ` set t \<and> t' = t @ [r]"
  by (auto simp: insert_unique_def)

lemma sql_max_Some_iff:
  "sql_max xs = Some m \<longleftrightarrow> m \<in> set xs \<and> (\<forall>x \<in> set xs. x \<le> m)"
proof (cases xs)
  case (Cons y ys)
  have "fold max ys y = Max (set xs)" unfolding Cons by (rule Max.set_eq_fold [symmetric])
  moreover have "m = Max (set xs) \<longleftrightarrow> m \<in> set xs \<and> (\<forall>x \<in> set xs. x \<le> m)"
    using Max_eq_iff [of "set xs" m] by (auto simp: Cons)
  ultimately show ?thesis by (auto simp: Cons)
qed simp

lemma sql_max_None_iff [simp]: "sql_max xs = None \<longleftrightarrow> xs = []"
  by (cases xs) auto

lemma set_distinct_on: "set (distinct_on key rs) \<subseteq> set rs"
proof (induction key rs rule: distinct_on.induct)
  case (2 key r rs)
  then show ?case by auto
qed simp

lemma distinct_distinct_on: "distinct (map key (distinct_on key rs))"
proof (induction key rs rule: distinct_on.induct)
  case (2 key r rs)
  then show ?case using set_distinct_on [of key "filter (\<lambda>x. key x \<noteq> key r) rs"] by auto
qed simp

lemma distinct_on_keys: "key ` set (distinct_on key rs) = key ` set rs"
proof (induction key rs rule: distinct_on.induct)
  case (2 key r rs)
  then show ?case by auto
qed simp

lemma distinct_on_first:
  assumes "sorted_wrt R rs" and "\<And>x. R x x" and "r \<in> set (distinct_on key rs)"
    and "r' \<in> set rs" and "key r' = key r"
  shows "R r r'"
  using assms(1) assms(3-)
proof (induction key rs rule: distinct_on.induct)
  case (2 key x rs)
  show ?case
  proof (cases "r = x")
    case True
    with 2 assms(2) show ?thesis by auto
  next
    case False
    with "2.prems" have r: "r \<in> set (distinct_on key (filter (\<lambda>y. key y \<noteq> key x) rs))" by simp
    then have "key r \<noteq> key x" using set_distinct_on [of key "filter (\<lambda>y. key y \<noteq> key x) rs"] by auto
    with 2 r show ?thesis by (auto simp: sorted_wrt_filter)
  qed
qed simp

lemma bigint_Inr_iff [res_simps]: "bigint w = Inr i \<longleftrightarrow> uint w < 2 ^ 63 \<and> i = uint w"
  by (auto simp: bigint_def)

lemma filter_unique:
  assumes "distinct (map f xs)" and "x \<in> set xs"
  shows "filter (\<lambda>y. f y = f x) xs = [x]"
  using assms
proof (induction xs)
  case (Cons y ys)
  show ?case
  proof (cases "f y = f x")
    case True
    with Cons.prems have "f x \<notin> f ` set ys" by simp
    then have "filter (\<lambda>z. f z = f x) ys = []" by (metis (mono_tags, lifting) filter_False image_eqI)
    moreover have "y = x" using Cons.prems \<open>f x \<notin> f ` set ys\<close> by auto
    ultimately show ?thesis by simp
  next
    case False
    with Cons show ?thesis by auto
  qed
qed simp

lemma map_of_rev_unique:
  "distinct (map f xs) \<Longrightarrow> x \<in> set xs \<Longrightarrow> map_of (rev (map (\<lambda>y. (f y, g y)) xs)) (f x) = Some (g x)"
  by (rule map_of_is_SomeI) (auto simp: rev_map [symmetric] comp_def)

lemma map_of_rev_None:
  "a \<notin> f ` set xs \<Longrightarrow> map_of (rev (map (\<lambda>y. (f y, g y)) xs)) a = None"
  by (auto simp: map_of_eq_None_iff)

subsection \<open>Joins and pages\<close>

lemma filter_concat_key:
  assumes "distinct ks" and "\<And>k r. r \<in> set (g k) \<Longrightarrow> key r = k" and "k \<in> set ks"
  shows "filter (\<lambda>r. key r = k) (concat (map g ks)) = g k"
  using assms(1) assms(3)
proof (induction ks)
  case (Cons k' ks)
  have none: "filter (\<lambda>r. key r = k) (concat (map g ks)) = []" if "k \<notin> set ks"
    using that assms(2) by (auto simp: filter_empty_conv)
  have other: "filter (\<lambda>r. key r = k) (g k') = []" if "k' \<noteq> k"
    using that assms(2) by (auto simp: filter_empty_conv)
  have own: "filter (\<lambda>r. key r = k) (g k) = g k"
    using assms(2) by (simp add: filter_id_conv)
  show ?case using Cons none other own by (cases "k' = k") auto
qed simp

lemma concat_map_concat_map: "concat (map g (concat (map f xs))) = concat (map (\<lambda>x. concat (map g (f x))) xs)"
  by (induction xs) auto

lemma distinct_concat_keyed:
  assumes "distinct (map key xs)" and "\<And>x. x \<in> set xs \<Longrightarrow> distinct (g x)" and "\<And>x y. y \<in> set (g x) \<Longrightarrow> tag y = key x"
  shows "distinct (concat (map g xs))"
  using assms(1,2)
proof (induction xs)
  case (Cons x xs)
  have "set (g x) \<inter> \<Union> (set ` set (map g xs)) = {}"
  proof (rule ccontr)
    assume "set (g x) \<inter> \<Union> (set ` set (map g xs)) \<noteq> {}"
    then obtain y x' where "y \<in> set (g x)" "x' \<in> set xs" "y \<in> set (g x')" by auto
    then have "key x = key x'" using assms(3) by metis
    with \<open>x' \<in> set xs\<close> Cons.prems(1) show False by auto
  qed
  with Cons show ?case by simp
qed simp

lemma concat_pages:
  "concat (map (\<lambda>i. take n (drop (n * i) xs)) [0..<k]) = take (n * k) xs"
  by (induction k) (simp_all add: add.commute flip: take_add)

subsection \<open>The contract of a table with a unique key\<close>

locale sql_table =
  fixes insert :: "'r \<Rightarrow> 'r list \<Rightarrow> 'r list result"
    and key :: "'r \<Rightarrow> 'k"
  assumes insert_Inr_iff: "insert r t = Inr t' \<longleftrightarrow> key r \<notin> key ` set t \<and> t' = t @ [r]"
begin

lemma distinct_insert:
  "insert r t = Inr t' \<Longrightarrow> distinct (map key t) \<Longrightarrow> distinct (map key t')"
  by (auto simp: insert_Inr_iff)

lemma insert_found: "insert r t = Inr t' \<Longrightarrow> r \<in> set t'"
  by (auto simp: insert_Inr_iff)

lemma insert_keeps: "insert r t = Inr t' \<Longrightarrow> set t' = Set.insert r (set t)"
  by (auto simp: insert_Inr_iff)

lemma insert_again_fails:
  assumes "r' \<in> set t" and "key r' = key r"
  shows "\<exists>e. insert r t = Inl e"
proof (cases "insert r t")
  case (Inr t')
  then have "key r \<notin> key ` set t" by (simp add: insert_Inr_iff)
  with assms show ?thesis by (metis image_eqI)
qed simp

lemma key_unique:
  assumes "distinct (map key t)" and "r \<in> set t" and "r' \<in> set t" and "key r = key r'"
  shows "r = r'"
  using assms by (auto simp: distinct_map inj_on_def)

end

subsection \<open>Operations that share an invariant\<close>

text \<open>
  The contract of a state-changing operation called in a loop over a slice: every successful
  call keeps \<open>inv\<close>, given that \<open>pre\<close> holds of the argument. The loop then keeps it too.
\<close>

locale kept_by =
  fixes inv :: "'s \<Rightarrow> bool"
    and pre :: "'x \<Rightarrow> bool"
    and f :: "'x \<Rightarrow> 's \<Rightarrow> 's result"
  assumes kept: "inv s \<Longrightarrow> pre x \<Longrightarrow> f x s = Inr s' \<Longrightarrow> inv s'"
begin

lemma for_each_kept:
  "inv s \<Longrightarrow> (\<And>x. x \<in> set xs \<Longrightarrow> pre x) \<Longrightarrow> for_each f xs s = Inr s' \<Longrightarrow> inv s'"
proof (induction xs arbitrary: s)
  case (Cons x xs)
  from Cons.prems(3) obtain s1 where s1: "f x s = Inr s1" and rest: "for_each f xs s1 = Inr s'"
    by (auto simp: ebind_Inr_iff)
  have "inv s1" using Cons.prems(1) Cons.prems(2) s1 by (auto intro: kept)
  then show ?case using Cons.IH [of s1] Cons.prems(2) rest by auto
qed simp

end

end
