(* ===== verification/Tonutils.thy ===== *)
theory Tonutils
  imports Prelude
begin

text \<open>
  The boundary to the third-party packages the service calls (tonutils-go, gofrs/uuid,
  shopspring/decimal).
  Their values are seen only through the accessors the service uses, and their functions are
  the fields of the parameter \<open>'c tonlib\<close>, where \<open>'c\<close> is the type of TVM cells.
  Nothing is assumed about them here; a theorem that needs documented behaviour of one of them
  names it as a hypothesis (\<open>std_addresses\<close>, \<open>codec_ok\<close>).
\<close>

type_synonym UUID = "byte list"

datatype addr_type = NoneAddress | ExtAddress | StdAddress | VarAddress

text \<open>\<open>wallet.Version\<close>.\<close>

datatype WalletVersion = HighloadV2R2 | OtherVersion nat

text \<open>\<open>tlb.AccountStatus\<close>.\<close>

datatype AccountStatus = AccountStatusActive | AccountStatusUninit | AccountStatusFrozen | AccountStatusNonExist

text \<open>\<open>address.Address\<close>, by its accessors \<open>Type()\<close>, \<open>Workchain()\<close>, \<open>Data()\<close>,
  \<open>IsBounceable()\<close> and \<open>IsTestnetOnly()\<close>.\<close>

record tonaddr =
  ta_type :: addr_type
  ta_workchain :: int32
  ta_data :: "byte list"
  ta_bounceable :: bool
  ta_testnet :: bool

text \<open>\<open>tlb.InternalMessage\<close>; \<open>im_Body\<close> is what \<open>Payload()\<close> returns.\<close>

record 'c InternalMessage =
  im_IHRDisabled :: bool
  im_Bounce :: bool
  im_SrcAddr :: "tonaddr option"
  im_DstAddr :: "tonaddr option"
  im_Amount :: int
  im_CreatedLT :: uint64
  im_CreatedAt :: uint32
  im_StateInit :: "'c option"
  im_Body :: "'c option"

text \<open>\<open>tlb.ExternalMessage\<close> (external in).\<close>

record 'c ExternalMessage =
  em_DstAddr :: "tonaddr option"
  em_Body :: "'c option"

datatype 'c Message =
    MsgInternal "'c InternalMessage"
  | MsgExternalIn "'c ExternalMessage"
  | MsgExternalOut

datatype tx_description = TransactionDescriptionOrdinary | TransactionDescriptionTickTock | OtherDescription

text \<open>
  \<open>tlb.Transaction\<close>: \<open>tx_OutCount\<close> is \<open>len(tx.IO.Out.List.All())\<close> and \<open>tx_OutSlice\<close>
  is \<open>tx.IO.Out.ToSlice()\<close>, each with the way it can fail.
\<close>

record 'c Transaction =
  tx_LT :: uint64
  tx_Now :: uint32
  tx_In :: "'c Message option"
  tx_OutCount :: "nat result"
  tx_OutSlice :: "'c Message list result"
  tx_Description :: tx_description

text \<open>\<open>wallet.Message\<close>: a message a wallet contract is asked to send.\<close>

record 'c WalletMessage =
  wm_Mode :: nat
  wm_InternalMessage :: "'c InternalMessage"

text \<open>\<open>ton.BlockIDExt\<close> and \<open>ton.TransactionShortInfo\<close>.\<close>

record BlockIDExt =
  bid_Workchain :: int32
  bid_Shard :: uint64
  bid_SeqNo :: uint32
  bid_RootHash :: "byte list"
  bid_FileHash :: "byte list"

record TransactionShortInfo =
  ti_Account :: "byte list"
  ti_LT :: uint64

text \<open>The store operations of \<open>cell.Builder\<close> the service chains.\<close>

datatype 'c store_op =
    StoreUInt nat nat
  | StoreBigCoins int
  | StoreAddr "tonaddr option"
  | StoreBoolBit bool
  | StoreRef 'c
  | StoreStringSnake string

text \<open>The structures the service decodes with \<open>tlb.LoadFromCell\<close> and its field tags.\<close>

record 'c transfer_struct =
  ts_QueryID :: uint64
  ts_Amount :: int
  ts_Destination :: "tonaddr option"
  ts_ResponseDestination :: "tonaddr option"
  ts_CustomPayload :: "'c option"
  ts_ForwardTonAmount :: int
  ts_ForwardPayload :: "'c option"

record 'c notification_struct =
  ns_QueryID :: uint64
  ns_Amount :: int
  ns_Sender :: "tonaddr option"
  ns_ForwardPayload :: "'c option"

record 'c highload_struct =
  hs_SubwalletID :: uint32
  hs_BoundedID :: uint64
  hs_Messages :: "'c list"

text \<open>
  The third-party functions. \<open>build_cell\<close> runs a chain of builder calls up to \<open>EndCell\<close>
  and is \<open>None\<close> when a store does not fit; the \<open>load_*\<close> fields are
  \<open>tlb.LoadFromCell\<close> at the structure named; \<open>load_uint n\<close> reads \<open>n\<close> bits off
  a slice and gives the rest.
\<close>

record 'c tonlib =
  new_address :: "byte \<Rightarrow> byte \<Rightarrow> byte list \<Rightarrow> tonaddr"
  addr_string :: "tonaddr \<Rightarrow> string"
  parse_addr :: "string \<Rightarrow> tonaddr result"
  build_cell :: "'c store_op list \<Rightarrow> 'c option"
  message_cell :: "'c InternalMessage \<Rightarrow> 'c result"
  cell_FromBOC :: "byte list \<Rightarrow> 'c result"
  stateinit_cell :: "'c \<Rightarrow> 'c \<Rightarrow> 'c result"
  cell_hash :: "'c \<Rightarrow> byte list"
  load_uint :: "nat \<Rightarrow> 'c \<Rightarrow> (nat \<times> 'c) result"
  load_string_snake :: "'c \<Rightarrow> string result"
  load_ref :: "'c \<Rightarrow> 'c result"
  load_transfer :: "'c \<Rightarrow> 'c transfer_struct result"
  load_notification :: "'c \<Rightarrow> 'c notification_struct result"
  load_excesses :: "'c \<Rightarrow> uint64 result"
  load_message :: "'c \<Rightarrow> 'c InternalMessage result"
  load_highload :: "'c \<Rightarrow> 'c highload_struct result"
  message_comment :: "'c InternalMessage \<Rightarrow> string"
  uuid_FromBytes :: "byte list \<Rightarrow> UUID result"
  uuid_FromString :: "string \<Rightarrow> UUID result"
  uuid_String :: "UUID \<Rightarrow> string"
  coins_String :: "int \<Rightarrow> string"

text \<open>Documented behaviour of \<open>address.NewAddress\<close>: a std address with the given account id
  in the given workchain.\<close>

definition std_addresses :: "'c tonlib \<Rightarrow> bool" where
  "std_addresses lib \<longleftrightarrow>
     (\<forall>flags wc d. ta_type (new_address lib flags wc d) = StdAddress
        \<and> ta_data (new_address lib flags wc d) = d
        \<and> ta_workchain (new_address lib flags wc d) = signed_take_bit 7 (ucast wc))"

end
