(* ===== verification/Config.thy ===== *)
theory Config
  imports Tonutils
begin

text \<open>
  \<open>config/config.go\<close>: the fixed parameters, the \<open>Jetton\<close> and \<open>Cutoffs\<close> structures
  and the parsing of \<open>JETTONS\<close>, \<open>TON_CUTOFFS\<close> and \<open>COLD_WALLET\<close>. Go maps that are
  only read are association lists in the order of the iteration at hand, which Go leaves
  open: what is proved for every list holds for every order. The decimal package is the
  parameter \<open>'d declib\<close>. Durations are nanoseconds, as \<open>time.Duration\<close> is.
\<close>

definition second :: int where "second = 1000000000"

definition JettonTransferTonAmount :: int where "JettonTransferTonAmount = 100000000"
definition JettonForwardAmount :: int where "JettonForwardAmount = 20000000"
definition ExternalMessageLifetime :: int where "ExternalMessageLifetime = 50 * second"
definition ExternalWithdrawalPeriod :: int where "ExternalWithdrawalPeriod = 80 * second"
definition InternalWithdrawalPeriod :: int where "InternalWithdrawalPeriod = 30 * second"
definition ExpirationProcessorPeriod :: int where "ExpirationProcessorPeriod = 5 * second"
definition AllowableBlockchainLagging :: int where "AllowableBlockchainLagging = 15 * second"
definition AllowableServiceToNodeTimeDiff :: int where "AllowableServiceToNodeTimeDiff = 2 * second"

record Jetton =
  j_Master :: tonaddr
  j_WithdrawalCutoff :: int
  j_HotWalletMaxCutoff :: int

record Cutoffs =
  c_HotWalletMin :: int
  c_HotWalletMax :: int
  c_Withdrawal :: int

text \<open>The configuration.\<close>

record config =
  cfg_LiteServerConfigURL :: string
  cfg_DefaultWalletVersion :: WalletVersion
  cfg_Seed :: string
  cfg_DatabaseURI :: string
  cfg_APIHost :: string
  cfg_APIPort :: string
  cfg_APIToken :: string
  cfg_Testnet :: bool
  cfg_ColdWalletString :: string
  cfg_JettonString :: string
  cfg_TonString :: string
  cfg_IsDepositSideCalculation :: bool
  cfg_QueueURI :: string
  cfg_QueueName :: string
  cfg_QueueEnabled :: bool
  cfg_WebhookEndpoint :: string
  cfg_WebhookToken :: string
  cfg_Jettons :: "(string \<times> Jetton) list"
  cfg_Ton :: Cutoffs
  cfg_ColdWallet :: "tonaddr option"

record 'd declib =
  dec_NewFromString :: "string \<Rightarrow> 'd result"
  dec_BigInt :: "'d \<Rightarrow> int"
  dec_Cmp :: "'d \<Rightarrow> 'd \<Rightarrow> int"

text \<open>\<open>strings.Split\<close> for a one-character separator.\<close>

fun split_on :: "char \<Rightarrow> string \<Rightarrow> string list" where
  "split_on c [] = [[]]"
| "split_on c (x # xs) =
     (if x = c then [] # split_on c xs
      else (case split_on c xs of [] \<Rightarrow> [[x]] | y # ys \<Rightarrow> (x # y) # ys))"

definition fatal_on :: "string \<Rightarrow> 'a result \<Rightarrow> 'a result" where
  "fatal_on msg m = (case m of Inl (Err _) \<Rightarrow> Inl (Fatal msg) | Inl e \<Rightarrow> Inl e | Inr x \<Rightarrow> Inr x)"

definition parseJetton :: "'c tonlib \<Rightarrow> 'd declib \<Rightarrow> string \<Rightarrow> (string \<times> Jetton) result" where
  "parseJetton lib dec j =
     (let data = split_on (CHR '':'') j in
      if length data \<noteq> 4 then Inl (Fatal ''invalid jetton data'')
      else ebind (fatal_on ''invalid jetton address'' (parse_addr lib (data ! 1))) (\<lambda>addr.
           ebind (fatal_on ''invalid jetton max cutoff'' (dec_NewFromString dec (data ! 2))) (\<lambda>maxCutoff.
           ebind (fatal_on ''invalid jetton withdrawal cutoff'' (dec_NewFromString dec (data ! 3))) (\<lambda>withdrawalCutoff.
           Inr (data ! 0, \<lparr>j_Master = addr,
                           j_WithdrawalCutoff = dec_BigInt dec withdrawalCutoff,
                           j_HotWalletMaxCutoff = dec_BigInt dec maxCutoff\<rparr>)))))"

text \<open>\<open>res[cur] = Jetton{...}\<close>: a later entry for the same currency replaces the earlier.\<close>

definition put_assoc :: "'k \<Rightarrow> 'v \<Rightarrow> ('k \<times> 'v) list \<Rightarrow> ('k \<times> 'v) list" where
  "put_assoc k v m = filter (\<lambda>(k', _). k' \<noteq> k) m @ [(k, v)]"

definition addJetton :: "'c tonlib \<Rightarrow> 'd declib \<Rightarrow> string \<Rightarrow> (string \<times> Jetton) list \<Rightarrow> (string \<times> Jetton) list result" where
  "addJetton lib dec j res =
     ebind (parseJetton lib dec j) (\<lambda>(cur, jet). Inr (put_assoc cur jet res))"

definition parseJettonString :: "'c tonlib \<Rightarrow> 'd declib \<Rightarrow> string \<Rightarrow> (string \<times> Jetton) list result" where
  "parseJettonString lib dec s =
     (if s = [] then Inr []
      else for_each (addJetton lib dec) (split_on (CHR '','') s) [])"

definition parseTonString :: "'d declib \<Rightarrow> string \<Rightarrow> Cutoffs result" where
  "parseTonString dec s =
     (let data = split_on (CHR '':'') s in
      if length data \<noteq> 3 then Inl (Fatal ''invalid jetton data'')
      else ebind (fatal_on ''invalid TON hot wallet min cutoff'' (dec_NewFromString dec (data ! 0))) (\<lambda>hotWalletMin.
           ebind (fatal_on ''invalid TON hot wallet max cutoff'' (dec_NewFromString dec (data ! 1))) (\<lambda>hotWalletMax.
           ebind (fatal_on ''invalid TON withdrawal cutoff'' (dec_NewFromString dec (data ! 2))) (\<lambda>withdrawal.
           if dec_Cmp dec hotWalletMin hotWalletMax = 1
           then Inl (Fatal ''TON hot wallet max cutoff must be greater than TON hot wallet min cutoff'')
           else Inr \<lparr>c_HotWalletMin = dec_BigInt dec hotWalletMin,
                     c_HotWalletMax = dec_BigInt dec hotWalletMax,
                     c_Withdrawal = dec_BigInt dec withdrawal\<rparr>))))"

text \<open>\<open>env\<close> is what \<open>env.Parse\<close> made of the environment.\<close>

definition GetConfig :: "'c tonlib \<Rightarrow> 'd declib \<Rightarrow> config result \<Rightarrow> config result" where
  "GetConfig lib dec env =
     ebind (fatal_on ''Can not load config'' env) (\<lambda>cfg.
     ebind (parseJettonString lib dec (cfg_JettonString cfg)) (\<lambda>jettons.
     ebind (parseTonString dec (cfg_TonString cfg)) (\<lambda>ton.
     let cfg = cfg\<lparr>cfg_Jettons := jettons, cfg_Ton := ton\<rparr> in
     if cfg_ColdWalletString cfg = [] then Inr cfg
     else ebind (fatal_on ''Can not parse cold wallet address'' (parse_addr lib (cfg_ColdWalletString cfg))) (\<lambda>coldAddr.
       if ta_type coldAddr \<noteq> StdAddress then Inl (Fatal ''Only std cold wallet address supported'')
       else if ta_testnet coldAddr \<and> \<not> cfg_Testnet cfg
       then Inl (Fatal ''Can not use testnet cold wallet address for mainnet'')
       else Inr (cfg\<lparr>cfg_ColdWallet := Some coldAddr\<rparr>)))))"

text \<open>A decimal library with integers only, and an environment, for examples.\<close>

definition sample_dec :: "int declib" where
  "sample_dec = \<lparr>dec_NewFromString = (\<lambda>s. Inr (int (length s))), dec_BigInt = (\<lambda>i. i), dec_Cmp = (\<lambda>a b. sgn (a - b))\<rparr>"

definition sample_config :: config where
  "sample_config = \<lparr>cfg_LiteServerConfigURL = [], cfg_DefaultWalletVersion = OtherVersion 32, cfg_Seed = [],
     cfg_DatabaseURI = [], cfg_APIHost = [], cfg_APIPort = [], cfg_APIToken = [], cfg_Testnet = False, cfg_ColdWalletString = [], cfg_JettonString = [],
     cfg_TonString = [], cfg_IsDepositSideCalculation = True, cfg_QueueURI = [], cfg_QueueName = [], cfg_QueueEnabled = False,
     cfg_WebhookEndpoint = [], cfg_WebhookToken = [], cfg_Jettons = [],
     cfg_Ton = \<lparr>c_HotWalletMin = 1, c_HotWalletMax = 1000, c_Withdrawal = 1\<rparr>, cfg_ColdWallet = None\<rparr>"

definition sample_env :: config where
  "sample_env = sample_config\<lparr>cfg_TonString := ''1:22:3'', cfg_ColdWalletString := ''c'', cfg_ColdWallet := None\<rparr>"

text \<open>Documented behaviour of \<open>decimal\<close>: \<open>Cmp\<close> is 1 when the first number is greater, and
  \<open>BigInt\<close> is monotone.\<close>

definition decimal_ok :: "'d declib \<Rightarrow> bool" where
  "decimal_ok dec \<longleftrightarrow> (\<forall>a b. dec_Cmp dec a b \<noteq> 1 \<longrightarrow> dec_BigInt dec a \<le> dec_BigInt dec b)"

subsection \<open>Splitting and joining\<close>

lemma split_on_nonempty [simp]: "split_on c s \<noteq> []"
  by (induction s) (auto split: list.splits)

lemma split_on_no_sep: "c \<notin> set s \<Longrightarrow> split_on c s = [s]"
  by (induction s) (auto split: list.splits)

lemma split_on_sep: "c \<notin> set s \<Longrightarrow> split_on c (s @ c # t) = s # split_on c t"
  by (induction s) (auto split: list.splits)

lemma split_on_pieces: "p \<in> set (split_on c s) \<Longrightarrow> c \<notin> set p"
  by (induction s arbitrary: p) (auto split: list.splits if_splits)

lemma fatal_on_Inr_iff [res_simps]: "fatal_on msg m = Inr x \<longleftrightarrow> m = Inr x"
  by (auto simp: fatal_on_def split: sum.splits go_error.splits)

lemma fatal_on_Inr [simp]: "fatal_on msg (Inr x) = Inr x"
  by (simp add: fatal_on_def)

subsection \<open>Parsed configurations\<close>

lemma map_of_put_assoc: "map_of (put_assoc k v m) = (map_of m)(k \<mapsto> v)"
proof -
  have "map_of (filter (\<lambda>(k', _). k' \<noteq> k) m) = (map_of m)(k := None)"
    by (induction m) auto
  then show ?thesis
    by (auto simp: put_assoc_def map_add_def fun_eq_iff split: option.splits)
qed

lemma distinct_put_assoc: "distinct (map fst m) \<Longrightarrow> distinct (map fst (put_assoc k v m))"
  by (induction m) (auto simp: put_assoc_def)

interpretation jettons: kept_by "\<lambda>res. distinct (map fst res)" "\<lambda>_. True" "addJetton lib dec"
  for lib dec
  by unfold_locales (auto simp: addJetton_def ebind_Inr_iff distinct_put_assoc)

lemma parseJettonString_distinct:
  assumes "parseJettonString lib dec s = Inr res"
  shows "distinct (map fst res)"
  using assms jettons.for_each_kept [of "[]"]
  by (auto simp: parseJettonString_def split: if_splits)

lemma for_each_addJetton_map_of:
  assumes "list_all2 (\<lambda>j e. parseJetton lib dec j = Inr e) js es"
  shows "\<exists>res. for_each (addJetton lib dec) js m = Inr res \<and> map_of res = map_of m ++ map_of (rev es)"
  using assms
proof (induction arbitrary: m rule: list_all2_induct)
  case (Cons j js e es)
  obtain cur jet where e: "e = (cur, jet)" by (cases e)
  from Cons.IH [of "put_assoc cur jet m"] obtain res
    where "for_each (addJetton lib dec) js (put_assoc cur jet m) = Inr res"
      and "map_of res = map_of (put_assoc cur jet m) ++ map_of (rev es)"
    by blast
  moreover have "map_of (put_assoc cur jet m) ++ map_of (rev es) = map_of m ++ map_of (rev (e # es))"
    by (auto simp: e map_of_put_assoc map_add_def fun_eq_iff split: option.splits)
  moreover have "addJetton lib dec j m = Inr (put_assoc cur jet m)"
    using Cons.hyps by (simp add: addJetton_def e)
  ultimately show ?case by simp
qed simp


lemma parseTonString_ordered:
  assumes "decimal_ok dec" and "parseTonString dec s = Inr c"
  shows "c_HotWalletMin c \<le> c_HotWalletMax c"
  using assms by (auto simp: parseTonString_def Let_def decimal_ok_def res_simps)

lemma GetConfig_steps:
  assumes "GetConfig lib dec (Inr env) = Inr cfg"
  obtains jettons ton where "parseJettonString lib dec (cfg_JettonString env) = Inr jettons"
    and "parseTonString dec (cfg_TonString env) = Inr ton" and "cfg_Jettons cfg = jettons" and "cfg_Ton cfg = ton"
    and "cfg_Testnet cfg = cfg_Testnet env"
    and "cfg_ColdWallet cfg = cfg_ColdWallet env
      \<or> (\<exists>a. cfg_ColdWallet cfg = Some a \<and> ta_type a = StdAddress \<and> \<not> (ta_testnet a \<and> \<not> cfg_Testnet env))"
  using assms by (auto simp: GetConfig_def Let_def ebind_Inr_iff fatal_on_Inr_iff split: if_splits)

end
