(* ===== verification/Models.thy ===== *)
theory Models
  imports Config
begin

text \<open>
  \<open>models/models.go\<close>: the addresses and their conversions, the data exchanged between the
  block scanner, the withdrawal processors and the repositories, and the concatenation of
  \<open>Events\<close>. An \<open>Address\<close> is the byte array \<open>[32]byte\<close>; \<open>wf_address\<close> says that a
  list is one. Amounts (\<open>Coins\<close>) are integers in basic units: every \<open>Coins\<close> value of the
  core is made by \<open>NewCoins\<close> or \<open>ZeroCoins\<close>, which have exponent 0.
\<close>

type_synonym Address = "byte list"
type_synonym Coins = int

definition wf_address :: "Address \<Rightarrow> bool" where
  "wf_address a \<longleftrightarrow> length a = 32"

definition TonSymbol :: string where "TonSymbol = ''TON''"
definition DefaultWorkchain :: int32 where "DefaultWorkchain = 0"

datatype WalletType = TonHotWallet | JettonHotWallet | TonDepositWallet | JettonDepositWallet | JettonOwner

datatype WithdrawalStatus =
    WithdrawalStatusPending | WithdrawalStatusProcessing | WithdrawalStatusDone | WithdrawalStatusCancelled

definition ErrNotFound :: go_error where "ErrNotFound = Err ''not found''"
definition ErrTimeoutExceeded :: go_error where "ErrTimeoutExceeded = Err ''timeout exceeded''"

text \<open>The zero value of \<open>Address\<close>.\<close>

definition zero_address :: Address where "zero_address = replicate 32 0"

text \<open>A value handed to \<open>Scan\<close> by the database driver.\<close>

datatype driver_value = DriverBytes "byte list" | DriverOther string

definition Scan :: "driver_value \<Rightarrow> Address result" where
  "Scan src = (case src of
       DriverOther t \<Rightarrow> Inl (Err ''can't scan into Address'')
     | DriverBytes b \<Rightarrow>
         if length b \<noteq> 32 then Inl (Err ''can't scan []byte into Address'') else Inr b)"

definition Value :: "Address \<Rightarrow> driver_value" where
  "Value a = DriverBytes a"

definition ToTonutilsAddressStd :: "'c tonlib \<Rightarrow> byte \<Rightarrow> Address \<Rightarrow> tonaddr" where
  "ToTonutilsAddressStd lib flags a = new_address lib flags (ucast DefaultWorkchain) a"

definition TonutilsAddressToUserFormat :: "'c tonlib \<Rightarrow> config \<Rightarrow> tonaddr \<Rightarrow> string" where
  "TonutilsAddressToUserFormat lib cfg addr =
     addr_string lib (addr\<lparr>ta_testnet := cfg_Testnet cfg, ta_bounceable := False\<rparr>)"

definition ToUserFormat :: "'c tonlib \<Rightarrow> config \<Rightarrow> Address \<Rightarrow> string" where
  "ToUserFormat lib cfg a =
     addr_string lib ((ToTonutilsAddressStd lib 0 a)\<lparr>ta_testnet := cfg_Testnet cfg, ta_bounceable := False\<rparr>)"

definition ToBytes :: "Address \<Rightarrow> byte list" where
  "ToBytes a = a"

definition AddressFromBytes :: "byte list \<Rightarrow> Address result" where
  "AddressFromBytes b =
     (if length b \<noteq> 32 then Inl (Err ''invalid address len. Std addr len must be 32 bytes'')
      else Inr b)"

definition AddressFromTonutilsAddress :: "tonaddr option \<Rightarrow> Address result" where
  "AddressFromTonutilsAddress addr = (case addr of
       None \<Rightarrow> Inl (Err ''nil tonutils address'')
     | Some a \<Rightarrow>
         if ta_type a \<noteq> StdAddress then Inl (Err ''only std address supported'')
         else AddressFromBytes (ta_data a))"

definition AddressMustFromTonutilsAddress :: "tonaddr option \<Rightarrow> Address result" where
  "AddressMustFromTonutilsAddress addr =
     (case AddressFromTonutilsAddress addr of
        Inl (Err e) \<Rightarrow> Inl (Panic e) | Inl e \<Rightarrow> Inl e | Inr a \<Rightarrow> Inr a)"

record AddressInfo =
  ai_Type :: WalletType
  ai_Owner :: "Address option"

record JettonWallet =
  jw_Address :: tonaddr
  jw_Currency :: string

record OwnerWallet =
  ow_Address :: Address
  ow_Currency :: string

record WalletData =
  wd_SubwalletID :: uint32
  wd_UserID :: string
  wd_Currency :: string
  wd_Type :: WalletType
  wd_Address :: Address

record WithdrawalRequest =
  wr_QueryID :: string
  wr_UserID :: string
  wr_Status :: string
  wr_Currency :: string
  wr_Amount :: Coins
  wr_Bounceable :: bool
  wr_IsInternal :: bool
  wr_Destination :: Address
  wr_Comment :: string

record ServiceWithdrawalRequest =
  sr_From :: Address
  sr_JettonMaster :: "Address option"

record ServiceWithdrawalTask =
  st_From :: Address
  st_JettonMaster :: "Address option"
  st_JettonAmount :: Coins
  st_Memo :: UUID
  st_SubwalletID :: uint32

record ExternalWithdrawalTask =
  et_QueryID :: int
  et_Currency :: string
  et_Amount :: Coins
  et_Destination :: Address
  et_Bounceable :: bool
  et_Comment :: string

record InternalWithdrawal =
  iw_Utime :: uint32
  iw_Lt :: uint64
  iw_From :: Address
  iw_Amount :: Coins
  iw_Memo :: string
  iw_IsFailed :: bool

record SendingConfirmation =
  sc_Lt :: uint64
  sc_From :: Address
  sc_Memo :: string

record ExternalWithdrawal =
  ew_ExtMsgUuid :: UUID
  ew_Utime :: uint32
  ew_Lt :: uint64
  ew_To :: Address
  ew_Amount :: Coins
  ew_Comment :: string
  ew_IsFailed :: bool

record JettonWithdrawalConfirmation =
  jc_QueryId :: uint64

record InternalIncome =
  ii_Utime :: uint32
  ii_Lt :: uint64
  ii_From :: Address
  ii_To :: Address
  ii_Amount :: Coins
  ii_Memo :: string
  ii_IsFailed :: bool

record ExternalIncome =
  ei_Utime :: uint32
  ei_Lt :: uint64
  ei_From :: "byte list option"
  ei_FromWorkchain :: "int32 option"
  ei_To :: Address
  ei_Amount :: Coins
  ei_Comment :: string

record Events =
  ExternalIncomes :: "ExternalIncome list"
  InternalIncomes :: "InternalIncome list"
  SendingConfirmations :: "SendingConfirmation list"
  InternalWithdrawals :: "InternalWithdrawal list"
  ExternalWithdrawals :: "ExternalWithdrawal list"
  WithdrawalConfirmations :: "JettonWithdrawalConfirmation list"

definition no_events :: Events where
  "no_events = \<lparr>ExternalIncomes = [], InternalIncomes = [], SendingConfirmations = [],
     InternalWithdrawals = [], ExternalWithdrawals = [], WithdrawalConfirmations = []\<rparr>"

definition Append :: "Events \<Rightarrow> Events \<Rightarrow> Events" where
  "Append e ae = \<lparr>
     ExternalIncomes = ExternalIncomes e @ ExternalIncomes ae,
     InternalIncomes = InternalIncomes e @ InternalIncomes ae,
     SendingConfirmations = SendingConfirmations e @ SendingConfirmations ae,
     InternalWithdrawals = InternalWithdrawals e @ InternalWithdrawals ae,
     ExternalWithdrawals = ExternalWithdrawals e @ ExternalWithdrawals ae,
     WithdrawalConfirmations = WithdrawalConfirmations e @ WithdrawalConfirmations ae\<rparr>"

record ShardBlockHeader =
  sb_BlockIDExt :: "BlockIDExt option"
  sb_NotMaster :: bool
  sb_GenUtime :: uint32
  sb_StartLt :: uint64
  sb_EndLt :: uint64
  sb_Parent :: "BlockIDExt option"

definition zero_ShardBlockHeader :: ShardBlockHeader where
  "zero_ShardBlockHeader = \<lparr>sb_BlockIDExt = None, sb_NotMaster = False, sb_GenUtime = 0,
     sb_StartLt = 0, sb_EndLt = 0, sb_Parent = None\<rparr>"

record BlockEvents =
  be_Events :: Events
  be_Block :: ShardBlockHeader

record InternalWithdrawalTask =
  it_From :: Address
  it_SubwalletID :: uint32
  it_Lt :: uint64
  it_Currency :: string

record TotalIncome =
  ti_Deposit :: Address
  ti_Amount :: Coins
  ti_Currency :: string

definition NewCoins :: "int \<Rightarrow> Coins" where "NewCoins i = i"
definition ZeroCoins :: Coins where "ZeroCoins = 0"

text \<open>\<open>time.Unix(int64(t), 0)\<close>, as nanoseconds since the epoch.\<close>

definition unix_time :: "uint32 \<Rightarrow> int" where "unix_time t = uint t * second"

text \<open>\<open>time.Since(time.Unix(GenUtime, 0)) > AllowableBlockchainLagging\<close>, the clock read as
  nanoseconds since the epoch.\<close>

definition IsExpired :: "int \<Rightarrow> uint32 \<Rightarrow> bool" where
  "IsExpired now genUtime \<longleftrightarrow> now - unix_time genUtime > AllowableBlockchainLagging"

subsection \<open>Addresses\<close>

lemmas address_defs = AddressFromTonutilsAddress_def AddressFromBytes_def

lemma AddressFromBytes_Inr_iff [res_simps]:
  "AddressFromBytes b = Inr a \<longleftrightarrow> wf_address b \<and> a = b"
  by (auto simp: AddressFromBytes_def wf_address_def)

lemma AddressFromTonutilsAddress_Inr_iff [res_simps]:
  "AddressFromTonutilsAddress p = Inr a \<longleftrightarrow>
     (\<exists>t. p = Some t \<and> ta_type t = StdAddress \<and> wf_address (ta_data t) \<and> a = ta_data t)"
  by (auto simp: AddressFromTonutilsAddress_def res_simps split: option.splits if_splits)

lemma wf_zero_address [simp]: "wf_address zero_address"
  by (simp add: wf_address_def zero_address_def)

subsection \<open>Events\<close>

lemma Append_sel [simp]:
  "ExternalIncomes (Append e f) = ExternalIncomes e @ ExternalIncomes f"
  "InternalIncomes (Append e f) = InternalIncomes e @ InternalIncomes f"
  "SendingConfirmations (Append e f) = SendingConfirmations e @ SendingConfirmations f"
  "InternalWithdrawals (Append e f) = InternalWithdrawals e @ InternalWithdrawals f"
  "ExternalWithdrawals (Append e f) = ExternalWithdrawals e @ ExternalWithdrawals f"
  "WithdrawalConfirmations (Append e f) = WithdrawalConfirmations e @ WithdrawalConfirmations f"
  by (simp_all add: Append_def)

lemma no_events_sel [simp]:
  "ExternalIncomes no_events = []" "InternalIncomes no_events = []"
  "SendingConfirmations no_events = []" "InternalWithdrawals no_events = []"
  "ExternalWithdrawals no_events = []" "WithdrawalConfirmations no_events = []"
  by (simp_all add: no_events_def)

interpretation events: monoid Append no_events
  by unfold_locales (simp_all add: Append_def no_events_def)

end
