(* ===== verification/Messages.thy ===== *)
theory Messages
  imports Models
begin

text \<open>
  The messages the service writes and reads: \<open>core/withdrawal.go\<close>, \<open>core/proxy.go\<close>,
  \<open>core/helper.go\<close>, the message builders of \<open>core/withdrawal_processor.go\<close> and the decoders
  of \<open>core/block_scanner.go\<close>. A cell is built by a chain of store operations, kept in the
  order of the code; \<open>codec_ok\<close> states the documented agreement between that chain and
  \<open>tlb.LoadFromCell\<close> for the two cell formats both sides use.
\<close>

unbundle bit_operations_syntax

record jettonTransferNotificationMsg =
  jn_Amount :: Coins
  jn_Sender :: "tonaddr option"
  jn_Comment :: string

record JettonTransferMsg =
  jm_Amount :: Coins
  jm_Destination :: "tonaddr option"
  jm_Comment :: string

record 'c HighLoadWalletExtMsgInfo =
  hi_UUID :: UUID
  hi_TTL :: int
  hi_Messages :: "'c list"

definition LoadComment :: "'c tonlib \<Rightarrow> 'c option \<Rightarrow> string" where
  "LoadComment lib c = (case c of
       None \<Rightarrow> []
     | Some l \<Rightarrow> (case load_uint lib 32 l of
           Inl _ \<Rightarrow> []
         | Inr (val, rest) \<Rightarrow>
             if val = 0 then (case load_string_snake lib rest of Inl _ \<Rightarrow> [] | Inr s \<Rightarrow> s) else []))"

definition decodeJettonTransferNotification :: "'c tonlib \<Rightarrow> 'c InternalMessage option \<Rightarrow> jettonTransferNotificationMsg result" where
  "decodeJettonTransferNotification lib msg = (case msg of
       None \<Rightarrow> Inl (Err ''nil msg'')
     | Some m \<Rightarrow> (case im_Body m of
           None \<Rightarrow> Inl (Err ''empty payload'')
         | Some payload \<Rightarrow>
             ebind (load_notification lib payload) (\<lambda>n.
             Inr \<lparr>jn_Amount = NewCoins (ns_Amount n), jn_Sender = ns_Sender n,
                  jn_Comment = LoadComment lib (ns_ForwardPayload n)\<rparr>)))"

definition DecodeJettonTransfer :: "'c tonlib \<Rightarrow> 'c InternalMessage option \<Rightarrow> JettonTransferMsg result" where
  "DecodeJettonTransfer lib msg = (case msg of
       None \<Rightarrow> Inl (Err ''nil msg'')
     | Some m \<Rightarrow> (case im_Body m of
           None \<Rightarrow> Inl (Err ''empty payload'')
         | Some payload \<Rightarrow>
             ebind (load_transfer lib payload) (\<lambda>t.
             Inr \<lparr>jm_Amount = NewCoins (ts_Amount t), jm_Destination = ts_Destination t,
                  jm_Comment = LoadComment lib (ts_ForwardPayload t)\<rparr>)))"

definition decodeJettonExcesses :: "'c tonlib \<Rightarrow> 'c InternalMessage option \<Rightarrow> uint64 result" where
  "decodeJettonExcesses lib msg = (case msg of
       None \<Rightarrow> Inl (Err ''nil msg'')
     | Some m \<Rightarrow> (case im_Body m of
           None \<Rightarrow> Inl (Err ''empty payload'')
         | Some payload \<Rightarrow> load_excesses lib payload))"

definition getHighLoadWalletExtMsgInfo :: "'c tonlib \<Rightarrow> 'c ExternalMessage \<Rightarrow> 'c HighLoadWalletExtMsgInfo result" where
  "getHighLoadWalletExtMsgInfo lib extMsg = (case em_Body extMsg of
       None \<Rightarrow> Inl (Err ''nil body for external message'')
     | Some body \<Rightarrow>
         let hash = cell_hash lib body in
         if length hash < 16 then Inl (Panic ''slice bounds out of range'')
         else ebind (uuid_FromBytes lib (take 16 hash)) (\<lambda>u.
              ebind (load_highload lib body) (\<lambda>data.
              Inr \<lparr>hi_UUID = u,
                   hi_TTL = uint (drop_bit 32 (hs_BoundedID data) AND 0xFFFFFFFF) * second,
                   hi_Messages = hs_Messages data\<rparr>)))"

text \<open>The loop of \<open>parseExternalMessage\<close>: \<open>None\<close> stands for \<open>isValidWithdrawal = false\<close>. The
  set \<open>addrMap\<close> is the list of its elements.\<close>

fun parse_ext_messages :: "'c tonlib \<Rightarrow> 'c list \<Rightarrow> Address list \<Rightarrow> Address list option result" where
  "parse_ext_messages lib [] addrMap = Inr (Some addrMap)"
| "parse_ext_messages lib (m # ms) addrMap =
     ebind (load_ref lib m) (\<lambda>msgCell.
     ebind (load_message lib msgCell) (\<lambda>intMsg.
     case AddressFromTonutilsAddress
            (case DecodeJettonTransfer lib (Some intMsg) of
               Inr jettonTransfer \<Rightarrow> jm_Destination jettonTransfer
             | Inl _ \<Rightarrow> im_DstAddr intMsg) of
       Inl _ \<Rightarrow> Inr None
     | Inr addr \<Rightarrow>
         if addr \<in> set addrMap then Inr None
         else parse_ext_messages lib ms (addrMap @ [addr])))"

definition parseExternalMessage :: "'c tonlib \<Rightarrow> 'c ExternalMessage option \<Rightarrow> (UUID \<times> Address list) option result" where
  "parseExternalMessage lib msg = (case msg of
       None \<Rightarrow> Inl (Err ''nil msg'')
     | Some ext \<Rightarrow>
         ebind (getHighLoadWalletExtMsgInfo lib ext) (\<lambda>info.
         ebind (parse_ext_messages lib (hi_Messages info) []) (\<lambda>r.
         Inr (map_option (\<lambda>addrMap. (hi_UUID info, addrMap)) r))))"

subsection \<open>Building\<close>

definition must_build :: "'c tonlib \<Rightarrow> 'c store_op list \<Rightarrow> 'c result" where
  "must_build lib ops = (case build_cell lib ops of None \<Rightarrow> Inl (Panic ''cell overflow'') | Some c \<Rightarrow> Inr c)"

definition buildComment :: "'c tonlib \<Rightarrow> string \<Rightarrow> 'c result" where
  "buildComment lib comment =
     (case build_cell lib [StoreUInt 0 32, StoreStringSnake comment] of
        None \<Rightarrow> Inl (Fatal ''memo must fit into cell'') | Some c \<Rightarrow> Inr c)"

definition new_message :: "bool \<Rightarrow> tonaddr \<Rightarrow> int \<Rightarrow> 'c option \<Rightarrow> 'c option \<Rightarrow> 'c InternalMessage" where
  "new_message bounce dst amount body stateInit =
     \<lparr>im_IHRDisabled = True, im_Bounce = bounce, im_SrcAddr = None, im_DstAddr = Some dst,
      im_Amount = amount, im_CreatedLT = 0, im_CreatedAt = 0, im_StateInit = stateInit, im_Body = body\<rparr>"

definition makeJettonTransferMessage :: "'c tonlib \<Rightarrow> tonaddr \<Rightarrow> tonaddr \<Rightarrow> int \<Rightarrow> int \<Rightarrow> int \<Rightarrow> string \<Rightarrow> 'c result" where
  "makeJettonTransferMessage lib destination responseDest amount forwardAmount queryId comment =
     (let builder = [StoreUInt 0x0f8a7ea5 32, StoreUInt (nat (queryId mod 2 ^ 64)) 64, StoreBigCoins amount,
            StoreAddr (Some destination), StoreAddr (Some responseDest), StoreBoolBit False,
            StoreBigCoins forwardAmount]
      in if comment \<noteq> []
         then ebind (buildComment lib comment) (\<lambda>c. must_build lib (builder @ [StoreBoolBit True, StoreRef c]))
         else must_build lib (builder @ [StoreBoolBit False]))"

text \<open>\<open>wallet.Wallet\<close>: what the service reads of it, and the effect of \<open>Send\<close>.\<close>

record 'c Wallet =
  w_Address :: "tonaddr option"
  w_Send :: "'c WalletMessage \<Rightarrow> unit result"

definition wallets_given :: "'c Wallet option \<Rightarrow> 'c Wallet option \<Rightarrow> ('c Wallet \<times> tonaddr) result" where
  "wallets_given src dst = (case (src, dst) of
       (Some f, Some t) \<Rightarrow> (case w_Address t of None \<Rightarrow> Inl (Err ''nil wallet'') | Some a \<Rightarrow> Inr (f, a))
     | _ \<Rightarrow> Inl (Err ''nil wallet''))"

definition WithdrawTON_message :: "'c tonlib \<Rightarrow> tonaddr \<Rightarrow> string \<Rightarrow> 'c WalletMessage result" where
  "WithdrawTON_message lib dst comment =
     ebind (if comment = [] then Inr None else ebind (buildComment lib comment) (\<lambda>c. Inr (Some c))) (\<lambda>body.
     Inr \<lparr>wm_Mode = 128 + 32, wm_InternalMessage = new_message False dst 0 body None\<rparr>)"

definition WithdrawTON :: "'c tonlib \<Rightarrow> 'c Wallet option \<Rightarrow> 'c Wallet option \<Rightarrow> string \<Rightarrow> unit result" where
  "WithdrawTON lib src dst comment =
     ebind (wallets_given src dst) (\<lambda>(f, a).
     ebind (WithdrawTON_message lib a comment) (\<lambda>m. w_Send f m))"

definition WithdrawJetton_message :: "'c tonlib \<Rightarrow> tonaddr \<Rightarrow> tonaddr \<Rightarrow> int \<Rightarrow> Coins \<Rightarrow> int \<Rightarrow> string \<Rightarrow> 'c WalletMessage result" where
  "WithdrawJetton_message lib dst jettonWallet forwardAmount amount rnd comment =
     ebind (makeJettonTransferMessage lib dst dst amount forwardAmount rnd comment) (\<lambda>body.
     Inr \<lparr>wm_Mode = 128 + 32, wm_InternalMessage = new_message True jettonWallet 0 (Some body) None\<rparr>)"

definition WithdrawJetton :: "'c tonlib \<Rightarrow> 'c Wallet option \<Rightarrow> 'c Wallet option \<Rightarrow> tonaddr \<Rightarrow> int \<Rightarrow> Coins \<Rightarrow> int \<Rightarrow> string \<Rightarrow> unit result" where
  "WithdrawJetton lib src dst jettonWallet forwardAmount amount rnd comment =
     ebind (wallets_given src dst) (\<lambda>(f, a).
     ebind (WithdrawJetton_message lib a jettonWallet forwardAmount amount rnd comment) (\<lambda>m. w_Send f m))"

definition BuildTonWithdrawalMessage :: "'c tonlib \<Rightarrow> ExternalWithdrawalTask \<Rightarrow> 'c WalletMessage result" where
  "BuildTonWithdrawalMessage lib t =
     ebind (buildComment lib (et_Comment t)) (\<lambda>body.
     Inr \<lparr>wm_Mode = 3, wm_InternalMessage =
       new_message (et_Bounceable t) (ToTonutilsAddressStd lib 0 (et_Destination t)) (et_Amount t) (Some body) None\<rparr>)"

definition BuildJettonWithdrawalMessage :: "'c tonlib \<Rightarrow> ExternalWithdrawalTask \<Rightarrow> tonaddr \<Rightarrow> tonaddr \<Rightarrow> 'c WalletMessage result" where
  "BuildJettonWithdrawalMessage lib t highloadWallet fromJettonWallet =
     ebind (makeJettonTransferMessage lib (ToTonutilsAddressStd lib 0 (et_Destination t)) highloadWallet
              (et_Amount t) JettonForwardAmount (et_QueryID t) (et_Comment t)) (\<lambda>body.
     Inr \<lparr>wm_Mode = 3, wm_InternalMessage =
       new_message True fromJettonWallet JettonTransferTonAmount (Some body) None\<rparr>)"

subsection \<open>The jetton proxy contract\<close>

text \<open>\<open>encoding/hex\<close> on upper and lower case digits.\<close>

definition hex_digit :: "char \<Rightarrow> nat option" where
  "hex_digit c =
     (let n = of_char c :: nat in
      if 48 \<le> n \<and> n \<le> 57 then Some (n - 48)
      else if 65 \<le> n \<and> n \<le> 70 then Some (n - 55)
      else if 97 \<le> n \<and> n \<le> 102 then Some (n - 87) else None)"

fun hex_DecodeString :: "string \<Rightarrow> byte list option" where
  "hex_DecodeString [] = Some []"
| "hex_DecodeString [c] = None"
| "hex_DecodeString (c # c' # cs) =
     (case (hex_digit c, hex_digit c', hex_DecodeString cs) of
        (Some h, Some l, Some bs) \<Rightarrow> Some (of_nat (16 * h + l) # bs) | _ \<Rightarrow> None)"

definition JettonProxyContractCode :: string where
  "JettonProxyContractCode = ''B5EE9C72410102010037000114FF00F4A413F4BCF2C80B010050D33331D0D3030171B0915BE0FA4030ED44D0FA4030C705F2E1939320D74A97D4018100A0FB00E8301E8A9040''"

record 'c JettonProxy =
  jp_Owner :: tonaddr
  jp_SubwalletID :: uint32
  jp_address :: tonaddr
  jp_stateInit :: "'c \<times> 'c"

definition buildJettonProxyStateInit :: "'c tonlib \<Rightarrow> uint32 \<Rightarrow> tonaddr \<Rightarrow> ('c \<times> 'c) result" where
  "buildJettonProxyStateInit lib subwalletId owner =
     (case hex_DecodeString JettonProxyContractCode of
        None \<Rightarrow> Inl (Fatal ''decode JettonProxyContractCode hex error'')
      | Some h \<Rightarrow>
          ebind (fatal_on ''parsing JettonProxyContractCode boc error'' (cell_FromBOC lib h)) (\<lambda>code.
          ebind (must_build lib [StoreAddr (Some owner), StoreUInt (unat subwalletId) 32]) (\<lambda>data.
          Inr (code, data))))"

definition NewJettonProxy :: "'c tonlib \<Rightarrow> uint32 \<Rightarrow> tonaddr option \<Rightarrow> 'c JettonProxy result" where
  "NewJettonProxy lib subwalletId owner = (case owner of
       None \<Rightarrow> Inl (Err ''nil owner'')
     | Some ow \<Rightarrow>
         ebind (buildJettonProxyStateInit lib subwalletId ow) (\<lambda>(code, data).
         ebind (stateinit_cell lib code data) (\<lambda>stateCell.
         Inr \<lparr>jp_Owner = ow, jp_SubwalletID = subwalletId,
              jp_address = new_address lib 0 (ucast DefaultWorkchain) (cell_hash lib stateCell),
              jp_stateInit = (code, data)\<rparr>)))"

definition BuildMessage :: "tonaddr \<Rightarrow> 'c \<Rightarrow> 'c InternalMessage" where
  "BuildMessage destination body = new_message True destination 0 (Some body) None"

text \<open>The message to the proxy contract that wraps \<open>payload\<close> for \<open>destination\<close>.\<close>

definition wrap_for_proxy :: "'c tonlib \<Rightarrow> 'c JettonProxy \<Rightarrow> tonaddr \<Rightarrow> 'c \<Rightarrow> 'c WalletMessage result" where
  "wrap_for_proxy lib proxy destination payload =
     ebind (fatal_on ''build proxy message cell error'' (message_cell lib (BuildMessage destination payload))) (\<lambda>msg.
     ebind (must_build lib [StoreRef msg]) (\<lambda>body.
     ebind (stateinit_cell lib (fst (jp_stateInit proxy)) (snd (jp_stateInit proxy))) (\<lambda>init.
     Inr \<lparr>wm_Mode = 3, wm_InternalMessage =
       new_message True (jp_address proxy) JettonTransferTonAmount (Some body) (Some init)\<rparr>)))"

definition BuildJettonProxyWithdrawalMessage :: "'c tonlib \<Rightarrow> 'c JettonProxy \<Rightarrow> tonaddr \<Rightarrow> tonaddr \<Rightarrow> int \<Rightarrow> int \<Rightarrow> int \<Rightarrow> string \<Rightarrow> 'c WalletMessage result" where
  "BuildJettonProxyWithdrawalMessage lib proxy jettonWallet tonWallet forwardAmount amount rnd comment =
     ebind (makeJettonTransferMessage lib tonWallet tonWallet amount forwardAmount rnd comment) (\<lambda>payload.
     wrap_for_proxy lib proxy jettonWallet payload)"

definition buildJettonProxyServiceTonWithdrawalMessage :: "'c tonlib \<Rightarrow> 'c JettonProxy \<Rightarrow> tonaddr \<Rightarrow> UUID \<Rightarrow> 'c WalletMessage result" where
  "buildJettonProxyServiceTonWithdrawalMessage lib proxy tonWallet memo =
     ebind (buildComment lib (uuid_String lib memo)) (\<lambda>payload.
     wrap_for_proxy lib proxy tonWallet payload)"

definition buildTonFillMessage :: "'c tonlib \<Rightarrow> tonaddr \<Rightarrow> int \<Rightarrow> UUID \<Rightarrow> 'c WalletMessage result" where
  "buildTonFillMessage lib dst amount memo =
     ebind (buildComment lib (uuid_String lib memo)) (\<lambda>body.
     Inr \<lparr>wm_Mode = 3, wm_InternalMessage = new_message False dst amount (Some body) None\<rparr>)"

text \<open>
  Documented behaviour of the cell library: a comment cell reads back as its text, and a
  \<open>transfer\<close> body (TEP-74) reads back field by field. With \<open>forward_payload\<close> inline, the
  payload is the empty rest of the cell, from which no 32-bit tag can be read.
\<close>

definition codec_ok :: "'c tonlib \<Rightarrow> bool" where
  "codec_ok lib \<longleftrightarrow>
     (\<forall>s c. build_cell lib [StoreUInt 0 32, StoreStringSnake s] = Some c \<longrightarrow>
        (\<exists>rest. load_uint lib 32 c = Inr (0, rest) \<and> load_string_snake lib rest = Inr s)) \<and>
     (\<forall>q a d r f p c. build_cell lib [StoreUInt 0x0f8a7ea5 32, StoreUInt q 64, StoreBigCoins a, StoreAddr d,
          StoreAddr r, StoreBoolBit False, StoreBigCoins f, StoreBoolBit True, StoreRef p] = Some c \<longrightarrow>
        load_transfer lib c = Inr \<lparr>ts_QueryID = of_nat q, ts_Amount = a, ts_Destination = d,
          ts_ResponseDestination = r, ts_CustomPayload = None, ts_ForwardTonAmount = f,
          ts_ForwardPayload = Some p\<rparr>) \<and>
     (\<forall>q a d r f c. build_cell lib [StoreUInt 0x0f8a7ea5 32, StoreUInt q 64, StoreBigCoins a, StoreAddr d,
          StoreAddr r, StoreBoolBit False, StoreBigCoins f, StoreBoolBit False] = Some c \<longrightarrow>
        (\<exists>e err. load_uint lib 32 e = Inl err \<and>
          load_transfer lib c = Inr \<lparr>ts_QueryID = of_nat q, ts_Amount = a, ts_Destination = d,
            ts_ResponseDestination = r, ts_CustomPayload = None, ts_ForwardTonAmount = f,
            ts_ForwardPayload = Some e\<rparr>))"

subsection \<open>A concrete cell library\<close>

text \<open>
  An instance of the library parameter, for examples: a cell is the list of the operations that
  built it, a serialised message, or a highload-wallet body.
\<close>

datatype tcell =
    Built "tcell store_op list"
  | MessageCell bool "tonaddr option" "tonaddr option" int uint64 uint32 "tcell option"
  | HighloadBody uint64 "tcell list"

definition op_uint :: "'c store_op \<Rightarrow> nat" where
  "op_uint x = (case x of StoreUInt v _ \<Rightarrow> v | _ \<Rightarrow> 0)"

definition op_coins :: "'c store_op \<Rightarrow> int" where
  "op_coins x = (case x of StoreBigCoins v \<Rightarrow> v | _ \<Rightarrow> 0)"

definition op_addr :: "'c store_op \<Rightarrow> tonaddr option" where
  "op_addr x = (case x of StoreAddr a \<Rightarrow> a | _ \<Rightarrow> None)"

definition op_ref :: "'c store_op \<Rightarrow> 'c option" where
  "op_ref x = (case x of StoreRef c \<Rightarrow> Some c | _ \<Rightarrow> None)"

definition unreadable :: "'a result" where "unreadable = Inl (Err ''not enough data in reader'')"

definition cell_ops :: "tcell \<Rightarrow> tcell store_op list" where
  "cell_ops c = (case c of Built ops \<Rightarrow> ops | _ \<Rightarrow> [])"

definition tagged :: "nat \<Rightarrow> nat \<Rightarrow> tcell \<Rightarrow> bool" where
  "tagged tag n c \<longleftrightarrow> n \<le> length (cell_ops c) \<and> hd (cell_ops c) = StoreUInt tag 32"

definition sample_transfer :: "tcell \<Rightarrow> tcell transfer_struct result" where
  "sample_transfer c =
     (if \<not> tagged 0x0f8a7ea5 8 c then unreadable
      else let ops = cell_ops c in
        Inr \<lparr>ts_QueryID = of_nat (op_uint (ops ! 1)), ts_Amount = op_coins (ops ! 2), ts_Destination = op_addr (ops ! 3),
          ts_ResponseDestination = op_addr (ops ! 4), ts_CustomPayload = None, ts_ForwardTonAmount = op_coins (ops ! 6),
          ts_ForwardPayload = (if ops ! 7 = StoreBoolBit True then op_ref (ops ! 8) else Some (Built []))\<rparr>)"

definition sample_notification :: "tcell \<Rightarrow> tcell notification_struct result" where
  "sample_notification c =
     (if \<not> tagged 0x7362d09c 4 c then unreadable
      else let ops = cell_ops c in
        Inr \<lparr>ns_QueryID = of_nat (op_uint (ops ! 1)), ns_Amount = op_coins (ops ! 2), ns_Sender = op_addr (ops ! 3),
          ns_ForwardPayload = Some (Built (drop 4 ops))\<rparr>)"

definition sample_load_message :: "tcell \<Rightarrow> tcell InternalMessage result" where
  "sample_load_message c = (case c of
       MessageCell b src dst m lt utime body \<Rightarrow>
         Inr \<lparr>im_IHRDisabled = True, im_Bounce = b, im_SrcAddr = src, im_DstAddr = dst, im_Amount = m,
              im_CreatedLT = lt, im_CreatedAt = utime, im_StateInit = None, im_Body = body\<rparr>
     | _ \<Rightarrow> unreadable)"

definition sample_load_uint :: "nat \<Rightarrow> tcell \<Rightarrow> (nat \<times> tcell) result" where
  "sample_load_uint n c = (case cell_ops c of
       StoreUInt v k # ops \<Rightarrow> if k = n then Inr (v, Built ops) else unreadable
     | _ \<Rightarrow> unreadable)"

definition sample_load_string :: "tcell \<Rightarrow> string result" where
  "sample_load_string c = (case cell_ops c of StoreStringSnake s # _ \<Rightarrow> Inr s | _ \<Rightarrow> unreadable)"

definition sample_tonaddr :: "byte list \<Rightarrow> tonaddr" where
  "sample_tonaddr b = \<lparr>ta_type = StdAddress, ta_workchain = 0, ta_data = b, ta_bounceable = False, ta_testnet = False\<rparr>"

definition sample_lib :: "tcell tonlib" where
  "sample_lib = \<lparr>
     new_address = (\<lambda>flags wc d. (sample_tonaddr d)\<lparr>ta_workchain := signed_take_bit 7 (ucast wc)\<rparr>),
     addr_string = (\<lambda>a. map (\<lambda>b. char_of (unat b)) (ta_data a)),
     parse_addr = (\<lambda>s. Inr (sample_tonaddr (map of_char s))),
     build_cell = (\<lambda>ops. Some (Built ops)),
     message_cell = (\<lambda>m. Inr (MessageCell (im_Bounce m) (im_SrcAddr m) (im_DstAddr m) (im_Amount m)
       (im_CreatedLT m) (im_CreatedAt m) (im_Body m))),
     cell_FromBOC = (\<lambda>b. Inr (Built [])),
     stateinit_cell = (\<lambda>c d. Inr (Built [StoreRef c, StoreRef d])),
     cell_hash = (\<lambda>c. replicate 32 0),
     load_uint = sample_load_uint,
     load_string_snake = sample_load_string,
     load_ref = (\<lambda>c. case cell_ops c of StoreRef r # _ \<Rightarrow> Inr r | _ \<Rightarrow> unreadable),
     load_transfer = sample_transfer,
     load_notification = sample_notification,
     load_excesses = (\<lambda>c. if tagged 0xd53276db 2 c then Inr (of_nat (op_uint (cell_ops c ! 1))) else unreadable),
     load_message = sample_load_message,
     load_highload = (\<lambda>c. case c of HighloadBody b ms \<Rightarrow>
         Inr \<lparr>hs_SubwalletID = 0, hs_BoundedID = b, hs_Messages = ms\<rparr> | _ \<Rightarrow> unreadable),
     message_comment = (\<lambda>m. case im_Body m of Some (Built [_, StoreStringSnake s]) \<Rightarrow> s | _ \<Rightarrow> []),
     uuid_FromBytes = Inr,
     uuid_FromString = (\<lambda>s. Inr (map of_char s)),
     uuid_String = map (\<lambda>b. char_of (unat b)),
     coins_String = (\<lambda>m. if m = 0 then ''0'' else ''more'')\<rparr>"

definition sample_task :: ExternalWithdrawalTask where
  "sample_task = \<lparr>et_QueryID = 3, et_Currency = ''USDT'', et_Amount = 70, et_Destination = replicate 32 9,
     et_Bounceable = False, et_Comment = ''hi''\<rparr>"

subsection \<open>Reading back what was written\<close>

lemma must_build_Inr_iff [res_simps]: "must_build lib ops = Inr c \<longleftrightarrow> build_cell lib ops = Some c"
  by (auto simp: must_build_def split: option.splits)

lemma buildComment_Inr_iff [res_simps]:
  "buildComment lib s = Inr c \<longleftrightarrow> build_cell lib [StoreUInt 0 32, StoreStringSnake s] = Some c"
  by (auto simp: buildComment_def split: option.splits)

lemma LoadComment_buildComment:
  assumes "codec_ok lib" and "buildComment lib s = Inr c"
  shows "LoadComment lib (Some c) = s"
  using assms by (fastforce simp: codec_ok_def LoadComment_def res_simps)

lemma query_id_word: "(of_nat (nat (q mod 2 ^ 64)) :: uint64) = of_int q"
  by transfer (simp add: take_bit_eq_mod)

lemma load_transfer_make:
  assumes "codec_ok lib" and "makeJettonTransferMessage lib d r a f q s = Inr c"
  shows "\<exists>p. load_transfer lib c = Inr \<lparr>ts_QueryID = of_int q, ts_Amount = a, ts_Destination = Some d,
      ts_ResponseDestination = Some r, ts_CustomPayload = None, ts_ForwardTonAmount = f,
      ts_ForwardPayload = Some p\<rparr> \<and> LoadComment lib (Some p) = s"
proof (cases "s = []")
  case True
  with assms(2) have c: "build_cell lib [StoreUInt 0x0f8a7ea5 32, StoreUInt (nat (q mod 2 ^ 64)) 64, StoreBigCoins a,
       StoreAddr (Some d), StoreAddr (Some r), StoreBoolBit False, StoreBigCoins f, StoreBoolBit False] = Some c"
    by (simp add: makeJettonTransferMessage_def Let_def must_build_Inr_iff)
  obtain e err where e: "load_uint lib 32 e = Inl err"
    and t: "load_transfer lib c = Inr \<lparr>ts_QueryID = of_nat (nat (q mod 2 ^ 64)), ts_Amount = a,
      ts_Destination = Some d, ts_ResponseDestination = Some r, ts_CustomPayload = None,
      ts_ForwardTonAmount = f, ts_ForwardPayload = Some e\<rparr>"
    using assms(1) [unfolded codec_ok_def, THEN conjunct2, THEN conjunct2, rule_format, OF c] by blast
  have "LoadComment lib (Some e) = s" using True e by (simp add: LoadComment_def)
  with t show ?thesis by (intro exI [of _ e]) (simp only: query_id_word [symmetric] simp_thms)
next
  case False
  with assms(2) obtain p where p: "buildComment lib s = Inr p"
    and c: "must_build lib [StoreUInt 0x0f8a7ea5 32, StoreUInt (nat (q mod 2 ^ 64)) 64, StoreBigCoins a,
       StoreAddr (Some d), StoreAddr (Some r), StoreBoolBit False, StoreBigCoins f,
       StoreBoolBit True, StoreRef p] = Inr c"
    by (auto simp: makeJettonTransferMessage_def Let_def ebind_Inr_iff)
  from assms(1) c have "load_transfer lib c = Inr \<lparr>ts_QueryID = of_nat (nat (q mod 2 ^ 64)), ts_Amount = a,
      ts_Destination = Some d, ts_ResponseDestination = Some r, ts_CustomPayload = None,
      ts_ForwardTonAmount = f, ts_ForwardPayload = Some p\<rparr>"
    by (simp add: codec_ok_def must_build_Inr_iff)
  moreover have "LoadComment lib (Some p) = s"
    using assms(1) p by (rule LoadComment_buildComment)
  ultimately show ?thesis by (intro exI [of _ p]) (simp only: query_id_word [symmetric] simp_thms)
qed

lemma parse_ext_messages_distinct:
  "parse_ext_messages lib ms m = Inr (Some m') \<Longrightarrow> distinct m \<Longrightarrow> distinct m'"
proof (induction lib ms m rule: parse_ext_messages.induct)
  case (2 lib m ms addrMap)
  from "2.prems"(1) obtain c i where c: "load_ref lib m = Inr c" and i: "load_message lib c = Inr i"
    by (auto simp: ebind_Inr_iff)
  let ?p = "case DecodeJettonTransfer lib (Some i) of Inr t \<Rightarrow> jm_Destination t | Inl _ \<Rightarrow> im_DstAddr i"
  show ?case
  proof (cases "AddressFromTonutilsAddress ?p")
    case (Inl e)
    with "2.prems"(1) c i show ?thesis by simp
  next
    case (Inr a)
    with "2.prems"(1) c i have new: "a \<notin> set addrMap"
      and rest: "parse_ext_messages lib ms (addrMap @ [a]) = Inr (Some m')"
      by (auto split: if_splits)
    show ?thesis by (rule "2.IH" [OF c i Inr new rest]) (use "2.prems"(2) new in simp)
  qed
qed simp

lemmas sample_lib_defs = sample_lib_def sample_transfer_def sample_notification_def sample_load_message_def
  sample_load_uint_def sample_load_string_def unreadable_def tagged_def cell_ops_def op_uint_def op_coins_def
  op_addr_def op_ref_def

lemma codec_ok_sample_lib: "codec_ok sample_lib"
  by (simp add: codec_ok_def sample_lib_defs)

lemma std_addresses_sample_lib: "std_addresses sample_lib"
  by (simp add: std_addresses_def sample_lib_def sample_tonaddr_def)

lemma ToTonutilsAddressStd_back:
  "std_addresses lib \<Longrightarrow> wf_address a \<Longrightarrow> AddressFromTonutilsAddress (Some (ToTonutilsAddressStd lib flags a)) = Inr a"
  by (simp add: std_addresses_def ToTonutilsAddressStd_def AddressFromTonutilsAddress_Inr_iff)

lemma DecodeJettonTransfer_make:
  assumes "codec_ok lib" and "makeJettonTransferMessage lib d r a f q s = Inr c" and "im_Body m = Some c"
  shows "DecodeJettonTransfer lib (Some m) = Inr \<lparr>jm_Amount = a, jm_Destination = Some d, jm_Comment = s\<rparr>"
proof -
  obtain p where "load_transfer lib c = Inr \<lparr>ts_QueryID = of_int q, ts_Amount = a, ts_Destination = Some d,
      ts_ResponseDestination = Some r, ts_CustomPayload = None, ts_ForwardTonAmount = f, ts_ForwardPayload = Some p\<rparr>"
    and "LoadComment lib (Some p) = s"
    using load_transfer_make [OF assms(1,2)] by blast
  then show ?thesis by (simp add: DecodeJettonTransfer_def assms(3) NewCoins_def)
qed



end
