(* ===== verification/Tables.thy ===== *)
theory Tables
  imports Models
begin

text \<open>
  The database behind the repositories: one record per table of
  \<open>deploy/db/01_init.up.sql\<close>, the database as the record of the tables, and the insert
  statements under their unique constraints. Rows carry the columns the Go statements name.
  Times are nanoseconds since the epoch; a nullable column is an \<open>option\<close>.

  The Go code reads and writes the columns \<open>processing\<close> and \<open>processed\<close> of
  \<open>withdrawal_requests\<close>, which the deployed schema does not have (the data of the repository
  tests, \<open>db/tests/set-expired\<close>, does), and never supplies \<open>status\<close>, which the deployed
  schema requires. The operations therefore take the schema as an argument: a statement that
  names a missing column fails, as does an insert that omits a required one.
\<close>

record ton_wallet_row =
  tw_user_id :: string
  tw_subwallet_id :: uint32
  tw_type :: WalletType
  tw_address :: Address

record jetton_wallet_row =
  jt_user_id :: string
  jt_subwallet_id :: uint32
  jt_currency :: string
  jt_type :: WalletType
  jt_address :: Address

record internal_income_row =
  ni_lt :: int
  ni_utime :: int
  ni_deposit_address :: Address
  ni_amount :: Coins
  ni_memo :: UUID

record external_withdrawal_row =
  xw_msg_uuid :: UUID
  xw_query_id :: int
  xw_expired_at :: "int option"
  xw_processed_at :: "int option"
  xw_processed_lt :: "int option"
  xw_confirmed :: bool
  xw_failed :: bool
  xw_address :: Address

record withdrawal_request_row =
  rq_query_id :: int
  rq_bounceable :: bool
  rq_status :: string
  rq_is_internal :: bool
  rq_amount :: Coins
  rq_user_id :: string
  rq_user_query_id :: string
  rq_currency :: string
  rq_dest_address :: Address
  rq_comment :: string
  rq_processing :: bool
  rq_processed :: bool

record external_income_row =
  xi_lt :: int
  xi_utime :: int
  xi_payer_workchain :: "int32 option"
  xi_deposit_address :: Address
  xi_payer_address :: "byte list option"
  xi_amount :: Coins
  xi_comment :: string

record block_data_row =
  bd_shard :: uint64
  bd_seqno :: uint32
  bd_gen_utime :: int
  bd_root_hash :: "byte list"
  bd_file_hash :: "byte list"

record internal_withdrawal_row =
  nw_failed :: bool
  nw_since_lt :: int
  nw_sending_lt :: "int option"
  nw_finish_lt :: "int option"
  nw_finished_at :: "int option"
  nw_expired_at :: "int option"
  nw_amount :: Coins
  nw_from_address :: Address
  nw_memo :: UUID

record service_withdrawal_row =
  sv_memo :: UUID
  sv_expired_at :: "int option"
  sv_filled :: bool
  sv_processed :: bool
  sv_ton_amount :: Coins
  sv_jetton_amount :: Coins
  sv_from_address :: Address
  sv_jetton_master :: "Address option"

record database =
  ton_wallets :: "ton_wallet_row list"
  jetton_wallets :: "jetton_wallet_row list"
  internal_incomes :: "internal_income_row list"
  external_withdrawals :: "external_withdrawal_row list"
  withdrawal_requests :: "withdrawal_request_row list"
  external_incomes :: "external_income_row list"
  block_data :: "block_data_row list"
  internal_withdrawals :: "internal_withdrawal_row list"
  service_withdrawal_requests :: "service_withdrawal_row list"
  next_query_id :: int

definition empty_database :: database where
  "empty_database = \<lparr>ton_wallets = [], jetton_wallets = [], internal_incomes = [],
     external_withdrawals = [], withdrawal_requests = [], external_incomes = [],
     block_data = [], internal_withdrawals = [], service_withdrawal_requests = [],
     next_query_id = 1\<rparr>"

text \<open>The columns of \<open>withdrawal_requests\<close> on which code and schema differ.\<close>

record schema =
  has_processing :: bool
  has_processed :: bool
  has_status :: bool
  status_default :: "string option"

definition deployed_schema :: schema where
  "deployed_schema = \<lparr>has_processing = False, has_processed = False, has_status = True,
     status_default = None\<rparr>"

definition query_schema :: schema where
  "query_schema = \<lparr>has_processing = True, has_processed = True, has_status = True,
     status_default = Some ''pending''\<rparr>"

definition need_column :: "string \<Rightarrow> bool \<Rightarrow> unit result" where
  "need_column c present = (if present then Inr () else Inl (Err (''undefined column '' @ c)))"

text \<open>The unique keys and the inserts under them.\<close>

definition xw_key :: "external_withdrawal_row \<Rightarrow> UUID \<times> Address" where
  "xw_key r = (xw_msg_uuid r, xw_address r)"

definition ni_key :: "internal_income_row \<Rightarrow> UUID \<times> int" where
  "ni_key r = (ni_memo r, ni_lt r)"

definition rq_key :: "withdrawal_request_row \<Rightarrow> string \<times> string \<times> bool" where
  "rq_key r = (rq_user_id r, rq_user_query_id r, rq_is_internal r)"

definition bd_key :: "block_data_row \<Rightarrow> uint64 \<times> uint32" where
  "bd_key r = (bd_shard r, bd_seqno r)"

definition insert_ton_wallet :: "ton_wallet_row \<Rightarrow> ton_wallet_row list \<Rightarrow> ton_wallet_row list result" where
  "insert_ton_wallet = insert_unique tw_subwallet_id"

definition insert_jetton_wallet :: "jetton_wallet_row \<Rightarrow> jetton_wallet_row list \<Rightarrow> jetton_wallet_row list result" where
  "insert_jetton_wallet = insert_unique jt_address"

definition insert_internal_income :: "internal_income_row \<Rightarrow> internal_income_row list \<Rightarrow> internal_income_row list result" where
  "insert_internal_income = insert_unique ni_key"

definition insert_external_withdrawal :: "external_withdrawal_row \<Rightarrow> external_withdrawal_row list \<Rightarrow> external_withdrawal_row list result" where
  "insert_external_withdrawal = insert_unique xw_key"

definition insert_withdrawal_request :: "withdrawal_request_row \<Rightarrow> withdrawal_request_row list \<Rightarrow> withdrawal_request_row list result" where
  "insert_withdrawal_request = insert_unique rq_key"

definition insert_block :: "block_data_row \<Rightarrow> block_data_row list \<Rightarrow> block_data_row list result" where
  "insert_block = insert_unique bd_key"

definition insert_internal_withdrawal :: "internal_withdrawal_row \<Rightarrow> internal_withdrawal_row list \<Rightarrow> internal_withdrawal_row list result" where
  "insert_internal_withdrawal = insert_unique nw_memo"

definition insert_service_withdrawal :: "service_withdrawal_row \<Rightarrow> service_withdrawal_row list \<Rightarrow> service_withdrawal_row list result" where
  "insert_service_withdrawal = insert_unique sv_memo"

text \<open>The constraints of the schema: what PostgreSQL keeps true of the tables.\<close>

definition wf_database :: "database \<Rightarrow> bool" where
  "wf_database d \<longleftrightarrow>
     distinct (map tw_subwallet_id (ton_wallets d)) \<and>
     distinct (map jt_address (jetton_wallets d)) \<and>
     distinct (map ni_key (internal_incomes d)) \<and>
     distinct (map xw_key (external_withdrawals d)) \<and>
     distinct (map rq_query_id (withdrawal_requests d)) \<and>
     distinct (map rq_key (withdrawal_requests d)) \<and>
     (\<forall>r \<in> set (withdrawal_requests d). rq_query_id r < next_query_id d) \<and>
     distinct (map bd_key (block_data d)) \<and>
     distinct (map nw_memo (internal_withdrawals d)) \<and>
     distinct (map sv_memo (service_withdrawal_requests d))"

text \<open>A small store for examples: user 1 has a TON deposit with two incomes and a jetton deposit
  with one, and has asked for three withdrawals; address \<open>4\<close> is the hot wallet.\<close>

definition sample_addr :: "byte \<Rightarrow> Address" where "sample_addr b = replicate 32 b"

definition sample_income :: "int \<Rightarrow> byte \<Rightarrow> Coins \<Rightarrow> external_income_row" where
  "sample_income lt b m = \<lparr>xi_lt = lt, xi_utime = 0, xi_payer_workchain = None, xi_deposit_address = sample_addr b,
     xi_payer_address = None, xi_amount = m, xi_comment = []\<rparr>"

definition sample_request :: "int \<Rightarrow> byte \<Rightarrow> Coins \<Rightarrow> withdrawal_request_row" where
  "sample_request q b m = \<lparr>rq_query_id = q, rq_bounceable = False, rq_status = ''pending'', rq_is_internal = False,
     rq_amount = m, rq_user_id = ''1'', rq_user_query_id = replicate (nat q) CHR ''q'', rq_currency = TonSymbol,
     rq_dest_address = sample_addr b, rq_comment = [], rq_processing = False, rq_processed = False\<rparr>"

definition sample_database :: database where
  "sample_database = empty_database\<lparr>
     ton_wallets := [
       \<lparr>tw_user_id = [], tw_subwallet_id = 1, tw_type = TonHotWallet, tw_address = sample_addr 4\<rparr>,
       \<lparr>tw_user_id = ''1'', tw_subwallet_id = 2, tw_type = TonDepositWallet, tw_address = sample_addr 1\<rparr>,
       \<lparr>tw_user_id = ''1'', tw_subwallet_id = 3, tw_type = JettonOwner, tw_address = sample_addr 2\<rparr>],
     jetton_wallets := [
       \<lparr>jt_user_id = ''1'', jt_subwallet_id = 3, jt_currency = ''USDT'', jt_type = JettonDepositWallet,
        jt_address = sample_addr 3\<rparr>],
     external_incomes := [sample_income 10 1 5, sample_income 20 3 7, sample_income 30 1 6],
     withdrawal_requests := [sample_request 1 8 50, sample_request 2 8 60, sample_request 3 9 70],
     next_query_id := 4\<rparr>"

subsection \<open>The tables keep their keys\<close>

interpretation tw: sql_table insert_ton_wallet tw_subwallet_id
  by unfold_locales (simp add: insert_ton_wallet_def insert_unique_Inr_iff)

interpretation jt: sql_table insert_jetton_wallet jt_address
  by unfold_locales (simp add: insert_jetton_wallet_def insert_unique_Inr_iff)

interpretation ni: sql_table insert_internal_income ni_key
  by unfold_locales (simp add: insert_internal_income_def insert_unique_Inr_iff)

interpretation xw: sql_table insert_external_withdrawal xw_key
  by unfold_locales (simp add: insert_external_withdrawal_def insert_unique_Inr_iff)

interpretation rq: sql_table insert_withdrawal_request rq_key
  by unfold_locales (simp add: insert_withdrawal_request_def insert_unique_Inr_iff)

interpretation bd: sql_table insert_block bd_key
  by unfold_locales (simp add: insert_block_def insert_unique_Inr_iff)

interpretation nw: sql_table insert_internal_withdrawal nw_memo
  by unfold_locales (simp add: insert_internal_withdrawal_def insert_unique_Inr_iff)

interpretation sv: sql_table insert_service_withdrawal sv_memo
  by unfold_locales (simp add: insert_service_withdrawal_def insert_unique_Inr_iff)

lemmas insert_Inr_iffs [res_simps] =
  tw.insert_Inr_iff jt.insert_Inr_iff ni.insert_Inr_iff xw.insert_Inr_iff rq.insert_Inr_iff
  bd.insert_Inr_iff nw.insert_Inr_iff sv.insert_Inr_iff

lemma sample_addr_eq_iff [simp]: "sample_addr a = sample_addr b \<longleftrightarrow> a = b"
  by (simp add: sample_addr_def)

lemma wf_sample_addr [simp]: "wf_address (sample_addr b)"
  by (simp add: sample_addr_def wf_address_def)

lemma need_column_Inr_iff [res_simps]: "need_column c b = Inr u \<longleftrightarrow> b"
  by (simp add: need_column_def)

lemma need_column_simps [simp]: "need_column c True = Inr ()"
  by (simp add: need_column_def)

lemma wf_empty_database [simp]: "wf_database empty_database"
  by (simp add: wf_database_def empty_database_def)

end
