(* ===== verification/AddressBook.thy ===== *)
theory AddressBook
  imports Tables
begin

text \<open>
  \<open>db/addressbook.go\<close>: the in-memory table of the service's own addresses, how it is loaded
  from the wallet tables, and its three lookups. A nil Go map is \<open>None\<close>. The mutex makes each
  \<open>get\<close> and \<open>put\<close> atomic, so they are modelled as single steps.
\<close>

record addressBook =
  ab_addresses :: "(Address \<rightharpoonup> AddressInfo) option"

definition ab_get :: "addressBook \<Rightarrow> Address \<Rightarrow> AddressInfo option" where
  "ab_get ab a = (case ab_addresses ab of None \<Rightarrow> None | Some m \<Rightarrow> m a)"

definition ab_put :: "addressBook \<Rightarrow> Address \<Rightarrow> AddressInfo \<Rightarrow> addressBook result" where
  "ab_put ab a t = (case ab_addresses ab of
       None \<Rightarrow> Inl (Panic ''assignment to entry in nil map'')
     | Some m \<Rightarrow> Inr (ab\<lparr>ab_addresses := Some (m(a \<mapsto> t))\<rparr>))"

definition GetWalletType :: "addressBook \<Rightarrow> Address \<Rightarrow> WalletType option" where
  "GetWalletType ab a = map_option ai_Type (ab_get ab a)"

definition GetOwner :: "addressBook \<Rightarrow> Address \<Rightarrow> Address option result" where
  "GetOwner ab a = (case ab_get ab a of
       None \<Rightarrow> Inr None
     | Some info \<Rightarrow>
         if ai_Type info = JettonDepositWallet \<and> ai_Owner info = None
         then Inl (Fatal ''must be owner address in address book for jetton deposit'')
         else Inr (ai_Owner info))"

definition GetWalletTypeByTonutilsAddress :: "addressBook \<Rightarrow> tonaddr option \<Rightarrow> WalletType option" where
  "GetWalletTypeByTonutilsAddress ab p =
     (case AddressFromTonutilsAddress p of Inl _ \<Rightarrow> None | Inr a \<Rightarrow> GetWalletType ab a)"

text \<open>The first loop of \<open>loadAddressBook\<close>: \<open>SELECT address, type FROM ton_wallets\<close>.\<close>

fun load_ton_rows :: "ton_wallet_row list \<Rightarrow> (Address \<rightharpoonup> AddressInfo) \<Rightarrow> (Address \<rightharpoonup> AddressInfo) result" where
  "load_ton_rows [] res = Inr res"
| "load_ton_rows (r # rs) res =
     ebind (Scan (Value (tw_address r))) (\<lambda>addr.
       load_ton_rows rs (res(addr \<mapsto> \<lparr>ai_Type = tw_type r, ai_Owner = None\<rparr>)))"

text \<open>
  \<open>SELECT jw.address, jw.type, tw.address FROM jetton_wallets jw LEFT JOIN ton_wallets tw ON
  jw.subwallet_id = tw.subwallet_id\<close>: a jetton wallet without a matching TON wallet gives one
  row with a \<open>NULL\<close> owner, which cannot be scanned into an \<open>Address\<close>.
\<close>

definition owner_rows :: "ton_wallet_row list \<Rightarrow> jetton_wallet_row \<Rightarrow> driver_value list" where
  "owner_rows tws r =
     (case filter (\<lambda>t. tw_subwallet_id t = jt_subwallet_id r) tws of
        [] \<Rightarrow> [DriverOther ''<nil>'']
      | ts \<Rightarrow> map (\<lambda>t. Value (tw_address t)) ts)"

definition joined_jetton_rows :: "database \<Rightarrow> (driver_value \<times> WalletType \<times> driver_value) list" where
  "joined_jetton_rows d =
     concat (map (\<lambda>r. map (\<lambda>ow. (Value (jt_address r), jt_type r, ow)) (owner_rows (ton_wallets d) r))
       (jetton_wallets d))"

fun load_jetton_rows :: "(driver_value \<times> WalletType \<times> driver_value) list
    \<Rightarrow> (Address \<rightharpoonup> AddressInfo) \<Rightarrow> (Address \<rightharpoonup> AddressInfo) result" where
  "load_jetton_rows [] res = Inr res"
| "load_jetton_rows ((a, t, ow) # rs) res =
     ebind (Scan a) (\<lambda>addr. ebind (Scan ow) (\<lambda>owner.
       load_jetton_rows rs (res(addr \<mapsto> \<lparr>ai_Type = t, ai_Owner = Some owner\<rparr>))))"

definition loadAddressBook :: "database \<Rightarrow> addressBook \<Rightarrow> addressBook result" where
  "loadAddressBook d ab =
     ebind (load_ton_rows (ton_wallets d) Map.empty) (\<lambda>res.
     ebind (load_jetton_rows (joined_jetton_rows d) res) (\<lambda>res.
       Inr (ab\<lparr>ab_addresses := Some res\<rparr>)))"

text \<open>\<open>NewAddressBook\<close> loads one address book and returns another, fresh one.\<close>

definition NewAddressBook :: "database \<Rightarrow> addressBook result" where
  "NewAddressBook d =
     ebind (loadAddressBook d \<lparr>ab_addresses = None\<rparr>) (\<lambda>ab. Inr \<lparr>ab_addresses = None\<rparr>)"

text \<open>Wallet tables as the service writes them: 32-byte addresses, every jetton wallet with the
  TON wallet of its subwallet, and every address in one row only.\<close>

definition wf_wallets :: "database \<Rightarrow> bool" where
  "wf_wallets d \<longleftrightarrow>
     (\<forall>t \<in> set (ton_wallets d). wf_address (tw_address t)) \<and>
     (\<forall>j \<in> set (jetton_wallets d). wf_address (jt_address j) \<and>
        (\<exists>t \<in> set (ton_wallets d). tw_subwallet_id t = jt_subwallet_id j)) \<and>
     distinct (map tw_subwallet_id (ton_wallets d)) \<and>
     distinct (map tw_address (ton_wallets d)) \<and>
     distinct (map jt_address (jetton_wallets d)) \<and>
     tw_address ` set (ton_wallets d) \<inter> jt_address ` set (jetton_wallets d) = {}"

text \<open>The address a jetton wallet is joined with.\<close>

definition owner_of :: "database \<Rightarrow> jetton_wallet_row \<Rightarrow> Address" where
  "owner_of d j = tw_address (hd (filter (\<lambda>t. tw_subwallet_id t = jt_subwallet_id j) (ton_wallets d)))"

text \<open>The book a well-formed wallet store loads into.\<close>

definition loaded_book :: "database \<Rightarrow> (Address \<rightharpoonup> AddressInfo)" where
  "loaded_book d =
     map_of (rev (map (\<lambda>t. (tw_address t, \<lparr>ai_Type = tw_type t, ai_Owner = None\<rparr>)) (ton_wallets d)))
     ++ map_of (rev (map (\<lambda>j. (jt_address j, \<lparr>ai_Type = jt_type j, ai_Owner = Some (owner_of d j)\<rparr>)) (jetton_wallets d)))"

subsection \<open>The lookup contract\<close>

lemma Scan_Value: "Scan (Value a) = Inr b \<longleftrightarrow> wf_address a \<and> b = a"
  by (auto simp: Scan_def Value_def wf_address_def)

lemma Scan_Value_wf [simp]: "wf_address a \<Longrightarrow> Scan (Value a) = Inr a"
  by (simp add: Scan_Value)

text \<open>
  The interface \<open>db.AddressBook\<close>: the lookup by a library address is the lookup by its bytes,
  and unknown for anything that is not a std address; an owner is only known for a known
  address.
\<close>

locale address_book =
  fixes wallet_type :: "Address \<Rightarrow> WalletType option"
    and wallet_type_by_ton :: "tonaddr option \<Rightarrow> WalletType option"
    and owner :: "Address \<Rightarrow> Address option result"
  assumes by_ton: "wallet_type_by_ton p =
      (case AddressFromTonutilsAddress p of Inl _ \<Rightarrow> None | Inr a \<Rightarrow> wallet_type a)"
    and owner_known: "owner a = Inr (Some b) \<Longrightarrow> wallet_type a \<noteq> None"
begin

lemma by_ton_std:
  "AddressFromTonutilsAddress p = Inr a \<Longrightarrow> wallet_type_by_ton p = wallet_type a"
  by (simp add: by_ton)

lemma by_ton_known:
  assumes "wallet_type_by_ton p = Some t"
  obtains q where "p = Some q" and "ta_type q = StdAddress" and "wf_address (ta_data q)"
    and "wallet_type (ta_data q) = Some t"
  using assms by (auto simp: by_ton res_simps split: sum.splits)

lemma owner_unknown: "wallet_type a = None \<Longrightarrow> owner a \<noteq> Inr (Some b)"
  using owner_known by blast

end

interpretation ab: address_book "GetWalletType ab" "GetWalletTypeByTonutilsAddress ab" "GetOwner ab"
  for ab
  by unfold_locales
    (auto simp: GetWalletTypeByTonutilsAddress_def GetOwner_def GetWalletType_def
      split: option.splits if_splits)

subsection \<open>Loading\<close>

lemma load_ton_rows_map_of:
  assumes "\<forall>t \<in> set rs. wf_address (tw_address t)"
  shows "load_ton_rows rs res =
     Inr (res ++ map_of (rev (map (\<lambda>t. (tw_address t, \<lparr>ai_Type = tw_type t, ai_Owner = None\<rparr>)) rs)))"
  using assms by (induction rs arbitrary: res) (auto simp: map_add_assoc)

lemma load_jetton_rows_map_of:
  assumes "\<forall>j \<in> set js. wf_address (jt_address j) \<and> wf_address (own j)"
  shows "load_jetton_rows (map (\<lambda>j. (Value (jt_address j), jt_type j, Value (own j))) js) res =
     Inr (res ++ map_of (rev (map (\<lambda>j. (jt_address j, \<lparr>ai_Type = jt_type j, ai_Owner = Some (own j)\<rparr>)) js)))"
  using assms by (induction js arbitrary: res) (auto simp: map_add_assoc)

lemma owner_rows_wf:
  assumes "wf_wallets d" and "j \<in> set (jetton_wallets d)"
  obtains t where "t \<in> set (ton_wallets d)" and "tw_subwallet_id t = jt_subwallet_id j"
    and "owner_rows (ton_wallets d) j = [Value (tw_address t)]" and "owner_of d j = tw_address t"
proof -
  from assms obtain t where t: "t \<in> set (ton_wallets d)" "tw_subwallet_id t = jt_subwallet_id j"
    by (auto simp: wf_wallets_def)
  with assms(1) have "filter (\<lambda>t'. tw_subwallet_id t' = jt_subwallet_id j) (ton_wallets d) = [t]"
    using filter_unique [of tw_subwallet_id "ton_wallets d" t] by (simp add: wf_wallets_def)
  with t show thesis by (intro that [of t]) (simp_all add: owner_rows_def owner_of_def)
qed

lemma joined_jetton_rows_wf:
  assumes "wf_wallets d"
  shows "joined_jetton_rows d =
    map (\<lambda>j. (Value (jt_address j), jt_type j, Value (owner_of d j))) (jetton_wallets d)"
proof -
  have "map (\<lambda>ow. (Value (jt_address j), jt_type j, ow)) (owner_rows (ton_wallets d) j) =
      [(Value (jt_address j), jt_type j, Value (owner_of d j))]" if j: "j \<in> set (jetton_wallets d)" for j
    by (rule owner_rows_wf [OF assms j]) simp
  then have "map (\<lambda>j. map (\<lambda>ow. (Value (jt_address j), jt_type j, ow)) (owner_rows (ton_wallets d) j))
        (jetton_wallets d) =
      map (\<lambda>j. [(Value (jt_address j), jt_type j, Value (owner_of d j))]) (jetton_wallets d)"
    by (intro map_cong) auto
  then show ?thesis by (simp only: joined_jetton_rows_def concat_map_singleton)
qed

lemma loadAddressBook_wf:
  assumes "wf_wallets d"
  shows "loadAddressBook d ab = Inr (ab\<lparr>ab_addresses := Some (loaded_book d)\<rparr>)"
proof -
  have "\<forall>j \<in> set (jetton_wallets d). wf_address (jt_address j) \<and> wf_address (owner_of d j)"
  proof
    fix j assume j: "j \<in> set (jetton_wallets d)"
    show "wf_address (jt_address j) \<and> wf_address (owner_of d j)"
      by (rule owner_rows_wf [OF assms j]) (use assms j in \<open>auto simp: wf_wallets_def\<close>)
  qed
  moreover have "\<forall>t \<in> set (ton_wallets d). wf_address (tw_address t)"
    using assms by (simp add: wf_wallets_def)
  ultimately show ?thesis
    by (simp add: loadAddressBook_def loaded_book_def joined_jetton_rows_wf [OF assms]
        load_ton_rows_map_of load_jetton_rows_map_of)
qed

lemma loaded_book_jetton:
  assumes "wf_wallets d" and "j \<in> set (jetton_wallets d)"
  shows "loaded_book d (jt_address j) = Some \<lparr>ai_Type = jt_type j, ai_Owner = Some (owner_of d j)\<rparr>"
  using assms by (simp add: loaded_book_def wf_wallets_def map_add_def
      map_of_rev_unique [where f = jt_address])

lemma loaded_book_ton:
  assumes "wf_wallets d" and "t \<in> set (ton_wallets d)"
  shows "loaded_book d (tw_address t) = Some \<lparr>ai_Type = tw_type t, ai_Owner = None\<rparr>"
proof -
  have "tw_address t \<notin> jt_address ` set (jetton_wallets d)"
    using assms by (auto simp: wf_wallets_def)
  with assms show ?thesis
    by (simp add: loaded_book_def wf_wallets_def map_add_def
        map_of_rev_unique [where f = tw_address] map_of_rev_None)
qed

lemma wf_sample_database: "wf_wallets sample_database"
  by (simp add: wf_wallets_def sample_database_def)


text \<open>C26: the address book says what the wallet tables say. Loaded from well-formed wallet tables, it
  knows every TON wallet with its type and no owner and every jetton wallet with its type and the
  TON wallet of the same subwallet as its owner, and it knows no other address.\<close>

theorem address_book_loaded:
  assumes "wf_wallets d"
  shows "\<exists>ab'. loadAddressBook d ab = Inr ab'
    \<and> (\<forall>t \<in> set (ton_wallets d). GetWalletType ab' (tw_address t) = Some (tw_type t) \<and> GetOwner ab' (tw_address t) = Inr None
        \<or> tw_type t = JettonDepositWallet)
    \<and> (\<forall>j \<in> set (jetton_wallets d). GetWalletType ab' (jt_address j) = Some (jt_type j)
        \<and> GetOwner ab' (jt_address j) = Inr (Some (owner_of d j)))
    \<and> (\<forall>a. a \<notin> tw_address ` set (ton_wallets d) \<and> a \<notin> jt_address ` set (jetton_wallets d) \<longrightarrow> GetWalletType ab' a = None)"
proof -
  let ?ab = "ab\<lparr>ab_addresses := Some (loaded_book d)\<rparr>"
  have get: "ab_get ?ab a = loaded_book d a" for a by (simp add: ab_get_def)
  have "loaded_book d a = None" if "a \<notin> tw_address ` set (ton_wallets d)" "a \<notin> jt_address ` set (jetton_wallets d)" for a
    using that by (simp add: loaded_book_def map_add_def map_of_rev_None)
  then show ?thesis
    using loadAddressBook_wf [OF assms, of ab] loaded_book_ton [OF assms] loaded_book_jetton [OF assms]
    by (auto simp: GetWalletType_def GetOwner_def get)
qed

theorem address_book_loaded_witness:
  "\<exists>ab. loadAddressBook sample_database \<lparr>ab_addresses = None\<rparr> = Inr ab \<and> GetOwner ab (sample_addr 3) = Inr (Some (sample_addr 2))"
proof -
  have "\<exists>j \<in> set (jetton_wallets sample_database). jt_address j = sample_addr 3 \<and> owner_of sample_database j = sample_addr 2"
    by (simp add: sample_database_def owner_of_def)
  with address_book_loaded [OF wf_sample_database, of "\<lparr>ab_addresses = None\<rparr>"] show ?thesis by metis
qed

text \<open>\<open>NewAddressBook\<close> gives the service a book that knows no address. The tables are read into
  one book and another, empty one is returned, whatever the tables hold.\<close>

lemma new_address_book_empty:
  assumes "NewAddressBook d = Inr ab"
  shows "GetWalletType ab a = None \<and> GetOwner ab a = Inr None \<and> GetWalletTypeByTonutilsAddress ab p = None"
proof -
  from assms have "ab = \<lparr>ab_addresses = None\<rparr>" by (auto simp: NewAddressBook_def ebind_Inr_iff)
  then show ?thesis
    by (simp add: GetWalletType_def GetOwner_def GetWalletTypeByTonutilsAddress_def ab_get_def split: sum.split)
qed

end
