(* ===== verification/Repository.thy ===== *)
theory Repository
  imports AddressBook
begin

text \<open>
  \<open>db/repository.go\<close>, \<open>db/tx.go\<close> and the filter of \<open>db/types.go\<close>: the operations of
  the \<open>Repository\<close> interface on the tables. An operation that runs inside a transaction maps
  a database to a database or an error; \<open>RunInTx\<close> turns a sequence of them into one atomic
  step. A statement fails where PostgreSQL would refuse it (unique constraint, missing column,
  value out of range, no row to return); lost connections show up as a failing \<open>Begin\<close> or
  \<open>Commit\<close>.
\<close>

definition DefaultSubwallet :: uint32 where "DefaultSubwallet = 698983191"

definition ErrNoRows :: go_error where "ErrNoRows = Err ''no rows in result set''"

definition GetLastSubwalletID :: "database \<Rightarrow> uint32" where
  "GetLastSubwalletID d =
     (case sql_max (map tw_subwallet_id (ton_wallets d)) of None \<Rightarrow> DefaultSubwallet | Some m \<Rightarrow> m)"

definition SaveTonWallet :: "WalletData \<Rightarrow> database \<Rightarrow> database result" where
  "SaveTonWallet w d =
     ebind (insert_ton_wallet \<lparr>tw_user_id = wd_UserID w, tw_subwallet_id = wd_SubwalletID w,
              tw_type = wd_Type w, tw_address = wd_Address w\<rparr> (ton_wallets d))
       (\<lambda>t. Inr (d\<lparr>ton_wallets := t\<rparr>))"

definition GetJettonWallet :: "Address \<Rightarrow> database \<Rightarrow> WalletData option" where
  "GetJettonWallet a d =
     map_option (\<lambda>r. \<lparr>wd_SubwalletID = jt_subwallet_id r, wd_UserID = jt_user_id r,
                      wd_Currency = jt_currency r, wd_Type = jt_type r, wd_Address = a\<rparr>)
       (find (\<lambda>r. jt_address r = a) (jetton_wallets d))"

definition SaveJettonWallet :: "Address \<Rightarrow> WalletData \<Rightarrow> bool \<Rightarrow> database \<Rightarrow> database result" where
  "SaveJettonWallet ownerAddress w notSaveOwner d =
     ebind (if notSaveOwner then Inr (ton_wallets d)
            else insert_ton_wallet \<lparr>tw_user_id = wd_UserID w, tw_subwallet_id = wd_SubwalletID w,
                   tw_type = JettonOwner, tw_address = ownerAddress\<rparr> (ton_wallets d)) (\<lambda>tws.
     ebind (insert_jetton_wallet \<lparr>jt_user_id = wd_UserID w, jt_subwallet_id = wd_SubwalletID w,
              jt_currency = wd_Currency w, jt_type = wd_Type w, jt_address = wd_Address w\<rparr>
              (jetton_wallets d)) (\<lambda>jts.
     Inr (d\<lparr>ton_wallets := tws, jetton_wallets := jts\<rparr>)))"

text \<open>\<open>user\<close> is the text the driver sends for the numeric user id.\<close>

definition GetTonWalletsAddresses :: "string \<Rightarrow> WalletType list \<Rightarrow> database \<Rightarrow> Address list result" where
  "GetTonWalletsAddresses user types d =
     map_result (\<lambda>r. Scan (Value (tw_address r)))
       (filter (\<lambda>r. tw_user_id r = user \<and> tw_type r \<in> set types) (ton_wallets d))"

definition GetJettonOwnersAddresses :: "string \<Rightarrow> WalletType list \<Rightarrow> database \<Rightarrow> OwnerWallet list result" where
  "GetJettonOwnersAddresses user types d =
     map_result (\<lambda>(ow, cur). ebind (Scan ow) (\<lambda>a. Inr \<lparr>ow_Address = a, ow_Currency = cur\<rparr>))
       (concat (map (\<lambda>j. map (\<lambda>ow. (ow, jt_currency j)) (owner_rows (ton_wallets d) j))
          (filter (\<lambda>j. jt_user_id j = user \<and> jt_type j \<in> set types) (jetton_wallets d))))"

definition SaveExternalIncome :: "ExternalIncome \<Rightarrow> database \<Rightarrow> database result" where
  "SaveExternalIncome inc d =
     ebind (bigint (ei_Lt inc)) (\<lambda>lt.
     Inr (d\<lparr>external_incomes := external_incomes d @ [\<lparr>xi_lt = lt, xi_utime = unix_time (ei_Utime inc),
        xi_payer_workchain = ei_FromWorkchain inc, xi_deposit_address = ei_To inc,
        xi_payer_address = ei_From inc, xi_amount = ei_Amount inc, xi_comment = ei_Comment inc\<rparr>]\<rparr>))"

definition SaveInternalIncome :: "'c tonlib \<Rightarrow> InternalIncome \<Rightarrow> database \<Rightarrow> database result" where
  "SaveInternalIncome lib inc d =
     ebind (uuid_FromString lib (ii_Memo inc)) (\<lambda>memo.
     ebind (bigint (ii_Lt inc)) (\<lambda>lt.
     ebind (insert_internal_income \<lparr>ni_lt = lt, ni_utime = unix_time (ii_Utime inc),
              ni_deposit_address = ii_From inc, ni_amount = ii_Amount inc, ni_memo = memo\<rparr>
              (internal_incomes d)) (\<lambda>t.
     Inr (d\<lparr>internal_incomes := t\<rparr>))))"

definition SaveBlock :: "ShardBlockHeader \<Rightarrow> database \<Rightarrow> database result" where
  "SaveBlock block d =
     ebind (deref (sb_BlockIDExt block)) (\<lambda>b.
     ebind (insert_block \<lparr>bd_shard = bid_Shard b, bd_seqno = bid_SeqNo b,
              bd_gen_utime = unix_time (sb_GenUtime block), bd_root_hash = bid_RootHash b,
              bd_file_hash = bid_FileHash b\<rparr> (block_data d)) (\<lambda>t.
     Inr (d\<lparr>block_data := t\<rparr>)))"

text \<open>The error of the first query is not looked at: without a row, the withdrawal counts as
  not failed and not yet sent.\<close>

definition UpdateInternalWithdrawal :: "'c tonlib \<Rightarrow> InternalWithdrawal \<Rightarrow> database \<Rightarrow> database result" where
  "UpdateInternalWithdrawal lib w d =
     ebind (uuid_FromString lib (iw_Memo w)) (\<lambda>memo.
     let row = find (\<lambda>r. nw_memo r = memo) (internal_withdrawals d);
         alreadyFailed = (case row of None \<Rightarrow> False | Some r \<Rightarrow> nw_failed r);
         sendingLt = (case row of None \<Rightarrow> None | Some r \<Rightarrow> nw_sending_lt r)
     in if alreadyFailed then Inl (Err ''invalid behavior of the expiration processor'')
        else if sendingLt = None then Inl (Err ''invalid event order'')
        else if iw_IsFailed w
        then Inr (d\<lparr>internal_withdrawals :=
               update_where (\<lambda>r. nw_memo r = memo) (\<lambda>r. r\<lparr>nw_failed := True\<rparr>) (internal_withdrawals d)\<rparr>)
        else ebind (bigint (iw_Lt w)) (\<lambda>lt.
             Inr (d\<lparr>internal_withdrawals :=
               update_where (\<lambda>r. nw_memo r = memo)
                 (\<lambda>r. r\<lparr>nw_finish_lt := Some lt, nw_finished_at := Some (unix_time (iw_Utime w)),
                        nw_amount := nw_amount r + iw_Amount w\<rparr>) (internal_withdrawals d)\<rparr>)))"

definition ApplyJettonWithdrawalConfirmation :: "JettonWithdrawalConfirmation \<Rightarrow> database \<Rightarrow> database result" where
  "ApplyJettonWithdrawalConfirmation confirm d =
     ebind (bigint (jc_QueryId confirm)) (\<lambda>q.
     Inr (d\<lparr>external_withdrawals :=
       update_where (\<lambda>r. xw_query_id r = q \<and> xw_processed_lt r \<noteq> None) (\<lambda>r. r\<lparr>xw_confirmed := True\<rparr>)
         (external_withdrawals d)\<rparr>))"

definition set_processing :: "schema \<Rightarrow> int \<Rightarrow> bool \<Rightarrow> database \<Rightarrow> database result" where
  "set_processing sch q b d =
     ebind (need_column ''processing'' (has_processing sch)) (\<lambda>_.
     Inr (d\<lparr>withdrawal_requests :=
       update_where (\<lambda>r. rq_query_id r = q) (\<lambda>r. r\<lparr>rq_processing := b\<rparr>) (withdrawal_requests d)\<rparr>))"

definition set_processed :: "schema \<Rightarrow> int \<Rightarrow> database \<Rightarrow> database result" where
  "set_processed sch q d =
     ebind (need_column ''processed'' (has_processed sch)) (\<lambda>_.
     Inr (d\<lparr>withdrawal_requests :=
       update_where (\<lambda>r. rq_query_id r = q) (\<lambda>r. r\<lparr>rq_processed := True\<rparr>) (withdrawal_requests d)\<rparr>))"

text \<open>\<open>UPDATE external_withdrawals SET ... WHERE msg_uuid = $1 AND address = $2 RETURNING query_id\<close>:
  \<open>ErrNoRows\<close> when there is no such withdrawal.\<close>

definition update_external :: "UUID \<Rightarrow> Address \<Rightarrow> (external_withdrawal_row \<Rightarrow> external_withdrawal_row)
    \<Rightarrow> database \<Rightarrow> (int \<times> database) result" where
  "update_external u a f d =
     (case find (\<lambda>r. xw_key r = (u, a)) (external_withdrawals d) of
        None \<Rightarrow> Inl ErrNoRows
      | Some r \<Rightarrow> Inr (xw_query_id r, d\<lparr>external_withdrawals :=
           update_where (\<lambda>r. xw_key r = (u, a)) f (external_withdrawals d)\<rparr>))"

definition UpdateExternalWithdrawal :: "schema \<Rightarrow> ExternalWithdrawal \<Rightarrow> database \<Rightarrow> database result" where
  "UpdateExternalWithdrawal sch w d =
     (let alreadyFailed = (case find (\<lambda>r. xw_key r = (ew_ExtMsgUuid w, ew_To w)) (external_withdrawals d) of
                             None \<Rightarrow> False | Some r \<Rightarrow> xw_failed r)
      in if alreadyFailed then Inl (Err ''invalid behavior of the expiration processor'')
         else if ew_IsFailed w
         then ebind (update_external (ew_ExtMsgUuid w) (ew_To w) (\<lambda>r. r\<lparr>xw_failed := True\<rparr>) d)
                (\<lambda>(queryID, d). set_processing sch queryID False d)
         else ebind (bigint (ew_Lt w)) (\<lambda>lt.
              ebind (update_external (ew_ExtMsgUuid w) (ew_To w)
                       (\<lambda>r. r\<lparr>xw_processed_lt := Some lt, xw_processed_at := Some (unix_time (ew_Utime w))\<rparr>) d)
                (\<lambda>(queryID, d). set_processed sch queryID d)))"

definition ApplySendingConfirmations :: "'c tonlib \<Rightarrow> SendingConfirmation \<Rightarrow> database \<Rightarrow> database result" where
  "ApplySendingConfirmations lib w d =
     ebind (uuid_FromString lib (sc_Memo w)) (\<lambda>memo.
     ebind (bigint (sc_Lt w)) (\<lambda>lt.
     (case find (\<lambda>r. nw_memo r = memo) (internal_withdrawals d) of
        None \<Rightarrow> Inl ErrNoRows
      | Some r \<Rightarrow>
          if nw_failed r then Inl (Err ''invalid behavior of the expiration processor'')
          else Inr (d\<lparr>internal_withdrawals :=
                 update_where (\<lambda>r. nw_memo r = memo) (\<lambda>r. r\<lparr>nw_sending_lt := Some lt\<rparr>)
                   (internal_withdrawals d)\<rparr>))))"

definition GetTonHotWalletAddress :: "database \<Rightarrow> Address result" where
  "GetTonHotWalletAddress d =
     (case find (\<lambda>r. tw_type r = TonHotWallet) (ton_wallets d) of
        None \<Rightarrow> Inl ErrNotFound | Some r \<Rightarrow> Scan (Value (tw_address r)))"

text \<open>\<open>SELECT ... FROM block_data ORDER BY seqno DESC LIMIT 1\<close>.\<close>

definition last_block_row :: "database \<Rightarrow> block_data_row option" where
  "last_block_row d =
     (case sql_max (map bd_seqno (block_data d)) of
        None \<Rightarrow> None | Some s \<Rightarrow> find (\<lambda>r. bd_seqno r = s) (block_data d))"

text \<open>The destinations of the scan are fields of the embedded \<open>*ton.BlockIDExt\<close> of a zero
  \<open>ShardBlockHeader\<close>; taking their addresses dereferences the embedded pointer.\<close>

definition GetLastSavedBlock :: "database \<Rightarrow> ShardBlockHeader result" where
  "GetLastSavedBlock d =
     ebind (deref (sb_BlockIDExt zero_ShardBlockHeader)) (\<lambda>b.
     (case last_block_row d of
        None \<Rightarrow> Inl ErrNotFound
      | Some r \<Rightarrow> Inr (zero_ShardBlockHeader\<lparr>sb_BlockIDExt := Some (b\<lparr>bid_Workchain := DefaultWorkchain,
            bid_Shard := bd_shard r, bid_SeqNo := bd_seqno r, bid_RootHash := bd_root_hash r,
            bid_FileHash := bd_file_hash r\<rparr>),
            sb_GenUtime := of_int (bd_gen_utime r div second)\<rparr>)))"

definition expired :: "int \<Rightarrow> int option \<Rightarrow> bool" where
  "expired now t = (case t of None \<Rightarrow> False | Some e \<Rightarrow> e < now - AllowableBlockchainLagging)"

definition expire_internal :: "int \<Rightarrow> database \<Rightarrow> database" where
  "expire_internal now d = d\<lparr>internal_withdrawals :=
     update_where (\<lambda>r. expired now (nw_expired_at r) \<and> nw_sending_lt r = None \<and> \<not> nw_failed r)
       (\<lambda>r. r\<lparr>nw_failed := True\<rparr>) (internal_withdrawals d)\<rparr>"

definition expirable :: "int \<Rightarrow> external_withdrawal_row \<Rightarrow> bool" where
  "expirable now r \<longleftrightarrow> expired now (xw_expired_at r) \<and> xw_processed_lt r = None \<and> \<not> xw_failed r"

definition expire_external :: "schema \<Rightarrow> int \<Rightarrow> database \<Rightarrow> database result" where
  "expire_external sch now d =
     for_each (\<lambda>q. set_processing sch q False)
       (map xw_query_id (filter (expirable now) (external_withdrawals d)))
       (d\<lparr>external_withdrawals :=
          update_where (expirable now) (\<lambda>r. r\<lparr>xw_failed := True\<rparr>) (external_withdrawals d)\<rparr>)"

text \<open>The clock is read once for each of the two statements; the second runs in a transaction.\<close>

definition SetExpired :: "schema \<Rightarrow> go_error option \<Rightarrow> go_error option \<Rightarrow> int \<Rightarrow> int \<Rightarrow> database
    \<Rightarrow> database \<times> unit result" where
  "SetExpired sch beginErr commitErr now now' d =
     (let d1 = expire_internal now d in
      case beginErr of
        Some e \<Rightarrow> (d1, Inl e)
      | None \<Rightarrow>
          (case expire_external sch now' d1 of
             Inl e \<Rightarrow> (d1, Inl e)
           | Inr d2 \<Rightarrow> (case commitErr of None \<Rightarrow> (d2, Inr ()) | Some e \<Rightarrow> (d1, Inl e))))"

text \<open>The income queries. \<open>incomes\<close> gives the deposit address and amount of the joined table.\<close>

definition income_rows :: "string \<Rightarrow> (Address \<times> Coins) list \<Rightarrow> database
    \<Rightarrow> ((Address \<times> Address \<times> string option) \<times> Coins option) list" where
  "income_rows user incomes d =
     concat (map (\<lambda>tw.
       concat (map (\<lambda>jw.
         let deposit = (case jw of None \<Rightarrow> tw_address tw | Some j \<Rightarrow> jt_address j);
             k = (deposit, tw_address tw, map_option jt_currency jw);
             is = filter (\<lambda>(a, _). a = deposit) incomes
         in if is = [] then [(k, None)] else map (\<lambda>(_, m). (k, Some m)) is)
       (case filter (\<lambda>j. jt_subwallet_id j = tw_subwallet_id tw) (jetton_wallets d) of
          [] \<Rightarrow> [None] | js \<Rightarrow> map Some js)))
     (filter (\<lambda>tw. tw_user_id tw = user \<and> tw_type tw \<in> {TonDepositWallet, JettonOwner}) (ton_wallets d)))"

definition getIncome :: "string \<Rightarrow> (Address \<times> Coins) list \<Rightarrow> database \<Rightarrow> TotalIncome list" where
  "getIncome user incomes d =
     (let rows = income_rows user incomes d in
      map (\<lambda>(deposit, tw, cur).
        \<lparr>ti_Deposit = deposit,
         ti_Amount = sum_list (map (\<lambda>(k, m). case m of None \<Rightarrow> 0 | Some x \<Rightarrow> x)
                       (filter (\<lambda>(k, m). k = (deposit, tw, cur)) rows)),
         ti_Currency = (case cur of None \<Rightarrow> TonSymbol | Some c \<Rightarrow> c)\<rparr>)
        (remdups (map fst rows)))"

definition GetExternalIncome :: "string \<Rightarrow> database \<Rightarrow> TotalIncome list" where
  "GetExternalIncome user d =
     getIncome user (map (\<lambda>i. (xi_deposit_address i, xi_amount i)) (external_incomes d)) d"

definition GetInternalIncome :: "string \<Rightarrow> database \<Rightarrow> TotalIncome list" where
  "GetInternalIncome user d =
     getIncome user (map (\<lambda>i. (ni_deposit_address i, ni_amount i)) (internal_incomes d)) d"

text \<open>\<open>Limit\<close> and \<open>Offset\<close> compute on \<open>int\<close>; page numbers for which the product
  leaves 64 bits are outside the model.\<close>

record HistoryFilterQuery =
  hq_Page :: int
  hq_PerPage :: int
  hq_UserID :: string
  hq_Currency :: string

definition Limit :: "HistoryFilterQuery \<Rightarrow> int" where
  "Limit q = (if hq_PerPage q \<noteq> 0 then hq_PerPage q else 20)"

definition Offset :: "HistoryFilterQuery \<Rightarrow> int" where
  "Offset q = (let page = (if hq_Page q = 0 then 1 else hq_Page q) in Limit q * (page - 1))"

definition history_rows :: "HistoryFilterQuery \<Rightarrow> database \<Rightarrow> external_income_row list" where
  "history_rows q d =
     (if hq_Currency q = TonSymbol
      then concat (map (\<lambda>i. map (\<lambda>_. i)
             (filter (\<lambda>tw. tw_address tw = xi_deposit_address i \<and> tw_type tw = TonDepositWallet
                \<and> tw_user_id tw = hq_UserID q) (ton_wallets d))) (external_incomes d))
      else concat (map (\<lambda>i. map (\<lambda>_. i)
             (filter (\<lambda>jw. jt_address jw = xi_deposit_address i \<and> jt_type jw = JettonDepositWallet
                \<and> jt_user_id jw = hq_UserID q \<and> jt_currency jw = hq_Currency q)
                (jetton_wallets d))) (external_incomes d)))"

definition income_of_row :: "external_income_row \<Rightarrow> ExternalIncome" where
  "income_of_row r = \<lparr>ei_Utime = of_int (xi_utime r div second), ei_Lt = of_int (xi_lt r),
     ei_From = xi_payer_address r, ei_FromWorkchain = xi_payer_workchain r,
     ei_To = xi_deposit_address r, ei_Amount = xi_amount r, ei_Comment = xi_comment r\<rparr>"

definition GetIncomeHistory :: "HistoryFilterQuery \<Rightarrow> database \<Rightarrow> ExternalIncome list result" where
  "GetIncomeHistory q d =
     (if Limit q < 0 then Inl (Err ''LIMIT must not be negative'')
      else if Offset q < 0 then Inl (Err ''OFFSET must not be negative'')
      else Inr (map income_of_row
             (take (nat (Limit q)) (drop (nat (Offset q)) (sort_key (\<lambda>r. - xi_lt r) (history_rows q d))))))"

text \<open>\<open>db/tx.go\<close>: \<open>Commit\<close>'s error is dropped, so a failed commit also returns nil.\<close>

definition RunInTx :: "go_error option \<Rightarrow> go_error option \<Rightarrow> (database \<Rightarrow> database result)
    \<Rightarrow> database \<Rightarrow> database \<times> unit result" where
  "RunInTx beginErr commitErr f d =
     (case beginErr of
        Some e \<Rightarrow> (d, Inl e)
      | None \<Rightarrow>
          (case f d of
             Inl e \<Rightarrow> (d, Inl e)
           | Inr d' \<Rightarrow> (case commitErr of None \<Rightarrow> (d', Inr ()) | Some _ \<Rightarrow> (d, Inr ()))))"

text \<open>The groups of the income query, and the rows of one group.\<close>

definition wallet_groups :: "database \<Rightarrow> ton_wallet_row \<Rightarrow> (Address \<times> Address \<times> string option) list" where
  "wallet_groups d tw = map (\<lambda>jw. (case jw of None \<Rightarrow> tw_address tw | Some j \<Rightarrow> jt_address j, tw_address tw, map_option jt_currency jw))
       (case filter (\<lambda>j. jt_subwallet_id j = tw_subwallet_id tw) (jetton_wallets d) of
          [] \<Rightarrow> [None] | js \<Rightarrow> map Some js)"

definition deposit_groups :: "string \<Rightarrow> database \<Rightarrow> (Address \<times> Address \<times> string option) list" where
  "deposit_groups user d =
     concat (map (wallet_groups d)
     (filter (\<lambda>tw. tw_user_id tw = user \<and> tw_type tw \<in> {TonDepositWallet, JettonOwner}) (ton_wallets d)))"

definition group_rows :: "(Address \<times> Coins) list \<Rightarrow> Address \<times> Address \<times> string option
    \<Rightarrow> ((Address \<times> Address \<times> string option) \<times> Coins option) list" where
  "group_rows incomes k =
     (let is = filter (\<lambda>(a, _). a = fst k) incomes
      in if is = [] then [(k, None)] else map (\<lambda>(_, m). (k, Some m)) is)"

text \<open>An income for examples.\<close>

definition sample_ei :: ExternalIncome where
  "sample_ei = \<lparr>ei_Utime = 1700000000, ei_Lt = 40, ei_From = Some (sample_addr 9), ei_FromWorkchain = Some 0,
     ei_To = sample_addr 1, ei_Amount = 8, ei_Comment = ''hi''\<rparr>"

subsection \<open>The constraints of the schema are kept\<close>

lemma wf_SaveTonWallet: "wf_database d \<Longrightarrow> SaveTonWallet w d = Inr d' \<Longrightarrow> wf_database d'"
  by (auto simp: SaveTonWallet_def res_simps wf_database_def)

lemma wf_SaveJettonWallet:
  "wf_database d \<Longrightarrow> SaveJettonWallet ow w b d = Inr d' \<Longrightarrow> wf_database d'"
  by (auto simp: SaveJettonWallet_def res_simps wf_database_def split: if_splits)

interpretation SaveExternalIncome: kept_by wf_database "\<lambda>_. True" SaveExternalIncome
  by unfold_locales (auto simp: SaveExternalIncome_def res_simps wf_database_def)

interpretation SaveInternalIncome: kept_by wf_database "\<lambda>_. True" "SaveInternalIncome lib" for lib
  by unfold_locales (auto simp: SaveInternalIncome_def res_simps wf_database_def)

lemma wf_SaveBlock: "wf_database d \<Longrightarrow> SaveBlock b d = Inr d' \<Longrightarrow> wf_database d'"
  by (auto simp: SaveBlock_def res_simps wf_database_def)

lemma wf_update_internal_rows:
  assumes "wf_database d" and "\<And>r. P r \<Longrightarrow> nw_memo (f r) = nw_memo r"
  shows "wf_database (d\<lparr>internal_withdrawals := update_where P f (internal_withdrawals d)\<rparr>)"
  using assms by (simp add: wf_database_def map_update_where)

lemma UpdateInternalWithdrawal_Inr:
  assumes "UpdateInternalWithdrawal lib w d = Inr d'"
  obtains memo f where "uuid_FromString lib (iw_Memo w) = Inr memo"
    and "d' = d\<lparr>internal_withdrawals := update_where (\<lambda>r. nw_memo r = memo) f (internal_withdrawals d)\<rparr>"
    and "f = (\<lambda>r. r\<lparr>nw_failed := True\<rparr>) \<and> iw_IsFailed w
      \<or> f = (\<lambda>r. r\<lparr>nw_finish_lt := Some (uint (iw_Lt w)), nw_finished_at := Some (unix_time (iw_Utime w)),
                   nw_amount := nw_amount r + iw_Amount w\<rparr>) \<and> \<not> iw_IsFailed w"
    and "\<exists>r. find (\<lambda>r. nw_memo r = memo) (internal_withdrawals d) = Some r \<and> \<not> nw_failed r \<and> nw_sending_lt r \<noteq> None"
proof -
  from assms obtain memo where memo: "uuid_FromString lib (iw_Memo w) = Inr memo"
    by (auto simp: UpdateInternalWithdrawal_def ebind_Inr_iff)
  show thesis
  proof (cases "find (\<lambda>r. nw_memo r = memo) (internal_withdrawals d)")
    case None
    with assms memo show thesis by (simp add: UpdateInternalWithdrawal_def)
  next
    case (Some r)
    show thesis
    proof (cases "iw_IsFailed w")
      case True
      with assms memo Some show thesis
        by (intro that [of memo "\<lambda>r. r\<lparr>nw_failed := True\<rparr>"])
          (auto simp: UpdateInternalWithdrawal_def Let_def split: if_splits)
    next
      case False
      with assms memo Some show thesis
        by (intro that [of memo "\<lambda>r. r\<lparr>nw_finish_lt := Some (uint (iw_Lt w)),
             nw_finished_at := Some (unix_time (iw_Utime w)), nw_amount := nw_amount r + iw_Amount w\<rparr>"])
          (auto simp: UpdateInternalWithdrawal_def Let_def ebind_Inr_iff bigint_Inr_iff split: if_splits)
    qed
  qed
qed

interpretation UpdateInternalWithdrawal: kept_by wf_database "\<lambda>_. True" "UpdateInternalWithdrawal lib" for lib
proof
  fix d w d' assume "wf_database d" and "UpdateInternalWithdrawal lib w d = Inr d'"
  then show "wf_database d'"
    by (elim UpdateInternalWithdrawal_Inr) (auto intro!: wf_update_internal_rows)
qed

interpretation ApplySendingConfirmations: kept_by wf_database "\<lambda>_. True" "ApplySendingConfirmations lib" for lib
  by unfold_locales (auto simp: ApplySendingConfirmations_def res_simps wf_database_def map_update_where)

interpretation ApplyJettonWithdrawalConfirmation: kept_by wf_database "\<lambda>_. True" ApplyJettonWithdrawalConfirmation
  by unfold_locales (auto simp: ApplyJettonWithdrawalConfirmation_def res_simps wf_database_def map_update_where xw_key_def)

lemma wf_update_requests:
  assumes "wf_database d" and "\<And>r. P r \<Longrightarrow> rq_query_id (f r) = rq_query_id r" and "\<And>r. P r \<Longrightarrow> rq_key (f r) = rq_key r"
  shows "wf_database (d\<lparr>withdrawal_requests := update_where P f (withdrawal_requests d)\<rparr>)"
  using assms by (auto simp: wf_database_def map_update_where set_update_where)

lemma wf_update_external_rows:
  assumes "wf_database d" and "\<And>r. P r \<Longrightarrow> xw_key (f r) = xw_key r"
  shows "wf_database (d\<lparr>external_withdrawals := update_where P f (external_withdrawals d)\<rparr>)"
  using assms by (auto simp: wf_database_def map_update_where)

interpretation set_processing: kept_by wf_database "\<lambda>_. True" "\<lambda>q. set_processing sch q b" for sch b
  by unfold_locales (auto simp: set_processing_def res_simps rq_key_def intro!: wf_update_requests)

interpretation set_processed: kept_by wf_database "\<lambda>_. True" "\<lambda>q. set_processed sch q" for sch
  by unfold_locales (auto simp: set_processed_def res_simps rq_key_def intro!: wf_update_requests)

lemma UpdateExternalWithdrawal_Inr:
  assumes "UpdateExternalWithdrawal sch w d = Inr d'"
  obtains (failed) r where "ew_IsFailed w" and "r \<in> set (external_withdrawals d)" and "xw_key r = (ew_ExtMsgUuid w, ew_To w)"
      and "\<not> xw_failed r"
      and "d' = d\<lparr>external_withdrawals := update_where (\<lambda>r. xw_key r = (ew_ExtMsgUuid w, ew_To w))
              (\<lambda>r. r\<lparr>xw_failed := True\<rparr>) (external_withdrawals d),
            withdrawal_requests := update_where (\<lambda>q. rq_query_id q = xw_query_id r)
              (\<lambda>q. q\<lparr>rq_processing := False\<rparr>) (withdrawal_requests d)\<rparr>"
  | (paid) r where "\<not> ew_IsFailed w" and "r \<in> set (external_withdrawals d)" and "xw_key r = (ew_ExtMsgUuid w, ew_To w)"
      and "\<not> xw_failed r"
      and "d' = d\<lparr>external_withdrawals := update_where (\<lambda>r. xw_key r = (ew_ExtMsgUuid w, ew_To w))
              (\<lambda>r. r\<lparr>xw_processed_lt := Some (uint (ew_Lt w)), xw_processed_at := Some (unix_time (ew_Utime w))\<rparr>)
              (external_withdrawals d),
            withdrawal_requests := update_where (\<lambda>q. rq_query_id q = xw_query_id r)
              (\<lambda>q. q\<lparr>rq_processed := True\<rparr>) (withdrawal_requests d)\<rparr>"
proof (cases "find (\<lambda>r. xw_key r = (ew_ExtMsgUuid w, ew_To w)) (external_withdrawals d)")
  case None
  with assms show thesis
    by (auto simp: UpdateExternalWithdrawal_def Let_def update_external_def ebind_Inr_iff split: if_splits)
next
  case (Some r)
  note r = find_SomeD [OF Some]
  show thesis
  proof (cases "ew_IsFailed w")
    case True
    with assms Some r show thesis
      by (intro failed [of r]) (auto simp: UpdateExternalWithdrawal_def update_external_def set_processing_def
          ebind_Inr_iff need_column_Inr_iff split: if_splits)
  next
    case False
    with assms Some r show thesis
      by (intro paid [of r]) (auto simp: UpdateExternalWithdrawal_def update_external_def set_processed_def
          ebind_Inr_iff need_column_Inr_iff bigint_Inr_iff split: if_splits)
  qed
qed

interpretation UpdateExternalWithdrawal: kept_by wf_database "\<lambda>_. True" "UpdateExternalWithdrawal sch" for sch
proof
  fix d w d' assume wf: "wf_database d" and ok: "UpdateExternalWithdrawal sch w d = Inr d'"
  have *: "wf_database (d\<lparr>external_withdrawals := update_where P f (external_withdrawals d),
      withdrawal_requests := update_where Q g (withdrawal_requests d)\<rparr>)"
    if "\<And>r. xw_key (f r) = xw_key r" and "\<And>q. rq_query_id (g q) = rq_query_id q" and "\<And>q. rq_key (g q) = rq_key q" for P f Q g
    using wf_update_requests [OF wf_update_external_rows [OF wf, of P f], of Q g] that by simp
  from ok show "wf_database d'"
    by (cases rule: UpdateExternalWithdrawal_Inr) (auto intro!: * simp: xw_key_def rq_key_def)
qed

lemma wf_expire_internal: "wf_database d \<Longrightarrow> wf_database (expire_internal now d)"
  by (simp add: expire_internal_def wf_database_def map_update_where)

lemma wf_expire_external:
  assumes "wf_database d" and "expire_external sch now d = Inr d'"
  shows "wf_database d'"
  using assms(2) unfolding expire_external_def
  by (rule set_processing.for_each_kept [rotated 2]) (auto intro!: wf_update_external_rows assms(1) simp: xw_key_def)

lemma wf_SetExpired: "wf_database d \<Longrightarrow> wf_database (fst (SetExpired sch b c now now' d))"
  by (auto simp: SetExpired_def Let_def wf_expire_internal split: option.splits sum.splits
      intro: wf_expire_external [OF wf_expire_internal])

lemma wf_RunInTx:
  assumes "\<And>d'. f d = Inr d' \<Longrightarrow> wf_database d'" and "wf_database d"
  shows "wf_database (fst (RunInTx b c f d))"
  using assms by (auto simp: RunInTx_def split: option.splits sum.splits)

subsection \<open>Income totals\<close>

lemma income_rows_groups:
  "income_rows user incomes d = concat (map (group_rows incomes) (deposit_groups user d))"
  by (simp add: income_rows_def deposit_groups_def wallet_groups_def concat_map_concat_map group_rows_def comp_def Let_def)

lemma group_rows_key: "r \<in> set (group_rows incomes k) \<Longrightarrow> fst r = k"
  by (auto simp: group_rows_def Let_def split: if_splits)

lemma group_rows_sum:
  "sum_list (map (\<lambda>(k, m). case m of None \<Rightarrow> 0 | Some x \<Rightarrow> x) (group_rows incomes k)) =
   sum_list (map snd (filter (\<lambda>(a, _). a = fst k) incomes))"
  by (auto simp: group_rows_def Let_def comp_def case_prod_unfold)

lemma distinct_deposit_groups:
  assumes "wf_wallets d"
  shows "distinct (deposit_groups user d)"
  unfolding deposit_groups_def
proof (rule distinct_concat_keyed [where key = tw_address and tag = "\<lambda>(_, a, _). a"])
  show "distinct (map tw_address (filter (\<lambda>tw. tw_user_id tw = user \<and> tw_type tw \<in> {TonDepositWallet, JettonOwner}) (ton_wallets d)))"
    using assms by (intro distinct_map_filter) (simp add: wf_wallets_def)
next
  fix tw :: ton_wallet_row
  have "distinct (map jt_address (filter (\<lambda>j. jt_subwallet_id j = tw_subwallet_id tw) (jetton_wallets d)))"
    using assms by (intro distinct_map_filter) (simp add: wf_wallets_def)
  then show "distinct (wallet_groups d tw)"
    by (cases "filter (\<lambda>j. jt_subwallet_id j = tw_subwallet_id tw) (jetton_wallets d)")
      (auto simp: wallet_groups_def comp_def distinct_map inj_on_def)
qed (auto simp: wallet_groups_def)

lemma getIncome_groups:
  assumes "wf_wallets d"
  shows "getIncome user incomes d =
    map (\<lambda>(deposit, tw, cur). \<lparr>ti_Deposit = deposit,
           ti_Amount = sum_list (map snd (filter (\<lambda>(a, _). a = deposit) incomes)),
           ti_Currency = (case cur of None \<Rightarrow> TonSymbol | Some c \<Rightarrow> c)\<rparr>)
      (remdups (map fst (income_rows user incomes d)))"
proof -
  have "sum_list (map (\<lambda>(k, m). case m of None \<Rightarrow> 0 | Some x \<Rightarrow> x)
            (filter (\<lambda>(k', m). k' = k) (income_rows user incomes d))) =
        sum_list (map snd (filter (\<lambda>(a, _). a = fst k) incomes))"
    if "k \<in> set (map fst (income_rows user incomes d))" for k
  proof -
    have k: "k \<in> set (deposit_groups user d)"
      using that by (auto simp: income_rows_groups dest: group_rows_key)
    have "filter (\<lambda>(k', m). k' = k) (income_rows user incomes d) = group_rows incomes k"
      using filter_concat_key [where key = fst and g = "group_rows incomes", OF distinct_deposit_groups [OF assms] group_rows_key k]
      by (simp add: income_rows_groups case_prod_unfold)
    then show ?thesis by (simp add: group_rows_sum)
  qed
  note sums = this
  show ?thesis unfolding getIncome_def Let_def
  proof (rule map_cong [OF refl])
    fix k assume "k \<in> set (remdups (map fst (income_rows user incomes d)))"
    then show "(case k of (deposit, tw, cur) \<Rightarrow>
        \<lparr>ti_Deposit = deposit,
         ti_Amount = sum_list (map (\<lambda>(k, m). case m of None \<Rightarrow> 0 | Some x \<Rightarrow> x)
                       (filter (\<lambda>(k, m). k = (deposit, tw, cur)) (income_rows user incomes d))),
         ti_Currency = (case cur of None \<Rightarrow> TonSymbol | Some c \<Rightarrow> c)\<rparr>) =
      (case k of (deposit, tw, cur) \<Rightarrow> \<lparr>ti_Deposit = deposit,
           ti_Amount = sum_list (map snd (filter (\<lambda>(a, _). a = deposit) incomes)),
           ti_Currency = (case cur of None \<Rightarrow> TonSymbol | Some c \<Rightarrow> c)\<rparr>)"
      using sums [of k] by (auto split: prod.split)
  qed
qed

lemma map_fst_group_rows: "set (map fst (group_rows incomes k)) = {k}"
  by (auto simp: group_rows_def Let_def image_iff case_prod_unfold filter_empty_conv)

lemma getIncome_deposits:
  "set (map fst (income_rows user incomes d)) = set (deposit_groups user d)"
  using map_fst_group_rows [of incomes] by (auto simp: income_rows_groups image_UN)

lemma deposit_groups_addresses:
  "a \<in> fst ` set (deposit_groups user d) \<longleftrightarrow>
    (\<exists>tw \<in> set (ton_wallets d). tw_user_id tw = user \<and> tw_type tw \<in> {TonDepositWallet, JettonOwner} \<and>
      (a = tw_address tw \<and> tw_subwallet_id tw \<notin> jt_subwallet_id ` set (jetton_wallets d) \<or>
       (\<exists>j \<in> set (jetton_wallets d). jt_subwallet_id j = tw_subwallet_id tw \<and> a = jt_address j)))"
proof -
  have "a \<in> fst ` set (wallet_groups d tw) \<longleftrightarrow>
     a = tw_address tw \<and> tw_subwallet_id tw \<notin> jt_subwallet_id ` set (jetton_wallets d) \<or>
     (\<exists>j \<in> set (jetton_wallets d). jt_subwallet_id j = tw_subwallet_id tw \<and> a = jt_address j)" for tw
  proof (cases "filter (\<lambda>j. jt_subwallet_id j = tw_subwallet_id tw) (jetton_wallets d)")
    case Nil
    then show ?thesis by (auto simp: wallet_groups_def filter_empty_conv image_iff)
  next
    case (Cons j js)
    have "set (filter (\<lambda>j. jt_subwallet_id j = tw_subwallet_id tw) (jetton_wallets d)) = set (j # js)"
      by (simp only: Cons)
    then have eq: "{j' \<in> set (jetton_wallets d). jt_subwallet_id j' = tw_subwallet_id tw} = insert j (set js)"
      by simp
    then have "tw_subwallet_id tw \<in> jt_subwallet_id ` set (jetton_wallets d)" by force
    moreover have "(\<exists>j' \<in> set (jetton_wallets d). jt_subwallet_id j' = tw_subwallet_id tw \<and> a = jt_address j')
      \<longleftrightarrow> a \<in> jt_address ` insert j (set js)" unfolding eq [symmetric] by auto
    ultimately show ?thesis by (simp add: wallet_groups_def Cons image_image)
  qed
  note groups = this
  show ?thesis by (simp add: deposit_groups_def image_UN groups) blast
qed

subsection \<open>History\<close>

lemma unix_time_back [simp]: "(word_of_int (unix_time t div second) :: uint32) = t"
  by (simp add: unix_time_def second_def)

lemma GetIncomeHistory_page:
  assumes "hq_Page q = int p + 1" and "hq_PerPage q = int n" and "n > 0"
  shows "GetIncomeHistory q d =
    Inr (map income_of_row (take n (drop (n * p) (sort_key (\<lambda>r. - xi_lt r) (history_rows q d)))))"
proof -
  have "Limit q = int n" and "Offset q = int (n * p)"
    using assms by (simp_all add: Limit_def Offset_def Let_def)
  then show ?thesis by (simp add: GetIncomeHistory_def flip: of_nat_mult)
qed

lemma history_rows_page: "history_rows (q\<lparr>hq_Page := p\<rparr>) d = history_rows q d"
  by (simp add: history_rows_def)



text \<open>An external income that was saved reads back unchanged: the row \<open>SaveExternalIncome\<close>
  adds is turned by \<open>GetIncomeHistory\<close> into the income that was saved.\<close>

lemma income_round_trip:
  assumes "SaveExternalIncome inc d = Inr d'"
  shows "\<exists>r. external_incomes d' = external_incomes d @ [r] \<and> income_of_row r = inc"
  using assms by (auto simp: SaveExternalIncome_def res_simps income_of_row_def)



text \<open>\<open>GetLastSavedBlock\<close> scans the row into the fields of an embedded pointer that is nil.\<close>

lemma GetLastSavedBlock_panics: "\<exists>msg. GetLastSavedBlock d = Inl (Panic msg)"
  by (simp add: GetLastSavedBlock_def zero_ShardBlockHeader_def)

end
