(* ===== verification/WithdrawalRepository.thy ===== *)
theory WithdrawalRepository
  imports Repository
begin

text \<open>
  \<open>db/withdrawal-repository.go\<close>: the requests for withdrawals, the records of the messages
  sent for them, and the queries that pick what to do next. A query without \<open>ORDER BY\<close>
  returns rows in scan order, which a table's list stands for; \<open>LIMIT n\<close> is \<open>take n\<close>.
\<close>

definition GetExternalWithdrawalStatus :: "schema \<Rightarrow> int \<Rightarrow> database \<Rightarrow> string result" where
  "GetExternalWithdrawalStatus sch q d =
     ebind (need_column ''status'' (has_status sch)) (\<lambda>_.
     (case find (\<lambda>r. rq_query_id r = q \<and> \<not> rq_is_internal r) (withdrawal_requests d) of
        None \<Rightarrow> Inl ErrNotFound | Some r \<Rightarrow> Inr (rq_status r)))"

definition GetInternalWithdrawalStatus :: "schema \<Rightarrow> Address \<Rightarrow> string \<Rightarrow> database \<Rightarrow> string result" where
  "GetInternalWithdrawalStatus sch dest currency d =
     ebind (need_column ''status'' (has_status sch)) (\<lambda>_.
     (case find (\<lambda>r. rq_dest_address r = dest \<and> rq_currency r = currency \<and> rq_is_internal r)
             (withdrawal_requests d) of
        None \<Rightarrow> Inr [] | Some r \<Rightarrow> Inr (rq_status r)))"

definition createExternalWithdrawal :: "schema \<Rightarrow> UUID \<Rightarrow> int \<Rightarrow> ExternalWithdrawalTask \<Rightarrow> database \<Rightarrow> database result" where
  "createExternalWithdrawal sch u expiredAt t d =
     ebind (insert_external_withdrawal \<lparr>xw_msg_uuid = u, xw_query_id = et_QueryID t,
              xw_expired_at = Some expiredAt, xw_processed_at = None, xw_processed_lt = None,
              xw_confirmed = False, xw_failed = False, xw_address = et_Destination t\<rparr>
              (external_withdrawals d)) (\<lambda>x.
     set_processing sch (et_QueryID t) True (d\<lparr>external_withdrawals := x\<rparr>))"

text \<open>One transaction: an error rolls everything back.\<close>

definition CreateExternalWithdrawals :: "schema \<Rightarrow> ExternalWithdrawalTask list \<Rightarrow> UUID \<Rightarrow> int \<Rightarrow> database \<Rightarrow> database result" where
  "CreateExternalWithdrawals sch tasks u expiredAt d =
     for_each (createExternalWithdrawal sch u expiredAt) tasks d"

definition SaveInternalWithdrawalTask :: "InternalWithdrawalTask \<Rightarrow> int \<Rightarrow> UUID \<Rightarrow> database \<Rightarrow> database result" where
  "SaveInternalWithdrawalTask task expiredAt memo d =
     ebind (bigint (it_Lt task)) (\<lambda>lt.
     ebind (insert_internal_withdrawal \<lparr>nw_failed = False, nw_since_lt = lt, nw_sending_lt = None,
              nw_finish_lt = None, nw_finished_at = None, nw_expired_at = Some expiredAt,
              nw_amount = 0, nw_from_address = it_From task, nw_memo = memo\<rparr>
              (internal_withdrawals d)) (\<lambda>t.
     Inr (d\<lparr>internal_withdrawals := t\<rparr>)))"

text \<open>The sequence behind \<open>query_id\<close> moves on even when the insert fails; \<open>status\<close> is not
  among the inserted columns and takes its default, if the schema has one.\<close>

definition request_row :: "int \<Rightarrow> string \<Rightarrow> WithdrawalRequest \<Rightarrow> withdrawal_request_row" where
  "request_row q status w = \<lparr>rq_query_id = q, rq_bounceable = wr_Bounceable w, rq_status = status,
     rq_is_internal = wr_IsInternal w, rq_amount = wr_Amount w, rq_user_id = wr_UserID w,
     rq_user_query_id = wr_QueryID w, rq_currency = wr_Currency w,
     rq_dest_address = wr_Destination w, rq_comment = wr_Comment w,
     rq_processing = False, rq_processed = False\<rparr>"

definition default_status :: "schema \<Rightarrow> string result" where
  "default_status sch =
     (if has_status sch
      then (case status_default sch of
              None \<Rightarrow> Inl (Err ''null value in column status violates not-null constraint'')
            | Some s \<Rightarrow> Inr s)
      else Inr [])"

definition CreateWithdrawalRequest :: "schema \<Rightarrow> WithdrawalRequest \<Rightarrow> database \<Rightarrow> database \<times> int result" where
  "CreateWithdrawalRequest sch w d =
     (let q = next_query_id d; d' = d\<lparr>next_query_id := q + 1\<rparr> in
      case ebind (default_status sch) (\<lambda>s. insert_withdrawal_request (request_row q s w) (withdrawal_requests d)) of
        Inl e \<Rightarrow> (d', Inl e)
      | Inr t \<Rightarrow> (d'\<lparr>withdrawal_requests := t\<rparr>, Inr q))"

text \<open>\<open>bigint_in\<close> is PostgreSQL's reading of the text \<open>QueryID\<close> as a \<open>bigint\<close>.\<close>

definition UpdateWithdrawalRequest :: "(string \<Rightarrow> int result) \<Rightarrow> schema \<Rightarrow> WithdrawalRequest \<Rightarrow> database \<Rightarrow> database result" where
  "UpdateWithdrawalRequest bigint_in sch w d =
     ebind (need_column ''status'' (has_status sch)) (\<lambda>_.
     ebind (bigint_in (wr_QueryID w)) (\<lambda>q.
     Inr (d\<lparr>withdrawal_requests :=
       update_where (\<lambda>r. rq_query_id r = q) (\<lambda>r. r\<lparr>rq_status := wr_Status w\<rparr>) (withdrawal_requests d)\<rparr>)))"

text \<open>\<open>memo\<close> is the value of the column's default \<open>gen_random_uuid()\<close>.\<close>

definition CreateServiceWithdrawalRequest :: "UUID \<Rightarrow> ServiceWithdrawalRequest \<Rightarrow> database \<Rightarrow> database result" where
  "CreateServiceWithdrawalRequest memo w d =
     ebind (insert_service_withdrawal \<lparr>sv_memo = memo, sv_expired_at = None, sv_filled = False,
              sv_processed = False, sv_ton_amount = 0, sv_jetton_amount = 0,
              sv_from_address = sr_From w, sv_jetton_master = sr_JettonMaster w\<rparr>
              (service_withdrawal_requests d)) (\<lambda>t.
     Inr (d\<lparr>service_withdrawal_requests := t\<rparr>))"

definition UpdateServiceWithdrawalRequest :: "ServiceWithdrawalTask \<Rightarrow> Coins \<Rightarrow> int \<Rightarrow> bool \<Rightarrow> database \<Rightarrow> database" where
  "UpdateServiceWithdrawalRequest t tonAmount expiredAt filled d =
     d\<lparr>service_withdrawal_requests :=
       update_where (\<lambda>r. sv_memo r = st_Memo t)
         (\<lambda>r. r\<lparr>sv_ton_amount := tonAmount, sv_jetton_amount := st_JettonAmount t,
                sv_processed := \<not> filled, sv_expired_at := Some expiredAt, sv_filled := filled\<rparr>)
         (service_withdrawal_requests d)\<rparr>"

definition task_of_request :: "withdrawal_request_row \<Rightarrow> ExternalWithdrawalTask" where
  "task_of_request r = \<lparr>et_QueryID = rq_query_id r, et_Currency = rq_currency r,
     et_Amount = rq_amount r, et_Destination = rq_dest_address r,
     et_Bounceable = rq_bounceable r, et_Comment = rq_comment r\<rparr>"

definition GetExternalWithdrawalTasks :: "schema \<Rightarrow> nat \<Rightarrow> database \<Rightarrow> ExternalWithdrawalTask list result" where
  "GetExternalWithdrawalTasks sch limit d =
     ebind (need_column ''processing'' (has_processing sch)) (\<lambda>_.
     Inr (map task_of_request (take limit (distinct_on rq_dest_address
            (sort_key (\<lambda>r. (rq_dest_address r, rq_query_id r))
              (filter (\<lambda>r. \<not> rq_processing r) (withdrawal_requests d)))))))"

text \<open>Service requests joined with the TON wallet of their address.\<close>

definition service_rows :: "(service_withdrawal_row \<Rightarrow> ton_wallet_row \<Rightarrow> bool) \<Rightarrow> database
    \<Rightarrow> (service_withdrawal_row \<times> ton_wallet_row) list" where
  "service_rows P d =
     distinct_on (\<lambda>(s, _). sv_from_address s) (sort_key (\<lambda>(s, _). sv_from_address s)
       (concat (map (\<lambda>s. map (\<lambda>t. (s, t)) (filter (\<lambda>t. tw_address t = sv_from_address s \<and> P s t) (ton_wallets d)))
          (service_withdrawal_requests d))))"

definition GetServiceHotWithdrawalTasks :: "nat \<Rightarrow> database \<Rightarrow> ServiceWithdrawalTask list" where
  "GetServiceHotWithdrawalTasks limit d =
     map (\<lambda>(s, t). \<lparr>st_From = sv_from_address s, st_JettonMaster = sv_jetton_master s,
            st_JettonAmount = 0, st_Memo = sv_memo s, st_SubwalletID = tw_subwallet_id t\<rparr>)
       (take limit (service_rows
          (\<lambda>s t. \<not> sv_processed s \<and> tw_type t \<in> {JettonOwner, TonDepositWallet} \<and> \<not> sv_filled s) d))"

definition GetServiceDepositWithdrawalTasks :: "nat \<Rightarrow> database \<Rightarrow> ServiceWithdrawalTask list" where
  "GetServiceDepositWithdrawalTasks limit d =
     map (\<lambda>(s, t). \<lparr>st_From = sv_from_address s, st_JettonMaster = sv_jetton_master s,
            st_JettonAmount = sv_jetton_amount s, st_Memo = sv_memo s, st_SubwalletID = tw_subwallet_id t\<rparr>)
       (take limit (service_rows
          (\<lambda>s t. \<not> sv_processed s \<and> sv_filled s \<and> tw_type t = TonDepositWallet) d))"

text \<open>The subquery \<open>iw3\<close> of both internal queries: the withdrawals of an address whose
  \<open>since_lt\<close> is the greatest among the not failed ones, joined with an income; \<open>None\<close>
  stands for the \<open>NULL\<close> columns of the left join.\<close>

definition last_since :: "Address \<Rightarrow> database \<Rightarrow> int option" where
  "last_since a d =
     sql_max (map nw_since_lt
       (filter (\<lambda>r. nw_from_address r = a \<and> \<not> nw_failed r) (internal_withdrawals d)))"

definition last_withdrawals :: "Address \<Rightarrow> database \<Rightarrow> (int \<times> int option) option list" where
  "last_withdrawals a d =
     (case filter (\<lambda>r. nw_from_address r = a \<and> last_since a d = Some (nw_since_lt r)) (internal_withdrawals d) of
        [] \<Rightarrow> [None]
      | rs \<Rightarrow> map (\<lambda>r. Some (nw_since_lt r, nw_finish_lt r)) rs)"

definition ton_income_due :: "int \<Rightarrow> (int \<times> int option) option \<Rightarrow> bool" where
  "ton_income_due lt w = (case w of
       None \<Rightarrow> True | Some (since, None) \<Rightarrow> False | Some (since, Some fin) \<Rightarrow> lt > fin)"

definition jetton_income_due :: "int \<Rightarrow> (int \<times> int option) option \<Rightarrow> bool" where
  "jetton_income_due lt w = (case w of
       None \<Rightarrow> True | Some (since, None) \<Rightarrow> False | Some (since, Some fin) \<Rightarrow> lt > since)"

definition ton_due_rows :: "database \<Rightarrow> ((Address \<times> uint32) \<times> int) list" where
  "ton_due_rows d =
     concat (map (\<lambda>i. concat (map (\<lambda>w.
         map (\<lambda>tw. ((xi_deposit_address i, tw_subwallet_id tw), xi_lt i))
           (filter (\<lambda>tw. tw_address tw = xi_deposit_address i \<and> tw_type tw = TonDepositWallet)
              (ton_wallets d)))
       (filter (ton_income_due (xi_lt i)) (last_withdrawals (xi_deposit_address i) d))))
     (external_incomes d))"

definition max_lt :: "'k \<Rightarrow> ('k \<times> int) list \<Rightarrow> uint64" where
  "max_lt k rows = (case sql_max (map snd (filter (\<lambda>(k', _). k' = k) rows)) of None \<Rightarrow> 0 | Some m \<Rightarrow> of_int m)"

definition GetTonInternalWithdrawalTasks :: "nat \<Rightarrow> database \<Rightarrow> InternalWithdrawalTask list" where
  "GetTonInternalWithdrawalTasks limit d =
     (let rows = ton_due_rows d in
      map (\<lambda>(a, sub). \<lparr>it_From = a, it_SubwalletID = sub, it_Lt = max_lt (a, sub) rows, it_Currency = TonSymbol\<rparr>)
        (take limit (remdups (map fst rows))))"

text \<open>\<open>LEFT JOIN ton_wallets tw ON jw.subwallet_id = tw.subwallet_id\<close> and
  \<open>NOT tw.address = ANY($2)\<close>: a \<open>NULL\<close> address passes only against the empty array.\<close>

definition proxy_addresses :: "database \<Rightarrow> jetton_wallet_row \<Rightarrow> Address option list" where
  "proxy_addresses d jw =
     (case filter (\<lambda>tw. tw_subwallet_id tw = jt_subwallet_id jw) (ton_wallets d) of
        [] \<Rightarrow> [None] | tws \<Rightarrow> map (\<lambda>tw. Some (tw_address tw)) tws)"

definition not_any :: "Address list \<Rightarrow> Address option \<Rightarrow> bool" where
  "not_any forbidden a = (case a of None \<Rightarrow> forbidden = [] | Some x \<Rightarrow> x \<notin> set forbidden)"

definition jetton_due_rows :: "Address list \<Rightarrow> database \<Rightarrow> ((Address \<times> uint32 \<times> string) \<times> int) list" where
  "jetton_due_rows forbidden d =
     concat (map (\<lambda>i. concat (map (\<lambda>w.
         concat (map (\<lambda>jw.
           map (\<lambda>_. ((xi_deposit_address i, jt_subwallet_id jw, jt_currency jw), xi_lt i))
             (filter (not_any forbidden) (proxy_addresses d jw)))
           (filter (\<lambda>jw. jt_address jw = xi_deposit_address i \<and> jt_type jw = JettonDepositWallet)
              (jetton_wallets d))))
       (filter (jetton_income_due (xi_lt i)) (last_withdrawals (xi_deposit_address i) d))))
     (external_incomes d))"

definition GetJettonInternalWithdrawalTasks :: "Address list \<Rightarrow> nat \<Rightarrow> database \<Rightarrow> InternalWithdrawalTask list" where
  "GetJettonInternalWithdrawalTasks forbidden limit d =
     (let rows = jetton_due_rows forbidden d in
      map (\<lambda>(a, sub, cur). \<lparr>it_From = a, it_SubwalletID = sub, it_Lt = max_lt (a, sub, cur) rows, it_Currency = cur\<rparr>)
        (take limit (remdups (map fst rows))))"

text \<open>Logical time of the recorded sweeps and incomes: a finished sweep ended no earlier than the
  income it was started for and did not fail, and logical times of incomes are 63-bit.\<close>

definition sweeps_ordered :: "database \<Rightarrow> bool" where
  "sweeps_ordered d \<longleftrightarrow>
     (\<forall>r \<in> set (internal_withdrawals d). \<forall>fin. nw_finish_lt r = Some fin \<longrightarrow> nw_since_lt r \<le> fin \<and> \<not> nw_failed r) \<and>
     (\<forall>i \<in> set (external_incomes d). 0 \<le> xi_lt i \<and> xi_lt i < 2 ^ 63)"

text \<open>The row \<open>createExternalWithdrawal\<close> adds.\<close>

definition sent_row :: "UUID \<Rightarrow> int \<Rightarrow> ExternalWithdrawalTask \<Rightarrow> external_withdrawal_row" where
  "sent_row u expiredAt t = \<lparr>xw_msg_uuid = u, xw_query_id = et_QueryID t,
     xw_expired_at = Some expiredAt, xw_processed_at = None, xw_processed_lt = None,
     xw_confirmed = False, xw_failed = False, xw_address = et_Destination t\<rparr>"

text \<open>The sweep due in the sample store.\<close>

definition sample_sweep :: InternalWithdrawalTask where
  "sample_sweep = \<lparr>it_From = sample_addr 1, it_SubwalletID = 2, it_Lt = 30, it_Currency = TonSymbol\<rparr>"

subsection \<open>The constraints of the schema are kept\<close>

interpretation createExternalWithdrawal: kept_by wf_database "\<lambda>_. True" "createExternalWithdrawal sch u exp" for sch u exp
proof
  fix d t d' assume wf: "wf_database d" and "createExternalWithdrawal sch u exp t d = Inr d'"
  then obtain x r where x: "insert_external_withdrawal r (external_withdrawals d) = Inr x"
    and p: "set_processing sch (et_QueryID t) True (d\<lparr>external_withdrawals := x\<rparr>) = Inr d'"
    by (auto simp: createExternalWithdrawal_def ebind_Inr_iff)
  have "wf_database (d\<lparr>external_withdrawals := x\<rparr>)"
    using wf xw.distinct_insert [OF x] by (simp add: wf_database_def)
  then show "wf_database d'" using p by (auto intro: set_processing.kept)
qed

lemma wf_CreateExternalWithdrawals:
  "wf_database d \<Longrightarrow> CreateExternalWithdrawals sch ts u exp d = Inr d' \<Longrightarrow> wf_database d'"
  unfolding CreateExternalWithdrawals_def by (erule createExternalWithdrawal.for_each_kept) auto

lemma wf_SaveInternalWithdrawalTask:
  "wf_database d \<Longrightarrow> SaveInternalWithdrawalTask t exp memo d = Inr d' \<Longrightarrow> wf_database d'"
  by (auto simp: SaveInternalWithdrawalTask_def res_simps wf_database_def)

lemma wf_CreateWithdrawalRequest:
  "wf_database d \<Longrightarrow> wf_database (fst (CreateWithdrawalRequest sch w d))"
  by (auto simp: CreateWithdrawalRequest_def Let_def wf_database_def res_simps request_row_def
      split: sum.splits) (force intro: less_imp_le)+

lemma wf_UpdateWithdrawalRequest:
  "wf_database d \<Longrightarrow> UpdateWithdrawalRequest bi sch w d = Inr d' \<Longrightarrow> wf_database d'"
  by (auto simp: UpdateWithdrawalRequest_def res_simps rq_key_def intro!: wf_update_requests)

lemma wf_CreateServiceWithdrawalRequest:
  "wf_database d \<Longrightarrow> CreateServiceWithdrawalRequest memo w d = Inr d' \<Longrightarrow> wf_database d'"
  by (auto simp: CreateServiceWithdrawalRequest_def res_simps wf_database_def)

lemma wf_UpdateServiceWithdrawalRequest:
  "wf_database d \<Longrightarrow> wf_database (UpdateServiceWithdrawalRequest t a exp b d)"
  by (simp add: UpdateServiceWithdrawalRequest_def wf_database_def map_update_where)

subsection \<open>Choosing what to pay next\<close>

lemma external_tasks_rows:
  assumes "GetExternalWithdrawalTasks sch limit d = Inr ts"
  obtains rs where "ts = map task_of_request (take limit rs)"
    and "rs = distinct_on rq_dest_address (sort_key (\<lambda>r. (rq_dest_address r, rq_query_id r))
      (filter (\<lambda>r. \<not> rq_processing r) (withdrawal_requests d)))"
  using assms by (auto simp: GetExternalWithdrawalTasks_def res_simps)

lemma due_request_first:
  assumes "r \<in> set (distinct_on rq_dest_address (sort_key (\<lambda>r. (rq_dest_address r, rq_query_id r))
      (filter (\<lambda>r. \<not> rq_processing r) (withdrawal_requests d))))"
  shows "r \<in> set (withdrawal_requests d)" and "\<not> rq_processing r"
    and "r' \<in> set (withdrawal_requests d) \<Longrightarrow> \<not> rq_processing r' \<Longrightarrow>
      rq_dest_address r' = rq_dest_address r \<Longrightarrow> rq_query_id r \<le> rq_query_id r'"
proof -
  let ?k = "\<lambda>r. (rq_dest_address r, rq_query_id r)"
  let ?rs = "sort_key ?k (filter (\<lambda>r. \<not> rq_processing r) (withdrawal_requests d))"
  have "r \<in> set ?rs" using assms set_distinct_on [of rq_dest_address ?rs] by blast
  then show "r \<in> set (withdrawal_requests d)" and "\<not> rq_processing r" by auto
  have "sorted_wrt (\<lambda>a b. ?k a \<le> ?k b) ?rs" using sorted_sort_key [of ?k] by (simp add: sorted_map)
  from distinct_on_first [OF this _ assms] show "rq_query_id r \<le> rq_query_id r'"
    if "r' \<in> set (withdrawal_requests d)" "\<not> rq_processing r'" "rq_dest_address r' = rq_dest_address r"
    using that by auto
qed

lemma external_tasks_all:
  assumes "GetExternalWithdrawalTasks sch limit d = Inr ts" and "length ts < limit"
    and "r \<in> set (withdrawal_requests d)" and "\<not> rq_processing r"
  obtains r' where "r' \<in> set (withdrawal_requests d)" and "task_of_request r' \<in> set ts" and "rq_dest_address r' = rq_dest_address r"
    and "rq_query_id r' \<le> rq_query_id r"
proof -
  obtain rs where ts: "ts = map task_of_request (take limit rs)"
    and rs: "rs = distinct_on rq_dest_address (sort_key (\<lambda>r. (rq_dest_address r, rq_query_id r))
      (filter (\<lambda>r. \<not> rq_processing r) (withdrawal_requests d)))"
    by (rule external_tasks_rows [OF assms(1)])
  have all: "take limit rs = rs" using assms(2) by (simp add: ts)
  have "rq_dest_address ` set rs = rq_dest_address ` set (filter (\<lambda>r. \<not> rq_processing r) (withdrawal_requests d))"
    by (simp add: rs distinct_on_keys)
  with assms(3,4) obtain r' where r': "r' \<in> set rs" "rq_dest_address r' = rq_dest_address r" by force
  show thesis
    using r' ts all due_request_first [OF r'(1) [unfolded rs]] assms(3,4) by (intro that [of r']) auto
qed

text \<open>C18: the withdrawals picked for one message. \<open>GetExternalWithdrawalTasks\<close> returns at most
  \<open>limit\<close> requests that are not being processed, no two to the same destination, and of each
  destination the oldest request; when it returns fewer than \<open>limit\<close>, every destination with an
  open request is among them.\<close>

theorem external_tasks_select:
  assumes "GetExternalWithdrawalTasks sch limit d = Inr ts"
  shows "length ts \<le> limit \<and> distinct (map et_Destination ts)
    \<and> (\<forall>t \<in> set ts. \<exists>r \<in> set (withdrawal_requests d). t = task_of_request r \<and> \<not> rq_processing r
         \<and> (\<forall>r' \<in> set (withdrawal_requests d). \<not> rq_processing r' \<and> rq_dest_address r' = rq_dest_address r
              \<longrightarrow> rq_query_id r \<le> rq_query_id r'))
    \<and> (length ts < limit \<longrightarrow> (\<forall>r \<in> set (withdrawal_requests d). \<not> rq_processing r
         \<longrightarrow> rq_dest_address r \<in> et_Destination ` set ts))"
proof -
  obtain rs where ts: "ts = map task_of_request (take limit rs)"
    and rs: "rs = distinct_on rq_dest_address (sort_key (\<lambda>r. (rq_dest_address r, rq_query_id r))
      (filter (\<lambda>r. \<not> rq_processing r) (withdrawal_requests d)))"
    using assms by (rule external_tasks_rows)
  have dest: "map et_Destination ts = take limit (map rq_dest_address rs)"
    by (simp add: ts take_map comp_def task_of_request_def)
  have "distinct (map et_Destination ts)"
    unfolding dest rs by (intro distinct_take distinct_distinct_on)
  moreover have "\<exists>r \<in> set (withdrawal_requests d). t = task_of_request r \<and> \<not> rq_processing r
         \<and> (\<forall>r' \<in> set (withdrawal_requests d). \<not> rq_processing r' \<and> rq_dest_address r' = rq_dest_address r
              \<longrightarrow> rq_query_id r \<le> rq_query_id r')" if "t \<in> set ts" for t
  proof -
    from that obtain r where r: "r \<in> set rs" and t: "t = task_of_request r"
      by (auto simp: ts dest: in_set_takeD)
    with due_request_first [OF r [unfolded rs]] show ?thesis by blast
  qed
  moreover have "rq_dest_address r \<in> et_Destination ` set ts"
    if "length ts < limit" and "r \<in> set (withdrawal_requests d)" and "\<not> rq_processing r" for r
    by (rule external_tasks_all [OF assms that]) (metis ExternalWithdrawalTask.select_convs(4) image_eqI task_of_request_def)
  ultimately show ?thesis by (simp add: ts)
qed

theorem external_tasks_select_witness:
  "\<exists>ts. GetExternalWithdrawalTasks query_schema 2 sample_database = Inr ts
    \<and> length ts \<le> 2 \<and> distinct (map et_Destination ts)"
proof -
  have "\<exists>ts. GetExternalWithdrawalTasks query_schema 2 sample_database = Inr ts"
    by (simp add: GetExternalWithdrawalTasks_def query_schema_def)
  then show ?thesis using external_tasks_select by blast
qed

subsection \<open>Sweeping deposits\<close>

lemma ton_due_rowsD:
  assumes "((a, sub), lt) \<in> set (ton_due_rows d)"
  shows "\<exists>w \<in> set (last_withdrawals a d). ton_income_due lt w"
    and "\<exists>i \<in> set (external_incomes d). xi_lt i = lt"
  using assms by (auto simp: ton_due_rows_def)

lemma task_due_row:
  assumes "t \<in> set (GetTonInternalWithdrawalTasks limit d)"
  obtains lt where "((it_From t, it_SubwalletID t), lt) \<in> set (ton_due_rows d)" and "it_Lt t = of_int lt"
proof -
  let ?rows = "ton_due_rows d"
  from assms obtain a sub where t: "t = \<lparr>it_From = a, it_SubwalletID = sub, it_Lt = max_lt (a, sub) ?rows, it_Currency = TonSymbol\<rparr>"
    and k: "(a, sub) \<in> fst ` set ?rows"
    by (auto simp: GetTonInternalWithdrawalTasks_def Let_def dest!: in_set_takeD)
  let ?lts = "map snd (filter (\<lambda>(k', _). k' = (a, sub)) ?rows)"
  from k have "?lts \<noteq> []" by (force simp: filter_empty_conv)
  then obtain m where m: "sql_max ?lts = Some m" by (cases "sql_max ?lts") auto
  then have "m \<in> set ?lts" by (simp add: sql_max_Some_iff)
  with m show thesis by (intro that [of m]) (auto simp: t max_lt_def)
qed

lemma last_withdrawals_cases:
  assumes "w \<in> set (last_withdrawals a d)"
  obtains "w = None" and "last_since a d = None"
  | r where "r \<in> set (internal_withdrawals d)" and "nw_from_address r = a"
      and "last_since a d = Some (nw_since_lt r)" and "w = Some (nw_since_lt r, nw_finish_lt r)"
proof -
  let ?rs = "filter (\<lambda>r. nw_from_address r = a \<and> last_since a d = Some (nw_since_lt r)) (internal_withdrawals d)"
  show thesis
  proof (cases "?rs = []")
    case True
    then have "last_since a d = None"
      by (cases "last_since a d") (auto simp: filter_empty_conv last_since_def sql_max_Some_iff)
    with True assms show thesis by (auto simp: last_withdrawals_def intro: that(1))
  next
    case False
    then have "last_withdrawals a d = map (\<lambda>r. Some (nw_since_lt r, nw_finish_lt r)) ?rs"
      by (simp add: last_withdrawals_def split: list.split)
    with assms show thesis by (auto intro: that(2))
  qed
qed

lemma last_since_upper:
  assumes "last_since a d = Some m" and "r \<in> set (internal_withdrawals d)" and "nw_from_address r = a" and "\<not> nw_failed r"
  shows "nw_since_lt r \<le> m"
  using assms by (auto simp: last_since_def sql_max_Some_iff)

lemma last_since_None:
  "last_since a d = None \<longleftrightarrow> (\<forall>r \<in> set (internal_withdrawals d). nw_from_address r = a \<longrightarrow> nw_failed r)"
  by (auto simp: last_since_def filter_empty_conv)

lemma due_after_finished:
  assumes "w \<in> set (last_withdrawals a d)" and "ton_income_due lt w"
    and "r \<in> set (internal_withdrawals d)" and "nw_from_address r = a" and "\<not> nw_failed r"
  obtains r0 fin where "r0 \<in> set (internal_withdrawals d)" and "nw_from_address r0 = a"
    and "last_since a d = Some (nw_since_lt r0)" and "nw_finish_lt r0 = Some fin" and "fin < lt"
  using assms(1)
proof (cases rule: last_withdrawals_cases)
  case 1
  with assms show thesis by (auto simp: last_since_None)
next
  case (2 r0)
  with assms(2) show thesis by (auto simp: ton_income_due_def split: option.splits intro: that)
qed



lemma CreateExternalWithdrawals_Inr:
  assumes "CreateExternalWithdrawals sch ts u exp d = Inr d'"
  shows "d' = d\<lparr>external_withdrawals := external_withdrawals d @ map (sent_row u exp) ts,
      withdrawal_requests := update_where (\<lambda>r. rq_query_id r \<in> et_QueryID ` set ts) (\<lambda>r. r\<lparr>rq_processing := True\<rparr>)
        (withdrawal_requests d)\<rparr>"
  using assms unfolding CreateExternalWithdrawals_def
proof (induction ts arbitrary: d)
  case Nil
  then show ?case by (simp add: update_where_none)
next
  case (Cons t ts)
  then obtain d1 where d1: "createExternalWithdrawal sch u exp t d = Inr d1"
    and rest: "for_each (createExternalWithdrawal sch u exp) ts d1 = Inr d'" by (auto simp: ebind_Inr_iff)
  from d1 have "d1 = d\<lparr>external_withdrawals := external_withdrawals d @ [sent_row u exp t],
      withdrawal_requests := update_where (\<lambda>r. rq_query_id r = et_QueryID t) (\<lambda>r. r\<lparr>rq_processing := True\<rparr>)
        (withdrawal_requests d)\<rparr>"
    by (auto simp: createExternalWithdrawal_def set_processing_def res_simps sent_row_def)
  with Cons.IH [OF rest] show ?case by (simp add: update_where_twice)
qed

lemma external_tasks_distinct:
  "GetExternalWithdrawalTasks sch limit d = Inr ts \<Longrightarrow> distinct (map et_Destination ts)"
  by (elim external_tasks_rows)
    (auto simp: comp_def task_of_request_def take_map [symmetric] distinct_take distinct_distinct_on)

lemma external_tasks_open:
  assumes "GetExternalWithdrawalTasks sch limit d = Inr ts" and "t \<in> set ts"
  shows "\<exists>r \<in> set (withdrawal_requests d). t = task_of_request r \<and> \<not> rq_processing r"
proof -
  obtain rs where "ts = map task_of_request (take limit rs)"
    and rs: "rs = distinct_on rq_dest_address (sort_key (\<lambda>r. (rq_dest_address r, rq_query_id r))
      (filter (\<lambda>r. \<not> rq_processing r) (withdrawal_requests d)))"
    by (rule external_tasks_rows [OF assms(1)])
  with assms(2) obtain r where "r \<in> set rs" and "t = task_of_request r" by (auto dest: in_set_takeD)
  with due_request_first(1,2) rs show ?thesis by blast
qed

end
