(* ===== verification/BlockScanner.thy ===== *)
theory BlockScanner
  imports Messages WithdrawalRepository
begin

text \<open>
  \<open>core/block_scanner.go\<close>: how the transactions of one shard block become \<open>Events\<close>, how
  the events are published and how they are saved. Log and audit calls are left out, with the
  evaluation of their arguments. \<open>range\<close> over a Go map visits the keys in any order: the
  parameter \<open>rng\<close> is that order, and \<open>any_order\<close> is all that is known of it.
\<close>

record 'c transactions =
  tr_Address :: Address
  tr_WalletType :: WalletType
  tr_Transactions :: "'c Transaction list"

record incomeNotification =
  nf_Deposit :: string
  nf_Timestamp :: int
  nf_Amount :: string
  nf_Source :: string
  nf_Comment :: string

text \<open>The scanner and the interfaces it calls; \<open>bs_addressBook\<close> is \<open>None\<close> while the
  interface field is nil.\<close>

record ('c, 'w) BlockScanner =
  bs_addressBook :: "addressBook option"
  bs_GetTransactionIDsFromBlock :: "BlockIDExt \<Rightarrow> TransactionShortInfo list result"
  bs_GetTransactionFromBlock :: "BlockIDExt \<Rightarrow> TransactionShortInfo \<Rightarrow> 'c Transaction result"
  bs_GetJettonBalance :: "tonaddr \<Rightarrow> BlockIDExt option \<Rightarrow> int result"
  bs_notificators :: "(incomeNotification \<Rightarrow> 'w \<Rightarrow> 'w \<times> unit result) list"

definition NewBlockScanner :: "(BlockIDExt \<Rightarrow> TransactionShortInfo list result)
    \<Rightarrow> (BlockIDExt \<Rightarrow> TransactionShortInfo \<Rightarrow> 'c Transaction result)
    \<Rightarrow> (tonaddr \<Rightarrow> BlockIDExt option \<Rightarrow> int result)
    \<Rightarrow> (incomeNotification \<Rightarrow> 'w \<Rightarrow> 'w \<times> unit result) list \<Rightarrow> ('c, 'w) BlockScanner" where
  "NewBlockScanner ids tx bal notificators =
     \<lparr>bs_addressBook = None, bs_GetTransactionIDsFromBlock = ids, bs_GetTransactionFromBlock = tx,
      bs_GetJettonBalance = bal, bs_notificators = notificators\<rparr>"

definition anomalous :: go_error where "anomalous = Err ''anomalous behavior of the wallet''"

subsection \<open>Which transactions are looked at\<close>

definition append_tx :: "Address \<Rightarrow> 'c Transaction \<Rightarrow> (Address \<times> 'c Transaction list) list \<Rightarrow> (Address \<times> 'c Transaction list) list" where
  "append_tx a tx txMap =
     put_assoc a ((case map_of txMap a of None \<Rightarrow> [] | Some txs \<Rightarrow> txs) @ [tx]) txMap"

definition collect_tx :: "('c, 'w) BlockScanner \<Rightarrow> BlockIDExt \<Rightarrow> TransactionShortInfo
    \<Rightarrow> (Address \<times> 'c Transaction list) list \<Rightarrow> (Address \<times> 'c Transaction list) list result" where
  "collect_tx s blockID txid txMap =
     ebind (AddressFromBytes (ti_Account txid)) (\<lambda>a.
     ebind (deref (bs_addressBook s)) (\<lambda>ab.
     if GetWalletType ab a \<noteq> None
     then ebind (bs_GetTransactionFromBlock s blockID txid) (\<lambda>tx. Inr (append_tx a tx txMap))
     else Inr txMap))"

definition filterTXs :: "('c, 'w) BlockScanner \<Rightarrow> (Address list \<Rightarrow> Address list) \<Rightarrow> BlockIDExt
    \<Rightarrow> TransactionShortInfo list \<Rightarrow> 'c transactions list result" where
  "filterTXs s rng blockID ids =
     ebind (for_each (collect_tx s blockID) ids []) (\<lambda>txMap.
     map_result (\<lambda>a. ebind (deref (bs_addressBook s)) (\<lambda>ab.
         Inr \<lparr>tr_Address = a,
              tr_WalletType = (case GetWalletType ab a of None \<Rightarrow> TonHotWallet | Some t \<Rightarrow> t),
              tr_Transactions = (case map_of txMap a of None \<Rightarrow> [] | Some txs \<Rightarrow> txs)\<rparr>))
       (rng (map fst txMap)))"

definition isTxSuccessful :: "'c Transaction \<Rightarrow> bool" where
  "isTxSuccessful tx = (case tx_Description tx of
       TransactionDescriptionOrdinary \<Rightarrow> True
     | TransactionDescriptionTickTock \<Rightarrow> True
     | OtherDescription \<Rightarrow> True)"

subsection \<open>The hot wallet\<close>

definition failedWithdrawals :: "addressBook \<Rightarrow> Address list \<Rightarrow> Address list \<Rightarrow> UUID \<Rightarrow> ExternalWithdrawal list" where
  "failedWithdrawals ab inMap outMap u =
     map (\<lambda>i. \<lparr>ew_ExtMsgUuid = u, ew_Utime = 0, ew_Lt = 0, ew_To = i, ew_Amount = 0, ew_Comment = [],
                ew_IsFailed = True\<rparr>)
       (filter (\<lambda>i. i \<notin> set outMap \<and> GetWalletType ab i = None) inMap)"

definition processTonHotWalletProxyMsg :: "'c tonlib \<Rightarrow> addressBook \<Rightarrow> 'c InternalMessage \<Rightarrow> Events result" where
  "processTonHotWalletProxyMsg lib ab msg =
     ebind (deref (im_Body msg)) (\<lambda>body.
     ebind (wrap_err ''no internal payload to proxy contract'' (load_ref lib body)) (\<lambda>internalPayload.
     ebind (wrap_err ''can not decode payload message for proxy contract'' (load_message lib internalPayload)) (\<lambda>intMsg.
     if GetWalletTypeByTonutilsAddress ab (im_DstAddr intMsg) = Some JettonDepositWallet
     then ebind (wrap_err ''invalid jetton transfer message to deposit jetton wallet''
                   (DecodeJettonTransfer lib (Some intMsg))) (\<lambda>jettonTransfer.
          ebind (wrap_err ''invalid address in withdrawal message''
                   (AddressFromTonutilsAddress (jm_Destination jettonTransfer))) (\<lambda>a.
          Inr (no_events\<lparr>SendingConfirmations :=
                 [\<lparr>sc_Lt = im_CreatedLT msg, sc_From = a, sc_Memo = jm_Comment jettonTransfer\<rparr>]\<rparr>)))
     else Inr no_events)))"

text \<open>One iteration of the loop over the out messages, on \<open>(events, addrMapOut)\<close>.\<close>

definition hot_out_msg :: "'c tonlib \<Rightarrow> addressBook \<Rightarrow> UUID \<Rightarrow> 'c Message \<Rightarrow> Events \<times> Address list \<Rightarrow> (Events \<times> Address list) result" where
  "hot_out_msg lib ab u m = (\<lambda>(events, addrMapOut).
     case m of
       MsgInternal msg \<Rightarrow>
         ebind (wrap_err ''invalid address in withdrawal message'' (AddressFromTonutilsAddress (im_DstAddr msg))) (\<lambda>addr.
         case GetWalletTypeByTonutilsAddress ab (im_DstAddr msg) of
           Some JettonHotWallet \<Rightarrow>
             ebind (wrap_err ''invalid jetton transfer message to hot jetton wallet''
                      (DecodeJettonTransfer lib (Some msg))) (\<lambda>jettonTransfer.
             ebind (wrap_err ''invalid address in withdrawal message''
                      (AddressFromTonutilsAddress (jm_Destination jettonTransfer))) (\<lambda>a.
             Inr (Append events (no_events\<lparr>ExternalWithdrawals := [\<lparr>ew_ExtMsgUuid = u,
                    ew_Utime = im_CreatedAt msg, ew_Lt = im_CreatedLT msg, ew_To = a,
                    ew_Amount = jm_Amount jettonTransfer, ew_Comment = jm_Comment jettonTransfer,
                    ew_IsFailed = False\<rparr>]\<rparr>), a # addrMapOut)))
         | Some JettonOwner \<Rightarrow>
             ebind (wrap_err ''jetton withdrawal error'' (processTonHotWalletProxyMsg lib ab msg)) (\<lambda>e.
             Inr (Append events e, addr # addrMapOut))
         | None \<Rightarrow>
             Inr (Append events (no_events\<lparr>ExternalWithdrawals := [\<lparr>ew_ExtMsgUuid = u,
                    ew_Utime = im_CreatedAt msg, ew_Lt = im_CreatedLT msg, ew_To = addr,
                    ew_Amount = NewCoins (im_Amount msg), ew_Comment = message_comment lib msg,
                    ew_IsFailed = False\<rparr>]\<rparr>), addr # addrMapOut)
         | Some _ \<Rightarrow> Inr (events, addr # addrMapOut))
     | _ \<Rightarrow> Inl anomalous)"

definition processTonHotWalletExternalInMsg :: "'c tonlib \<Rightarrow> addressBook \<Rightarrow> (Address list \<Rightarrow> Address list)
    \<Rightarrow> 'c ExternalMessage \<Rightarrow> 'c Transaction \<Rightarrow> Events result" where
  "processTonHotWalletExternalInMsg lib ab rng inMsg tx =
     ebind (parseExternalMessage lib (Some inMsg)) (\<lambda>parsed.
     case parsed of
       None \<Rightarrow> Inl (Err ''not valid message'')
     | Some (u, addrMapIn) \<Rightarrow>
         ebind (tx_OutSlice tx) (\<lambda>messages.
         ebind (for_each (hot_out_msg lib ab u) messages (no_events, [])) (\<lambda>(events, addrMapOut).
         Inr (events\<lparr>ExternalWithdrawals :=
                ExternalWithdrawals events @ failedWithdrawals ab (rng addrMapIn) addrMapOut u\<rparr>))))"

definition processTonHotWalletInternalInMsg :: "'c tonlib \<Rightarrow> addressBook \<Rightarrow> 'c InternalMessage \<Rightarrow> 'c Transaction \<Rightarrow> Events result" where
  "processTonHotWalletInternalInMsg lib ab inMsg tx =
     ebind (AddressFromTonutilsAddress (im_SrcAddr inMsg)) (\<lambda>srcAddr.
     ebind (AddressFromTonutilsAddress (im_DstAddr inMsg)) (\<lambda>dstAddr.
     case GetWalletType ab srcAddr of
       None \<Rightarrow>
         (case decodeJettonExcesses lib (Some inMsg) of
            Inr queryID \<Rightarrow> Inr (no_events\<lparr>WithdrawalConfirmations := [\<lparr>jc_QueryId = queryID\<rparr>]\<rparr>)
          | Inl _ \<Rightarrow> Inr no_events)
     | Some TonDepositWallet \<Rightarrow>
         Inr (no_events\<lparr>InternalIncomes := [\<lparr>ii_Utime = im_CreatedAt inMsg, ii_Lt = im_CreatedLT inMsg,
            ii_From = srcAddr, ii_To = dstAddr, ii_Amount = NewCoins (im_Amount inMsg),
            ii_Memo = message_comment lib inMsg, ii_IsFailed = \<not> isTxSuccessful tx\<rparr>]\<rparr>)
     | Some JettonHotWallet \<Rightarrow>
         (case decodeJettonTransferNotification lib (Some inMsg) of
            Inr income \<Rightarrow>
              ebind (AddressFromTonutilsAddress (jn_Sender income)) (\<lambda>sender.
              if GetWalletType ab sender \<noteq> Some JettonOwner then Inr no_events
              else Inr (no_events\<lparr>InternalIncomes := [\<lparr>ii_Utime = im_CreatedAt inMsg,
                     ii_Lt = im_CreatedLT inMsg, ii_From = sender, ii_To = srcAddr,
                     ii_Amount = jn_Amount income, ii_Memo = jn_Comment income, ii_IsFailed = False\<rparr>]\<rparr>))
          | Inl _ \<Rightarrow> Inr no_events)
     | Some _ \<Rightarrow> Inr no_events))"

definition hot_wallet_tx :: "'c tonlib \<Rightarrow> addressBook \<Rightarrow> (Address list \<Rightarrow> Address list) \<Rightarrow> 'c Transaction \<Rightarrow> Events \<Rightarrow> Events result" where
  "hot_wallet_tx lib ab rng tx events = (case tx_In tx of
       None \<Rightarrow> Inl anomalous
     | Some (MsgExternalIn m) \<Rightarrow>
         ebind (processTonHotWalletExternalInMsg lib ab rng m tx) (\<lambda>e. Inr (Append events e))
     | Some (MsgInternal m) \<Rightarrow>
         ebind (processTonHotWalletInternalInMsg lib ab m tx) (\<lambda>e. Inr (Append events e))
     | Some MsgExternalOut \<Rightarrow> Inl anomalous)"

definition processTonHotWalletTXs :: "'c tonlib \<Rightarrow> addressBook \<Rightarrow> (Address list \<Rightarrow> Address list) \<Rightarrow> 'c transactions \<Rightarrow> Events result" where
  "processTonHotWalletTXs lib ab rng txs =
     for_each (hot_wallet_tx lib ab rng) (tr_Transactions txs) no_events"

subsection \<open>TON deposits\<close>

definition deposit_out_msg :: "'c tonlib \<Rightarrow> addressBook \<Rightarrow> Address \<Rightarrow> 'c Message \<Rightarrow> Events \<Rightarrow> Events result" where
  "deposit_out_msg lib ab dstAddr m events = (case m of
       MsgInternal msg \<Rightarrow>
         if GetWalletTypeByTonutilsAddress ab (im_DstAddr msg) \<noteq> Some TonHotWallet then Inr events
         else Inr (Append events (no_events\<lparr>
             SendingConfirmations := [\<lparr>sc_Lt = im_CreatedLT msg, sc_From = dstAddr,
               sc_Memo = message_comment lib msg\<rparr>],
             InternalWithdrawals := [\<lparr>iw_Utime = im_CreatedAt msg, iw_Lt = im_CreatedLT msg,
               iw_From = dstAddr, iw_Amount = NewCoins (im_Amount msg),
               iw_Memo = message_comment lib msg, iw_IsFailed = False\<rparr>]\<rparr>))
     | _ \<Rightarrow> Inl anomalous)"

definition processTonDepositWalletExternalInMsg :: "'c tonlib \<Rightarrow> addressBook \<Rightarrow> 'c ExternalMessage \<Rightarrow> 'c Transaction \<Rightarrow> Events result" where
  "processTonDepositWalletExternalInMsg lib ab inMsg tx =
     ebind (AddressFromTonutilsAddress (em_DstAddr inMsg)) (\<lambda>dstAddr.
     ebind (tx_OutSlice tx) (\<lambda>messages.
     for_each (deposit_out_msg lib ab dstAddr) messages no_events))"

definition processTonDepositWalletInternalInMsg :: "'c tonlib \<Rightarrow> addressBook \<Rightarrow> 'c InternalMessage \<Rightarrow> Events result" where
  "processTonDepositWalletInternalInMsg lib ab inMsg =
     ebind (AddressFromTonutilsAddress (im_DstAddr inMsg)) (\<lambda>dstAddr.
     ebind (deref (im_SrcAddr inMsg)) (\<lambda>src.
     ebind (if ta_type src = StdAddress
            then ebind (AddressFromTonutilsAddress (Some src)) (\<lambda>a.
                 Inr (a, Some (ta_workchain src), GetWalletType ab a \<noteq> None))
            else Inr (zero_address, None, False)) (\<lambda>(from, fromWorkchain, isKnownSender).
     if isKnownSender then Inr no_events
     else Inr (no_events\<lparr>ExternalIncomes := [\<lparr>ei_Utime = im_CreatedAt inMsg, ei_Lt = im_CreatedLT inMsg,
            ei_From = Some (ToBytes from), ei_FromWorkchain = fromWorkchain, ei_To = dstAddr,
            ei_Amount = NewCoins (im_Amount inMsg), ei_Comment = message_comment lib inMsg\<rparr>]\<rparr>))))"

definition ton_deposit_tx :: "'c tonlib \<Rightarrow> addressBook \<Rightarrow> 'c Transaction \<Rightarrow> Events \<Rightarrow> Events result" where
  "ton_deposit_tx lib ab tx events = (case tx_In tx of
       None \<Rightarrow> Inl anomalous
     | Some m \<Rightarrow>
         if \<not> isTxSuccessful tx then Inr events
         else (case m of
             MsgExternalIn x \<Rightarrow>
               ebind (processTonDepositWalletExternalInMsg lib ab x tx) (\<lambda>e. Inr (Append events e))
           | MsgInternal i \<Rightarrow>
               ebind (tx_OutCount tx) (\<lambda>n.
               if n \<noteq> 0 then Inl anomalous
               else ebind (processTonDepositWalletInternalInMsg lib ab i) (\<lambda>e. Inr (Append events e)))
           | MsgExternalOut \<Rightarrow> Inl anomalous))"

definition processTonDepositWalletTXs :: "'c tonlib \<Rightarrow> addressBook \<Rightarrow> 'c transactions \<Rightarrow> Events result" where
  "processTonDepositWalletTXs lib ab txs =
     for_each (ton_deposit_tx lib ab) (tr_Transactions txs) no_events"

subsection \<open>Jetton deposits\<close>

text \<open>One iteration over the out messages, on \<open>(events, knownIncomeAmount, unknownMsgFound)\<close>.\<close>

definition notify_source :: "tonaddr option \<Rightarrow> byte list option \<times> int32 option" where
  "notify_source sender = (case sender of
       Some a \<Rightarrow> if ta_type a = StdAddress \<or> ta_type a = VarAddress
                 then (Some (ta_data a), Some (ta_workchain a)) else (None, None)
     | None \<Rightarrow> (None, None))"

definition jetton_out_msg :: "'c tonlib \<Rightarrow> addressBook \<Rightarrow> 'c Message \<Rightarrow> Events \<times> int \<times> bool \<Rightarrow> (Events \<times> int \<times> bool) result" where
  "jetton_out_msg lib ab m = (\<lambda>(events, knownIncomeAmount, unknownMsgFound).
     case m of
       MsgInternal outMsg \<Rightarrow>
         ebind (AddressFromTonutilsAddress (im_SrcAddr outMsg)) (\<lambda>srcAddr.
         case decodeJettonTransferNotification lib (Some outMsg) of
           Inl _ \<Rightarrow> Inr (events, knownIncomeAmount, True)
         | Inr notify \<Rightarrow>
             if GetWalletTypeByTonutilsAddress ab (jn_Sender notify) \<noteq> None
             then Inr (events, knownIncomeAmount, unknownMsgFound)
             else
               ebind (AddressFromTonutilsAddress (im_DstAddr outMsg)) (\<lambda>dstAddr.
               ebind (GetOwner ab srcAddr) (\<lambda>owner.
               case owner of
                 None \<Rightarrow> Inl (Err ''no owner for Jetton deposit in addressbook'')
               | Some ow \<Rightarrow>
                   if dstAddr \<noteq> ow then Inr (events, knownIncomeAmount, True)
                   else (case notify_source (jn_Sender notify) of (from, fromWorkchain) \<Rightarrow>
                     Inr (Append events (no_events\<lparr>ExternalIncomes := [\<lparr>ei_Utime = im_CreatedAt outMsg,
                            ei_Lt = im_CreatedLT outMsg, ei_From = from, ei_FromWorkchain = fromWorkchain,
                            ei_To = srcAddr, ei_Amount = jn_Amount notify, ei_Comment = jn_Comment notify\<rparr>]\<rparr>),
                          knownIncomeAmount + jn_Amount notify, unknownMsgFound)))))
     | _ \<Rightarrow> Inr (events, knownIncomeAmount, True))"

definition processJettonDepositOutMsgs :: "'c tonlib \<Rightarrow> addressBook \<Rightarrow> 'c Transaction \<Rightarrow> (Events \<times> int \<times> bool) result" where
  "processJettonDepositOutMsgs lib ab tx =
     ebind (tx_OutSlice tx) (\<lambda>messages.
     for_each (jetton_out_msg lib ab) messages (no_events, 0, False))"

definition processJettonDepositInMsg :: "'c tonlib \<Rightarrow> addressBook \<Rightarrow> 'c Transaction \<Rightarrow> (Events \<times> int \<times> bool) result" where
  "processJettonDepositInMsg lib ab tx = (case tx_In tx of
       Some (MsgInternal inMsg) \<Rightarrow>
         ebind (AddressFromTonutilsAddress (im_DstAddr inMsg)) (\<lambda>dstAddr.
         case DecodeJettonTransfer lib (Some inMsg) of
           Inl _ \<Rightarrow> Inr (no_events, 0, True)
         | Inr transfer \<Rightarrow>
             let iw = \<lparr>iw_Utime = im_CreatedAt inMsg, iw_Lt = im_CreatedLT inMsg, iw_From = dstAddr,
                   iw_Amount = jm_Amount transfer, iw_Memo = jm_Comment transfer, iw_IsFailed = False\<rparr>
             in if \<not> isTxSuccessful tx
                then Inr (no_events\<lparr>InternalWithdrawals := [iw\<lparr>iw_IsFailed := True\<rparr>]\<rparr>, 0, False)
                else
                  ebind (tx_OutCount tx) (\<lambda>n.
                  if n < 1 then Inl anomalous
                  else if GetWalletTypeByTonutilsAddress ab (jm_Destination transfer) \<noteq> Some TonHotWallet
                  then Inr (no_events, jm_Amount transfer, False)
                  else Inr (no_events\<lparr>InternalWithdrawals := [iw]\<rparr>, jm_Amount transfer, False)))
     | _ \<Rightarrow> Inr (no_events, 0, True))"

definition calculateJettonAmounts :: "'c tonlib \<Rightarrow> (tonaddr \<Rightarrow> BlockIDExt option \<Rightarrow> int result) \<Rightarrow> Address
    \<Rightarrow> BlockIDExt option \<Rightarrow> BlockIDExt option \<Rightarrow> int \<Rightarrow> int \<Rightarrow> int result" where
  "calculateJettonAmounts lib GetJettonBalance address prevBlockID blockID knownIncomeAmount totalWithdrawalsAmount =
     ebind (GetJettonBalance (ToTonutilsAddressStd lib 0 address) prevBlockID) (\<lambda>prevBalance.
     ebind (GetJettonBalance (ToTonutilsAddressStd lib 0 address) blockID) (\<lambda>currentBalance.
     let diff = currentBalance - prevBalance;
         totalIncomeAmount = diff + totalWithdrawalsAmount
     in Inr (totalIncomeAmount - knownIncomeAmount)))"

definition unknown_income :: "Address \<Rightarrow> int \<Rightarrow> 'c Transaction \<Rightarrow> ExternalIncome" where
  "unknown_income addr amount tx = \<lparr>ei_Utime = tx_Now tx, ei_Lt = tx_LT tx, ei_From = None,
     ei_FromWorkchain = None, ei_To = addr, ei_Amount = amount, ei_Comment = []\<rparr>"

definition convertUnknownJettonTxs :: "'c Transaction list \<Rightarrow> Address \<Rightarrow> int \<Rightarrow> ExternalIncome list" where
  "convertUnknownJettonTxs txs addr amount =
     map (unknown_income addr ZeroCoins) txs
     @ (case txs of [] \<Rightarrow> [] | tx # _ \<Rightarrow> [unknown_income addr (NewCoins amount) tx])"

text \<open>One iteration over the transactions, on \<open>(events, knownIncomeAmount,
  totalWithdrawalsAmount, unknownTransactions)\<close>.\<close>

definition jetton_deposit_tx :: "'c tonlib \<Rightarrow> addressBook \<Rightarrow> 'c Transaction
    \<Rightarrow> Events \<times> int \<times> int \<times> 'c Transaction list \<Rightarrow> (Events \<times> int \<times> int \<times> 'c Transaction list) result" where
  "jetton_deposit_tx lib ab tx = (\<lambda>(events, known, withdrawn, unknown).
     ebind (processJettonDepositOutMsgs lib ab tx) (\<lambda>(e, knownAmount, outUnknownFound).
     ebind (processJettonDepositInMsg lib ab tx) (\<lambda>(e', totalAmount, inUnknownFound).
     Inr (Append (Append events e) e', known + knownAmount, withdrawn + totalAmount,
          if outUnknownFound \<or> inUnknownFound then unknown @ [tx] else unknown))))"

definition processJettonDepositWalletTXs :: "'c tonlib \<Rightarrow> addressBook \<Rightarrow> (tonaddr \<Rightarrow> BlockIDExt option \<Rightarrow> int result)
    \<Rightarrow> 'c transactions \<Rightarrow> BlockIDExt option \<Rightarrow> BlockIDExt option \<Rightarrow> Events result" where
  "processJettonDepositWalletTXs lib ab GetJettonBalance txs blockID prevBlockID =
     ebind (for_each (jetton_deposit_tx lib ab) (tr_Transactions txs) (no_events, 0, 0, []))
       (\<lambda>(events, known, withdrawn, unknown).
     ebind (calculateJettonAmounts lib GetJettonBalance (tr_Address txs) prevBlockID blockID known withdrawn)
       (\<lambda>unknownIncomeAmount.
     if unknownIncomeAmount > 0
     then Inr (events\<lparr>ExternalIncomes := ExternalIncomes events
            @ convertUnknownJettonTxs unknown (tr_Address txs) unknownIncomeAmount\<rparr>)
     else Inr events))"

subsection \<open>A block\<close>

definition account_txs :: "'c tonlib \<Rightarrow> (Address list \<Rightarrow> Address list) \<Rightarrow> ('c, 'w) BlockScanner
    \<Rightarrow> ShardBlockHeader \<Rightarrow> 'c transactions \<Rightarrow> Events result" where
  "account_txs lib rng s block t =
     ebind (deref (bs_addressBook s)) (\<lambda>ab.
     case tr_WalletType t of
       TonHotWallet \<Rightarrow> processTonHotWalletTXs lib ab rng t
     | TonDepositWallet \<Rightarrow> processTonDepositWalletTXs lib ab t
     | JettonDepositWallet \<Rightarrow>
         processJettonDepositWalletTXs lib ab (bs_GetJettonBalance s) t (sb_BlockIDExt block) (sb_Parent block)
     | _ \<Rightarrow> Inr no_events)"

definition processTXs :: "'c tonlib \<Rightarrow> (Address list \<Rightarrow> Address list) \<Rightarrow> ('c, 'w) BlockScanner
    \<Rightarrow> 'c transactions list \<Rightarrow> ShardBlockHeader \<Rightarrow> BlockEvents result" where
  "processTXs lib rng s txs block =
     ebind (for_each (\<lambda>t events. ebind (account_txs lib rng s block t) (\<lambda>e. Inr (Append events e))) txs no_events)
       (\<lambda>events. Inr \<lparr>be_Events = events, be_Block = block\<rparr>)"

text \<open>The notification of one income; the sender is shown only if it is a std address.\<close>

definition income_notification :: "'c tonlib \<Rightarrow> config \<Rightarrow> Address option \<Rightarrow> Address \<Rightarrow> Coins \<Rightarrow> uint32
    \<Rightarrow> byte list option \<Rightarrow> int32 option \<Rightarrow> string \<Rightarrow> incomeNotification" where
  "income_notification lib cfg owner addr amount timestamp from fromWorkchain comment =
     (let addr' = (case owner of None \<Rightarrow> addr | Some ow \<Rightarrow> ow);
          source = (case (from, fromWorkchain) of
              (Some b, Some wc) \<Rightarrow>
                if length b = 32
                then addr_string lib ((new_address lib 0 (ucast wc) b)\<lparr>ta_testnet := cfg_Testnet cfg\<rparr>)
                else []
            | _ \<Rightarrow> [])
      in \<lparr>nf_Deposit = ToUserFormat lib cfg addr', nf_Timestamp = uint timestamp,
           nf_Amount = coins_String lib amount, nf_Source = source, nf_Comment = comment\<rparr>)"

definition pushNotification :: "'c tonlib \<Rightarrow> config \<Rightarrow> ('c, 'w) BlockScanner \<Rightarrow> Address \<Rightarrow> Coins \<Rightarrow> uint32
    \<Rightarrow> byte list option \<Rightarrow> int32 option \<Rightarrow> string \<Rightarrow> 'w \<Rightarrow> 'w \<times> unit result" where
  "pushNotification lib cfg s addr amount timestamp from fromWorkchain comment w =
     (case ebind (deref (bs_addressBook s)) (\<lambda>ab. GetOwner ab addr) of
        Inl e \<Rightarrow> (w, Inl e)
      | Inr owner \<Rightarrow>
          let notification = income_notification lib cfg owner addr amount timestamp from fromWorkchain comment
          in for_each_io (\<lambda>n. n notification) (bs_notificators s) w)"

definition pushNotifications :: "'c tonlib \<Rightarrow> config \<Rightarrow> ('c, 'w) BlockScanner \<Rightarrow> BlockEvents \<Rightarrow> 'w \<Rightarrow> 'w \<times> unit result" where
  "pushNotifications lib cfg s e w =
     (if bs_notificators s = [] then (w, Inr ())
      else if cfg_IsDepositSideCalculation cfg
      then for_each_io (\<lambda>ei. pushNotification lib cfg s (ei_To ei) (ei_Amount ei) (ei_Utime ei)
             (ei_From ei) (ei_FromWorkchain ei) (ei_Comment ei)) (ExternalIncomes (be_Events e)) w
      else for_each_io (\<lambda>ii. pushNotification lib cfg s (ii_From ii) (ii_Amount ii) (ii_Utime ii)
             None None []) (InternalIncomes (be_Events e)) w)"

text \<open>The body of the transaction, and the transaction.\<close>

definition save_events :: "'c tonlib \<Rightarrow> schema \<Rightarrow> BlockEvents \<Rightarrow> database \<Rightarrow> database result" where
  "save_events lib sch events d =
     (let e = be_Events events in
      ebind (for_each SaveExternalIncome (ExternalIncomes e) d) (\<lambda>d.
      ebind (for_each (SaveInternalIncome lib) (InternalIncomes e) d) (\<lambda>d.
      ebind (for_each (ApplySendingConfirmations lib) (SendingConfirmations e) d) (\<lambda>d.
      ebind (for_each (UpdateInternalWithdrawal lib) (InternalWithdrawals e) d) (\<lambda>d.
      ebind (for_each (UpdateExternalWithdrawal sch) (ExternalWithdrawals e) d) (\<lambda>d.
      ebind (for_each ApplyJettonWithdrawalConfirmation (WithdrawalConfirmations e) d) (\<lambda>d.
      SaveBlock (be_Block events) d)))))))"

definition SaveParsedBlockData :: "'c tonlib \<Rightarrow> schema \<Rightarrow> go_error option \<Rightarrow> go_error option \<Rightarrow> BlockEvents
    \<Rightarrow> database \<Rightarrow> database \<times> unit result" where
  "SaveParsedBlockData lib sch beginErr commitErr events =
     RunInTx beginErr commitErr (save_events lib sch events)"

text \<open>The first part of \<open>processBlock\<close>: the events of the block.\<close>

definition block_events :: "'c tonlib \<Rightarrow> (Address list \<Rightarrow> Address list) \<Rightarrow> ('c, 'w) BlockScanner \<Rightarrow> ShardBlockHeader
    \<Rightarrow> BlockEvents result" where
  "block_events lib rng s block =
     ebind (deref (sb_BlockIDExt block)) (\<lambda>blockID.
     ebind (bs_GetTransactionIDsFromBlock s blockID) (\<lambda>txIDs.
     ebind (filterTXs s rng blockID txIDs) (\<lambda>filteredTXs.
     processTXs lib rng s filteredTXs block)))"

definition processBlock :: "'c tonlib \<Rightarrow> config \<Rightarrow> schema \<Rightarrow> (Address list \<Rightarrow> Address list) \<Rightarrow> go_error option
    \<Rightarrow> go_error option \<Rightarrow> ('c, 'w) BlockScanner \<Rightarrow> ShardBlockHeader \<Rightarrow> 'w \<Rightarrow> database
    \<Rightarrow> ('w \<times> database) \<times> unit result" where
  "processBlock lib cfg sch rng beginErr commitErr s block w d =
     (case block_events lib rng s block of
        Inl e \<Rightarrow> ((w, d), Inl e)
      | Inr e \<Rightarrow>
          (case pushNotifications lib cfg s e w of
             (w', Inl err) \<Rightarrow> ((w', d), Inl err)
           | (w', Inr _) \<Rightarrow>
               (case SaveParsedBlockData lib sch beginErr commitErr e d of (d', r) \<Rightarrow> ((w', d'), r))))"

text \<open>One receive of the loop in \<open>Start\<close>: a nil block is skipped, and an error is only logged.\<close>

definition Start_step :: "'c tonlib \<Rightarrow> config \<Rightarrow> schema \<Rightarrow> (Address list \<Rightarrow> Address list) \<Rightarrow> go_error option
    \<Rightarrow> go_error option \<Rightarrow> ('c, 'w) BlockScanner \<Rightarrow> ShardBlockHeader option \<Rightarrow> 'w \<Rightarrow> database
    \<Rightarrow> ('w \<times> database) \<times> unit result" where
  "Start_step lib cfg sch rng beginErr commitErr s block w d = (case block of
       None \<Rightarrow> ((w, d), Inr ())
     | Some b \<Rightarrow>
         (case processBlock lib cfg sch rng beginErr commitErr s b w d of
            (st, Inl (Err _)) \<Rightarrow> (st, Inr ())
          | (st, r) \<Rightarrow> (st, r)))"

subsection \<open>Specification vocabulary and examples\<close>

text \<open>Terms the properties below are stated in: what a jetton transaction is known to have brought
  and taken, whether its messages explain it, events up to their order, and the loop invariants.\<close>

definition hot_accounted :: "addressBook \<Rightarrow> UUID \<Rightarrow> Events \<times> Address list \<Rightarrow> bool" where
  "hot_accounted ab u = (\<lambda>(events, out).
     (\<forall>w \<in> set (ExternalWithdrawals events). ew_ExtMsgUuid w = u \<and> \<not> ew_IsFailed w) \<and>
     (\<forall>a. GetWalletType ab a = None \<longrightarrow> (a \<in> set out \<longleftrightarrow> a \<in> ew_To ` set (ExternalWithdrawals events))))"

definition income_total :: "Events \<Rightarrow> int" where
  "income_total e = sum_list (map ei_Amount (ExternalIncomes e))"

definition jetton_withdrawn :: "'c tonlib \<Rightarrow> 'c Transaction \<Rightarrow> int" where
  "jetton_withdrawn lib tx = (case tx_In tx of
       Some (MsgInternal m) \<Rightarrow>
         (case DecodeJettonTransfer lib (Some m) of Inr t \<Rightarrow> jm_Amount t | Inl _ \<Rightarrow> 0)
     | _ \<Rightarrow> 0)"

definition known_income :: "'c tonlib \<Rightarrow> addressBook \<Rightarrow> 'c Transaction \<Rightarrow> int" where
  "known_income lib ab tx = (case processJettonDepositOutMsgs lib ab tx of Inr (_, k, _) \<Rightarrow> k | Inl _ \<Rightarrow> 0)"

definition unexplained :: "'c tonlib \<Rightarrow> addressBook \<Rightarrow> 'c Transaction \<Rightarrow> bool" where
  "unexplained lib ab tx \<longleftrightarrow>
     (case processJettonDepositOutMsgs lib ab tx of Inr (_, _, b) \<Rightarrow> b | Inl _ \<Rightarrow> False) \<or>
     (case processJettonDepositInMsg lib ab tx of Inr (_, _, b) \<Rightarrow> b | Inl _ \<Rightarrow> False)"

definition same_events :: "Events \<Rightarrow> Events \<Rightarrow> bool" where
  "same_events e f \<longleftrightarrow>
     mset (ExternalIncomes e) = mset (ExternalIncomes f) \<and>
     mset (InternalIncomes e) = mset (InternalIncomes f) \<and>
     mset (SendingConfirmations e) = mset (SendingConfirmations f) \<and>
     mset (InternalWithdrawals e) = mset (InternalWithdrawals f) \<and>
     mset (ExternalWithdrawals e) = mset (ExternalWithdrawals f) \<and>
     mset (WithdrawalConfirmations e) = mset (WithdrawalConfirmations f)"

definition found_txs :: "'c Transaction list option \<Rightarrow> 'c Transaction list \<Rightarrow> 'c Transaction list option" where
  "found_txs t0 txs = (case t0 of None \<Rightarrow> (if txs = [] then None else Some txs) | Some ts \<Rightarrow> Some (ts @ txs))"

text \<open>A scanner state for examples: a small address book, a highload message that pays addresses
  8 and 9 of which only 9 is paid, and a jetton deposit whose balance grew by 7.\<close>

definition sample_ab :: addressBook where
  "sample_ab = \<lparr>ab_addresses = Some (map_of [
     (sample_addr 4, \<lparr>ai_Type = TonHotWallet, ai_Owner = None\<rparr>),
     (sample_addr 1, \<lparr>ai_Type = TonDepositWallet, ai_Owner = None\<rparr>),
     (sample_addr 2, \<lparr>ai_Type = JettonOwner, ai_Owner = None\<rparr>),
     (sample_addr 3, \<lparr>ai_Type = JettonDepositWallet, ai_Owner = Some (sample_addr 2)\<rparr>),
     (sample_addr 5, \<lparr>ai_Type = JettonHotWallet, ai_Owner = Some (sample_addr 4)\<rparr>)])\<rparr>"

definition sample_msg :: "byte \<Rightarrow> byte \<Rightarrow> tcell InternalMessage" where
  "sample_msg a b = \<lparr>im_IHRDisabled = True, im_Bounce = False, im_SrcAddr = Some (sample_tonaddr (sample_addr a)),
     im_DstAddr = Some (sample_tonaddr (sample_addr b)), im_Amount = 50, im_CreatedLT = 60, im_CreatedAt = 70,
     im_StateInit = None, im_Body = None\<rparr>"

definition sample_ext_msg :: "tcell ExternalMessage" where
  "sample_ext_msg = \<lparr>em_DstAddr = Some (sample_tonaddr (sample_addr 4)), em_Body = Some (HighloadBody 0 [
     Built [StoreRef (MessageCell False None (Some (sample_tonaddr (sample_addr 9))) 50 0 0 None)],
     Built [StoreRef (MessageCell False None (Some (sample_tonaddr (sample_addr 8))) 50 0 0 None)]])\<rparr>"

definition sample_tx :: "tcell Message option \<Rightarrow> tcell Message list \<Rightarrow> tcell Transaction" where
  "sample_tx i outs = \<lparr>tx_LT = 61, tx_Now = 71, tx_In = i, tx_OutCount = Inr (length outs), tx_OutSlice = Inr outs,
     tx_Description = TransactionDescriptionOrdinary\<rparr>"

definition sample_txs :: "byte \<Rightarrow> WalletType \<Rightarrow> tcell Transaction \<Rightarrow> tcell transactions" where
  "sample_txs a t tx = \<lparr>tr_Address = sample_addr a, tr_WalletType = t, tr_Transactions = [tx]\<rparr>"

definition sample_balance :: "tonaddr \<Rightarrow> BlockIDExt option \<Rightarrow> int result" where
  "sample_balance a b = Inr (case b of None \<Rightarrow> 10 | Some _ \<Rightarrow> 17)"

definition sample_block_id :: BlockIDExt where
  "sample_block_id = \<lparr>bid_Workchain = 0, bid_Shard = 1, bid_SeqNo = 5, bid_RootHash = [], bid_FileHash = []\<rparr>"

definition sample_scanner :: "(tcell, unit) BlockScanner" where
  "sample_scanner = \<lparr>bs_addressBook = Some sample_ab,
     bs_GetTransactionIDsFromBlock = (\<lambda>b. Inr []),
     bs_GetTransactionFromBlock = (\<lambda>b i. Inr (sample_tx (Some (MsgInternal (sample_msg 9 1))) [])),
     bs_GetJettonBalance = sample_balance, bs_notificators = []\<rparr>"

definition sample_block :: ShardBlockHeader where
  "sample_block = zero_ShardBlockHeader\<lparr>sb_BlockIDExt := Some sample_block_id\<rparr>"

definition sample_block_events :: BlockEvents where
  "sample_block_events = \<lparr>be_Events = no_events\<lparr>ExternalIncomes := [sample_ei]\<rparr>, be_Block = sample_block\<rparr>"

definition sample_saved :: database where
  "sample_saved = sample_database\<lparr>block_data := [\<lparr>bd_shard = 1, bd_seqno = 5, bd_gen_utime = 0, bd_root_hash = [],
     bd_file_hash = []\<rparr>]\<rparr>"

subsection \<open>Every message of the hot wallet is accounted for\<close>

lemma proxy_msg_no_withdrawals:
  "processTonHotWalletProxyMsg lib ab msg = Inr e \<Longrightarrow> ExternalWithdrawals e = []"
  by (auto simp: processTonHotWalletProxyMsg_def ebind_Inr_iff no_events_def split: if_splits)

interpretation hot_out: kept_by "hot_accounted ab u" "\<lambda>_. True" "hot_out_msg lib ab u" for lib ab u
proof
  fix s m s' assume inv: "hot_accounted ab u s" and step: "hot_out_msg lib ab u m s = Inr s'"
  obtain events out where s: "s = (events, out)" by (cases s)
  from step obtain msg addr where m: "m = MsgInternal msg"
    and addr: "AddressFromTonutilsAddress (im_DstAddr msg) = Inr addr"
    by (cases m) (auto simp: hot_out_msg_def s ebind_Inr_iff wrap_err_Inr_iff)
  have type: "GetWalletTypeByTonutilsAddress ab (im_DstAddr msg) = GetWalletType ab addr"
    using addr by (rule ab.by_ton_std)
  show "hot_accounted ab u s'"
  proof (cases "GetWalletType ab addr")
    case None
    with step inv show ?thesis
      by (auto simp: hot_out_msg_def s m addr type hot_accounted_def wrap_err_def)
  next
    case (Some t)
    with step inv show ?thesis
      by (cases t) (auto simp: hot_out_msg_def s m addr type hot_accounted_def ebind_Inr_iff wrap_err_Inr_iff
          proxy_msg_no_withdrawals)
  qed
qed

lemma hot_accounted_init: "hot_accounted ab u (no_events, [])"
  by (simp add: hot_accounted_def)

lemma hot_external_in:
  assumes "processTonHotWalletExternalInMsg lib ab rng m tx = Inr e"
    and "parseExternalMessage lib (Some m) = Inr (Some (u, ins))"
  obtains events out where "hot_accounted ab u (events, out)"
    and "e = events\<lparr>ExternalWithdrawals := ExternalWithdrawals events @ failedWithdrawals ab (rng ins) out u\<rparr>"
proof -
  from assms obtain messages events out where
    "for_each (hot_out_msg lib ab u) messages (no_events, []) = Inr (events, out)"
    and "e = events\<lparr>ExternalWithdrawals := ExternalWithdrawals events @ failedWithdrawals ab (rng ins) out u\<rparr>"
    by (auto simp: processTonHotWalletExternalInMsg_def ebind_Inr_iff)
  moreover from this(1) have "hot_accounted ab u (events, out)"
    by (rule hot_out.for_each_kept [OF hot_accounted_init, rotated]) simp
  ultimately show thesis by (auto intro: that)
qed

lemma parseExternalMessage_distinct:
  "parseExternalMessage lib m = Inr (Some (u, ins)) \<Longrightarrow> distinct ins"
  by (auto simp: parseExternalMessage_def ebind_Inr_iff case_option_Inl_Inr_iff dest: parse_ext_messages_distinct)


subsection \<open>Jetton amounts\<close>

lemma income_total_simps [simp]:
  "income_total no_events = 0"
  "income_total (Append e f) = income_total e + income_total f"
  by (simp_all add: income_total_def)

lemma jetton_out_msg_Inr:
  assumes "jetton_out_msg lib ab m (e, k, b) = Inr (e', k', b')"
  shows "e' = e \<and> k' = k \<or> (\<exists>inc. e' = Append e (no_events\<lparr>ExternalIncomes := [inc]\<rparr>) \<and> k' = k + ei_Amount inc \<and> wf_address (ei_To inc))"
proof (cases m)
  case (MsgInternal msg)
  with assms obtain src where src: "AddressFromTonutilsAddress (im_SrcAddr msg) = Inr src"
    by (auto simp: jetton_out_msg_def ebind_Inr_iff)
  then have wf: "wf_address src" by (auto simp: AddressFromTonutilsAddress_Inr_iff)
  show ?thesis
  proof (cases "decodeJettonTransferNotification lib (Some msg)")
    case (Inl err)
    with assms MsgInternal src show ?thesis by (simp add: jetton_out_msg_def)
  next
    case (Inr notify)
    show ?thesis
    proof (cases "GetWalletTypeByTonutilsAddress ab (jn_Sender notify)")
      case None
      with assms MsgInternal src Inr obtain dst ow where "AddressFromTonutilsAddress (im_DstAddr msg) = Inr dst"
        and "GetOwner ab src = Inr (Some ow)"
        by (auto simp: jetton_out_msg_def ebind_Inr_iff case_option_Inl_Inr_iff)
      with assms MsgInternal src wf Inr None show ?thesis
        by (cases "notify_source (jn_Sender notify)") (auto simp: jetton_out_msg_def split: if_splits)
    next
      case (Some t)
      with assms MsgInternal src Inr show ?thesis by (simp add: jetton_out_msg_def)
    qed
  qed
qed (use assms in \<open>simp_all add: jetton_out_msg_def\<close>)

interpretation jetton_out: kept_by "\<lambda>(e, k, b). income_total e = k" "\<lambda>_. True" "jetton_out_msg lib ab" for lib ab
proof
  fix s m s' assume inv: "case s of (e, k, b) \<Rightarrow> income_total e = k" and step: "jetton_out_msg lib ab m s = Inr s'"
  obtain e k b e' k' b' where "s = (e, k, b)" and "s' = (e', k', b')" by (metis prod_cases3)
  with inv step jetton_out_msg_Inr [of lib ab m e k b e' k' b'] show "case s' of (e, k, b) \<Rightarrow> income_total e = k"
    by (auto simp: income_total_def)
qed

lemma out_msgs_total:
  assumes "processJettonDepositOutMsgs lib ab tx = Inr (e, k, b)"
  shows "income_total e = k"
proof -
  from assms obtain ms where "for_each (jetton_out_msg lib ab) ms (no_events, 0, False) = Inr (e, k, b)"
    by (auto simp: processJettonDepositOutMsgs_def ebind_Inr_iff)
  from jetton_out.for_each_kept [OF _ _ this] show ?thesis by simp
qed

lemma isTxSuccessful_True [simp]: "isTxSuccessful tx"
  by (simp add: isTxSuccessful_def split: tx_description.split)

lemma in_msg_total:
  assumes "processJettonDepositInMsg lib ab tx = Inr (e, w, b)"
  shows "income_total e = 0" and "w = jetton_withdrawn lib tx"
proof -
  have "income_total e = 0 \<and> w = jetton_withdrawn lib tx"
  proof (cases "\<exists>m t. tx_In tx = Some (MsgInternal m) \<and> DecodeJettonTransfer lib (Some m) = Inr t")
    case True
    then obtain m t where "tx_In tx = Some (MsgInternal m)" and "DecodeJettonTransfer lib (Some m) = Inr t" by blast
    with assms show ?thesis
      by (auto simp: processJettonDepositInMsg_def jetton_withdrawn_def ebind_Inr_iff Let_def income_total_def
          split: if_splits)
  next
    case False
    with assms show ?thesis
      by (auto simp: processJettonDepositInMsg_def jetton_withdrawn_def ebind_Inr_iff
          split: option.splits Message.splits sum.splits)
  qed
  then show "income_total e = 0" and "w = jetton_withdrawn lib tx" by blast+
qed

lemma jetton_deposit_tx_Inr:
  assumes "jetton_deposit_tx lib ab tx (e0, k0, w0, u0) = Inr s"
  obtains e1 k1 b1 e2 w2 b2 where "processJettonDepositOutMsgs lib ab tx = Inr (e1, k1, b1)"
    and "processJettonDepositInMsg lib ab tx = Inr (e2, w2, b2)"
    and "s = (Append (Append e0 e1) e2, k0 + k1, w0 + w2, if b1 \<or> b2 then u0 @ [tx] else u0)"
proof -
  from assms obtain r1 r2 where 1: "processJettonDepositOutMsgs lib ab tx = Inr r1"
    and 2: "processJettonDepositInMsg lib ab tx = Inr r2"
    by (auto simp: jetton_deposit_tx_def ebind_Inr_iff simp del: if_split)
  obtain e1 k1 b1 e2 w2 b2 where "r1 = (e1, k1, b1)" and "r2 = (e2, w2, b2)" by (metis prod_cases3)
  with 1 2 assms show thesis by (intro that) (auto simp: jetton_deposit_tx_def)
qed

lemma jetton_deposit_loop:
  assumes "for_each (jetton_deposit_tx lib ab) txs (e0, k0, w0, u0) = Inr (e, k, w, u)"
  shows "income_total e - k = income_total e0 - k0 \<and> k = k0 + sum_list (map (known_income lib ab) txs)
    \<and> w = w0 + sum_list (map (jetton_withdrawn lib) txs) \<and> u = u0 @ filter (unexplained lib ab) txs"
  using assms
proof (induction txs arbitrary: e0 k0 w0 u0)
  case (Cons tx txs)
  from Cons.prems obtain s1 where s1: "jetton_deposit_tx lib ab tx (e0, k0, w0, u0) = Inr s1"
    and rest: "for_each (jetton_deposit_tx lib ab) txs s1 = Inr (e, k, w, u)"
    by (auto simp: ebind_Inr_iff)
  obtain e1 k1 b1 e2 w2 b2 where 1: "processJettonDepositOutMsgs lib ab tx = Inr (e1, k1, b1)"
    and 2: "processJettonDepositInMsg lib ab tx = Inr (e2, w2, b2)"
    and s: "s1 = (Append (Append e0 e1) e2, k0 + k1, w0 + w2, if b1 \<or> b2 then u0 @ [tx] else u0)"
    by (rule jetton_deposit_tx_Inr [OF s1])
  have "unexplained lib ab tx \<longleftrightarrow> b1 \<or> b2" and "known_income lib ab tx = k1"
    using 1 2 by (simp_all add: unexplained_def known_income_def)
  with Cons.IH [OF rest [unfolded s]] out_msgs_total [OF 1] in_msg_total [OF 2] show ?case by auto
qed simp

lemma unknown_total:
  "sum_list (map ei_Amount (convertUnknownJettonTxs txs a m)) = (if txs = [] then 0 else m)"
proof -
  have "sum_list (map (ei_Amount \<circ> unknown_income a 0) ts) = 0" for ts :: "'a Transaction list"
    by (induction ts) (simp_all add: unknown_income_def)
  then show ?thesis
    by (auto simp: convertUnknownJettonTxs_def ZeroCoins_def NewCoins_def unknown_income_def split: list.split)
qed

text \<open>C8: jetton income is conserved. For the transactions of one jetton deposit in a block, let
  \<open>expected\<close> be the growth of the wallet's balance over the block plus the amounts withdrawn
  from it, and \<open>known\<close> the sum of the notified incomes. The external incomes the scanner reports
  add up to the larger of the two when some transaction could not be explained by its messages,
  and to \<open>known\<close> otherwise.\<close>

theorem jetton_income_conserved:
  assumes "processJettonDepositWalletTXs lib ab bal txs blockID prevBlockID = Inr e"
    and "bal (ToTonutilsAddressStd lib 0 (tr_Address txs)) prevBlockID = Inr prev"
    and "bal (ToTonutilsAddressStd lib 0 (tr_Address txs)) blockID = Inr cur"
  shows "let known = sum_list (map (known_income lib ab) (tr_Transactions txs));
             expected = cur - prev + sum_list (map (jetton_withdrawn lib) (tr_Transactions txs))
         in income_total e =
           (if \<exists>tx \<in> set (tr_Transactions txs). unexplained lib ab tx then max expected known else known)"
proof -
  from assms obtain ev k w u where loop: "for_each (jetton_deposit_tx lib ab) (tr_Transactions txs) (no_events, 0, 0, []) = Inr (ev, k, w, u)"
    and fin: "(if cur - prev + w - k > 0 then Inr (ev\<lparr>ExternalIncomes := ExternalIncomes ev
       @ convertUnknownJettonTxs u (tr_Address txs) (cur - prev + w - k)\<rparr>) else Inr ev) = (Inr e :: Events result)"
    by (auto simp: processJettonDepositWalletTXs_def calculateJettonAmounts_def ebind_Inr_iff Let_def simp del: if_split)
  from fin have e: "e = (if cur - prev + w - k > 0 then ev\<lparr>ExternalIncomes := ExternalIncomes ev
       @ convertUnknownJettonTxs u (tr_Address txs) (cur - prev + w - k)\<rparr> else ev)"
    by (simp split: if_splits)
  have "income_total e = income_total ev + (if cur - prev + w - k > 0 \<and> u \<noteq> [] then cur - prev + w - k else 0)"
    by (simp add: e income_total_def unknown_total)
  then show ?thesis using jetton_deposit_loop [OF loop] by (auto simp: Let_def filter_empty_conv max_def)
qed

subsection \<open>The order of the accounts does not matter\<close>

lemma for_each_Append:
  "for_each (\<lambda>t ev. ebind (f t) (\<lambda>e. Inr (Append ev e))) ts ev =
    ebind (map_result f ts) (\<lambda>es. Inr (foldl Append ev es))"
proof (induction ts arbitrary: ev)
  case (Cons t ts)
  show ?case
  proof (cases "f t")
    case (Inr e)
    then show ?thesis using Cons.IH [of "Append ev e"] by (cases "map_result f ts") simp_all
  qed simp
qed simp

lemma foldl_Append_mset:
  "mset (ExternalIncomes (foldl Append ev es)) = mset (ExternalIncomes ev) + (\<Sum>e \<in># mset es. mset (ExternalIncomes e))"
  "mset (InternalIncomes (foldl Append ev es)) = mset (InternalIncomes ev) + (\<Sum>e \<in># mset es. mset (InternalIncomes e))"
  "mset (SendingConfirmations (foldl Append ev es)) = mset (SendingConfirmations ev) + (\<Sum>e \<in># mset es. mset (SendingConfirmations e))"
  "mset (InternalWithdrawals (foldl Append ev es)) = mset (InternalWithdrawals ev) + (\<Sum>e \<in># mset es. mset (InternalWithdrawals e))"
  "mset (ExternalWithdrawals (foldl Append ev es)) = mset (ExternalWithdrawals ev) + (\<Sum>e \<in># mset es. mset (ExternalWithdrawals e))"
  "mset (WithdrawalConfirmations (foldl Append ev es)) = mset (WithdrawalConfirmations ev) + (\<Sum>e \<in># mset es. mset (WithdrawalConfirmations e))"
  by (induction es arbitrary: ev) (simp_all add: add.assoc)


subsection \<open>Which accounts are scanned\<close>

lemma append_tx_map_of:
  "map_of (append_tx a tx m) b = (if b = a then found_txs (map_of m a) [tx] else map_of m b)"
  by (simp add: append_tx_def map_of_put_assoc found_txs_def split: option.split)

lemma distinct_append_tx: "distinct (map fst m) \<Longrightarrow> distinct (map fst (append_tx a tx m))"
  by (simp add: append_tx_def distinct_put_assoc)

lemma found_txs_simps [simp]:
  "found_txs t [] = t"
  "found_txs (found_txs t txs) txs' = found_txs t (txs @ txs')"
  by (auto simp: found_txs_def split: option.split)

lemma collect_txs:
  assumes "for_each (collect_tx s blockID) ids m0 = Inr m" and "bs_addressBook s = Some ab"
  shows "(distinct (map fst m0) \<longrightarrow> distinct (map fst m)) \<and>
    (\<exists>txs. list_all2 (\<lambda>i tx. bs_GetTransactionFromBlock s blockID i = Inr tx)
        (filter (\<lambda>i. ti_Account i = a \<and> GetWalletType ab a \<noteq> None) ids) txs
      \<and> map_of m a = found_txs (map_of m0 a) txs) \<and> (\<forall>i \<in> set ids. wf_address (ti_Account i))"
  using assms(1)
proof (induction ids arbitrary: m0)
  case Nil
  then show ?case by (auto intro: exI [of _ "[]"])
next
  case (Cons i ids)
  from Cons.prems obtain m1 where m1: "collect_tx s blockID i m0 = Inr m1"
    and rest: "for_each (collect_tx s blockID) ids m1 = Inr m"
    by (auto simp: ebind_Inr_iff)
  obtain txs where IH: "distinct (map fst m1) \<longrightarrow> distinct (map fst m)"
    "list_all2 (\<lambda>i tx. bs_GetTransactionFromBlock s blockID i = Inr tx)
        (filter (\<lambda>i. ti_Account i = a \<and> GetWalletType ab a \<noteq> None) ids) txs"
    "map_of m a = found_txs (map_of m1 a) txs" "\<forall>i \<in> set ids. wf_address (ti_Account i)"
    using Cons.IH [OF rest] by blast
  have wf: "wf_address (ti_Account i)" using m1 by (auto simp: collect_tx_def res_simps)
  show ?case
  proof (cases "GetWalletType ab (ti_Account i)")
    case None
    with m1 wf have "m1 = m0" by (auto simp: collect_tx_def assms(2) AddressFromBytes_def wf_address_def)
    with IH None wf show ?thesis by auto
  next
    case (Some t)
    with m1 wf obtain tx where tx: "bs_GetTransactionFromBlock s blockID i = Inr tx"
      and "m1 = append_tx (ti_Account i) tx m0"
      by (auto simp: collect_tx_def assms(2) AddressFromBytes_def wf_address_def ebind_Inr_iff)
    with IH Some wf show ?thesis
      by (intro conjI exI [of _ "if ti_Account i = a then tx # txs else txs"])
        (auto simp: append_tx_map_of distinct_append_tx)
  qed
qed

text \<open>C19: the scanner looks at exactly its own accounts. \<open>filterTXs\<close> returns one entry for every
  account of the block that is in the address book and no other, with the account's type from
  the book and with the account's transactions of the block, all of them and in block order.\<close>

theorem filterTXs_own_accounts:
  assumes "filterTXs s rng blockID ids = Inr ts" and "bs_addressBook s = Some ab" and "any_order rng"
  shows "distinct (map tr_Address ts)
    \<and> (\<forall>a. a \<in> tr_Address ` set ts \<longleftrightarrow> a \<in> ti_Account ` set ids \<and> GetWalletType ab a \<noteq> None)
    \<and> (\<forall>t \<in> set ts. GetWalletType ab (tr_Address t) = Some (tr_WalletType t)
        \<and> list_all2 (\<lambda>i tx. bs_GetTransactionFromBlock s blockID i = Inr tx)
            (filter (\<lambda>i. ti_Account i = tr_Address t) ids) (tr_Transactions t))"
proof -
  from assms(1) obtain m where m: "for_each (collect_tx s blockID) ids [] = Inr m"
    and ts: "ts = map (\<lambda>a. \<lparr>tr_Address = a,
              tr_WalletType = (case GetWalletType ab a of None \<Rightarrow> TonHotWallet | Some t \<Rightarrow> t),
              tr_Transactions = (case map_of m a of None \<Rightarrow> [] | Some txs \<Rightarrow> txs)\<rparr>) (rng (map fst m))"
    by (auto simp: filterTXs_def ebind_Inr_iff assms(2) map_result_Inr)
  have keys: "set (rng (map fst m)) = dom (map_of m)"
    using assms(3) by (simp add: any_order_set dom_map_of_conv_image_fst)
  have acc: "\<exists>txs. list_all2 (\<lambda>i tx. bs_GetTransactionFromBlock s blockID i = Inr tx)
        (filter (\<lambda>i. ti_Account i = a \<and> GetWalletType ab a \<noteq> None) ids) txs
      \<and> map_of m a = (if txs = [] then None else Some txs)" for a
    using collect_txs [OF m assms(2), of a] by (simp add: found_txs_def)
  have known: "a \<in> dom (map_of m) \<longleftrightarrow> a \<in> ti_Account ` set ids \<and> GetWalletType ab a \<noteq> None" for a
    using acc [of a] by (cases "filter (\<lambda>i. ti_Account i = a \<and> GetWalletType ab a \<noteq> None) ids")
      (auto simp: filter_empty_conv filter_eq_Cons_iff split: if_splits)
  have "tr_Address ` set ts = dom (map_of m)" by (simp add: ts image_image keys)
  moreover have "map tr_Address ts = rng (map fst m)" by (simp add: ts comp_def)
  moreover have "distinct (map fst m)" using collect_txs [OF m assms(2)] by simp
  moreover have "GetWalletType ab (tr_Address t) = Some (tr_WalletType t)
        \<and> list_all2 (\<lambda>i tx. bs_GetTransactionFromBlock s blockID i = Inr tx)
            (filter (\<lambda>i. ti_Account i = tr_Address t) ids) (tr_Transactions t)" if "t \<in> set ts" for t
  proof -
    from that have "tr_Address t \<in> dom (map_of m)"
      and t: "tr_WalletType t = (case GetWalletType ab (tr_Address t) of None \<Rightarrow> TonHotWallet | Some t \<Rightarrow> t)"
        "tr_Transactions t = (case map_of m (tr_Address t) of None \<Rightarrow> [] | Some txs \<Rightarrow> txs)"
      by (auto simp: ts keys)
    with known have k: "GetWalletType ab (tr_Address t) \<noteq> None" by blast
    with acc [of "tr_Address t"] t show ?thesis by (auto split: if_splits)
  qed
  ultimately show ?thesis using known assms(3) by (simp add: any_order_distinct)
qed

subsection \<open>Saving a block\<close>

text \<open>What the operations of a block leave alone: the saved blocks, and, after the external incomes
  are written, those incomes.\<close>

interpretation SaveExternalIncome_blocks: kept_by "\<lambda>d. block_data d = bt" "\<lambda>_. True" SaveExternalIncome for bt
  by unfold_locales (auto simp: SaveExternalIncome_def res_simps)

interpretation SaveInternalIncome_frame: kept_by "\<lambda>d. block_data d = bt \<and> external_incomes d = xs" "\<lambda>_. True" "SaveInternalIncome lib" for lib bt xs
  by unfold_locales (auto simp: SaveInternalIncome_def res_simps)

interpretation ApplySendingConfirmations_frame: kept_by "\<lambda>d. block_data d = bt \<and> external_incomes d = xs" "\<lambda>_. True" "ApplySendingConfirmations lib" for lib bt xs
  by unfold_locales (auto simp: ApplySendingConfirmations_def res_simps)

interpretation UpdateInternalWithdrawal_frame: kept_by "\<lambda>d. block_data d = bt \<and> external_incomes d = xs" "\<lambda>_. True" "UpdateInternalWithdrawal lib" for lib bt xs
proof
  fix d w d' assume "block_data d = bt \<and> external_incomes d = xs" and "UpdateInternalWithdrawal lib w d = Inr d'"
  then show "block_data d' = bt \<and> external_incomes d' = xs" by (elim UpdateInternalWithdrawal_Inr) simp
qed

interpretation UpdateExternalWithdrawal_frame: kept_by "\<lambda>d. block_data d = bt \<and> external_incomes d = xs" "\<lambda>_. True" "UpdateExternalWithdrawal sch" for sch bt xs
proof
  fix d w d' assume "block_data d = bt \<and> external_incomes d = xs" and "UpdateExternalWithdrawal sch w d = Inr d'"
  then show "block_data d' = bt \<and> external_incomes d' = xs" by (elim UpdateExternalWithdrawal_Inr) simp_all
qed

interpretation ApplyJettonWithdrawalConfirmation_frame: kept_by "\<lambda>d. block_data d = bt \<and> external_incomes d = xs" "\<lambda>_. True" ApplyJettonWithdrawalConfirmation for bt xs
  by unfold_locales (auto simp: ApplyJettonWithdrawalConfirmation_def res_simps)

lemma save_incomes:
  "for_each SaveExternalIncome is d = Inr d' \<Longrightarrow>
    \<exists>rs. external_incomes d' = external_incomes d @ rs \<and> map income_of_row rs = is"
proof (induction "is" arbitrary: d)
  case (Cons i "is")
  then obtain d1 where 1: "SaveExternalIncome i d = Inr d1" and rest: "for_each SaveExternalIncome is d1 = Inr d'"
    by (auto simp: ebind_Inr_iff)
  from Cons.IH [OF rest] obtain rs where "external_incomes d' = external_incomes d1 @ rs" and "map income_of_row rs = is"
    by blast
  moreover from 1 obtain r where "external_incomes d1 = external_incomes d @ [r]" and "income_of_row r = i"
    by (auto simp: SaveExternalIncome_def res_simps income_of_row_def)
  ultimately show ?case by (intro exI [of _ "r # rs"]) simp
qed simp

text \<open>
  The transaction of a block: what each of its statements keeps, the whole transaction keeps.
  \<open>xpre\<close>, \<open>npre\<close> and \<open>pre\<close> are what is known of the incomes and the withdrawals of the block.
\<close>

locale block_kept =
  xi: kept_by inv xpre SaveExternalIncome +
  ni: kept_by inv npre "SaveInternalIncome lib" +
  sc: kept_by inv "\<lambda>_. True" "ApplySendingConfirmations lib" +
  iw: kept_by inv "\<lambda>_. True" "UpdateInternalWithdrawal lib" +
  ew: kept_by inv pre "UpdateExternalWithdrawal sch" +
  jc: kept_by inv "\<lambda>_. True" ApplyJettonWithdrawalConfirmation +
  sb: kept_by inv "\<lambda>_. True" SaveBlock
  for inv :: "database \<Rightarrow> bool" and xpre :: "ExternalIncome \<Rightarrow> bool" and npre :: "InternalIncome \<Rightarrow> bool"
    and pre :: "ExternalWithdrawal \<Rightarrow> bool" and lib :: "'c tonlib" and sch :: schema
begin

lemma save_events_kept:
  assumes "inv d" and "\<And>i. i \<in> set (ExternalIncomes (be_Events ev)) \<Longrightarrow> xpre i"
    and "\<And>i. i \<in> set (InternalIncomes (be_Events ev)) \<Longrightarrow> npre i"
    and "\<And>w. w \<in> set (ExternalWithdrawals (be_Events ev)) \<Longrightarrow> pre w" and "save_events lib sch ev d = Inr d'"
  shows "inv d'"
proof -
  let ?e = "be_Events ev"
  from assms(5) obtain d1 d2 d3 d4 d5 d6 where
      1: "for_each SaveExternalIncome (ExternalIncomes ?e) d = Inr d1" and
      2: "for_each (SaveInternalIncome lib) (InternalIncomes ?e) d1 = Inr d2" and
      3: "for_each (ApplySendingConfirmations lib) (SendingConfirmations ?e) d2 = Inr d3" and
      4: "for_each (UpdateInternalWithdrawal lib) (InternalWithdrawals ?e) d3 = Inr d4" and
      5: "for_each (UpdateExternalWithdrawal sch) (ExternalWithdrawals ?e) d4 = Inr d5" and
      6: "for_each ApplyJettonWithdrawalConfirmation (WithdrawalConfirmations ?e) d5 = Inr d6" and
      7: "SaveBlock (be_Block ev) d6 = Inr d'"
    by (auto simp: save_events_def Let_def ebind_Inr_iff)
  have "inv d1" by (rule xi.for_each_kept [OF assms(1,2) 1])
  then have "inv d2" by (rule ni.for_each_kept [OF _ assms(3) 2])
  then have "inv d3" by (rule sc.for_each_kept [OF _ _ 3]) simp
  then have "inv d4" by (rule iw.for_each_kept [OF _ _ 4]) simp
  then have "inv d5" by (rule ew.for_each_kept [OF _ assms(4) 5])
  then have "inv d6" by (rule jc.for_each_kept [OF _ _ 6]) simp
  then show ?thesis by (rule sb.kept [OF _ _ 7]) simp
qed

end

interpretation wf_block: block_kept wf_database "\<lambda>_. True" "\<lambda>_. True" "\<lambda>_. True" lib sch for lib sch
  by unfold_locales (auto intro: wf_SaveBlock)

lemma save_events_steps:
  assumes "save_events lib sch ev d = Inr d'"
  obtains d1 d2 where "for_each SaveExternalIncome (ExternalIncomes (be_Events ev)) d = Inr d1"
    and "block_data d2 = block_data d" and "external_incomes d2 = external_incomes d1"
    and "SaveBlock (be_Block ev) d2 = Inr d'"
proof -
  let ?e = "be_Events ev"
  from assms obtain d1 d3 d4 d5 d6 d2 where
      1: "for_each SaveExternalIncome (ExternalIncomes ?e) d = Inr d1" and
      2: "for_each (SaveInternalIncome lib) (InternalIncomes ?e) d1 = Inr d3" and
      3: "for_each (ApplySendingConfirmations lib) (SendingConfirmations ?e) d3 = Inr d4" and
      4: "for_each (UpdateInternalWithdrawal lib) (InternalWithdrawals ?e) d4 = Inr d5" and
      5: "for_each (UpdateExternalWithdrawal sch) (ExternalWithdrawals ?e) d5 = Inr d6" and
      6: "for_each ApplyJettonWithdrawalConfirmation (WithdrawalConfirmations ?e) d6 = Inr d2" and
      7: "SaveBlock (be_Block ev) d2 = Inr d'"
    by (auto simp: save_events_def Let_def ebind_Inr_iff)
  have "block_data d1 = block_data d" by (rule SaveExternalIncome_blocks.for_each_kept [OF _ _ 1]) simp_all
  moreover have "block_data d3 = block_data d1 \<and> external_incomes d3 = external_incomes d1"
    by (rule SaveInternalIncome_frame.for_each_kept [OF _ _ 2]) simp_all
  moreover have "block_data d4 = block_data d3 \<and> external_incomes d4 = external_incomes d3"
    by (rule ApplySendingConfirmations_frame.for_each_kept [OF _ _ 3]) simp_all
  moreover have "block_data d5 = block_data d4 \<and> external_incomes d5 = external_incomes d4"
    by (rule UpdateInternalWithdrawal_frame.for_each_kept [OF _ _ 4]) simp_all
  moreover have "block_data d6 = block_data d5 \<and> external_incomes d6 = external_incomes d5"
    by (rule UpdateExternalWithdrawal_frame.for_each_kept [OF _ _ 5]) simp_all
  moreover have "block_data d2 = block_data d6 \<and> external_incomes d2 = external_incomes d6"
    by (rule ApplyJettonWithdrawalConfirmation_frame.for_each_kept [OF _ _ 6]) simp_all
  ultimately show thesis using 1 7 by (intro that [of d1 d2]) simp_all
qed

lemma wf_save_events: "wf_database d \<Longrightarrow> save_events lib sch ev d = Inr d' \<Longrightarrow> wf_database d'"
  by (rule wf_block.save_events_kept) simp_all

lemma save_events_again:
  assumes "sb_BlockIDExt (be_Block ev) = Some b" and "(bid_Shard b, bid_SeqNo b) \<in> bd_key ` set (block_data d)"
  shows "\<exists>err. save_events lib sch ev d = Inl err"
proof (cases "save_events lib sch ev d")
  case (Inr d')
  then obtain d2 where "block_data d2 = block_data d" and "SaveBlock (be_Block ev) d2 = Inr d'"
    by (elim save_events_steps) blast
  with assms show ?thesis by (auto simp: SaveBlock_def res_simps bd_key_def)
qed simp

lemma processBlock_cases:
  assumes "processBlock lib cfg sch rng beginErr commitErr s block w d = ((w', d'), r)"
  obtains (failed) e where "r = Inl e" and "d' = d"
  | (saved) e where "block_events lib rng s block = Inr e" and "be_Block e = block" and "pushNotifications lib cfg s e w = (w', Inr ())"
      and "SaveParsedBlockData lib sch beginErr commitErr e d = (d', r)"
proof (cases "block_events lib rng s block")
  case (Inl e)
  with assms show thesis by (intro failed [of e]) (auto simp: processBlock_def)
next
  case (Inr e)
  obtain v q where push: "pushNotifications lib cfg s e w = (v, q)" by force
  have "be_Block e = block" using Inr by (auto simp: block_events_def ebind_Inr_iff processTXs_def)
  with assms push Inr failed saved show thesis by (cases q) (auto simp: processBlock_def split: prod.splits)
qed

text \<open>C5: a block is credited at most once. If the block's shard and sequence number are already
  saved, \<open>SaveParsedBlockData\<close> returns an error and leaves the database exactly as it was,
  whatever events it is given.\<close>

theorem block_saved_once:
  assumes "sb_BlockIDExt (be_Block ev) = Some b" and "(bid_Shard b, bid_SeqNo b) \<in> bd_key ` set (block_data d)"
  shows "\<exists>err. SaveParsedBlockData lib sch beginErr commitErr ev d = (d, Inl err)"
proof -
  obtain err where "save_events lib sch ev d = Inl err" using save_events_again [OF assms] by blast
  then show ?thesis by (auto simp: SaveParsedBlockData_def RunInTx_def split: option.split)
qed



subsection \<open>Instances\<close>

lemma sample_ab_type:
  "GetWalletType sample_ab (sample_addr b) =
    (if b = 4 then Some TonHotWallet else if b = 1 then Some TonDepositWallet else if b = 2 then Some JettonOwner
     else if b = 3 then Some JettonDepositWallet else if b = 5 then Some JettonHotWallet else None)"
  by (simp add: GetWalletType_def ab_get_def sample_ab_def)

lemma sample_tonaddr_std [simp]:
  "AddressFromTonutilsAddress (Some (sample_tonaddr (sample_addr b))) = Inr (sample_addr b)"
  by (simp add: AddressFromTonutilsAddress_Inr_iff sample_tonaddr_def)

lemma sample_ab_by_ton:
  "GetWalletTypeByTonutilsAddress sample_ab (Some (sample_tonaddr (sample_addr b))) = GetWalletType sample_ab (sample_addr b)"
  by (rule ab.by_ton_std) simp

lemma sample_parse:
  "parseExternalMessage sample_lib (Some sample_ext_msg) = Inr (Some (replicate 16 0, [sample_addr 9, sample_addr 8]))"
  by (simp add: parseExternalMessage_def getHighLoadWalletExtMsgInfo_def sample_ext_msg_def sample_lib_defs
      DecodeJettonTransfer_def)

lemma sample_hot:
  "\<exists>e. processTonHotWalletExternalInMsg sample_lib sample_ab (\<lambda>ks. ks) sample_ext_msg
      (sample_tx (Some (MsgExternalIn sample_ext_msg)) [MsgInternal (sample_msg 4 9)]) = Inr e"
  by (simp add: processTonHotWalletExternalInMsg_def sample_parse sample_tx_def hot_out_msg_def sample_msg_def
      sample_ab_by_ton sample_ab_type wrap_err_def)


lemma sample_jetton:
  "\<exists>e. processJettonDepositWalletTXs sample_lib sample_ab sample_balance
      (sample_txs 3 JettonDepositWallet (sample_tx None [])) (Some sample_block_id) None = Inr e"
  by (simp add: processJettonDepositWalletTXs_def sample_txs_def jetton_deposit_tx_def processJettonDepositOutMsgs_def
      processJettonDepositInMsg_def sample_tx_def calculateJettonAmounts_def sample_balance_def)

theorem jetton_income_conserved_witness:
  "\<exists>e. processJettonDepositWalletTXs sample_lib sample_ab sample_balance
      (sample_txs 3 JettonDepositWallet (sample_tx None [])) (Some sample_block_id) None = Inr e \<and> income_total e = 7"
proof -
  obtain e where e: "processJettonDepositWalletTXs sample_lib sample_ab sample_balance
      (sample_txs 3 JettonDepositWallet (sample_tx None [])) (Some sample_block_id) None = Inr e"
    using sample_jetton by blast
  have "income_total e = 7"
    using jetton_income_conserved [OF e, of 10 17]
    by (simp add: sample_balance_def sample_txs_def sample_tx_def unexplained_def known_income_def jetton_withdrawn_def
        processJettonDepositOutMsgs_def processJettonDepositInMsg_def Let_def)
  with e show ?thesis by blast
qed


theorem filterTXs_own_accounts_witness:
  "\<exists>ts. filterTXs sample_scanner (\<lambda>ks. ks) sample_block_id
      [\<lparr>ti_Account = sample_addr 1, ti_LT = 60\<rparr>, \<lparr>ti_Account = sample_addr 7, ti_LT = 61\<rparr>] = Inr ts
    \<and> distinct (map tr_Address ts) \<and> sample_addr 1 \<in> tr_Address ` set ts \<and> sample_addr 7 \<notin> tr_Address ` set ts"
proof -
  let ?ids = "[\<lparr>ti_Account = sample_addr 1, ti_LT = 60\<rparr>, \<lparr>ti_Account = sample_addr 7, ti_LT = 61\<rparr>]"
  have "\<exists>ts. filterTXs sample_scanner (\<lambda>ks. ks) sample_block_id ?ids = Inr ts"
    by (simp add: filterTXs_def collect_tx_def sample_scanner_def AddressFromBytes_def sample_ab_type)
      (simp add: sample_addr_def map_result_Inr)
  moreover have "bs_addressBook sample_scanner = Some sample_ab" by (simp add: sample_scanner_def)
  ultimately show ?thesis
    using filterTXs_own_accounts [OF _ _ any_order_id, of sample_scanner sample_block_id ?ids _ sample_ab]
    by (auto simp: sample_ab_type)
qed

theorem block_saved_once_witness:
  "\<exists>err. SaveParsedBlockData sample_lib query_schema None None sample_block_events sample_saved = (sample_saved, Inl err)"
  by (rule block_saved_once [of _ sample_block_id])
    (simp_all add: sample_block_events_def sample_block_def sample_block_id_def sample_saved_def bd_key_def)

lemma wf_database_sample: "wf_database sample_database"
  by (simp add: wf_database_def sample_database_def empty_database_def sample_request_def rq_key_def numeral_eq_Suc)


end
