(* ===== verification/WithdrawalsProcessor.thy ===== *)
theory WithdrawalsProcessor
  imports Messages WithdrawalRepository
begin

text \<open>
  \<open>core/withdrawal_processor.go\<close>: the three background processors (external withdrawals with
  the jetton sweeps and service transfers that go out in the same hot-wallet message, TON sweeps,
  expiration) and the withdrawals to the cold wallet. The interfaces the processor holds are the
  fields of a record; random values (\<open>uuid.NewV4\<close>, \<open>rand\<close>) are functions of the address or
  currency they are drawn for. Database statements that run before an error keep their effect, so
  an operation that writes returns the database beside its result.
\<close>

record 'c WithdrawalsProcessor =
  wp_hasWithdrawalRepository :: bool
  wp_addressBook :: "addressBook option"
  wp_GetAccountCurrentState :: "tonaddr \<Rightarrow> (int \<times> AccountStatus) result"
  wp_GetLastJettonBalance :: "tonaddr \<Rightarrow> int result"
  wp_GetJettonWalletAddress :: "tonaddr \<Rightarrow> tonaddr \<Rightarrow> tonaddr result"
  wp_TonHotWallet :: tonaddr
  wp_JettonHotWallets :: "(string \<times> JettonWallet) list"
  wp_GetSubwallet :: "uint32 \<Rightarrow> 'c Wallet result"
  wp_BuildMessageForMany :: "'c WalletMessage list \<Rightarrow> 'c ExternalMessage result"
  wp_SendExternalMessage :: "'c ExternalMessage \<Rightarrow> unit result"
  wp_NewV4 :: "Address \<Rightarrow> string \<Rightarrow> UUID result"
  wp_rand :: "Address \<Rightarrow> int"
  wp_coldWallet :: "tonaddr option"

record serviceWithdrawal =
  sw_TonAmount :: Coins
  sw_Filled :: bool
  sw_Task :: ServiceWithdrawalTask

record internalWithdrawal =
  il_Memo :: UUID
  il_Task :: InternalWithdrawalTask

record 'c withdrawals =
  ws_Messages :: "'c WalletMessage list"
  ws_External :: "ExternalWithdrawalTask list"
  ws_Internal :: "internalWithdrawal list"
  ws_Service :: "serviceWithdrawal list"

definition no_withdrawals :: "'c withdrawals" where
  "no_withdrawals = \<lparr>ws_Messages = [], ws_External = [], ws_Internal = [], ws_Service = []\<rparr>"

text \<open>\<open>NewWithdrawalsProcessor\<close> sets the repository, the blockchain, the wallets and the cold
  wallet; the fields \<open>withdrawalRepository\<close> and \<open>addressBook\<close> stay nil.\<close>

definition NewWithdrawalsProcessor :: "'c WithdrawalsProcessor \<Rightarrow> 'c WithdrawalsProcessor" where
  "NewWithdrawalsProcessor args = args\<lparr>wp_hasWithdrawalRepository := False, wp_addressBook := None\<rparr>"

definition withdrawalRepository :: "'c WithdrawalsProcessor \<Rightarrow> unit result" where
  "withdrawalRepository p = deref (if wp_hasWithdrawalRepository p then Some () else None)"

subsection \<open>Balances\<close>

text \<open>\<open>balances\<close> is a map to \<open>*big.Int\<close>: a missing currency is a nil pointer, whose \<open>Cmp\<close>
  panics. The result is whether the amount does not fit, with the map after the call.\<close>

definition decreaseBalances :: "(string \<rightharpoonup> int) \<Rightarrow> string \<Rightarrow> int \<Rightarrow> (bool \<times> (string \<rightharpoonup> int)) result" where
  "decreaseBalances balances currency amount =
     (if currency = TonSymbol
      then ebind (deref (balances TonSymbol)) (\<lambda>ton.
           if ton < amount then Inr (True, balances)
           else Inr (False, balances(TonSymbol \<mapsto> ton - amount)))
      else ebind (deref (balances currency)) (\<lambda>bal.
           if bal < amount then Inr (True, balances)
           else ebind (deref (balances TonSymbol)) (\<lambda>ton.
                if ton < JettonTransferTonAmount then Inr (True, balances)
                else Inr (False, balances(currency \<mapsto> bal - amount, TonSymbol \<mapsto> ton - JettonTransferTonAmount)))))"

definition getHotWalletBalances :: "'c WithdrawalsProcessor \<Rightarrow> (string \<rightharpoonup> int) result" where
  "getHotWalletBalances p =
     ebind (wp_GetAccountCurrentState p (wp_TonHotWallet p)) (\<lambda>(balance, _).
     for_each (\<lambda>(cur, w) res.
         ebind (wp_GetLastJettonBalance p (jw_Address w)) (\<lambda>balance. Inr (res(cur \<mapsto> balance))))
       (wp_JettonHotWallets p) [TonSymbol \<mapsto> balance])"

subsection \<open>Messages for one task\<close>

text \<open>A missing currency gives a zero \<open>config.Jetton\<close>, whose cutoff is a nil \<open>*big.Int\<close>.\<close>

definition buildJettonInternalWithdrawalMessage :: "'c tonlib \<Rightarrow> config \<Rightarrow> 'c WithdrawalsProcessor
    \<Rightarrow> InternalWithdrawalTask \<Rightarrow> ('c WalletMessage \<times> UUID) option result" where
  "buildJettonInternalWithdrawalMessage lib cfg p task =
     ebind (NewJettonProxy lib (it_SubwalletID task) (Some (wp_TonHotWallet p))) (\<lambda>proxy.
     let jettonWalletAddress = ToTonutilsAddressStd lib 0 (it_From task) in
     ebind (wp_GetLastJettonBalance p jettonWalletAddress) (\<lambda>balance.
     ebind (deref (map_of (cfg_Jettons cfg) (it_Currency task))) (\<lambda>j.
     if balance > j_WithdrawalCutoff j
     then ebind (wp_NewV4 p (it_From task) (it_Currency task)) (\<lambda>memo.
          ebind (BuildJettonProxyWithdrawalMessage lib proxy jettonWalletAddress (wp_TonHotWallet p)
                   JettonForwardAmount balance (wp_rand p (it_From task)) (uuid_String lib memo)) (\<lambda>msg.
          Inr (Some (msg, memo))))
     else Inr None)))"

definition buildServiceFilling :: "'c tonlib \<Rightarrow> 'c WithdrawalsProcessor \<Rightarrow> ServiceWithdrawalTask
    \<Rightarrow> ('c WalletMessage option \<times> serviceWithdrawal) result" where
  "buildServiceFilling lib p task =
     (let deposit = ToTonutilsAddressStd lib 0 (st_From task) in
      ebind (deref (st_JettonMaster task)) (\<lambda>master.
      ebind (wp_GetJettonWalletAddress p deposit (ToTonutilsAddressStd lib 0 master)) (\<lambda>jettonWallet.
      ebind (wp_GetLastJettonBalance p jettonWallet) (\<lambda>jettonBalance.
      if jettonBalance = 0
      then Inr (None, \<lparr>sw_TonAmount = ZeroCoins, sw_Filled = False, sw_Task = task\<rparr>)
      else ebind (buildTonFillMessage lib deposit JettonTransferTonAmount (st_Memo task)) (\<lambda>msg.
           Inr (Some msg, \<lparr>sw_TonAmount = ZeroCoins, sw_Filled = True,
              sw_Task = task\<lparr>st_JettonAmount := NewCoins jettonBalance\<rparr>\<rparr>))))))"

definition buildServiceTonWithdrawal :: "'c tonlib \<Rightarrow> 'c WithdrawalsProcessor \<Rightarrow> ServiceWithdrawalTask
    \<Rightarrow> ('c WalletMessage option \<times> serviceWithdrawal) result" where
  "buildServiceTonWithdrawal lib p task =
     ebind (NewJettonProxy lib (st_SubwalletID task) (Some (wp_TonHotWallet p))) (\<lambda>proxy.
     ebind (wp_GetAccountCurrentState p (jp_address proxy)) (\<lambda>(tonBalance, _).
     let res = \<lparr>sw_TonAmount = NewCoins tonBalance, sw_Filled = False, sw_Task = task\<rparr> in
     if tonBalance = 0 then Inr (None, res)
     else ebind (buildJettonProxyServiceTonWithdrawalMessage lib proxy (wp_TonHotWallet p) (st_Memo task)) (\<lambda>msg.
          Inr (Some msg, res))))"

definition buildServiceJettonWithdrawal :: "'c tonlib \<Rightarrow> 'c WithdrawalsProcessor \<Rightarrow> ServiceWithdrawalTask
    \<Rightarrow> ('c WalletMessage option \<times> serviceWithdrawal) result" where
  "buildServiceJettonWithdrawal lib p task =
     ebind (NewJettonProxy lib (st_SubwalletID task) (Some (wp_TonHotWallet p))) (\<lambda>proxy.
     ebind (deref (st_JettonMaster task)) (\<lambda>master.
     ebind (wp_GetJettonWalletAddress p (jp_address proxy) (ToTonutilsAddressStd lib 0 master)) (\<lambda>jettonWallet.
     ebind (deref (wp_addressBook p)) (\<lambda>ab.
     if GetWalletTypeByTonutilsAddress ab (Some jettonWallet) \<noteq> None
     then Inr (None, \<lparr>sw_TonAmount = ZeroCoins, sw_Filled = False, sw_Task = task\<rparr>)
     else
       ebind (wp_GetLastJettonBalance p jettonWallet) (\<lambda>jettonBalance.
       if jettonBalance = 0
       then Inr (None, \<lparr>sw_TonAmount = ZeroCoins, sw_Filled = False, sw_Task = task\<rparr>)
       else ebind (BuildJettonProxyWithdrawalMessage lib proxy jettonWallet (wp_TonHotWallet p) 0 jettonBalance
                     (wp_rand p (st_From task)) (uuid_String lib (st_Memo task))) (\<lambda>msg.
            Inr (Some msg, \<lparr>sw_TonAmount = ZeroCoins, sw_Filled = False,
               sw_Task = task\<lparr>st_JettonAmount := NewCoins jettonBalance\<rparr>\<rparr>)))))))"

definition buildServiceWithdrawalMessage :: "'c tonlib \<Rightarrow> 'c WithdrawalsProcessor \<Rightarrow> ServiceWithdrawalTask
    \<Rightarrow> ('c WalletMessage option \<times> serviceWithdrawal) result" where
  "buildServiceWithdrawalMessage lib p task =
     ebind (deref (wp_addressBook p)) (\<lambda>ab.
     let t = GetWalletType ab (st_From task) in
     if t \<noteq> Some JettonOwner \<and> t \<noteq> Some TonDepositWallet
     then Inl (Err ''invalid service withdrawal address'')
     else if t = Some TonDepositWallet then buildServiceFilling lib p task
     else if st_JettonMaster task = None then buildServiceTonWithdrawal lib p task
     else buildServiceJettonWithdrawal lib p task)"

text \<open>The jetton wallet exists whenever \<open>decreaseBalances\<close> let the task through: both maps have
  the currencies of \<open>JettonHotWallets\<close>.\<close>

definition buildExternalWithdrawalMessage :: "'c tonlib \<Rightarrow> 'c WithdrawalsProcessor \<Rightarrow> ExternalWithdrawalTask
    \<Rightarrow> 'c WalletMessage result" where
  "buildExternalWithdrawalMessage lib p wt =
     (if et_Currency wt = TonSymbol then BuildTonWithdrawalMessage lib wt
      else ebind (deref (map_of (wp_JettonHotWallets p) (et_Currency wt))) (\<lambda>jw.
           BuildJettonWithdrawalMessage lib wt (wp_TonHotWallet p) (jw_Address jw)))"

subsection \<open>One hot-wallet message\<close>

text \<open>The loop over the service tasks, on \<open>(balances, usedAddresses, res)\<close>. Rejected tasks are
  saved at once (the clock reads \<open>now\<close>), so the database is part of the loop's state.\<close>

fun service_loop :: "'c tonlib \<Rightarrow> 'c WithdrawalsProcessor \<Rightarrow> int \<Rightarrow> ServiceWithdrawalTask list
    \<Rightarrow> (string \<rightharpoonup> int) \<times> Address list \<times> 'c withdrawals \<Rightarrow> database
    \<Rightarrow> database \<times> ((string \<rightharpoonup> int) \<times> Address list \<times> 'c withdrawals) result" where
  "service_loop lib p now [] s d = (d, Inr s)"
| "service_loop lib p now (t # ts) (balances, used, res) d =
     (case decreaseBalances balances TonSymbol JettonTransferTonAmount of
        Inl e \<Rightarrow> (d, Inl e)
      | Inr (True, _) \<Rightarrow> service_loop lib p now ts (balances, used, res) d
      | Inr (False, balances') \<Rightarrow>
          (case buildServiceWithdrawalMessage lib p t of
             Inl e \<Rightarrow> (d, Inl e)
           | Inr (Some msg, w) \<Rightarrow>
               service_loop lib p now ts (balances', used @ [st_From t],
                 res\<lparr>ws_Messages := ws_Messages res @ [msg], ws_Service := ws_Service res @ [w]\<rparr>) d
           | Inr (None, w) \<Rightarrow>
               service_loop lib p now ts (balances', used, res)
                 (UpdateServiceWithdrawalRequest (sw_Task w) (sw_TonAmount w) now (sw_Filled w) d)))"

fun internal_loop :: "'c tonlib \<Rightarrow> config \<Rightarrow> 'c WithdrawalsProcessor \<Rightarrow> InternalWithdrawalTask list
    \<Rightarrow> (string \<rightharpoonup> int) \<times> 'c withdrawals \<Rightarrow> ((string \<rightharpoonup> int) \<times> 'c withdrawals) result" where
  "internal_loop lib cfg p [] s = Inr s"
| "internal_loop lib cfg p (t # ts) (balances, res) =
     (if length (ws_Messages res) > 250 then Inr (balances, res)
      else ebind (decreaseBalances balances TonSymbol JettonTransferTonAmount) (\<lambda>(low, balances').
           if low then internal_loop lib cfg p ts (balances, res)
           else ebind (buildJettonInternalWithdrawalMessage lib cfg p t) (\<lambda>m.
                case m of
                  None \<Rightarrow> internal_loop lib cfg p ts (balances', res)
                | Some (msg, memo) \<Rightarrow>
                    internal_loop lib cfg p ts (balances', res\<lparr>ws_Messages := ws_Messages res @ [msg],
                      ws_Internal := ws_Internal res @ [\<lparr>il_Memo = memo, il_Task = t\<rparr>]\<rparr>))))"

fun external_loop :: "'c tonlib \<Rightarrow> 'c WithdrawalsProcessor \<Rightarrow> ExternalWithdrawalTask list
    \<Rightarrow> (string \<rightharpoonup> int) \<times> 'c withdrawals \<Rightarrow> ((string \<rightharpoonup> int) \<times> 'c withdrawals) result" where
  "external_loop lib p [] s = Inr s"
| "external_loop lib p (w # ws) (balances, res) =
     (if length (ws_Messages res) > 250 then Inr (balances, res)
      else ebind (deref (wp_addressBook p)) (\<lambda>ab.
           if GetWalletType ab (et_Destination w) \<noteq> None then external_loop lib p ws (balances, res)
           else ebind (decreaseBalances balances (et_Currency w) (et_Amount w)) (\<lambda>(low, balances').
                if low then external_loop lib p ws (balances, res)
                else ebind (buildExternalWithdrawalMessage lib p w) (\<lambda>msg.
                     external_loop lib p ws (balances', res\<lparr>ws_Messages := ws_Messages res @ [msg],
                       ws_External := ws_External res @ [w]\<rparr>)))))"

definition buildWithdrawalMessages :: "'c tonlib \<Rightarrow> config \<Rightarrow> schema \<Rightarrow> 'c WithdrawalsProcessor \<Rightarrow> int
    \<Rightarrow> database \<Rightarrow> database \<times> 'c withdrawals result" where
  "buildWithdrawalMessages lib cfg sch p now d =
     (case ebind (wrap_err ''get hot wallet balance error'' (getHotWalletBalances p)) (\<lambda>balances.
           ebind (withdrawalRepository p) (\<lambda>_. Inr balances)) of
        Inl e \<Rightarrow> (d, Inl e)
      | Inr balances \<Rightarrow>
          (case service_loop lib p now (GetServiceHotWithdrawalTasks 250 d) (balances, [], no_withdrawals) d of
             (d', Inl e) \<Rightarrow> (d', Inl e)
           | (d', Inr (balances, usedAddresses, res)) \<Rightarrow>
               (d', ebind (internal_loop lib cfg p (GetJettonInternalWithdrawalTasks usedAddresses 250 d') (balances, res)) (\<lambda>s.
                    ebind (GetExternalWithdrawalTasks sch 250 d') (\<lambda>externalTasks.
                    ebind (external_loop lib p externalTasks s) (\<lambda>(_, res). Inr res))))))"

subsection \<open>The cold wallet\<close>

definition cold_request :: "string \<Rightarrow> Coins \<Rightarrow> bool \<Rightarrow> Address \<Rightarrow> string \<Rightarrow> WithdrawalRequest" where
  "cold_request cur amount bounceable dest queryID = \<lparr>wr_QueryID = queryID, wr_UserID = [], wr_Status = [],
     wr_Currency = cur, wr_Amount = amount, wr_Bounceable = bounceable, wr_IsInternal = True,
     wr_Destination = dest, wr_Comment = []\<rparr>"

definition save_cold_request :: "schema \<Rightarrow> WithdrawalRequest \<Rightarrow> database \<Rightarrow> database \<times> unit result" where
  "save_cold_request sch req d = (case CreateWithdrawalRequest sch req d of
       (d', Inl e) \<Rightarrow> (d', Inl e) | (d', Inr _) \<Rightarrow> (d', Inr ()))"

text \<open>\<open>models.WithdrawalStatusProcessing\<close> is the string \<open>processing\<close>.\<close>

definition status_processing :: string where "status_processing = ''processing''"

text \<open>The loop over the jetton hot wallets, in the order \<open>range\<close> visits them, on the remaining TON
  balance. A currency without a configuration has a nil cutoff.\<close>

fun cold_loop :: "'c tonlib \<Rightarrow> config \<Rightarrow> schema \<Rightarrow> 'c WithdrawalsProcessor \<Rightarrow> Address \<Rightarrow> (string \<times> JettonWallet) list
    \<Rightarrow> int \<Rightarrow> database \<Rightarrow> database \<times> int result" where
  "cold_loop lib cfg sch p dest [] tonBalance d = (d, Inr tonBalance)"
| "cold_loop lib cfg sch p dest ((cur, jw) # jws) tonBalance d =
     (case ebind (withdrawalRepository p) (\<lambda>_. GetInternalWithdrawalStatus sch dest cur d) of
        Inl e \<Rightarrow> (d, Inl e)
      | Inr status \<Rightarrow>
          if status = status_processing then cold_loop lib cfg sch p dest jws tonBalance d
          else
            (case ebind (wp_GetLastJettonBalance p (jw_Address jw)) (\<lambda>jettonBalance.
                  ebind (deref (map_of (cfg_Jettons cfg) cur)) (\<lambda>j.
                  if jettonBalance \<le> j_HotWalletMaxCutoff j then Inr None
                  else ebind (wp_NewV4 p dest cur) (\<lambda>u.
                       Inr (Some (cold_request (jw_Currency jw) (NewCoins (jettonBalance - j_HotWalletMaxCutoff j))
                         True dest (uuid_String lib u)))))) of
               Inl e \<Rightarrow> (d, Inl e)
             | Inr None \<Rightarrow> cold_loop lib cfg sch p dest jws tonBalance d
             | Inr (Some req) \<Rightarrow>
                 (case save_cold_request sch req d of
                    (d', Inl e) \<Rightarrow> (d', Inl e)
                  | (d', Inr _) \<Rightarrow> cold_loop lib cfg sch p dest jws (tonBalance - JettonTransferTonAmount) d')))"

definition makeColdWalletWithdrawals :: "'c tonlib \<Rightarrow> config \<Rightarrow> schema \<Rightarrow> 'c WithdrawalsProcessor \<Rightarrow> database
    \<Rightarrow> database \<times> unit result" where
  "makeColdWalletWithdrawals lib cfg sch p d = (case wp_coldWallet p of
       None \<Rightarrow> (d, Inr ())
     | Some cold \<Rightarrow>
         (case ebind (wp_GetAccountCurrentState p (wp_TonHotWallet p)) (\<lambda>(tonBalance, _).
               ebind (AddressMustFromTonutilsAddress (Some cold)) (\<lambda>dest. Inr (tonBalance, dest))) of
            Inl e \<Rightarrow> (d, Inl e)
          | Inr (tonBalance, dest) \<Rightarrow>
              (case cold_loop lib cfg sch p dest (wp_JettonHotWallets p) tonBalance d of
                 (d', Inl e) \<Rightarrow> (d', Inl e)
               | (d', Inr tonBalance) \<Rightarrow>
                   (case ebind (withdrawalRepository p) (\<lambda>_. GetInternalWithdrawalStatus sch dest TonSymbol d') of
                      Inl e \<Rightarrow> (d', Inl e)
                    | Inr status \<Rightarrow>
                        if status = status_processing then (d', Inr ())
                        else if tonBalance \<le> c_HotWalletMax (cfg_Ton cfg) then (d', Inr ())
                        else
                          (case wp_NewV4 p dest TonSymbol of
                             Inl e \<Rightarrow> (d', Inl e)
                           | Inr u \<Rightarrow>
                               save_cold_request sch (cold_request TonSymbol
                                 (NewCoins (tonBalance - c_HotWalletMax (cfg_Ton cfg)))
                                 (ta_bounceable cold) dest (uuid_String lib u)) d')))))"

subsection \<open>The processors\<close>

text \<open>One turn of \<open>startWithdrawalsProcessor\<close> after \<open>waitSync\<close>. Every error but that of the send
  ends the process. The second component is the message handed to \<open>SendExternalMessage\<close>.\<close>

definition save_services :: "int \<Rightarrow> serviceWithdrawal list \<Rightarrow> database \<Rightarrow> database" where
  "save_services ttl sws d =
     fold (\<lambda>sw. UpdateServiceWithdrawalRequest (sw_Task sw) (sw_TonAmount sw) ttl (sw_Filled sw)) sws d"

definition save_internal :: "int \<Rightarrow> internalWithdrawal \<Rightarrow> database \<Rightarrow> database \<times> unit result" where
  "save_internal ttl iw d = (case SaveInternalWithdrawalTask (il_Task iw) ttl (il_Memo iw) d of
       Inl e \<Rightarrow> (d, Inl e) | Inr d' \<Rightarrow> (d', Inr ()))"

definition record_and_send :: "'c tonlib \<Rightarrow> schema \<Rightarrow> 'c WithdrawalsProcessor \<Rightarrow> 'c withdrawals \<Rightarrow> database
    \<Rightarrow> (database \<times> 'c ExternalMessage option) \<times> unit result" where
  "record_and_send lib sch p w d =
     (case ebind (fatal_on ''build hotwallet external msg error'' (wp_BuildMessageForMany p (ws_Messages w))) (\<lambda>extMsg.
           ebind (fatal_on ''get external message uuid error'' (getHighLoadWalletExtMsgInfo lib extMsg)) (\<lambda>info.
           ebind (fatal_on ''save external withdrawals error''
                    (CreateExternalWithdrawals sch (ws_External w) (hi_UUID info) (hi_TTL info) d)) (\<lambda>d'.
           Inr (extMsg, info, d')))) of
        Inl e \<Rightarrow> ((d, None), Inl e)
      | Inr (extMsg, info, d') \<Rightarrow>
          (case for_each_io (save_internal (hi_TTL info)) (ws_Internal w) (save_services (hi_TTL info) (ws_Service w) d') of
             (d'', Inl e) \<Rightarrow> ((d'', None), fatal_on ''save internal withdrawal error'' (Inl e))
           | (d'', Inr _) \<Rightarrow> ((d'', Some extMsg), swallow_err (wp_SendExternalMessage p extMsg))))"

definition withdrawals_round :: "'c tonlib \<Rightarrow> config \<Rightarrow> schema \<Rightarrow> 'c WithdrawalsProcessor \<Rightarrow> int \<Rightarrow> database
    \<Rightarrow> (database \<times> 'c ExternalMessage option) \<times> unit result" where
  "withdrawals_round lib cfg sch p now d =
     (case makeColdWalletWithdrawals lib cfg sch p d of
        (d1, Inl e) \<Rightarrow> ((d1, None), fatal_on ''make withdrawals to cold wallet error'' (Inl e))
      | (d1, Inr _) \<Rightarrow>
          (case buildWithdrawalMessages lib cfg sch p now d1 of
             (d2, Inl e) \<Rightarrow> ((d2, None), fatal_on ''make withdrawal messages error'' (Inl e))
           | (d2, Inr w) \<Rightarrow>
               if ws_Messages w = [] then ((d2, None), Inr ()) else record_and_send lib sch p w d2))"

definition hot_wallet :: "'c WithdrawalsProcessor \<Rightarrow> 'c Wallet" where
  "hot_wallet p = \<lparr>w_Address = Some (wp_TonHotWallet p), w_Send = (\<lambda>_. Inr ())\<rparr>"

definition withdrawTONsFromDeposit :: "'c tonlib \<Rightarrow> config \<Rightarrow> 'c WithdrawalsProcessor \<Rightarrow> int \<Rightarrow> InternalWithdrawalTask
    \<Rightarrow> database \<Rightarrow> database \<times> unit result" where
  "withdrawTONsFromDeposit lib cfg p now task d =
     (case ebind (wp_GetSubwallet p (it_SubwalletID task)) (\<lambda>subwallet.
           ebind (deref (w_Address subwallet)) (\<lambda>a.
           ebind (wp_GetAccountCurrentState p a) (\<lambda>(balance, state).
           if state = AccountStatusNonExist \<or> balance \<le> c_Withdrawal (cfg_Ton cfg) then Inr None
           else ebind (wp_NewV4 p (it_From task) (it_Currency task)) (\<lambda>memo.
                ebind (withdrawalRepository p) (\<lambda>_.
                ebind (SaveInternalWithdrawalTask task (now + ExternalMessageLifetime) memo d) (\<lambda>d'.
                Inr (Some (subwallet, memo, d')))))))) of
        Inl e \<Rightarrow> (d, Inl e)
      | Inr None \<Rightarrow> (d, Inr ())
      | Inr (Some (subwallet, memo, d')) \<Rightarrow>
          (d', swallow_err (WithdrawTON lib (Some subwallet) (Some (hot_wallet p)) (uuid_String lib memo))))"

definition serviceWithdrawJettons :: "'c tonlib \<Rightarrow> 'c WithdrawalsProcessor \<Rightarrow> int \<Rightarrow> ServiceWithdrawalTask
    \<Rightarrow> database \<Rightarrow> database \<times> unit result" where
  "serviceWithdrawJettons lib p now task d =
     (case ebind (wp_GetSubwallet p (st_SubwalletID task)) (\<lambda>subwallet.
           ebind (deref (w_Address subwallet)) (\<lambda>a.
           ebind (wp_GetAccountCurrentState p a) (\<lambda>(_, state).
           if state = AccountStatusNonExist then Inr None
           else ebind (deref (st_JettonMaster task)) (\<lambda>master.
                ebind (wp_GetJettonWalletAddress p a (ToTonutilsAddressStd lib 0 master)) (\<lambda>jettonWallet.
                ebind (withdrawalRepository p) (\<lambda>_. Inr (Some (subwallet, jettonWallet)))))))) of
        Inl e \<Rightarrow> (d, Inl e)
      | Inr None \<Rightarrow> (d, Inr ())
      | Inr (Some (subwallet, jettonWallet)) \<Rightarrow>
          (UpdateServiceWithdrawalRequest task ZeroCoins (now + ExternalMessageLifetime) False d,
           swallow_err (WithdrawJetton lib (Some subwallet) (Some (hot_wallet p)) jettonWallet 0
             (st_JettonAmount task) (wp_rand p (st_From task)) (uuid_String lib (st_Memo task)))))"

text \<open>One turn of \<open>startInternalTonWithdrawalsProcessor\<close>: an error of one task is logged and the
  next task is tried. The second list of tasks is read after the first has been worked off.\<close>

definition logged :: "('x \<Rightarrow> database \<Rightarrow> database \<times> unit result) \<Rightarrow> 'x \<Rightarrow> database \<Rightarrow> database \<times> unit result" where
  "logged f x d = (case f x d of (d', r) \<Rightarrow> (d', swallow_err r))"

definition internal_ton_round :: "'c tonlib \<Rightarrow> config \<Rightarrow> 'c WithdrawalsProcessor \<Rightarrow> int \<Rightarrow> database \<Rightarrow> database \<times> unit result" where
  "internal_ton_round lib cfg p now d =
     (case withdrawalRepository p of
        Inl e \<Rightarrow> (d, Inl e)
      | Inr _ \<Rightarrow>
          (case for_each_io (logged (serviceWithdrawJettons lib p now)) (GetServiceDepositWithdrawalTasks 5 d) d of
             (d', Inl e) \<Rightarrow> (d', Inl e)
           | (d', Inr _) \<Rightarrow>
               for_each_io (logged (withdrawTONsFromDeposit lib cfg p now)) (GetTonInternalWithdrawalTasks 40 d') d'))"

definition expiration_round :: "schema \<Rightarrow> go_error option \<Rightarrow> go_error option \<Rightarrow> int \<Rightarrow> int \<Rightarrow> database \<Rightarrow> database \<times> unit result" where
  "expiration_round sch beginErr commitErr now now' d =
     (case SetExpired sch beginErr commitErr now now' d of (d', r) \<Rightarrow> (d', swallow_err r))"

text \<open>One turn of \<open>waitSync\<close>: whether the wait is over. \<open>lastSavedBlock\<close> is what the repository answers
  to \<open>GetLastSavedBlock\<close>.\<close>

definition waitSync_step :: "ShardBlockHeader result \<Rightarrow> bool \<Rightarrow> int \<Rightarrow> bool result" where
  "waitSync_step lastSavedBlock gracefulShutdown now =
     (if gracefulShutdown then Inr True
      else ebind (fatal_on ''check sync error'' lastSavedBlock) (\<lambda>block.
           Inr (\<not> IsExpired now (sb_GenUtime block))))"

subsection \<open>Specification vocabulary and examples\<close>

text \<open>What a payment costs in each currency, what a batch spends, and the two loop invariants: the
  batch fits into the balances \<open>b0\<close> it was started with, and it has one message per entry.\<close>

definition payment_cost :: "string \<Rightarrow> int \<Rightarrow> string \<Rightarrow> int" where
  "payment_cost cur amount c =
     (if c = cur then amount else if c = TonSymbol then JettonTransferTonAmount else 0)"

definition spent :: "string \<Rightarrow> 'c withdrawals \<Rightarrow> int" where
  "spent c w = sum_list (map (\<lambda>t. payment_cost (et_Currency t) (et_Amount t) c) (ws_External w))
     + (if c = TonSymbol then JettonTransferTonAmount * int (length (ws_Service w) + length (ws_Internal w)) else 0)"

definition within :: "(string \<rightharpoonup> int) \<Rightarrow> (string \<rightharpoonup> int) \<Rightarrow> 'c withdrawals \<Rightarrow> bool" where
  "within b0 b w \<longleftrightarrow> (\<forall>c x0. b0 c = Some x0 \<longrightarrow> (\<exists>y. b c = Some y \<and> 0 \<le> y \<and> y + spent c w \<le> x0))"

definition counted :: "'c withdrawals \<Rightarrow> bool" where
  "counted w \<longleftrightarrow> length (ws_Messages w) = length (ws_External w) + length (ws_Internal w) + length (ws_Service w)"

text \<open>A processor with 100 nanoTON and one open request over 70, for examples.\<close>

definition sample_processor :: "tcell WithdrawalsProcessor" where
  "sample_processor = \<lparr>wp_hasWithdrawalRepository = True, wp_addressBook = Some \<lparr>ab_addresses = Some Map.empty\<rparr>,
     wp_GetAccountCurrentState = (\<lambda>_. Inr (100, AccountStatusActive)),
     wp_GetLastJettonBalance = (\<lambda>_. Inr 0),
     wp_GetJettonWalletAddress = (\<lambda>_ a. Inr a),
     wp_TonHotWallet = sample_tonaddr (sample_addr 4), wp_JettonHotWallets = [],
     wp_GetSubwallet = (\<lambda>_. Inr \<lparr>w_Address = Some (sample_tonaddr (sample_addr 1)), w_Send = (\<lambda>_. Inr ())\<rparr>),
     wp_BuildMessageForMany = (\<lambda>_. Inr \<lparr>em_DstAddr = None, em_Body = Some (HighloadBody 0 [])\<rparr>),
     wp_SendExternalMessage = (\<lambda>_. Inr ()),
     wp_NewV4 = (\<lambda>_ _. Inr [1]), wp_rand = (\<lambda>_. 7), wp_coldWallet = None\<rparr>"

definition sample_open :: database where
  "sample_open = empty_database\<lparr>withdrawal_requests := [sample_request 3 9 70], next_query_id := 4\<rparr>"

subsection \<open>Balances\<close>

lemma decreaseBalances_low:
  "decreaseBalances b cur amount = Inr (True, b') \<Longrightarrow> b' = b"
  by (auto simp: decreaseBalances_def ebind_Inr_iff split: if_splits)

lemma decreaseBalances_fits:
  assumes "decreaseBalances b cur amount = Inr (False, b')" and "b c = Some y" and "0 \<le> y"
  shows "b' c = Some (y - payment_cost cur amount c)" and "0 \<le> y - payment_cost cur amount c"
  using assms by (auto simp: decreaseBalances_def ebind_Inr_iff deref_Inr_iff payment_cost_def split: if_splits)

lemma within_step:
  assumes "within b0 b w" and "decreaseBalances b cur amount = Inr (False, b')"
    and "\<And>c. spent c w' \<le> spent c w + payment_cost cur amount c"
  shows "within b0 b' w'"
  unfolding within_def
proof (intro allI impI)
  fix c x0 assume "b0 c = Some x0"
  with assms(1) obtain y where y: "b c = Some y" "0 \<le> y" "y + spent c w \<le> x0" by (auto simp: within_def)
  with decreaseBalances_fits [OF assms(2) y(1,2)] assms(3) [of c]
  show "\<exists>y. b' c = Some y \<and> 0 \<le> y \<and> y + spent c w' \<le> x0" by force
qed

lemma ton_amount_nonneg: "0 \<le> JettonTransferTonAmount"
  by (simp add: JettonTransferTonAmount_def)

lemma spent_simps:
  "spent c (w\<lparr>ws_Messages := m, ws_Service := ws_Service w @ [s]\<rparr>) = spent c w + payment_cost TonSymbol JettonTransferTonAmount c"
  "spent c (w\<lparr>ws_Messages := m, ws_Internal := ws_Internal w @ [i]\<rparr>) = spent c w + payment_cost TonSymbol JettonTransferTonAmount c"
  "spent c (w\<lparr>ws_Messages := m, ws_External := ws_External w @ [t]\<rparr>) = spent c w + payment_cost (et_Currency t) (et_Amount t) c"
  "0 \<le> payment_cost TonSymbol JettonTransferTonAmount c"
  by (simp_all add: spent_def payment_cost_def algebra_simps ton_amount_nonneg)

subsection \<open>The three loops\<close>

lemma service_loop_keeps:
  assumes "service_loop lib p now ts (b, used, w) d = (d', Inr (b', used', w'))"
    and "within b0 b w" and "counted w"
  shows "within b0 b' w' \<and> counted w' \<and> length (ws_Messages w') \<le> length (ws_Messages w) + length ts
    \<and> ws_External w' = ws_External w"
  using assms
proof (induction ts arbitrary: b used w d)
  case (Cons t ts)
  from Cons.prems(1) obtain low b1 where dec: "decreaseBalances b TonSymbol JettonTransferTonAmount = Inr (low, b1)"
    by (cases "decreaseBalances b TonSymbol JettonTransferTonAmount") auto
  show ?case
  proof (cases low)
    case True
    with Cons.prems dec Cons.IH [of b used w d] show ?thesis by auto
  next
    case False
    with Cons.prems(1) dec obtain m sw where m: "buildServiceWithdrawalMessage lib p t = Inr (m, sw)"
      by (cases "buildServiceWithdrawalMessage lib p t") auto
    have dec': "decreaseBalances b TonSymbol JettonTransferTonAmount = Inr (False, b1)" using dec False by simp
    show ?thesis
    proof (cases m)
      case None
      have "within b0 b1 w" by (rule within_step [OF Cons.prems(2) dec']) (simp add: spent_simps)
      with Cons.prems dec' m None Cons.IH [of b1 used w] show ?thesis by fastforce
    next
      case (Some msg)
      let ?w = "w\<lparr>ws_Messages := ws_Messages w @ [msg], ws_Service := ws_Service w @ [sw]\<rparr>"
      have "within b0 b1 ?w" by (rule within_step [OF Cons.prems(2) dec']) (simp add: spent_simps)
      moreover have "counted ?w" using Cons.prems(3) by (simp add: counted_def)
      ultimately show ?thesis using Cons.prems dec' m Some Cons.IH [of b1 "used @ [st_From t]" ?w d] by auto
    qed
  qed
qed auto

lemma internal_loop_keeps:
  assumes "internal_loop lib cfg p ts (b, w) = Inr (b', w')"
    and "within b0 b w" and "counted w" and "length (ws_Messages w) \<le> 251"
  shows "within b0 b' w' \<and> counted w' \<and> length (ws_Messages w') \<le> 251 \<and> ws_External w' = ws_External w"
  using assms
proof (induction ts arbitrary: b w)
  case (Cons t ts)
  show ?case
  proof (cases "length (ws_Messages w) > 250")
    case True
    with Cons.prems show ?thesis by simp
  next
    case room: False
    with Cons.prems(1) obtain low b1 where dec: "decreaseBalances b TonSymbol JettonTransferTonAmount = Inr (low, b1)"
      by (auto simp: ebind_Inr_iff)
    show ?thesis
    proof (cases low)
      case True
      with Cons.prems dec room Cons.IH [of b w] show ?thesis by simp
    next
      case False
      then have dec': "decreaseBalances b TonSymbol JettonTransferTonAmount = Inr (False, b1)" using dec by simp
      with Cons.prems(1) room obtain m where m: "buildJettonInternalWithdrawalMessage lib cfg p t = Inr m"
        by (auto simp: ebind_Inr_iff)
      show ?thesis
      proof (cases m)
        case None
        have "within b0 b1 w" by (rule within_step [OF Cons.prems(2) dec']) (simp add: spent_simps)
        with Cons.prems dec' m None room Cons.IH [of b1 w] show ?thesis by simp
      next
        case (Some mm)
        obtain msg memo where mm: "mm = (msg, memo)" by (cases mm)
        let ?w = "w\<lparr>ws_Messages := ws_Messages w @ [msg], ws_Internal := ws_Internal w @ [\<lparr>il_Memo = memo, il_Task = t\<rparr>]\<rparr>"
        have "within b0 b1 ?w" by (rule within_step [OF Cons.prems(2) dec']) (simp add: spent_simps)
        moreover have "counted ?w" using Cons.prems(3) by (simp add: counted_def)
        ultimately show ?thesis using Cons.prems dec' m Some mm room Cons.IH [of b1 ?w] by simp
      qed
    qed
  qed
qed auto

lemma external_loop_keeps:
  assumes "external_loop lib p ts (b, w) = Inr (b', w')" and "wp_addressBook p = Some ab"
    and "within b0 b w" and "counted w" and "length (ws_Messages w) \<le> 251"
  shows "within b0 b' w' \<and> counted w' \<and> length (ws_Messages w') \<le> 251
    \<and> (\<exists>es. ws_External w' = ws_External w @ es \<and> set es \<subseteq> set ts
        \<and> (distinct (map et_Destination ts) \<longrightarrow> distinct (map et_Destination es))
        \<and> (\<forall>t \<in> set es. GetWalletType ab (et_Destination t) = None))"
  using assms(1) assms(3-)
proof (induction ts arbitrary: b w)
  case (Cons t ts)
  have skip: ?case if "external_loop lib p ts (b, w) = Inr (b', w')"
    using Cons.IH [OF that Cons.prems(2-)] by fastforce
  show ?case
  proof (cases "length (ws_Messages w) > 250")
    case True
    with Cons.prems show ?thesis by simp
  next
    case room: False
    show ?thesis
    proof (cases "GetWalletType ab (et_Destination t)")
      case (Some x)
      with Cons.prems(1) room show ?thesis by (intro skip) (simp add: assms(2))
    next
      case None
      with Cons.prems(1) room obtain low b1 where dec: "decreaseBalances b (et_Currency t) (et_Amount t) = Inr (low, b1)"
        by (auto simp: assms(2) ebind_Inr_iff)
      show ?thesis
      proof (cases low)
        case True
        with Cons.prems(1) room None dec show ?thesis by (intro skip) (simp add: assms(2))
      next
        case False
        then have dec': "decreaseBalances b (et_Currency t) (et_Amount t) = Inr (False, b1)" using dec by simp
        with Cons.prems(1) room None obtain msg where
          rest: "external_loop lib p ts (b1, w\<lparr>ws_Messages := ws_Messages w @ [msg], ws_External := ws_External w @ [t]\<rparr>) = Inr (b', w')"
          by (auto simp: assms(2) ebind_Inr_iff)
        let ?w = "w\<lparr>ws_Messages := ws_Messages w @ [msg], ws_External := ws_External w @ [t]\<rparr>"
        have "within b0 b1 ?w" by (rule within_step [OF Cons.prems(2) dec']) (simp add: spent_simps)
        moreover have "counted ?w" using Cons.prems(3) by (simp add: counted_def)
        ultimately obtain es where es: "within b0 b' w'" "counted w'" "length (ws_Messages w') \<le> 251"
          "ws_External w' = ws_External ?w @ es" "set es \<subseteq> set ts"
          "distinct (map et_Destination ts) \<longrightarrow> distinct (map et_Destination es)"
          "\<forall>t \<in> set es. GetWalletType ab (et_Destination t) = None"
          using Cons.IH [OF rest] room by auto
        then show ?thesis using None by (intro conjI exI [of _ "t # es"]) auto
      qed
    qed
  qed
qed auto

lemma service_tasks_limit: "length (GetServiceHotWithdrawalTasks n d) \<le> n"
  by (simp add: GetServiceHotWithdrawalTasks_def)

lemma within_start: "(\<And>c x. b0 c = Some x \<Longrightarrow> 0 \<le> x) \<Longrightarrow> within b0 b0 no_withdrawals"
  by (auto simp: within_def spent_def no_withdrawals_def)

lemma buildWithdrawalMessages_steps:
  assumes "buildWithdrawalMessages lib cfg sch p now d = (d', Inr w)"
  obtains b0 b1 used w1 b2 w2 ts b3 where "getHotWalletBalances p = Inr b0"
    and "service_loop lib p now (GetServiceHotWithdrawalTasks 250 d) (b0, [], no_withdrawals) d = (d', Inr (b1, used, w1))"
    and "internal_loop lib cfg p (GetJettonInternalWithdrawalTasks used 250 d') (b1, w1) = Inr (b2, w2)"
    and "GetExternalWithdrawalTasks sch 250 d' = Inr ts"
    and "external_loop lib p ts (b2, w2) = Inr (b3, w)"
proof -
  from assms obtain b0 where b0: "getHotWalletBalances p = Inr b0" and r: "withdrawalRepository p = Inr ()"
    by (auto simp: buildWithdrawalMessages_def wrap_err_Inr_iff ebind_Inr_iff split: sum.splits)
  from b0 r assms obtain r1 where s: "service_loop lib p now (GetServiceHotWithdrawalTasks 250 d) (b0, [], no_withdrawals) d = (d', Inr r1)"
    by (auto simp: buildWithdrawalMessages_def wrap_err_def split: prod.splits sum.splits)
  obtain b1 used w1 where r1: "r1 = (b1, used, w1)" by (cases r1)
  from assms have "ebind (internal_loop lib cfg p (GetJettonInternalWithdrawalTasks used 250 d') (b1, w1)) (\<lambda>s.
      ebind (GetExternalWithdrawalTasks sch 250 d') (\<lambda>ts. ebind (external_loop lib p ts s) (\<lambda>(_, res). Inr res))) = Inr w"
    by (simp add: buildWithdrawalMessages_def wrap_err_def b0 r s r1)
  then show thesis using b0 s r1 by (auto simp: ebind_Inr_iff intro: that)
qed

lemma buildWithdrawalMessages_batch:
  assumes "buildWithdrawalMessages lib cfg sch p now d = (d', Inr w)" and "getHotWalletBalances p = Inr b0"
    and "\<And>c x. b0 c = Some x \<Longrightarrow> 0 \<le> x" and "wp_addressBook p = Some ab"
  obtains ts b where "within b0 b w" and "counted w" and "length (ws_Messages w) \<le> 251"
    and "GetExternalWithdrawalTasks sch 250 d' = Inr ts" and "set (ws_External w) \<subseteq> set ts"
    and "distinct (map et_Destination ts) \<longrightarrow> distinct (map et_Destination (ws_External w))"
    and "\<forall>t \<in> set (ws_External w). GetWalletType ab (et_Destination t) = None"
proof -
  obtain b0' b1 used w1 b2 w2 ts b3 where s: "getHotWalletBalances p = Inr b0'"
    "service_loop lib p now (GetServiceHotWithdrawalTasks 250 d) (b0', [], no_withdrawals) d = (d', Inr (b1, used, w1))"
    "internal_loop lib cfg p (GetJettonInternalWithdrawalTasks used 250 d') (b1, w1) = Inr (b2, w2)"
    "GetExternalWithdrawalTasks sch 250 d' = Inr ts" "external_loop lib p ts (b2, w2) = Inr (b3, w)"
    by (rule buildWithdrawalMessages_steps [OF assms(1)])
  have "b0' = b0" using s(1) assms(2) by simp
  have start: "within b0 b0 (no_withdrawals :: 'a withdrawals)" using assms(3) by (rule within_start)
  have 0: "counted (no_withdrawals :: 'a withdrawals)" "ws_Messages no_withdrawals = []" "ws_External no_withdrawals = []"
    by (simp_all add: counted_def no_withdrawals_def)
  have 1: "within b0 b1 w1 \<and> counted w1 \<and> length (ws_Messages w1) \<le> 251 \<and> ws_External w1 = []"
    using service_loop_keeps [OF s(2) [unfolded \<open>b0' = b0\<close>] start 0(1)] service_tasks_limit [of 250 d]
    by (simp add: no_withdrawals_def)
  have 2: "within b0 b2 w2 \<and> counted w2 \<and> length (ws_Messages w2) \<le> 251 \<and> ws_External w2 = []"
    using internal_loop_keeps [OF s(3), of b0] 1 by simp
  then obtain es where "within b0 b3 w" "counted w" "length (ws_Messages w) \<le> 251" "ws_External w = es" "set es \<subseteq> set ts"
    "distinct (map et_Destination ts) \<longrightarrow> distinct (map et_Destination es)"
    "\<forall>t \<in> set es. GetWalletType ab (et_Destination t) = None"
    using external_loop_keeps [OF s(5) assms(4), of b0] by auto
  then show thesis using s(4) by (intro that) auto
qed

text \<open>C9: the hot wallet is never overdrawn by a batch. The messages \<open>buildWithdrawalMessages\<close> puts
  together spend, in every currency, at most the balance the hot wallet had when the batch was
  started, counting the TON attached to every jetton and service transfer.\<close>

theorem hot_wallet_not_overdrawn:
  assumes "buildWithdrawalMessages lib cfg sch p now d = (d', Inr w)" and "getHotWalletBalances p = Inr b0"
    and "\<forall>c x. b0 c = Some x \<longrightarrow> 0 \<le> x" and "wp_addressBook p = Some ab" and "b0 c = Some x0"
  shows "spent c w \<le> x0"
proof -
  obtain b where "within b0 b w"
    by (rule buildWithdrawalMessages_batch [OF assms(1,2) _ assms(4)]) (use assms(3) in auto)
  then show ?thesis using assms(5) by (force simp: within_def)
qed

text \<open>C16: what a batch contains. It has at most 251 messages, one for every external payment, jetton
  sweep and service transfer in it; its external payments are for open requests, go to pairwise
  different addresses, and none of these is an address of the service itself.\<close>

theorem withdrawal_batch:
  assumes "buildWithdrawalMessages lib cfg sch p now d = (d', Inr w)" and "getHotWalletBalances p = Inr b0"
    and "\<forall>c x. b0 c = Some x \<longrightarrow> 0 \<le> x" and "wp_addressBook p = Some ab"
  shows "length (ws_Messages w) \<le> 251
    \<and> length (ws_Messages w) = length (ws_External w) + length (ws_Internal w) + length (ws_Service w)
    \<and> distinct (map et_Destination (ws_External w))
    \<and> (\<forall>t \<in> set (ws_External w). GetWalletType ab (et_Destination t) = None
        \<and> (\<exists>r \<in> set (withdrawal_requests d'). t = task_of_request r \<and> \<not> rq_processing r))"
proof -
  obtain ts b where b: "counted w" "length (ws_Messages w) \<le> 251"
    "GetExternalWithdrawalTasks sch 250 d' = Inr ts" "set (ws_External w) \<subseteq> set ts"
    "distinct (map et_Destination ts) \<longrightarrow> distinct (map et_Destination (ws_External w))"
    "\<forall>t \<in> set (ws_External w). GetWalletType ab (et_Destination t) = None"
    by (rule buildWithdrawalMessages_batch [OF assms(1,2) _ assms(4)]) (use assms(3) in auto)
  show ?thesis using b external_tasks_distinct [OF b(3)] external_tasks_open [OF b(3)] by (auto simp: counted_def)
qed

lemma save_services_frame:
  "external_withdrawals (save_services ttl sws d) = external_withdrawals d \<and>
   withdrawal_requests (save_services ttl sws d) = withdrawal_requests d \<and>
   internal_withdrawals (save_services ttl sws d) = internal_withdrawals d"
  by (induction sws arbitrary: d) (simp_all add: save_services_def UpdateServiceWithdrawalRequest_def)

lemma save_internals:
  assumes "for_each_io (save_internal ttl) iws d = (d', Inr u)"
  shows "external_withdrawals d' = external_withdrawals d \<and> withdrawal_requests d' = withdrawal_requests d
    \<and> set (internal_withdrawals d) \<subseteq> set (internal_withdrawals d')
    \<and> (\<forall>iw \<in> set iws. \<exists>r \<in> set (internal_withdrawals d'). nw_memo r = il_Memo iw \<and> nw_from_address r = it_From (il_Task iw)
        \<and> nw_expired_at r = Some ttl \<and> \<not> nw_failed r \<and> nw_sending_lt r = None)"
  using assms
proof (induction iws arbitrary: d)
  case (Cons iw iws)
  from Cons.prems obtain d1 v where s: "save_internal ttl iw d = (d1, Inr v)"
    and rest: "for_each_io (save_internal ttl) iws d1 = (d', Inr u)"
    by (auto split: prod.splits sum.splits)
  from s have 1: "SaveInternalWithdrawalTask (il_Task iw) ttl (il_Memo iw) d = Inr d1"
    by (auto simp: save_internal_def split: sum.splits)
  from 1 obtain r where "d1 = d\<lparr>internal_withdrawals := internal_withdrawals d @ [r]\<rparr>"
    and "nw_memo r = il_Memo iw \<and> nw_from_address r = it_From (il_Task iw)
        \<and> nw_expired_at r = Some ttl \<and> \<not> nw_failed r \<and> nw_sending_lt r = None"
    by (auto simp: SaveInternalWithdrawalTask_def res_simps)
  with Cons.IH [OF rest] show ?case by auto
qed simp

lemma record_and_send_sent:
  assumes "record_and_send lib sch p w d = ((d', Some ext), r)"
  obtains info where "wp_BuildMessageForMany p (ws_Messages w) = Inr ext"
    and "getHighLoadWalletExtMsgInfo lib ext = Inr info"
    and "external_withdrawals d' = external_withdrawals d @ map (sent_row (hi_UUID info) (hi_TTL info)) (ws_External w)"
    and "withdrawal_requests d' = update_where (\<lambda>r. rq_query_id r \<in> et_QueryID ` set (ws_External w))
        (\<lambda>r. r\<lparr>rq_processing := True\<rparr>) (withdrawal_requests d)"
    and "\<forall>iw \<in> set (ws_Internal w). \<exists>r \<in> set (internal_withdrawals d'). nw_memo r = il_Memo iw \<and> nw_from_address r = it_From (il_Task iw)
        \<and> nw_expired_at r = Some (hi_TTL info) \<and> \<not> nw_failed r \<and> nw_sending_lt r = None"
proof -
  let ?m = "ebind (fatal_on ''build hotwallet external msg error'' (wp_BuildMessageForMany p (ws_Messages w))) (\<lambda>extMsg.
           ebind (fatal_on ''get external message uuid error'' (getHighLoadWalletExtMsgInfo lib extMsg)) (\<lambda>info.
           ebind (fatal_on ''save external withdrawals error''
                    (CreateExternalWithdrawals sch (ws_External w) (hi_UUID info) (hi_TTL info) d)) (\<lambda>d'.
           Inr (extMsg, info, d'))))"
  from assms obtain info d1 where m: "?m = Inr (ext, info, d1)" and
    i: "for_each_io (save_internal (hi_TTL info)) (ws_Internal w) (save_services (hi_TTL info) (ws_Service w) d1) = (d', Inr ())"
    unfolding record_and_send_def by (auto split: sum.splits prod.splits)
  from m have b: "wp_BuildMessageForMany p (ws_Messages w) = Inr ext" "getHighLoadWalletExtMsgInfo lib ext = Inr info"
    and c: "CreateExternalWithdrawals sch (ws_External w) (hi_UUID info) (hi_TTL info) d = Inr d1"
    by (auto simp: ebind_Inr_iff fatal_on_Inr_iff)
  show thesis
    using b CreateExternalWithdrawals_Inr [OF c] save_internals [OF i] save_services_frame [of "hi_TTL info" "ws_Service w" d1]
    by (intro that [of info]) simp_all
qed

text \<open>C4: nothing leaves the hot wallet unrecorded. When a turn of the withdrawal processor hands an
  external message to the network, every payment in it has its row under the message's id, not
  failed, with the message's expiry time, and its request is marked as being processed, so that it
  is not picked again; every jetton sweep in it has its row too.\<close>

theorem nothing_sent_unrecorded:
  assumes "withdrawals_round lib cfg sch p now d = ((d', Some ext), r)"
  shows "\<exists>w info d2. buildWithdrawalMessages lib cfg sch p now (fst (makeColdWalletWithdrawals lib cfg sch p d)) = (d2, Inr w)
    \<and> wp_BuildMessageForMany p (ws_Messages w) = Inr ext \<and> getHighLoadWalletExtMsgInfo lib ext = Inr info
    \<and> (\<forall>t \<in> set (ws_External w).
        (\<exists>x \<in> set (external_withdrawals d'). xw_key x = (hi_UUID info, et_Destination t) \<and> xw_query_id x = et_QueryID t
          \<and> xw_expired_at x = Some (hi_TTL info) \<and> \<not> xw_failed x \<and> xw_processed_lt x = None)
        \<and> (\<forall>q \<in> set (withdrawal_requests d'). rq_query_id q = et_QueryID t \<longrightarrow> rq_processing q))
    \<and> (\<forall>iw \<in> set (ws_Internal w). \<exists>r \<in> set (internal_withdrawals d'). nw_memo r = il_Memo iw
        \<and> nw_expired_at r = Some (hi_TTL info) \<and> \<not> nw_failed r)"
proof -
  from assms obtain d1 d2 w u where c: "makeColdWalletWithdrawals lib cfg sch p d = (d1, Inr u)"
    and b: "buildWithdrawalMessages lib cfg sch p now d1 = (d2, Inr w)"
    and s: "record_and_send lib sch p w d2 = ((d', Some ext), r)"
    by (auto simp: withdrawals_round_def split: prod.splits sum.splits if_splits)
  obtain info where i: "wp_BuildMessageForMany p (ws_Messages w) = Inr ext" "getHighLoadWalletExtMsgInfo lib ext = Inr info"
    "external_withdrawals d' = external_withdrawals d2 @ map (sent_row (hi_UUID info) (hi_TTL info)) (ws_External w)"
    "withdrawal_requests d' = update_where (\<lambda>r. rq_query_id r \<in> et_QueryID ` set (ws_External w))
        (\<lambda>r. r\<lparr>rq_processing := True\<rparr>) (withdrawal_requests d2)"
    "\<forall>iw \<in> set (ws_Internal w). \<exists>r \<in> set (internal_withdrawals d'). nw_memo r = il_Memo iw \<and> nw_from_address r = it_From (il_Task iw)
        \<and> nw_expired_at r = Some (hi_TTL info) \<and> \<not> nw_failed r \<and> nw_sending_lt r = None"
    by (rule record_and_send_sent [OF s])
  have "\<exists>x \<in> set (external_withdrawals d'). xw_key x = (hi_UUID info, et_Destination t) \<and> xw_query_id x = et_QueryID t
          \<and> xw_expired_at x = Some (hi_TTL info) \<and> \<not> xw_failed x \<and> xw_processed_lt x = None" if "t \<in> set (ws_External w)" for t
    by (rule bexI [of _ "sent_row (hi_UUID info) (hi_TTL info) t"]) (use that in \<open>auto simp: i(3) sent_row_def xw_key_def\<close>)
  moreover have "\<forall>q \<in> set (withdrawal_requests d'). rq_query_id q = et_QueryID t \<longrightarrow> rq_processing q" if "t \<in> set (ws_External w)" for t
    using that by (auto simp: i(4) update_where_def)
  ultimately show ?thesis using b c i(1,2,5) by (intro exI [of _ w] exI [of _ info] exI [of _ d2]) auto
qed

lemma sample_balances: "getHotWalletBalances sample_processor = Inr [TonSymbol \<mapsto> 100]"
  by (simp add: getHotWalletBalances_def sample_processor_def)

lemma sample_build:
  "\<exists>w. buildWithdrawalMessages sample_lib sample_config query_schema sample_processor 0 sample_open = (sample_open, Inr w)
    \<and> ws_External w = [task_of_request (sample_request 3 9 70)] \<and> ws_Internal w = [] \<and> ws_Service w = []
    \<and> ws_Messages w \<noteq> []"
  by (simp add: buildWithdrawalMessages_def sample_balances wrap_err_def withdrawalRepository_def
      GetServiceHotWithdrawalTasks_def service_rows_def GetJettonInternalWithdrawalTasks_def jetton_due_rows_def
      GetExternalWithdrawalTasks_def query_schema_def sample_open_def empty_database_def no_withdrawals_def)
    (simp add: sample_processor_def sample_request_def GetWalletType_def ab_get_def decreaseBalances_def
      task_of_request_def buildExternalWithdrawalMessage_def BuildTonWithdrawalMessage_def buildComment_def sample_lib_def)

lemma sample_nonneg: "\<forall>c x. ([TonSymbol \<mapsto> 100] :: string \<rightharpoonup> int) c = Some x \<longrightarrow> 0 \<le> x"
  by simp

lemma sample_processor_book: "wp_addressBook sample_processor = Some \<lparr>ab_addresses = Some Map.empty\<rparr>"
  by (simp add: sample_processor_def)

theorem hot_wallet_not_overdrawn_witness:
  "\<exists>w. buildWithdrawalMessages sample_lib sample_config query_schema sample_processor 0 sample_open = (sample_open, Inr w)
    \<and> ws_External w \<noteq> [] \<and> spent TonSymbol w \<le> 100"
  using sample_build hot_wallet_not_overdrawn [OF _ sample_balances sample_nonneg sample_processor_book, of _ _ _ _ _ _ _ TonSymbol 100]
  by fastforce

theorem withdrawal_batch_witness:
  "\<exists>w. buildWithdrawalMessages sample_lib sample_config query_schema sample_processor 0 sample_open = (sample_open, Inr w)
    \<and> length (ws_Messages w) \<le> 251 \<and> distinct (map et_Destination (ws_External w)) \<and> ws_External w \<noteq> []"
  using sample_build withdrawal_batch [OF _ sample_balances sample_nonneg sample_processor_book]
  by (metis list.distinct(1))

lemma sample_cold: "makeColdWalletWithdrawals sample_lib sample_config query_schema sample_processor sample_open = (sample_open, Inr ())"
  by (simp add: makeColdWalletWithdrawals_def sample_processor_def)

lemma sample_round:
  "\<exists>d' ext. withdrawals_round sample_lib sample_config query_schema sample_processor 0 sample_open = ((d', Some ext), Inr ())
    \<and> external_withdrawals d' \<noteq> []"
proof -
  obtain w where w: "buildWithdrawalMessages sample_lib sample_config query_schema sample_processor 0 sample_open = (sample_open, Inr w)"
    "ws_External w = [task_of_request (sample_request 3 9 70)]" "ws_Internal w = []" "ws_Service w = []" "ws_Messages w \<noteq> []"
    using sample_build by blast
  have msg: "wp_BuildMessageForMany sample_processor ms = Inr \<lparr>em_DstAddr = None, em_Body = Some (HighloadBody 0 [])\<rparr>"
    "wp_SendExternalMessage sample_processor m = Inr ()" for ms m by (simp_all add: sample_processor_def)
  show ?thesis
    by (simp add: withdrawals_round_def sample_cold w) (simp add: record_and_send_def w msg fatal_on_def getHighLoadWalletExtMsgInfo_def
        sample_lib_def CreateExternalWithdrawals_def createExternalWithdrawal_def insert_external_withdrawal_def
        insert_unique_def set_processing_def query_schema_def sample_open_def empty_database_def save_services_def
        swallow_err_def)
qed

theorem nothing_sent_unrecorded_witness:
  "\<exists>d' ext. withdrawals_round sample_lib sample_config query_schema sample_processor 0 sample_open = ((d', Some ext), Inr ())
    \<and> (\<exists>x \<in> set (external_withdrawals d'). xw_query_id x = 3 \<and> \<not> xw_failed x)"
proof -
  obtain w where w: "buildWithdrawalMessages sample_lib sample_config query_schema sample_processor 0 sample_open = (sample_open, Inr w)"
    "ws_External w = [task_of_request (sample_request 3 9 70)]"
    using sample_build by blast
  obtain d' ext where r: "withdrawals_round sample_lib sample_config query_schema sample_processor 0 sample_open = ((d', Some ext), Inr ())"
    using sample_round by blast
  have "et_QueryID (task_of_request (sample_request 3 9 70)) = 3" by (simp add: task_of_request_def sample_request_def)
  with nothing_sent_unrecorded [OF r] w have "\<exists>x \<in> set (external_withdrawals d'). xw_query_id x = 3 \<and> \<not> xw_failed x"
    by (auto simp: sample_cold)
  with r show ?thesis by blast
qed

end
