(* ===== verification/Payments.thy ===== *)
theory Payments
  imports BlockScanner WithdrawalsProcessor
begin

text \<open>
  Withdrawals across the components. The API inserts requests, the withdrawal processor picks
  open ones and records a hot-wallet message for them, the block scanner marks them paid or
  failed, and the expiration processor frees those whose message can no longer be accepted. All
  of them run concurrently on one database, each database transaction being one step.
  The state adds to the database what is not in it: the tasks picked but not yet recorded, and
  the ids of the hot-wallet messages seen in saved blocks.
\<close>

record pay_state =
  ps_db :: database
  ps_pending :: "ExternalWithdrawalTask list"
  ps_seen :: "UUID set"

definition pay_init :: pay_state where
  "pay_init = \<lparr>ps_db = empty_database, ps_pending = [], ps_seen = {}\<rparr>"

text \<open>
  What the chain guarantees of the withdrawal events of a new block: the hot-wallet contract
  accepts an external message once, so none of the message ids was seen in an earlier block; and
  no destination of a message is both paid and failed, which \<open>hot_wallet_accounts\<close> shows of the
  scanner for each message.
\<close>

definition fresh_withdrawals :: "UUID set \<Rightarrow> ExternalWithdrawal list \<Rightarrow> bool" where
  "fresh_withdrawals seen ws \<longleftrightarrow>
     (\<forall>w \<in> set ws. ew_ExtMsgUuid w \<notin> seen) \<and>
     (\<forall>w \<in> set ws. \<forall>w' \<in> set ws. ew_IsFailed w \<and> \<not> ew_IsFailed w' \<longrightarrow>
        (ew_ExtMsgUuid w, ew_To w) \<noteq> (ew_ExtMsgUuid w', ew_To w'))"

text \<open>
  The steps: a request is created; a batch of open tasks is picked (by one goroutine, so only
  when none is pending); the batch is recorded, or given up when the process stops before; the
  events of a block are saved; withdrawals expire; a TON sweep, a service request or the answer to
  one is written; a new deposit address is stored.
\<close>

inductive pay_step :: "'c tonlib \<Rightarrow> schema \<Rightarrow> pay_state \<Rightarrow> pay_state \<Rightarrow> bool" for lib sch where
  request: "pay_step lib sch s (s\<lparr>ps_db := fst (CreateWithdrawalRequest sch w (ps_db s))\<rparr>)"
| select: "ps_pending s = [] \<Longrightarrow> GetExternalWithdrawalTasks sch n (ps_db s) = Inr ts \<Longrightarrow> set batch \<subseteq> set ts
    \<Longrightarrow> distinct (map et_Destination batch) \<Longrightarrow> pay_step lib sch s (s\<lparr>ps_pending := batch\<rparr>)"
| record_batch: "CreateExternalWithdrawals sch (ps_pending s) u expiredAt (ps_db s) = Inr d'
    \<Longrightarrow> pay_step lib sch s (s\<lparr>ps_db := d', ps_pending := []\<rparr>)"
| give_up: "pay_step lib sch s (s\<lparr>ps_pending := []\<rparr>)"
| scan: "save_events lib sch ev (ps_db s) = Inr d'
    \<Longrightarrow> fresh_withdrawals (ps_seen s) (ExternalWithdrawals (be_Events ev))
    \<Longrightarrow> pay_step lib sch s (s\<lparr>ps_db := d',
          ps_seen := ps_seen s \<union> ew_ExtMsgUuid ` set (ExternalWithdrawals (be_Events ev))\<rparr>)"
| expire: "pay_step lib sch s (s\<lparr>ps_db := fst (SetExpired sch beginErr commitErr now now' (ps_db s))\<rparr>)"
| sweep: "SaveInternalWithdrawalTask t expiredAt memo (ps_db s) = Inr d' \<Longrightarrow> pay_step lib sch s (s\<lparr>ps_db := d'\<rparr>)"
| service: "pay_step lib sch s (s\<lparr>ps_db := UpdateServiceWithdrawalRequest st m expiredAt filled (ps_db s)\<rparr>)"
| service_request: "CreateServiceWithdrawalRequest memo sr (ps_db s) = Inr d' \<Longrightarrow> pay_step lib sch s (s\<lparr>ps_db := d'\<rparr>)"
| ton_address: "SaveTonWallet wd (ps_db s) = Inr d' \<Longrightarrow> pay_step lib sch s (s\<lparr>ps_db := d'\<rparr>)"
| jetton_address: "SaveJettonWallet ow wd notSaveOwner (ps_db s) = Inr d' \<Longrightarrow> pay_step lib sch s (s\<lparr>ps_db := d'\<rparr>)"

inductive pay_reachable :: "'c tonlib \<Rightarrow> schema \<Rightarrow> pay_state \<Rightarrow> bool" for lib sch where
  init: "pay_reachable lib sch pay_init"
| step: "pay_reachable lib sch s \<Longrightarrow> pay_step lib sch s s' \<Longrightarrow> pay_reachable lib sch s'"

inductive_cases pay_stepE: "pay_step lib sch s s'"

text \<open>
  The invariant, on the requests and the recorded withdrawals: a request that is not being
  processed has only failed withdrawals; a request has at most one withdrawal that has not failed;
  a paid withdrawal has not failed and its message was seen; every withdrawal belongs to a request.
\<close>

definition pay_core :: "withdrawal_request_row list \<Rightarrow> external_withdrawal_row list \<Rightarrow> UUID set \<Rightarrow> bool" where
  "pay_core rqs xws seen \<longleftrightarrow>
     (\<forall>r \<in> set rqs. \<forall>x \<in> set xws. \<not> rq_processing r \<and> xw_query_id x = rq_query_id r \<longrightarrow> xw_failed x) \<and>
     (\<forall>x \<in> set xws. \<forall>y \<in> set xws. xw_query_id x = xw_query_id y \<and> \<not> xw_failed x \<and> \<not> xw_failed y \<longrightarrow> xw_key x = xw_key y) \<and>
     (\<forall>x \<in> set xws. xw_processed_lt x \<noteq> None \<longrightarrow> \<not> xw_failed x \<and> xw_msg_uuid x \<in> seen) \<and>
     (\<forall>x \<in> set xws. xw_query_id x \<in> rq_query_id ` set rqs)"

text \<open>Tasks picked but not yet recorded belong to different requests, none of them in process.\<close>

definition pending_open :: "ExternalWithdrawalTask list \<Rightarrow> withdrawal_request_row list \<Rightarrow> bool" where
  "pending_open ts rqs \<longleftrightarrow> distinct (map et_QueryID ts) \<and>
     (\<forall>t \<in> set ts. \<exists>r \<in> set rqs. rq_query_id r = et_QueryID t \<and> \<not> rq_processing r)"

definition pay_inv :: "pay_state \<Rightarrow> bool" where
  "pay_inv s \<longleftrightarrow> wf_database (ps_db s)
     \<and> pay_core (withdrawal_requests (ps_db s)) (external_withdrawals (ps_db s)) (ps_seen s)
     \<and> pending_open (ps_pending s) (withdrawal_requests (ps_db s))"

text \<open>The invariant while the events \<open>ws\<close> of a block are being saved: what was paid since the block
  was begun is among its paid events.\<close>

definition scan_ok :: "UUID set \<Rightarrow> ExternalWithdrawal list \<Rightarrow> ExternalWithdrawalTask list \<Rightarrow> database \<Rightarrow> bool" where
  "scan_ok seen ws pend d \<longleftrightarrow> fresh_withdrawals seen ws
     \<and> pay_core (withdrawal_requests d) (external_withdrawals d) (seen \<union> ew_ExtMsgUuid ` set ws)
     \<and> pending_open pend (withdrawal_requests d) \<and> distinct (map xw_key (external_withdrawals d))
     \<and> (\<forall>x \<in> set (external_withdrawals d). xw_processed_lt x \<noteq> None \<longrightarrow> xw_msg_uuid x \<in> seen
         \<or> (\<exists>w \<in> set ws. \<not> ew_IsFailed w \<and> xw_key x = (ew_ExtMsgUuid w, ew_To w)))"

text \<open>A run for examples: one request, picked, recorded under message \<open>[1]\<close> and paid in a block.\<close>

definition sample_wr :: WithdrawalRequest where
  "sample_wr = \<lparr>wr_QueryID = ''a'', wr_UserID = ''1'', wr_Status = [], wr_Currency = TonSymbol, wr_Amount = 70,
     wr_Bounceable = False, wr_IsInternal = False, wr_Destination = sample_addr 9, wr_Comment = []\<rparr>"

definition sample_paid :: BlockEvents where
  "sample_paid = \<lparr>be_Events = no_events\<lparr>ExternalWithdrawals := [\<lparr>ew_ExtMsgUuid = [1], ew_Utime = 5, ew_Lt = 6,
     ew_To = sample_addr 9, ew_Amount = 70, ew_Comment = [], ew_IsFailed = False\<rparr>]\<rparr>, be_Block = sample_block\<rparr>"

subsection \<open>Row updates\<close>

lemma pay_coreI:
  assumes "\<And>r x. r \<in> set rqs \<Longrightarrow> x \<in> set xws \<Longrightarrow> \<not> rq_processing r \<Longrightarrow> xw_query_id x = rq_query_id r \<Longrightarrow> xw_failed x"
    and "\<And>x y. x \<in> set xws \<Longrightarrow> y \<in> set xws \<Longrightarrow> xw_query_id x = xw_query_id y \<Longrightarrow> \<not> xw_failed x \<Longrightarrow> \<not> xw_failed y
      \<Longrightarrow> xw_key x = xw_key y"
    and "\<And>x. x \<in> set xws \<Longrightarrow> xw_processed_lt x \<noteq> None \<Longrightarrow> \<not> xw_failed x \<and> xw_msg_uuid x \<in> seen"
    and "\<And>x. x \<in> set xws \<Longrightarrow> xw_query_id x \<in> rq_query_id ` set rqs"
  shows "pay_core rqs xws seen"
  unfolding pay_core_def using assms by blast

lemma pay_coreD:
  assumes "pay_core rqs xws seen"
  shows "r \<in> set rqs \<Longrightarrow> x \<in> set xws \<Longrightarrow> \<not> rq_processing r \<Longrightarrow> xw_query_id x = rq_query_id r \<Longrightarrow> xw_failed x"
    and "x \<in> set xws \<Longrightarrow> y \<in> set xws \<Longrightarrow> xw_query_id x = xw_query_id y \<Longrightarrow> \<not> xw_failed x \<Longrightarrow> \<not> xw_failed y
      \<Longrightarrow> xw_key x = xw_key y"
    and "x \<in> set xws \<Longrightarrow> xw_processed_lt x \<noteq> None \<Longrightarrow> \<not> xw_failed x \<and> xw_msg_uuid x \<in> seen"
    and "x \<in> set xws \<Longrightarrow> xw_query_id x \<in> rq_query_id ` set rqs"
  using assms unfolding pay_core_def by blast+

text \<open>An update of both tables in which every row keeps its key and its owner, failures only grow,
  payments are seen and not failed, and a request is freed only with all its withdrawals failed.\<close>

lemma pay_core_map:
  assumes core: "pay_core rqs xws seen"
    and f: "\<And>x. x \<in> set xws \<Longrightarrow> xw_key (f x) = xw_key x \<and> xw_query_id (f x) = xw_query_id x \<and> (xw_failed x \<longrightarrow> xw_failed (f x))"
    and g: "\<And>r. rq_query_id (g r) = rq_query_id r"
    and paid: "\<And>x. x \<in> set xws \<Longrightarrow> xw_processed_lt (f x) \<noteq> None \<Longrightarrow> \<not> xw_failed (f x) \<and> xw_msg_uuid x \<in> seen'"
    and freed: "\<And>r x. r \<in> set rqs \<Longrightarrow> x \<in> set xws \<Longrightarrow> rq_processing r \<Longrightarrow> \<not> rq_processing (g r) \<Longrightarrow> xw_query_id x = rq_query_id r
      \<Longrightarrow> xw_failed (f x)"
  shows "pay_core (map g rqs) (map f xws) seen'"
proof (rule pay_coreI)
  fix r' x' assume "r' \<in> set (map g rqs)" "x' \<in> set (map f xws)" "\<not> rq_processing r'" "xw_query_id x' = rq_query_id r'"
  then obtain r x where "r \<in> set rqs" "x \<in> set xws" "r' = g r" "x' = f x" "\<not> rq_processing (g r)" "xw_query_id x = rq_query_id r"
    using f g by auto
  then show "xw_failed x'" using freed [of r x] f [of x] pay_coreD(1) [OF core, of r x] by (cases "rq_processing r") simp_all
next
  fix x' y' assume "x' \<in> set (map f xws)" "y' \<in> set (map f xws)" and q: "xw_query_id x' = xw_query_id y'" "\<not> xw_failed x'" "\<not> xw_failed y'"
  then obtain x y where xy: "x \<in> set xws" "y \<in> set xws" "x' = f x" "y' = f y" by auto
  then have "xw_query_id x = xw_query_id y" "\<not> xw_failed x" "\<not> xw_failed y"
    using q f [OF xy(1)] f [OF xy(2)] by auto
  then show "xw_key x' = xw_key y'" using pay_coreD(2) [OF core xy(1,2)] f xy by simp
next
  fix x' assume "x' \<in> set (map f xws)" "xw_processed_lt x' \<noteq> None"
  then obtain x where x: "x \<in> set xws" "x' = f x" "xw_processed_lt (f x) \<noteq> None" by auto
  moreover have "xw_msg_uuid (f x) = xw_msg_uuid x" using f [OF x(1)] by (simp add: xw_key_def)
  ultimately show "\<not> xw_failed x' \<and> xw_msg_uuid x' \<in> seen'" using paid by simp
next
  fix x' assume "x' \<in> set (map f xws)"
  then obtain x where "x \<in> set xws" "x' = f x" by auto
  then show "xw_query_id x' \<in> rq_query_id ` set (map g rqs)" using f g pay_coreD(4) [OF core] by (simp add: image_image)
qed

lemma pay_core_unique_row:
  assumes "pay_core rqs xws seen" and "distinct (map xw_key xws)"
    and "x \<in> set xws" "y \<in> set xws" "xw_query_id x = xw_query_id y" "\<not> xw_failed x" "\<not> xw_failed y"
  shows "x = y"
  using xw.key_unique [OF assms(2-4)] pay_coreD(2) [OF assms(1,3,4)] assms(5-7) by blast

text \<open>Failing withdrawals that are not paid, and freeing their requests.\<close>

lemma pay_core_fail:
  assumes core: "pay_core rqs xws seen" and keys: "distinct (map xw_key xws)"
    and unpaid: "\<And>x. x \<in> set xws \<Longrightarrow> F x \<Longrightarrow> xw_processed_lt x = None"
    and owned: "\<And>q. Q q \<Longrightarrow> \<exists>x \<in> set xws. F x \<and> \<not> xw_failed x \<and> xw_query_id x = q"
  shows "pay_core (update_where (\<lambda>r. Q (rq_query_id r)) (\<lambda>r. r\<lparr>rq_processing := False\<rparr>) rqs)
    (update_where F (\<lambda>x. x\<lparr>xw_failed := True\<rparr>) xws) seen"
  unfolding update_where_def
proof (rule pay_core_map [OF core])
  fix x assume "x \<in> set xws" "xw_processed_lt (if F x then x\<lparr>xw_failed := True\<rparr> else x) \<noteq> None"
  then show "\<not> xw_failed (if F x then x\<lparr>xw_failed := True\<rparr> else x) \<and> xw_msg_uuid x \<in> seen"
    using unpaid [of x] pay_coreD(3) [OF core, of x] by (simp split: if_splits)
next
  fix r x assume r: "r \<in> set rqs" "x \<in> set xws" "rq_processing r"
    "\<not> rq_processing (if Q (rq_query_id r) then r\<lparr>rq_processing := False\<rparr> else r)" "xw_query_id x = rq_query_id r"
  then have "Q (rq_query_id r)" by (simp split: if_splits)
  then obtain y where "y \<in> set xws" "F y" "\<not> xw_failed y" "xw_query_id y = rq_query_id r" using owned by blast
  then show "xw_failed (if F x then x\<lparr>xw_failed := True\<rparr> else x)"
    using pay_core_unique_row [OF core keys, of x y] r by auto
qed (auto simp: xw_key_def)

subsection \<open>The steps keep the invariant\<close>

lemma pending_open_map:
  assumes "pending_open ts rqs" and "\<And>r. rq_query_id (g r) = rq_query_id r" and "\<And>r. rq_processing (g r) \<Longrightarrow> rq_processing r"
  shows "pending_open ts (map g rqs)"
  unfolding pending_open_def
proof (intro conjI ballI)
  fix t assume "t \<in> set ts"
  then obtain r where "r \<in> set rqs" "rq_query_id r = et_QueryID t" "\<not> rq_processing r"
    using assms(1) by (auto simp: pending_open_def)
  then show "\<exists>r \<in> set (map g rqs). rq_query_id r = et_QueryID t \<and> \<not> rq_processing r"
    using assms(2,3) by (intro bexI [of _ "g r"]) auto
qed (use assms(1) in \<open>simp add: pending_open_def\<close>)

lemma pending_open_free:
  "pending_open ts rqs \<Longrightarrow> pending_open ts (update_where P (\<lambda>r. r\<lparr>rq_processing := False\<rparr>) rqs)"
  unfolding update_where_def by (rule pending_open_map) (auto split: if_splits)

lemma for_each_set_processing:
  assumes "for_each (\<lambda>q. set_processing sch q b) qs d = Inr d'"
  shows "d' = d\<lparr>withdrawal_requests := update_where (\<lambda>r. rq_query_id r \<in> set qs) (\<lambda>r. r\<lparr>rq_processing := b\<rparr>) (withdrawal_requests d)\<rparr>"
  using assms
proof (induction qs arbitrary: d)
  case Nil
  then show ?case by (simp add: update_where_none)
next
  case (Cons q qs)
  then obtain d1 where d1: "set_processing sch q b d = Inr d1" and rest: "for_each (\<lambda>q. set_processing sch q b) qs d1 = Inr d'"
    by (auto simp: ebind_Inr_iff)
  from d1 have "d1 = d\<lparr>withdrawal_requests := update_where (\<lambda>r. rq_query_id r = q) (\<lambda>r. r\<lparr>rq_processing := b\<rparr>) (withdrawal_requests d)\<rparr>"
    by (auto simp: set_processing_def res_simps)
  with Cons.IH [OF rest] show ?case by (simp add: update_where_twice)
qed

lemma pay_core_expire:
  assumes "expire_external sch now d = Inr d'" and "pay_core (withdrawal_requests d) (external_withdrawals d) seen"
    and "distinct (map xw_key (external_withdrawals d))"
  shows "pay_core (withdrawal_requests d') (external_withdrawals d') seen"
    and "pending_open ts (withdrawal_requests d) \<Longrightarrow> pending_open ts (withdrawal_requests d')"
proof -
  let ?ids = "set (map xw_query_id (filter (expirable now) (external_withdrawals d)))"
  have d': "external_withdrawals d' = update_where (expirable now) (\<lambda>r. r\<lparr>xw_failed := True\<rparr>) (external_withdrawals d)"
    "withdrawal_requests d' = update_where (\<lambda>r. rq_query_id r \<in> ?ids) (\<lambda>r. r\<lparr>rq_processing := False\<rparr>) (withdrawal_requests d)"
    using for_each_set_processing [OF assms(1) [unfolded expire_external_def]] by simp_all
  show "pay_core (withdrawal_requests d') (external_withdrawals d') seen"
    unfolding d' by (rule pay_core_fail [OF assms(2,3)]) (auto simp: expirable_def)
  show "pending_open ts (withdrawal_requests d')" if "pending_open ts (withdrawal_requests d)"
    unfolding d' using that by (rule pending_open_free)
qed

interpretation UpdateExternalWithdrawal_pay: kept_by "scan_ok seen ws pend" "\<lambda>w. w \<in> set ws" "UpdateExternalWithdrawal sch"
  for seen ws pend sch
proof
  fix d w d' assume ok: "scan_ok seen ws pend d" and w: "w \<in> set ws" and step: "UpdateExternalWithdrawal sch w d = Inr d'"
  let ?k = "(ew_ExtMsgUuid w, ew_To w)"
  let ?seen = "seen \<union> ew_ExtMsgUuid ` set ws"
  from ok have core: "pay_core (withdrawal_requests d) (external_withdrawals d) ?seen"
    and keys: "distinct (map xw_key (external_withdrawals d))" and pend: "pending_open pend (withdrawal_requests d)"
    and fresh: "fresh_withdrawals seen ws"
    and paid: "\<And>x. x \<in> set (external_withdrawals d) \<Longrightarrow> xw_processed_lt x \<noteq> None \<Longrightarrow> xw_msg_uuid x \<in> seen
         \<or> (\<exists>w \<in> set ws. \<not> ew_IsFailed w \<and> xw_key x = (ew_ExtMsgUuid w, ew_To w))"
    by (auto simp: scan_ok_def)
  have settled: "\<forall>x' \<in> set (external_withdrawals d'). xw_processed_lt x' \<noteq> None \<longrightarrow> xw_msg_uuid x' \<in> seen
         \<or> (\<exists>w \<in> set ws. \<not> ew_IsFailed w \<and> xw_key x' = (ew_ExtMsgUuid w, ew_To w))"
    if rows: "external_withdrawals d' = map f (external_withdrawals d)" and same: "\<And>x. xw_key (f x) = xw_key x"
      and new: "\<And>x. xw_processed_lt (f x) \<noteq> xw_processed_lt x \<Longrightarrow> xw_key x = ?k \<and> \<not> ew_IsFailed w" for f
  proof (intro ballI impI)
    fix x' assume "x' \<in> set (external_withdrawals d')" and p: "xw_processed_lt x' \<noteq> None"
    then obtain x where x: "x \<in> set (external_withdrawals d)" "x' = f x" by (auto simp: rows)
    have "xw_msg_uuid (f x) = xw_msg_uuid x" using same [of x] by (simp add: xw_key_def)
    then show "xw_msg_uuid x' \<in> seen \<or> (\<exists>w \<in> set ws. \<not> ew_IsFailed w \<and> xw_key x' = (ew_ExtMsgUuid w, ew_To w))"
      using paid [OF x(1)] new [of x] w p same [of x] unfolding x(2) by (cases "xw_processed_lt (f x) = xw_processed_lt x") auto
  qed
  have keys': "distinct (map xw_key (map f (external_withdrawals d)))" if "\<And>x. xw_key (f x) = xw_key x" for f
    using keys that by (simp add: comp_def)
  from step show "scan_ok seen ws pend d'"
  proof (cases rule: UpdateExternalWithdrawal_Inr)
    case (failed r)
    let ?f = "\<lambda>x. if xw_key x = ?k then x\<lparr>xw_failed := True\<rparr> else x"
    have rows: "external_withdrawals d' = map ?f (external_withdrawals d)" by (simp add: failed(5) update_where_def)
    have unpaid: "xw_processed_lt x = None" if "x \<in> set (external_withdrawals d)" "xw_key x = ?k" for x
    proof (rule ccontr)
      assume "xw_processed_lt x \<noteq> None"
      with paid [OF that(1)] that(2) fresh w failed(1) show False by (auto simp: fresh_withdrawals_def xw_key_def)
    qed
    have "pay_core (withdrawal_requests d') (external_withdrawals d') ?seen"
      unfolding failed(5) using pay_core_fail [OF core keys, of "\<lambda>x. xw_key x = ?k" "\<lambda>q. q = xw_query_id r"] unpaid failed(2-4)
      by auto
    moreover have "pending_open pend (withdrawal_requests d')" unfolding failed(5) using pending_open_free [OF pend] by simp
    moreover have same: "xw_key (?f x) = xw_key x" for x by (simp add: xw_key_def)
    have new: "xw_key x = ?k \<and> \<not> ew_IsFailed w" if "xw_processed_lt (?f x) \<noteq> xw_processed_lt x" for x
      using that by (simp split: if_splits)
    ultimately show ?thesis using fresh settled [OF rows same new] keys' [of ?f, OF same, folded rows]
      unfolding scan_ok_def by blast
  next
    case (paid r)
    let ?f = "\<lambda>x. if xw_key x = ?k then x\<lparr>xw_processed_lt := Some (uint (ew_Lt w)), xw_processed_at := Some (unix_time (ew_Utime w))\<rparr> else x"
    let ?g = "\<lambda>q. if rq_query_id q = xw_query_id r then q\<lparr>rq_processed := True\<rparr> else q"
    have rows: "external_withdrawals d' = map ?f (external_withdrawals d)" "withdrawal_requests d' = map ?g (withdrawal_requests d)"
      by (simp_all add: paid(5) update_where_def)
    have live: "\<not> xw_failed x" if "x \<in> set (external_withdrawals d)" "xw_key x = ?k" for x
      using xw.key_unique [OF keys that(1) paid(2)] that(2) paid(3,4) by simp
    have "pay_core (map ?g (withdrawal_requests d)) (map ?f (external_withdrawals d)) ?seen"
    proof (rule pay_core_map [OF core])
      fix x assume x: "x \<in> set (external_withdrawals d)" "xw_processed_lt (?f x) \<noteq> None"
      show "\<not> xw_failed (?f x) \<and> xw_msg_uuid x \<in> ?seen"
      proof (cases "xw_key x = ?k")
        case True
        with live x w show ?thesis by (auto simp: xw_key_def)
      next
        case False
        with x pay_coreD(3) [OF core x(1)] show ?thesis by simp
      qed
    qed (auto simp: xw_key_def split: if_splits)
    moreover have "pending_open pend (map ?g (withdrawal_requests d))" by (rule pending_open_map [OF pend]) (auto split: if_splits)
    moreover have same: "xw_key (?f x) = xw_key x" for x by (simp add: xw_key_def)
    have new: "xw_key x = ?k \<and> \<not> ew_IsFailed w" if "xw_processed_lt (?f x) \<noteq> xw_processed_lt x" for x
      using that paid(1) by (simp split: if_splits)
    ultimately show ?thesis using fresh settled [OF rows(1) same new] keys' [of ?f, OF same, folded rows(1)]
      unfolding scan_ok_def rows [symmetric] by blast
  qed
qed

interpretation SaveExternalIncome_pay: kept_by "scan_ok seen ws pend" "\<lambda>_. True" SaveExternalIncome for seen ws pend
  by unfold_locales (auto simp: SaveExternalIncome_def res_simps scan_ok_def)

interpretation SaveInternalIncome_pay: kept_by "scan_ok seen ws pend" "\<lambda>_. True" "SaveInternalIncome lib" for seen ws pend lib
  by unfold_locales (auto simp: SaveInternalIncome_def res_simps scan_ok_def)

interpretation ApplySendingConfirmations_pay: kept_by "scan_ok seen ws pend" "\<lambda>_. True" "ApplySendingConfirmations lib" for seen ws pend lib
  by unfold_locales (auto simp: ApplySendingConfirmations_def res_simps scan_ok_def)

interpretation UpdateInternalWithdrawal_pay: kept_by "scan_ok seen ws pend" "\<lambda>_. True" "UpdateInternalWithdrawal lib" for seen ws pend lib
proof
  fix d w d' assume "scan_ok seen ws pend d" and "UpdateInternalWithdrawal lib w d = Inr d'"
  then show "scan_ok seen ws pend d'" by (elim UpdateInternalWithdrawal_Inr) (simp add: scan_ok_def)
qed

interpretation ApplyJettonWithdrawalConfirmation_pay: kept_by "scan_ok seen ws pend" "\<lambda>_. True" ApplyJettonWithdrawalConfirmation for seen ws pend
proof
  fix d c d' assume ok: "scan_ok seen ws pend d" and step: "ApplyJettonWithdrawalConfirmation c d = Inr d'"
  from step obtain f where d': "d' = d\<lparr>external_withdrawals := map f (external_withdrawals d)\<rparr>"
    and f: "\<And>x. xw_key (f x) = xw_key x \<and> xw_query_id (f x) = xw_query_id x \<and> xw_failed (f x) = xw_failed x
      \<and> xw_processed_lt (f x) = xw_processed_lt x"
    unfolding ApplyJettonWithdrawalConfirmation_def update_where_def by (auto simp: ebind_Inr_iff xw_key_def)
  have u: "xw_msg_uuid (f x) = xw_msg_uuid x" for x using f [of x] by (simp add: xw_key_def)
  have core: "pay_core (withdrawal_requests d) (external_withdrawals d) (seen \<union> ew_ExtMsgUuid ` set ws)"
    using ok by (simp add: scan_ok_def)
  have "pay_core (map (\<lambda>r. r) (withdrawal_requests d)) (map f (external_withdrawals d)) (seen \<union> ew_ExtMsgUuid ` set ws)"
    by (rule pay_core_map [OF core]) (use f pay_coreD(3) [OF core] in auto)
  then show "scan_ok seen ws pend d'" using ok f by (simp add: scan_ok_def d' u comp_def)
qed

interpretation SaveBlock_pay: kept_by "scan_ok seen ws pend" "\<lambda>_. True" SaveBlock for seen ws pend
  by unfold_locales (auto simp: SaveBlock_def res_simps scan_ok_def)

interpretation pay_block: block_kept "scan_ok seen ws pend" "\<lambda>_. True" "\<lambda>_. True" "\<lambda>w. w \<in> set ws" lib sch for seen ws pend lib sch
  by unfold_locales

lemma save_events_pay:
  assumes "save_events lib sch ev d = Inr d'" and "scan_ok seen (ExternalWithdrawals (be_Events ev)) pend d"
  shows "scan_ok seen (ExternalWithdrawals (be_Events ev)) pend d'"
  by (rule pay_block.save_events_kept [OF assms(2) _ _ _ assms(1)]) simp_all

lemma pay_core_mono:
  assumes "pay_core rqs xws seen" and "seen \<subseteq> seen'"
  shows "pay_core rqs xws seen'"
  by (rule pay_coreI) (use pay_coreD [OF assms(1)] assms(2) in blast)+

lemma pay_inv_scan_ok:
  assumes "pay_inv s" and "fresh_withdrawals (ps_seen s) ws"
  shows "scan_ok (ps_seen s) ws (ps_pending s) (ps_db s)"
proof -
  have core: "pay_core (withdrawal_requests (ps_db s)) (external_withdrawals (ps_db s)) (ps_seen s)"
    and pend: "pending_open (ps_pending s) (withdrawal_requests (ps_db s))"
    and wf: "wf_database (ps_db s)"
    using assms(1) by (simp_all add: pay_inv_def)
  have "pay_core (withdrawal_requests (ps_db s)) (external_withdrawals (ps_db s)) (ps_seen s \<union> ew_ExtMsgUuid ` set ws)"
    by (rule pay_core_mono [OF core]) simp
  moreover have "\<forall>x \<in> set (external_withdrawals (ps_db s)). xw_processed_lt x \<noteq> None \<longrightarrow> xw_msg_uuid x \<in> ps_seen s"
    using pay_coreD(3) [OF core] by blast
  moreover have "distinct (map xw_key (external_withdrawals (ps_db s)))" using wf by (simp add: wf_database_def)
  ultimately show ?thesis using assms(2) pend by (simp add: scan_ok_def)
qed

lemma pay_core_request:
  assumes "pay_core rqs xws seen" and "\<forall>r' \<in> set rqs. rq_query_id r' < rq_query_id r"
  shows "pay_core (rqs @ [r]) xws seen"
proof (rule pay_coreI)
  fix r' x assume "r' \<in> set (rqs @ [r])" "x \<in> set xws" "\<not> rq_processing r'" "xw_query_id x = rq_query_id r'"
  with assms pay_coreD(1) [OF assms(1), of r' x] pay_coreD(4) [OF assms(1), of x] show "xw_failed x" by force
next
  fix x y assume "x \<in> set xws" "y \<in> set xws" "xw_query_id x = xw_query_id y" "\<not> xw_failed x" "\<not> xw_failed y"
  then show "xw_key x = xw_key y" by (rule pay_coreD(2) [OF assms(1)])
next
  fix x assume x: "x \<in> set xws"
  show "xw_query_id x \<in> rq_query_id ` set (rqs @ [r])" using pay_coreD(4) [OF assms(1) x] by simp
  show "\<not> xw_failed x \<and> xw_msg_uuid x \<in> seen" if "xw_processed_lt x \<noteq> None" using x that by (rule pay_coreD(3) [OF assms(1)])
qed

lemma CreateWithdrawalRequest_rows:
  obtains rqs' where "withdrawal_requests (fst (CreateWithdrawalRequest sch w d)) = withdrawal_requests d @ rqs'"
    and "external_withdrawals (fst (CreateWithdrawalRequest sch w d)) = external_withdrawals d"
    and "rqs' = [] \<or> (\<exists>r. rqs' = [r] \<and> rq_query_id r = next_query_id d)"
proof (cases "ebind (default_status sch) (\<lambda>st. insert_withdrawal_request (request_row (next_query_id d) st w) (withdrawal_requests d))")
  case (Inr t)
  then obtain st where "t = withdrawal_requests d @ [request_row (next_query_id d) st w]" by (auto simp: res_simps)
  with Inr show thesis
    by (intro that [of "[request_row (next_query_id d) st w]"]) (simp_all add: CreateWithdrawalRequest_def Let_def request_row_def)
next
  case (Inl e)
  then show thesis by (intro that [of "[]"]) (simp_all add: CreateWithdrawalRequest_def Let_def)
qed

lemma pay_inv_request:
  assumes "pay_inv s"
  shows "pay_inv (s\<lparr>ps_db := fst (CreateWithdrawalRequest sch w (ps_db s))\<rparr>)"
proof -
  let ?d = "ps_db s"
  let ?d' = "fst (CreateWithdrawalRequest sch w ?d)"
  have wf: "wf_database ?d'"
    using assms by (auto simp: pay_inv_def intro: wf_CreateWithdrawalRequest)
  obtain rqs' where d: "withdrawal_requests ?d' = withdrawal_requests ?d @ rqs'" "external_withdrawals ?d' = external_withdrawals ?d"
    and r: "rqs' = [] \<or> (\<exists>r. rqs' = [r] \<and> rq_query_id r = next_query_id ?d)"
    by (rule CreateWithdrawalRequest_rows)
  have "pay_core (withdrawal_requests ?d @ rqs') (external_withdrawals ?d) (ps_seen s)"
    using assms r by (auto simp: pay_inv_def wf_database_def intro: pay_core_request)
  moreover have "pending_open (ps_pending s) (withdrawal_requests ?d @ rqs')"
    using assms by (auto simp: pay_inv_def pending_open_def)
  ultimately show ?thesis using wf by (simp add: pay_inv_def d)
qed

lemma pay_inv_select:
  assumes "pay_inv s" and "GetExternalWithdrawalTasks sch n (ps_db s) = Inr ts" and "set batch \<subseteq> set ts"
    and "distinct (map et_Destination batch)"
  shows "pay_inv (s\<lparr>ps_pending := batch\<rparr>)"
proof -
  have open_: "\<exists>r \<in> set (withdrawal_requests (ps_db s)). t = task_of_request r \<and> \<not> rq_processing r" if "t \<in> set batch" for t
    using external_tasks_open [OF assms(2)] that assms(3) by blast
  have "inj_on et_QueryID (set batch)"
  proof (rule inj_onI)
    fix t t' assume t: "t \<in> set batch" "t' \<in> set batch" "et_QueryID t = et_QueryID t'"
    obtain r r' where "r \<in> set (withdrawal_requests (ps_db s))" "t = task_of_request r"
      "r' \<in> set (withdrawal_requests (ps_db s))" "t' = task_of_request r'" using open_ t by blast
    moreover from this t(3) have "rq_query_id r = rq_query_id r'" by (simp add: task_of_request_def)
    ultimately show "t = t'" using assms(1) by (auto simp: pay_inv_def wf_database_def distinct_map inj_on_def)
  qed
  moreover have "distinct batch" using assms(4) by (simp add: distinct_map)
  ultimately have "pending_open batch (withdrawal_requests (ps_db s))"
    using open_ by (fastforce simp: pending_open_def distinct_map task_of_request_def)
  then show ?thesis using assms(1) by (simp add: pay_inv_def)
qed

lemma pay_core_record:
  assumes core: "pay_core rqs xws seen" and pend: "pending_open ts rqs" and ids: "distinct (map rq_query_id rqs)"
  shows "pay_core (update_where (\<lambda>r. rq_query_id r \<in> et_QueryID ` set ts) (\<lambda>r. r\<lparr>rq_processing := True\<rparr>) rqs)
    (xws @ map (sent_row u e) ts) seen"
proof (rule pay_coreI)
  let ?rqs = "update_where (\<lambda>r. rq_query_id r \<in> et_QueryID ` set ts) (\<lambda>r. r\<lparr>rq_processing := True\<rparr>) rqs"
  have idle: "xw_failed x" if x: "x \<in> set xws" and t: "t \<in> set ts" and q: "xw_query_id x = et_QueryID t" for x t
  proof -
    obtain r where "r \<in> set rqs" "rq_query_id r = et_QueryID t" "\<not> rq_processing r"
      using pend t unfolding pending_open_def by blast
    then show ?thesis using pay_coreD(1) [OF core _ x, of r] q by simp
  qed
  have one: "t = t'" if "t \<in> set ts" "t' \<in> set ts" "et_QueryID t = et_QueryID t'" for t t'
    using pend that by (auto simp: pending_open_def distinct_map inj_on_def)
  {
    fix r' x assume r': "r' \<in> set ?rqs" and x: "x \<in> set (xws @ map (sent_row u e) ts)" and "\<not> rq_processing r'" "xw_query_id x = rq_query_id r'"
    then have "r' \<in> set rqs" and "rq_query_id r' \<notin> et_QueryID ` set ts" by (auto simp: update_where_def split: if_splits)
    with x \<open>xw_query_id x = rq_query_id r'\<close> have "x \<in> set xws" by (auto simp: sent_row_def image_iff)
    then show "xw_failed x" using pay_coreD(1) [OF core \<open>r' \<in> set rqs\<close>] \<open>\<not> rq_processing r'\<close> \<open>xw_query_id x = rq_query_id r'\<close> by blast
  next
    fix x y assume "x \<in> set (xws @ map (sent_row u e) ts)" "y \<in> set (xws @ map (sent_row u e) ts)"
      and q: "xw_query_id x = xw_query_id y" "\<not> xw_failed x" "\<not> xw_failed y"
    then consider "x \<in> set xws" "y \<in> set xws" | t where "x \<in> set xws" "t \<in> set ts" "y = sent_row u e t"
      | t where "y \<in> set xws" "t \<in> set ts" "x = sent_row u e t"
      | t t' where "t \<in> set ts" "t' \<in> set ts" "x = sent_row u e t" "y = sent_row u e t'" by auto
    then show "xw_key x = xw_key y"
    proof cases
      case 1
      then show ?thesis using pay_coreD(2) [OF core _ _ q] by blast
    next
      case (2 t)
      then show ?thesis using idle [of x t] q by (simp add: sent_row_def)
    next
      case (3 t)
      then show ?thesis using idle [of y t] q by (simp add: sent_row_def)
    next
      case (4 t t')
      then show ?thesis using one [of t t'] q by (simp add: sent_row_def)
    qed
  next
    fix x assume x: "x \<in> set (xws @ map (sent_row u e) ts)"
    show "\<not> xw_failed x \<and> xw_msg_uuid x \<in> seen" if "xw_processed_lt x \<noteq> None"
    proof -
      have "x \<in> set xws" using x that by (auto simp: sent_row_def)
      then show ?thesis using that by (rule pay_coreD(3) [OF core])
    qed
    have "rq_query_id ` set ?rqs = rq_query_id ` set rqs"
      using map_update_where [of "\<lambda>r. rq_query_id r \<in> et_QueryID ` set ts" rq_query_id "\<lambda>r. r\<lparr>rq_processing := True\<rparr>" rqs]
      by (metis (no_types, lifting) image_set withdrawal_request_row.select_convs(1) withdrawal_request_row.surjective withdrawal_request_row.update_convs(11))
    moreover have "xw_query_id x \<in> rq_query_id ` set rqs"
    proof (cases "x \<in> set xws")
      case True
      then show ?thesis by (rule pay_coreD(4) [OF core])
    next
      case False
      with x obtain t where "t \<in> set ts" "xw_query_id x = et_QueryID t" by (auto simp: sent_row_def)
      then show ?thesis using pend by (force simp: pending_open_def)
    qed
    ultimately show "xw_query_id x \<in> rq_query_id ` set ?rqs" by simp
  }
qed

lemma pay_inv_record:
  assumes "pay_inv s" and "CreateExternalWithdrawals sch (ps_pending s) u e (ps_db s) = Inr d'"
  shows "pay_inv (s\<lparr>ps_db := d', ps_pending := []\<rparr>)"
proof -
  have "wf_database d'" using assms by (auto simp: pay_inv_def intro: wf_CreateExternalWithdrawals)
  moreover have "pay_core (withdrawal_requests d') (external_withdrawals d') (ps_seen s)"
    using pay_core_record [of "withdrawal_requests (ps_db s)" "external_withdrawals (ps_db s)" "ps_seen s" "ps_pending s" u e] assms(1)
    unfolding CreateExternalWithdrawals_Inr [OF assms(2)] by (simp add: pay_inv_def wf_database_def)
  ultimately show ?thesis by (simp add: pay_inv_def pending_open_def)
qed

lemma pay_inv_expire:
  assumes "pay_inv s"
  shows "pay_inv (s\<lparr>ps_db := fst (SetExpired sch b c now now' (ps_db s))\<rparr>)"
proof -
  let ?d = "expire_internal now (ps_db s)"
  have same: "withdrawal_requests ?d = withdrawal_requests (ps_db s)" "external_withdrawals ?d = external_withdrawals (ps_db s)"
    by (simp_all add: expire_internal_def)
  have inv: "pay_inv (s\<lparr>ps_db := ?d\<rparr>)" using assms wf_expire_internal by (simp add: pay_inv_def same)
  have keys: "distinct (map xw_key (external_withdrawals ?d))" using assms by (simp add: same pay_inv_def wf_database_def)
  have "pay_inv (s\<lparr>ps_db := d2\<rparr>)" if d2: "expire_external sch now' ?d = Inr d2" for d2
    using inv pay_core_expire [OF d2 _ keys, of "ps_seen s"] wf_expire_external [OF _ d2] by (simp add: pay_inv_def)
  then show ?thesis using inv by (auto simp: SetExpired_def Let_def split: option.split sum.split)
qed

text \<open>Changes of other tables.\<close>

lemma pay_inv_frame:
  assumes "pay_inv s" and "wf_database d'" and "withdrawal_requests d' = withdrawal_requests (ps_db s)"
    and "external_withdrawals d' = external_withdrawals (ps_db s)"
  shows "pay_inv (s\<lparr>ps_db := d'\<rparr>)"
  using assms by (simp add: pay_inv_def)

lemma pay_inv_step:
  assumes "pay_inv s" and "pay_step lib sch s s'"
  shows "pay_inv s'"
proof -
  have wf: "wf_database (ps_db s)" using assms(1) by (simp add: pay_inv_def)
  from assms(2) show ?thesis
  proof (cases rule: pay_step.cases)
    case (scan ev d')
    let ?ws = "ExternalWithdrawals (be_Events ev)"
    have "scan_ok (ps_seen s) ?ws (ps_pending s) d'"
      using save_events_pay [OF scan(2) pay_inv_scan_ok [OF assms(1) scan(3)]] .
    moreover have "wf_database d'" using assms(1) scan(2) by (auto simp: pay_inv_def intro: wf_save_events)
    ultimately show ?thesis by (simp add: scan(1) pay_inv_def scan_ok_def)
  next
    case (sweep t e memo d')
    show ?thesis unfolding sweep(1)
      by (rule pay_inv_frame [OF assms(1) wf_SaveInternalWithdrawalTask [OF wf sweep(2)]])
        (use sweep(2) in \<open>auto simp: SaveInternalWithdrawalTask_def res_simps\<close>)
  next
    case (service st m e filled)
    show ?thesis unfolding service
      by (rule pay_inv_frame [OF assms(1) wf_UpdateServiceWithdrawalRequest [OF wf]]) (simp_all add: UpdateServiceWithdrawalRequest_def)
  next
    case (service_request memo sr d')
    show ?thesis unfolding service_request(1)
      by (rule pay_inv_frame [OF assms(1) wf_CreateServiceWithdrawalRequest [OF wf service_request(2)]])
        (use service_request(2) in \<open>auto simp: CreateServiceWithdrawalRequest_def res_simps\<close>)
  next
    case (ton_address wd d')
    show ?thesis unfolding ton_address(1)
      by (rule pay_inv_frame [OF assms(1) wf_SaveTonWallet [OF wf ton_address(2)]])
        (use ton_address(2) in \<open>auto simp: SaveTonWallet_def res_simps\<close>)
  next
    case (jetton_address ow wd b d')
    show ?thesis unfolding jetton_address(1)
      by (rule pay_inv_frame [OF assms(1) wf_SaveJettonWallet [OF wf jetton_address(2)]])
        (use jetton_address(2) in \<open>auto simp: SaveJettonWallet_def res_simps split: if_splits\<close>)
  next
    case give_up
    then show ?thesis using assms(1) by (simp add: pay_inv_def pending_open_def)
  qed (use assms(1) in \<open>auto intro: pay_inv_request pay_inv_select pay_inv_record pay_inv_expire\<close>)
qed

lemma pay_inv_init: "pay_inv pay_init"
  by (simp add: pay_inv_def pay_init_def pay_core_def pending_open_def) (simp add: empty_database_def)

lemma pay_reachable_inv: "pay_reachable lib sch s \<Longrightarrow> pay_inv s"
  by (induction rule: pay_reachable.induct) (auto intro: pay_inv_init pay_inv_step)

subsection \<open>No request is paid twice\<close>

lemma length_le_1_if_all_equal:
  assumes "distinct xs" and "\<And>x y. x \<in> set xs \<Longrightarrow> y \<in> set xs \<Longrightarrow> x = y"
  shows "length xs \<le> 1"
proof -
  have "\<forall>x \<in> set xs. \<forall>y \<in> set xs. x = y" using assms(2) by blast
  then have "card (set xs) \<le> 1" by (simp add: card_le_Suc0_iff_eq)
  then show ?thesis using assms(1) by (simp add: distinct_card)
qed

text \<open>C1: no withdrawal request is paid twice. In every state the service can reach, whatever the
  interleaving of the API, the processors, the scanner and the expiration, a request has at most
  one recorded withdrawal that has not failed, and at most one that was paid.\<close>

theorem paid_at_most_once:
  assumes "pay_reachable lib sch s"
  shows "length (filter (\<lambda>x. xw_query_id x = q \<and> \<not> xw_failed x) (external_withdrawals (ps_db s))) \<le> 1
    \<and> length (filter (\<lambda>x. xw_query_id x = q \<and> xw_processed_lt x \<noteq> None) (external_withdrawals (ps_db s))) \<le> 1"
proof -
  let ?xs = "external_withdrawals (ps_db s)"
  have inv: "pay_inv s" using assms by (rule pay_reachable_inv)
  then have core: "pay_core (withdrawal_requests (ps_db s)) ?xs (ps_seen s)" and keys: "distinct (map xw_key ?xs)"
    by (simp_all add: pay_inv_def wf_database_def)
  then have "distinct ?xs" by (simp add: distinct_map)
  have same: "x = y" if "x \<in> set ?xs" "y \<in> set ?xs" "xw_query_id x = q" "xw_query_id y = q" "\<not> xw_failed x" "\<not> xw_failed y" for x y
    by (rule pay_core_unique_row [OF core keys that(1,2) _ that(5,6)]) (simp add: that)
  have live: "\<not> xw_failed x" if "x \<in> set ?xs" "xw_processed_lt x \<noteq> None" for x
    using pay_coreD(3) [OF core that] by blast
  show ?thesis
  proof (intro conjI length_le_1_if_all_equal distinct_filter \<open>distinct ?xs\<close>)
    fix x y assume "x \<in> set (filter (\<lambda>x. xw_query_id x = q \<and> \<not> xw_failed x) ?xs)"
      and "y \<in> set (filter (\<lambda>x. xw_query_id x = q \<and> \<not> xw_failed x) ?xs)"
    then show "x = y" by (intro same) simp_all
  next
    fix x y assume "x \<in> set (filter (\<lambda>x. xw_query_id x = q \<and> xw_processed_lt x \<noteq> None) ?xs)"
      and "y \<in> set (filter (\<lambda>x. xw_query_id x = q \<and> xw_processed_lt x \<noteq> None) ?xs)"
    then show "x = y" by (intro same live) simp_all
  qed
qed

text \<open>C10: a request with a live payment is not offered again. In every reachable state, if some
  recorded withdrawal of a request is paid or has not failed, \<open>GetExternalWithdrawalTasks\<close> does
  not return that request.\<close>

theorem paid_not_selected:
  assumes "pay_reachable lib sch s" and "x \<in> set (external_withdrawals (ps_db s))"
    and "xw_processed_lt x \<noteq> None \<or> \<not> xw_failed x" and "GetExternalWithdrawalTasks sch n (ps_db s) = Inr ts"
  shows "xw_query_id x \<notin> et_QueryID ` set ts"
proof
  assume "xw_query_id x \<in> et_QueryID ` set ts"
  then obtain t where t: "t \<in> set ts" "xw_query_id x = et_QueryID t" by blast
  obtain r where r: "r \<in> set (withdrawal_requests (ps_db s))" "xw_query_id x = rq_query_id r" "\<not> rq_processing r"
    using external_tasks_open [OF assms(4) t(1)] t(2) by (auto simp: task_of_request_def)
  have core: "pay_core (withdrawal_requests (ps_db s)) (external_withdrawals (ps_db s)) (ps_seen s)"
    using pay_reachable_inv [OF assms(1)] by (simp add: pay_inv_def)
  have "xw_failed x" using pay_coreD(1) [OF core r(1) assms(2) r(3,2)] .
  then show False using assms(3) pay_coreD(3) [OF core assms(2)] by blast
qed

subsection \<open>No request is stuck\<close>

lemma SetExpired_frees:
  assumes "has_processing sch"
  obtains d' where "SetExpired sch None None now now' d = (d', Inr ())"
    and "external_withdrawals d' = update_where (expirable now') (\<lambda>r. r\<lparr>xw_failed := True\<rparr>) (external_withdrawals d)"
    and "withdrawal_requests d' = update_where (\<lambda>r. rq_query_id r \<in> xw_query_id ` set (filter (expirable now') (external_withdrawals d)))
      (\<lambda>r. r\<lparr>rq_processing := False\<rparr>) (withdrawal_requests d)"
proof -
  let ?d = "expire_internal now d"
  have "\<exists>d2. for_each (\<lambda>q. set_processing sch q False) qs d1 = Inr d2" for qs d1
    using assms by (induction qs arbitrary: d1) (simp_all add: set_processing_def need_column_def)
  then obtain d2 where d2: "expire_external sch now' ?d = Inr d2" unfolding expire_external_def by blast
  show thesis
    using d2 for_each_set_processing [OF d2 [unfolded expire_external_def]]
    by (intro that [of d2]) (simp_all add: SetExpired_def expire_internal_def)
qed

text \<open>C11: a request whose message was not accepted in time is offered again. In every reachable state,
  once a recorded withdrawal that is neither paid nor failed has expired, a run of \<open>SetExpired\<close> that
  is not interrupted fails it and frees its request, and the next query that is not cut off by its
  limit returns the oldest open request to that destination.\<close>

theorem expired_request_offered_again:
  assumes "pay_reachable lib sch s" and "has_processing sch" and "x \<in> set (external_withdrawals (ps_db s))" and "expirable now' x"
  shows "\<exists>d'. SetExpired sch None None now now' (ps_db s) = (d', Inr ())
    \<and> (\<exists>r \<in> set (withdrawal_requests d'). rq_query_id r = xw_query_id x \<and> \<not> rq_processing r
        \<and> (\<forall>y \<in> set (external_withdrawals d'). xw_query_id y = rq_query_id r \<longrightarrow> xw_failed y)
        \<and> (\<forall>limit ts. GetExternalWithdrawalTasks sch limit d' = Inr ts \<and> length ts < limit
            \<longrightarrow> (\<exists>t \<in> set ts. et_Destination t = rq_dest_address r \<and> et_QueryID t \<le> rq_query_id r)))"
proof -
  obtain d' where run: "SetExpired sch None None now now' (ps_db s) = (d', Inr ())"
    and rqs: "withdrawal_requests d' = update_where (\<lambda>r. rq_query_id r \<in> xw_query_id ` set (filter (expirable now') (external_withdrawals (ps_db s))))
      (\<lambda>r. r\<lparr>rq_processing := False\<rparr>) (withdrawal_requests (ps_db s))"
    by (rule SetExpired_frees [OF assms(2)])
  have inv: "pay_inv s" using assms(1) by (rule pay_reachable_inv)
  then obtain r0 where "r0 \<in> set (withdrawal_requests (ps_db s))" "rq_query_id r0 = xw_query_id x"
    using pay_coreD(4) [OF _ assms(3)] by (force simp: pay_inv_def)
  then have "r0\<lparr>rq_processing := False\<rparr> \<in> set (withdrawal_requests d')"
    using assms(3,4) unfolding rqs update_where_def by force
  then obtain r where r: "r \<in> set (withdrawal_requests d')" "rq_query_id r = xw_query_id x" "\<not> rq_processing r"
    using \<open>rq_query_id r0 = xw_query_id x\<close> by force
  have core: "pay_core (withdrawal_requests d') (external_withdrawals d') (ps_seen s)"
    using pay_inv_expire [OF inv, of sch None None now now'] run by (simp add: pay_inv_def)
  have "\<exists>t \<in> set ts. et_Destination t = rq_dest_address r \<and> et_QueryID t \<le> rq_query_id r"
    if "GetExternalWithdrawalTasks sch limit d' = Inr ts" "length ts < limit" for limit ts
    by (rule external_tasks_all [OF that r(1,3)]) (force simp: task_of_request_def)
  then show ?thesis using run r pay_coreD(1) [OF core r(1) _ r(3)] by blast
qed

lemma sample_sent:
  "\<exists>s t. pay_reachable sample_lib query_schema s \<and> external_withdrawals (ps_db s) = [sent_row [1] 90 t] \<and> block_data (ps_db s) = []
    \<and> ps_pending s = [] \<and> ps_seen s = {} \<and> t = task_of_request (request_row 1 ''pending'' sample_wr)
    \<and> withdrawal_requests (ps_db s) = [(request_row 1 ''pending'' sample_wr)\<lparr>rq_processing := True\<rparr>]"
proof -
  define s1 where "s1 = pay_init\<lparr>ps_db := fst (CreateWithdrawalRequest query_schema sample_wr (ps_db pay_init))\<rparr>"
  define t where "t = task_of_request (request_row 1 ''pending'' sample_wr)"
  define s2 where "s2 = s1\<lparr>ps_pending := [t]\<rparr>"
  have s1: "pay_reachable sample_lib query_schema s1" unfolding s1_def by (rule pay_reachable.step [OF pay_reachable.init pay_step.request])
  have rq: "withdrawal_requests (ps_db s1) = [request_row 1 ''pending'' sample_wr]" "external_withdrawals (ps_db s1) = []" "ps_pending s1 = []"
      "ps_seen s1 = {}" "block_data (ps_db s1) = []"
    by (simp_all add: s1_def pay_init_def empty_database_def CreateWithdrawalRequest_def default_status_def query_schema_def
        insert_withdrawal_request_def insert_unique_def)
  have ts: "GetExternalWithdrawalTasks query_schema 250 (ps_db s1) = Inr [t]"
    by (simp add: GetExternalWithdrawalTasks_def query_schema_def rq t_def request_row_def)
  have s2: "pay_reachable sample_lib query_schema s2"
    unfolding s2_def by (rule pay_reachable.step [OF s1 pay_step.select [OF rq(3) ts]]) simp_all
  obtain d3 where d3: "CreateExternalWithdrawals query_schema (ps_pending s2) [1] 90 (ps_db s2) = Inr d3"
    by (simp add: s2_def CreateExternalWithdrawals_def createExternalWithdrawal_def insert_external_withdrawal_def insert_unique_def
        rq set_processing_def query_schema_def)
  have "pay_reachable sample_lib query_schema (s2\<lparr>ps_db := d3, ps_pending := []\<rparr>)"
    by (rule pay_reachable.step [OF s2 pay_step.record_batch [OF d3]])
  then show ?thesis using CreateExternalWithdrawals_Inr [OF d3]
    by (intro exI [of _ "s2\<lparr>ps_db := d3, ps_pending := []\<rparr>"] exI [of _ t])
      (simp add: s2_def rq t_def update_where_def task_of_request_def request_row_def)
qed

lemma sample_run:
  "\<exists>s x. pay_reachable sample_lib query_schema s \<and> x \<in> set (external_withdrawals (ps_db s)) \<and> xw_query_id x = 1
    \<and> xw_processed_lt x \<noteq> None \<and> (\<exists>ts. GetExternalWithdrawalTasks query_schema 250 (ps_db s) = Inr ts)"
proof -
  obtain s3 t where s3: "pay_reachable sample_lib query_schema s3"
    and d3: "external_withdrawals (ps_db s3) = [sent_row [1] 90 t]" "block_data (ps_db s3) = []" "ps_seen s3 = {}"
    and t: "t = task_of_request (request_row 1 ''pending'' sample_wr)" using sample_sent by blast
  have "\<exists>d4 x. save_events sample_lib query_schema sample_paid (ps_db s3) = Inr d4
    \<and> external_withdrawals d4 = [x] \<and> xw_query_id x = 1 \<and> xw_processed_lt x \<noteq> None"
    by (simp add: save_events_def sample_paid_def UpdateExternalWithdrawal_def update_external_def d3 sent_row_def xw_key_def t
        task_of_request_def request_row_def sample_wr_def bigint_def set_processed_def query_schema_def SaveBlock_def sample_block_def
        insert_block_def insert_unique_def update_where_def)
  then obtain d4 x where d4: "save_events sample_lib query_schema sample_paid (ps_db s3) = Inr d4"
    and x: "external_withdrawals d4 = [x]" "xw_query_id x = 1" "xw_processed_lt x \<noteq> None" by blast
  have "pay_reachable sample_lib query_schema (s3\<lparr>ps_db := d4,
      ps_seen := ps_seen s3 \<union> ew_ExtMsgUuid ` set (ExternalWithdrawals (be_Events sample_paid))\<rparr>)"
    by (rule pay_reachable.step [OF s3 pay_step.scan [OF d4]]) (simp add: d3 fresh_withdrawals_def sample_paid_def)
  moreover have "\<exists>ts. GetExternalWithdrawalTasks query_schema 250 d4 = Inr ts"
    by (simp add: GetExternalWithdrawalTasks_def query_schema_def)
  ultimately show ?thesis using x
    by (intro exI [of _ "s3\<lparr>ps_db := d4, ps_seen := ps_seen s3 \<union> ew_ExtMsgUuid ` set (ExternalWithdrawals (be_Events sample_paid))\<rparr>"]
        exI [of _ x]) simp
qed

theorem expired_request_offered_again_witness:
  "\<exists>s d'. pay_reachable sample_lib query_schema s \<and> SetExpired query_schema None None 0 (10 ^ 15) (ps_db s) = (d', Inr ())
    \<and> (\<exists>r \<in> set (withdrawal_requests d'). rq_query_id r = 1 \<and> \<not> rq_processing r)"
proof -
  obtain s t where s: "pay_reachable sample_lib query_schema s"
    and x: "external_withdrawals (ps_db s) = [sent_row [1] 90 t]" and t: "t = task_of_request (request_row 1 ''pending'' sample_wr)"
    using sample_sent by blast
  have "has_processing query_schema" and in_set: "sent_row [1] 90 t \<in> set (external_withdrawals (ps_db s))"
    and ex: "expirable (10 ^ 15) (sent_row [1] 90 t)" and q: "xw_query_id (sent_row [1] 90 t) = 1"
    by (simp_all add: query_schema_def x sent_row_def expirable_def expired_def AllowableBlockchainLagging_def second_def t
        task_of_request_def request_row_def)
  from expired_request_offered_again [OF s this(1) in_set ex, of 0] s q show ?thesis by metis
qed

theorem paid_at_most_once_witness:
  "\<exists>s. pay_reachable sample_lib query_schema s
    \<and> length (filter (\<lambda>x. xw_query_id x = 1 \<and> xw_processed_lt x \<noteq> None) (external_withdrawals (ps_db s))) = 1"
proof -
  obtain s x where s: "pay_reachable sample_lib query_schema s" and x: "x \<in> set (external_withdrawals (ps_db s))" "xw_query_id x = 1"
    "xw_processed_lt x \<noteq> None" using sample_run by blast
  then have "length (filter (\<lambda>x. xw_query_id x = 1 \<and> xw_processed_lt x \<noteq> None) (external_withdrawals (ps_db s))) \<noteq> 0"
    by (auto simp: filter_empty_conv)
  with paid_at_most_once [OF s, of 1] s show ?thesis by (intro exI [of _ s]) linarith
qed

theorem paid_not_selected_witness:
  "\<exists>s ts. pay_reachable sample_lib query_schema s \<and> GetExternalWithdrawalTasks query_schema 250 (ps_db s) = Inr ts
    \<and> (\<exists>x \<in> set (external_withdrawals (ps_db s)). xw_query_id x \<notin> et_QueryID ` set ts)"
  using sample_run paid_not_selected by blast

end
