(* ===== verification/PaymentSpec.thy ===== *)
theory PaymentSpec
  imports Payments
begin

text \<open>
  What the service promises about a withdrawal request, without databases, messages or blocks: a
  request is accepted, sent, and then either paid for good or open again. The concurrent steps of
  \<open>Payments\<close> refine this machine: what the tables say of a request is its abstract state, and every
  step of the service is a step of the machine.
\<close>

subsection \<open>The abstract machine\<close>

datatype request_state = Unknown | Open | InFlight | Paid

text \<open>One request is accepted; a set of open requests is sent; of the requests sent, some are paid
  and some are opened again.\<close>

inductive spec_step :: "(int \<Rightarrow> request_state) \<Rightarrow> (int \<Rightarrow> request_state) \<Rightarrow> bool" where
  accept: "f q = Unknown \<Longrightarrow> spec_step f (f(q := Open))"
| send: "\<forall>q \<in> Q. f q = Open \<Longrightarrow> spec_step f (\<lambda>q. if q \<in> Q then InFlight else f q)"
| settle: "\<forall>q \<in> P \<union> F. f q = InFlight \<Longrightarrow> P \<inter> F = {}
    \<Longrightarrow> spec_step f (\<lambda>q. if q \<in> P then Paid else if q \<in> F then Open else f q)"

text \<open>The state of a request, read off the tables.\<close>

definition request_state_of :: "database \<Rightarrow> int \<Rightarrow> request_state" where
  "request_state_of d q =
     (let xs = filter (\<lambda>x. xw_query_id x = q) (external_withdrawals d) in
      if q \<notin> rq_query_id ` set (withdrawal_requests d) then Unknown
      else if list_ex (\<lambda>x. xw_processed_lt x \<noteq> None) xs then Paid
      else if list_ex (\<lambda>x. \<not> xw_failed x) xs then InFlight
      else Open)"

text \<open>An update of the tables that adds no rows, and in which a withdrawal keeps its request, does not
  recover from a failure and stays paid.\<close>

definition row_kept :: "external_withdrawal_row \<Rightarrow> external_withdrawal_row \<Rightarrow> bool" where
  "row_kept x y \<longleftrightarrow> xw_query_id y = xw_query_id x \<and> (xw_failed x \<longrightarrow> xw_failed y)
     \<and> (xw_processed_lt x \<noteq> None \<longrightarrow> xw_processed_lt y \<noteq> None)"

definition progress :: "database \<Rightarrow> database \<Rightarrow> bool" where
  "progress d d' \<longleftrightarrow> list_all2 row_kept (external_withdrawals d) (external_withdrawals d')
     \<and> map rq_query_id (withdrawal_requests d') = map rq_query_id (withdrawal_requests d)"

lemma spec_step_refl: "spec_step f f"
  using spec_step.settle [of "{}" "{}" f] by simp

subsection \<open>The state of a request\<close>

lemma Unknown_iff: "request_state_of d q = Unknown \<longleftrightarrow> q \<notin> rq_query_id ` set (withdrawal_requests d)"
  by (simp add: request_state_of_def Let_def)

lemma Paid_iff: "request_state_of d q = Paid \<longleftrightarrow> q \<in> rq_query_id ` set (withdrawal_requests d)
    \<and> (\<exists>x \<in> set (external_withdrawals d). xw_query_id x = q \<and> xw_processed_lt x \<noteq> None)"
  by (auto simp: request_state_of_def Let_def list_ex_iff)

lemma Open_iff: "request_state_of d q = Open \<longleftrightarrow> q \<in> rq_query_id ` set (withdrawal_requests d)
    \<and> (\<forall>x \<in> set (external_withdrawals d). xw_query_id x = q \<longrightarrow> xw_processed_lt x = None \<and> xw_failed x)"
  by (auto simp: request_state_of_def Let_def list_ex_iff)

lemma request_state_of_cong:
  assumes "q \<in> rq_query_id ` set (withdrawal_requests d) \<longleftrightarrow> q \<in> rq_query_id ` set (withdrawal_requests d')"
    and "filter (\<lambda>x. xw_query_id x = q) (external_withdrawals d) = filter (\<lambda>x. xw_query_id x = q) (external_withdrawals d')"
  shows "request_state_of d q = request_state_of d' q"
  using assms by (simp add: request_state_of_def Let_def)

lemma Open_if_failed:
  assumes "pay_core (withdrawal_requests d) (external_withdrawals d) seen" and "q \<in> rq_query_id ` set (withdrawal_requests d)"
    and "\<And>x. x \<in> set (external_withdrawals d) \<Longrightarrow> xw_query_id x = q \<Longrightarrow> xw_failed x"
  shows "request_state_of d q = Open"
proof -
  have "xw_processed_lt x = None \<and> xw_failed x" if "x \<in> set (external_withdrawals d)" "xw_query_id x = q" for x
    using assms(3) [OF that] pay_coreD(3) [OF assms(1) that(1)] by blast
  then show ?thesis using assms(2) by (simp add: Open_iff)
qed

subsection \<open>Updates of rows\<close>

lemma row_kept_refl: "row_kept x x"
  by (simp add: row_kept_def)

lemma progress_trans: "progress d d' \<Longrightarrow> progress d' d'' \<Longrightarrow> progress d d''"
  unfolding progress_def by (auto intro: list_all2_trans [of row_kept row_kept row_kept] simp: row_kept_def)

lemma progress_same:
  "external_withdrawals d' = external_withdrawals d \<Longrightarrow> withdrawal_requests d' = withdrawal_requests d \<Longrightarrow> progress d d'"
  by (simp add: progress_def list_all2_same row_kept_refl)

lemma progress_updates:
  assumes "external_withdrawals d' = update_where R f (external_withdrawals d)"
    and "withdrawal_requests d' = update_where Q g (withdrawal_requests d)"
    and "\<And>x. R x \<Longrightarrow> row_kept x (f x)" and "\<And>r. rq_query_id (g r) = rq_query_id r"
  shows "progress d d'"
  unfolding progress_def assms(1,2)
  by (auto simp: update_where_def list_all2_map2 list_all2_same row_kept_refl assms(3,4))

lemma progress_row:
  assumes "progress d d'" and "x \<in> set (external_withdrawals d)"
  shows "\<exists>y \<in> set (external_withdrawals d'). row_kept x y"
  using assms unfolding progress_def by (metis in_set_conv_nth list_all2_conv_all_nth)

lemma progress_row_back:
  assumes "progress d d'" and "y \<in> set (external_withdrawals d')"
  shows "\<exists>x \<in> set (external_withdrawals d). row_kept x y"
  using assms unfolding progress_def by (metis in_set_conv_nth list_all2_conv_all_nth)

lemma progress_ids:
  "progress d d' \<Longrightarrow> rq_query_id ` set (withdrawal_requests d') = rq_query_id ` set (withdrawal_requests d)"
  unfolding progress_def by (metis list.set_map)

subsection \<open>Saving a block makes progress\<close>

interpretation SaveExternalIncome_progress: kept_by "progress d0" "\<lambda>_. True" SaveExternalIncome for d0
  by unfold_locales (auto simp: SaveExternalIncome_def res_simps progress_def)

interpretation SaveInternalIncome_progress: kept_by "progress d0" "\<lambda>_. True" "SaveInternalIncome lib" for d0 lib
  by unfold_locales (auto simp: SaveInternalIncome_def res_simps progress_def)

interpretation ApplySendingConfirmations_progress: kept_by "progress d0" "\<lambda>_. True" "ApplySendingConfirmations lib" for d0 lib
  by unfold_locales (auto simp: ApplySendingConfirmations_def res_simps progress_def)

interpretation UpdateInternalWithdrawal_progress: kept_by "progress d0" "\<lambda>_. True" "UpdateInternalWithdrawal lib" for d0 lib
  by unfold_locales (erule UpdateInternalWithdrawal_Inr, simp add: progress_def)

interpretation UpdateExternalWithdrawal_progress: kept_by "progress d0" "\<lambda>_. True" "UpdateExternalWithdrawal sch" for d0 sch
proof
  fix d w d' assume "progress d0 d" and "UpdateExternalWithdrawal sch w d = Inr d'"
  from this(2) have "progress d d'"
    by (cases rule: UpdateExternalWithdrawal_Inr) (auto simp: row_kept_def intro!: progress_updates)
  with \<open>progress d0 d\<close> show "progress d0 d'" by (rule progress_trans)
qed

interpretation ApplyJettonWithdrawalConfirmation_progress: kept_by "progress d0" "\<lambda>_. True" ApplyJettonWithdrawalConfirmation for d0
proof
  fix d c d' assume "progress d0 d" and step: "ApplyJettonWithdrawalConfirmation c d = Inr d'"
  from step have "progress d d'"
    by (auto simp: ApplyJettonWithdrawalConfirmation_def ebind_Inr_iff row_kept_def update_where_none
        intro!: progress_updates [where Q = "\<lambda>_. False" and g = id])
  with \<open>progress d0 d\<close> show "progress d0 d'" by (rule progress_trans)
qed

interpretation SaveBlock_progress: kept_by "progress d0" "\<lambda>_. True" SaveBlock for d0
  by unfold_locales (auto simp: SaveBlock_def res_simps progress_def)

interpretation progress_block: block_kept "progress d0" "\<lambda>_. True" "\<lambda>_. True" "\<lambda>_. True" lib sch for d0 lib sch
  by unfold_locales

lemma progress_expire: "progress d (fst (SetExpired sch b c now now' d))"
proof -
  let ?d = "expire_internal now d"
  have "progress d ?d" by (rule progress_same) (simp_all add: expire_internal_def)
  moreover have "progress ?d d2" if "expire_external sch now' ?d = Inr d2" for d2
    using for_each_set_processing [OF that [unfolded expire_external_def]]
    by (auto simp: row_kept_def intro!: progress_updates)
  ultimately show ?thesis
    by (auto simp: SetExpired_def Let_def split: option.split sum.split intro: progress_trans)
qed

subsection \<open>The steps of the service are steps of the machine\<close>

lemma progress_settles:
  assumes "progress d d'" and "pay_core (withdrawal_requests d') (external_withdrawals d') seen"
  shows "spec_step (request_state_of d) (request_state_of d')"
proof -
  let ?f = "request_state_of d" and ?g = "request_state_of d'"
  define P where "P = {q. ?f q = InFlight \<and> ?g q = Paid}"
  define F where "F = {q. ?f q = InFlight \<and> ?g q = Open}"
  have "?g q = (if q \<in> P then Paid else if q \<in> F then Open else ?f q)" for q
  proof (cases "?f q")
    case Unknown
    then have "?g q = Unknown" using progress_ids [OF assms(1)] by (simp add: Unknown_iff)
    with Unknown show ?thesis by (simp add: P_def F_def)
  next
    case Open
    then have rows: "\<forall>x \<in> set (external_withdrawals d). xw_query_id x = q \<longrightarrow> xw_failed x" and q: "q \<in> rq_query_id ` set (withdrawal_requests d')"
      using progress_ids [OF assms(1)] by (simp_all add: Open_iff)
    have "xw_failed y" if y: "y \<in> set (external_withdrawals d')" "xw_query_id y = q" for y
      using progress_row_back [OF assms(1) y(1)] rows y(2) by (auto simp: row_kept_def)
    then have "?g q = Open" by (rule Open_if_failed [OF assms(2) q])
    with Open show ?thesis by (simp add: P_def F_def)
  next
    case InFlight
    then have "?g q \<noteq> Unknown" using progress_ids [OF assms(1)] Unknown_iff [of d q] by (simp add: Unknown_iff)
    with InFlight show ?thesis by (cases "?g q") (auto simp: P_def F_def)
  next
    case Paid
    then obtain x where x: "x \<in> set (external_withdrawals d)" "xw_query_id x = q" "xw_processed_lt x \<noteq> None"
      and q: "q \<in> rq_query_id ` set (withdrawal_requests d)" by (auto simp: Paid_iff)
    have "?g q = Paid" using progress_row [OF assms(1) x(1)] x(2,3) q progress_ids [OF assms(1)]
      by (auto simp: Paid_iff row_kept_def)
    with Paid show ?thesis by (simp add: P_def F_def)
  qed
  then have states: "?g = (\<lambda>q. if q \<in> P then Paid else if q \<in> F then Open else ?f q)" by blast
  have sent: "\<forall>q \<in> P \<union> F. ?f q = InFlight" and apart: "P \<inter> F = {}" by (auto simp: P_def F_def)
  show ?thesis by (subst states, rule spec_step.settle [OF sent apart])
qed

lemma request_accepts:
  assumes "pay_inv s"
  shows "spec_step (request_state_of (ps_db s)) (request_state_of (fst (CreateWithdrawalRequest sch w (ps_db s))))"
proof -
  let ?d = "ps_db s" and ?d' = "fst (CreateWithdrawalRequest sch w (ps_db s))"
  have core: "pay_core (withdrawal_requests ?d) (external_withdrawals ?d) (ps_seen s)" and wf: "wf_database ?d"
    using assms by (simp_all add: pay_inv_def)
  obtain rqs' where d: "withdrawal_requests ?d' = withdrawal_requests ?d @ rqs'" "external_withdrawals ?d' = external_withdrawals ?d"
    and r: "rqs' = [] \<or> (\<exists>r. rqs' = [r] \<and> rq_query_id r = next_query_id ?d)" by (rule CreateWithdrawalRequest_rows)
  show ?thesis
  proof (cases "rqs' = []")
    case True
    then have "progress ?d ?d'" by (intro progress_same) (simp_all add: d)
    moreover have "pay_core (withdrawal_requests ?d') (external_withdrawals ?d') (ps_seen s)" using core True by (simp add: d)
    ultimately show ?thesis by (rule progress_settles)
  next
    case False
    then obtain r where r: "rqs' = [r]" using r by blast
    have new: "rq_query_id r \<notin> rq_query_id ` set (withdrawal_requests ?d)"
      using \<open>rqs' = [] \<or> _\<close> wf r by (force simp: wf_database_def)
    then have "\<forall>x \<in> set (external_withdrawals ?d). xw_query_id x \<noteq> rq_query_id r" using pay_coreD(4) [OF core] by metis
    then have "request_state_of ?d' (rq_query_id r) = Open" by (auto simp: Open_iff d r)
    moreover have "request_state_of ?d' q = request_state_of ?d q" if "q \<noteq> rq_query_id r" for q
      by (rule request_state_of_cong) (use that in \<open>auto simp: d r\<close>)
    ultimately have "request_state_of ?d' = (request_state_of ?d)(rq_query_id r := Open)" by auto
    then show ?thesis using spec_step.accept [of "request_state_of ?d" "rq_query_id r"] new by (simp add: Unknown_iff)
  qed
qed

lemma record_sends:
  assumes "pay_inv s" and "CreateExternalWithdrawals sch (ps_pending s) u e (ps_db s) = Inr d'"
  shows "spec_step (request_state_of (ps_db s)) (request_state_of d')"
proof -
  let ?d = "ps_db s" and ?Q = "et_QueryID ` set (ps_pending s)"
  have core: "pay_core (withdrawal_requests ?d) (external_withdrawals ?d) (ps_seen s)"
    and pend: "pending_open (ps_pending s) (withdrawal_requests ?d)" using assms(1) by (simp_all add: pay_inv_def)
  note d' = CreateExternalWithdrawals_Inr [OF assms(2)]
  have "map rq_query_id (withdrawal_requests d') = map rq_query_id (withdrawal_requests ?d)"
    by (simp add: d' update_where_def)
  then have ids: "rq_query_id ` set (withdrawal_requests d') = rq_query_id ` set (withdrawal_requests ?d)"
    by (metis list.set_map)
  have idle: "request_state_of ?d q = Open" if "q \<in> ?Q" for q
  proof -
    from that obtain r where r: "r \<in> set (withdrawal_requests ?d)" "rq_query_id r = q" "\<not> rq_processing r"
      using pend by (auto simp: pending_open_def)
    show ?thesis
    proof (rule Open_if_failed [OF core])
      fix x assume "x \<in> set (external_withdrawals ?d)" "xw_query_id x = q"
      then show "xw_failed x" using pay_coreD(1) [OF core r(1) _ r(3), of x] r(2) by simp
    qed (use r in auto)
  qed
  have "request_state_of d' q = (if q \<in> ?Q then InFlight else request_state_of ?d q)" for q
  proof (cases "q \<in> ?Q")
    case True
    then obtain t where t: "t \<in> set (ps_pending s)" "et_QueryID t = q" by blast
    have old: "q \<in> rq_query_id ` set (withdrawal_requests ?d)"
      "\<forall>x \<in> set (external_withdrawals ?d). xw_query_id x = q \<longrightarrow> xw_processed_lt x = None"
      using idle [OF True] by (simp_all add: Open_iff)
    have "request_state_of d' q \<noteq> Unknown" using old(1) ids by (simp add: Unknown_iff)
    moreover have "request_state_of d' q \<noteq> Paid" using old(2) by (auto simp: Paid_iff d' sent_row_def)
    moreover have "sent_row u e t \<in> set (external_withdrawals d')" using t(1) by (simp add: d')
    moreover have "xw_query_id (sent_row u e t) = q" "\<not> xw_failed (sent_row u e t)" using t(2) by (simp_all add: sent_row_def)
    ultimately have "request_state_of d' q \<noteq> Unknown" "request_state_of d' q \<noteq> Paid" "request_state_of d' q \<noteq> Open" unfolding Open_iff by blast+
    then show ?thesis using True by (cases "request_state_of d' q") simp_all
  next
    case False
    then have "filter (\<lambda>x. xw_query_id x = q) (external_withdrawals d') = filter (\<lambda>x. xw_query_id x = q) (external_withdrawals ?d)"
      by (auto simp: d' sent_row_def filter_empty_conv)
    then have "request_state_of ?d q = request_state_of d' q" by (intro request_state_of_cong) (simp_all add: ids)
    with False show ?thesis by simp
  qed
  then have "request_state_of d' = (\<lambda>q. if q \<in> ?Q then InFlight else request_state_of ?d q)" by blast
  then show ?thesis using spec_step.send [of ?Q "request_state_of ?d"] idle by simp
qed

lemma pay_step_refines:
  assumes "pay_inv s" and "pay_step lib sch s s'"
  shows "spec_step (request_state_of (ps_db s)) (request_state_of (ps_db s'))"
proof -
  have core: "pay_core (withdrawal_requests (ps_db s')) (external_withdrawals (ps_db s')) (ps_seen s')"
    using pay_inv_step [OF assms] by (simp add: pay_inv_def)
  from assms(2) show ?thesis
  proof (cases rule: pay_step.cases)
    case (scan ev d')
    have "progress (ps_db s) d'"
      by (rule progress_block.save_events_kept [OF progress_same _ _ _ scan(2)]) simp_all
    then show ?thesis using progress_settles [OF _ core] by (simp add: scan(1))
  next
    case (sweep t e memo d')
    then have "progress (ps_db s) (ps_db s')"
      by (intro progress_same) (auto simp: SaveInternalWithdrawalTask_def res_simps)
    then show ?thesis by (rule progress_settles [OF _ core])
  next
    case (service_request memo sr d')
    then have "progress (ps_db s) (ps_db s')"
      by (intro progress_same) (auto simp: CreateServiceWithdrawalRequest_def res_simps)
    then show ?thesis by (rule progress_settles [OF _ core])
  next
    case (ton_address wd d')
    then have "progress (ps_db s) (ps_db s')" by (intro progress_same) (auto simp: SaveTonWallet_def res_simps)
    then show ?thesis by (rule progress_settles [OF _ core])
  next
    case (jetton_address ow wd b d')
    then have "progress (ps_db s) (ps_db s')"
      by (intro progress_same) (auto simp: SaveJettonWallet_def res_simps split: if_splits)
    then show ?thesis by (rule progress_settles [OF _ core])
  next
    case (service st m e filled)
    then have "progress (ps_db s) (ps_db s')"
      by (intro progress_same) (auto simp: UpdateServiceWithdrawalRequest_def)
    then show ?thesis by (rule progress_settles [OF _ core])
  next
    case (expire b c now now')
    then have "progress (ps_db s) (ps_db s')" by (simp add: progress_expire)
    then show ?thesis by (rule progress_settles [OF _ core])
  next
    case (request w)
    then show ?thesis using request_accepts [OF assms(1)] by simp
  next
    case (record_batch u e d')
    then show ?thesis using record_sends [OF assms(1)] by simp
  qed (simp_all add: spec_step_refl)
qed

lemma spec_paid_final: "rtranclp spec_step f g \<Longrightarrow> f q = Paid \<Longrightarrow> g q = Paid"
  by (induction rule: rtranclp_induct) (auto elim!: spec_step.cases)

lemma pay_steps_refine:
  assumes "rtranclp (pay_step lib sch) s s'" and "pay_inv s"
  shows "pay_inv s' \<and> rtranclp spec_step (request_state_of (ps_db s)) (request_state_of (ps_db s'))"
  using assms(1)
proof (induction rule: rtranclp_induct)
  case (step s1 s2)
  then show ?case using pay_inv_step [OF _ step(2)] pay_step_refines [OF _ step(2)] by (auto intro: rtranclp.rtrancl_into_rtrancl)
qed (simp add: assms(2))

text \<open>C2: the service implements the life of a withdrawal request. Read off the tables, every state the
  service reaches is one that the abstract machine reaches from no requests at all, every step of
  the service, whichever part of it takes the step, is a step of the machine, and a request that
  is paid stays paid whatever the service does afterwards.\<close>

theorem payments_refine_spec:
  assumes "pay_reachable lib sch s"
  shows "rtranclp spec_step (\<lambda>_. Unknown) (request_state_of (ps_db s))
    \<and> (\<forall>s'. pay_step lib sch s s' \<longrightarrow> spec_step (request_state_of (ps_db s)) (request_state_of (ps_db s')))
    \<and> (\<forall>s' q. rtranclp (pay_step lib sch) s s' \<and> request_state_of (ps_db s) q = Paid \<longrightarrow> request_state_of (ps_db s') q = Paid)"
proof (intro conjI allI impI)
  note inv = pay_reachable_inv [OF assms]
  have "rtranclp (pay_step lib sch) pay_init s"
    using assms by (induction rule: pay_reachable.induct) (auto intro: rtranclp.rtrancl_into_rtrancl)
  then have "rtranclp spec_step (request_state_of (ps_db pay_init)) (request_state_of (ps_db s))"
    using pay_steps_refine pay_inv_init by blast
  moreover have "request_state_of (ps_db pay_init) = (\<lambda>_. Unknown)"
    by (intro ext) (simp add: Unknown_iff pay_init_def empty_database_def)
  ultimately show "rtranclp spec_step (\<lambda>_. Unknown) (request_state_of (ps_db s))" by simp
  show "spec_step (request_state_of (ps_db s)) (request_state_of (ps_db s'))" if "pay_step lib sch s s'" for s'
    by (rule pay_step_refines [OF inv that])
  show "request_state_of (ps_db s') q = Paid"
    if "rtranclp (pay_step lib sch) s s' \<and> request_state_of (ps_db s) q = Paid" for s' q
    using pay_steps_refine [OF _ inv] spec_paid_final that by blast
qed

theorem payments_refine_spec_witness:
  "\<exists>s. pay_reachable sample_lib query_schema s \<and> rtranclp spec_step (\<lambda>_. Unknown) (request_state_of (ps_db s))
    \<and> request_state_of (ps_db s) 1 = Paid"
proof -
  obtain s x where s: "pay_reachable sample_lib query_schema s" and x: "x \<in> set (external_withdrawals (ps_db s))" "xw_query_id x = 1"
    "xw_processed_lt x \<noteq> None" using sample_run by blast
  have "pay_core (withdrawal_requests (ps_db s)) (external_withdrawals (ps_db s)) (ps_seen s)"
    using pay_reachable_inv [OF s] by (simp add: pay_inv_def)
  from pay_coreD(4) [OF this x(1)] x have "request_state_of (ps_db s) 1 = Paid" by (auto simp: Paid_iff)
  with payments_refine_spec [OF s] s show ?thesis by blast
qed

end
