(* ===== verification/ShardTracker.thy ===== *)
theory ShardTracker
  imports Models
begin

text \<open>
  \<open>core/shard_tracker.go\<close>: which shard block belongs to the service's shard (the first byte
  of its addresses), and the walk from the newest shard block back to the last known one.
  The TON API is a parameter: the \<open>n\<close>-th call of a method may answer differently, so a method
  is a function of the call number. The retry loops and the walk need not end, so they are
  \<open>partial_function (option)\<close>, with \<open>None\<close> for a loop that does not return; that they do
  return is a lemma of its own.
\<close>

unbundle bit_operations_syntax

text \<open>\<open>math/bits\<close>.\<close>

definition LeadingZeros64 :: "uint64 \<Rightarrow> nat" where
  "LeadingZeros64 w = length (takeWhile Not (map (bit w) (rev [0..<64])))"

definition TrailingZeros64 :: "uint64 \<Rightarrow> nat" where
  "TrailingZeros64 w = length (takeWhile Not (map (bit w) [0..<64]))"

definition isInShard :: "uint64 \<Rightarrow> byte \<Rightarrow> bool result" where
  "isInShard blockShardPrefix shard =
     (if blockShardPrefix = 0 then Inl (Fatal ''invalid shard_prefix'')
      else let prefixLen = 64 - 1 - TrailingZeros64 blockShardPrefix in
           if prefixLen > 8 then Inl (Fatal ''more than 256 shards is not supported'')
           else let res = push_bit (64 - 8) (ucast shard) XOR blockShardPrefix
                in Inr (LeadingZeros64 res \<ge> prefixLen))"

fun filterByShard :: "BlockIDExt list \<Rightarrow> byte \<Rightarrow> BlockIDExt result" where
  "filterByShard [] shard = Inl (Fatal ''must be at least one suitable shard block'')"
| "filterByShard (h # hs) shard =
     ebind (isInShard (bid_Shard h) shard) (\<lambda>b. if b then Inr h else filterByShard hs shard)"

text \<open>\<open>tlb.Block\<close>, by the fields of \<open>BlockInfo\<close> and the result of \<open>GetParentBlocks()\<close>.\<close>

record Block =
  blk_NotMaster :: bool
  blk_GenUtime :: uint32
  blk_StartLt :: uint64
  blk_EndLt :: uint64
  blk_Parents :: "BlockIDExt list result"

text \<open>An error of \<open>GetParentBlocks\<close> is answered with a zero header and no error.\<close>

definition convertBlockToShardHeader :: "Block \<Rightarrow> BlockIDExt \<Rightarrow> byte \<Rightarrow> ShardBlockHeader result" where
  "convertBlockToShardHeader block info shard =
     (case blk_Parents block of
        Inl (Err _) \<Rightarrow> Inr zero_ShardBlockHeader
      | Inl e \<Rightarrow> Inl e
      | Inr parents \<Rightarrow>
          ebind (filterByShard parents shard) (\<lambda>parent.
          Inr \<lparr>sb_BlockIDExt = Some info, sb_NotMaster = blk_NotMaster block,
               sb_GenUtime = blk_GenUtime block, sb_StartLt = blk_StartLt block,
               sb_EndLt = blk_EndLt block, sb_Parent = Some parent\<rparr>))"

definition ErrBlockNotApplied :: string where "ErrBlockNotApplied = ''block is not applied''"

text \<open>\<open>strings.Contains\<close>.\<close>

definition Contains :: "string \<Rightarrow> string \<Rightarrow> bool" where
  "Contains s sub \<longleftrightarrow> list_ex (\<lambda>i. take (length sub) (drop i s) = sub) [0..<Suc (length s)]"

definition isNotReadyError :: "go_error \<Rightarrow> bool" where
  "isNotReadyError e = (case e of Err s \<Rightarrow> Contains s ErrBlockNotApplied | _ \<Rightarrow> False)"

definition not_ready :: "'a result \<Rightarrow> bool" where
  "not_ready r = (case r of Inl e \<Rightarrow> isNotReadyError e | Inr _ \<Rightarrow> False)"

text \<open>\<open>for { x, err = f(); if err is "not ready" { continue }; ... }\<close>.\<close>

partial_function (option) retry :: "(nat \<Rightarrow> 'a result) \<Rightarrow> nat \<Rightarrow> 'a result option" where
  "retry f n = (if not_ready (f n) then retry f (Suc n) else Some (f n))"

definition getShardBlocksHeader :: "(BlockIDExt \<Rightarrow> nat \<Rightarrow> Block result) \<Rightarrow> BlockIDExt \<Rightarrow> byte
    \<Rightarrow> ShardBlockHeader result option" where
  "getShardBlocksHeader GetBlockData info shard =
     map_option (\<lambda>r. ebind r (\<lambda>block. convertBlockToShardHeader block info shard))
       (retry (GetBlockData info) 0)"

record ShardTracker =
  tr_shard :: byte
  tr_lastKnownShardBlock :: BlockIDExt
  tr_lastMasterBlock :: "BlockIDExt option"

definition NewShardTracker :: "byte \<Rightarrow> BlockIDExt \<Rightarrow> ShardTracker" where
  "NewShardTracker shard startBlock = \<lparr>tr_shard = shard, tr_lastKnownShardBlock = startBlock, tr_lastMasterBlock = None\<rparr>"

text \<open>One turn of the walk of \<open>getShardBlocks\<close> at the block \<open>cur\<close>: it ends, with an error or at the
  known block, or it sends the header of the block. \<open>header\<close> is \<open>getShardBlocksHeader\<close>.\<close>

datatype walk_outcome = WalkEnds "go_error option" | WalkSends ShardBlockHeader

definition walk_turn :: "(BlockIDExt \<Rightarrow> ShardBlockHeader result option) \<Rightarrow> BlockIDExt \<Rightarrow> BlockIDExt option \<Rightarrow> walk_outcome option" where
  "walk_turn header known cur =
     (case cur of
        None \<Rightarrow> Some (WalkEnds (Some (Panic ''nil pointer dereference'')))
      | Some c \<Rightarrow>
          if bid_Shard known = bid_Shard c \<and> bid_SeqNo known = bid_SeqNo c then Some (WalkEnds None)
          else map_option (\<lambda>r. case r of Inl e \<Rightarrow> WalkEnds (Some e) | Inr h \<Rightarrow> WalkSends h) (header c))"

text \<open>The walk: the headers sent so far, newest first, and the error that ended it.\<close>

partial_function (option) walk :: "(BlockIDExt \<Rightarrow> ShardBlockHeader result option) \<Rightarrow> BlockIDExt
    \<Rightarrow> BlockIDExt option \<Rightarrow> ShardBlockHeader list \<Rightarrow> (ShardBlockHeader list \<times> go_error option) option" where
  "walk header known cur sent =
     Option.bind (walk_turn header known cur) (\<lambda>t. case t of
         WalkEnds err \<Rightarrow> Some (sent, err)
       | WalkSends h \<Rightarrow> walk header known (sb_Parent h) (sent @ [h]))"

text \<open>The blocks sent, the tracker afterwards, and the error if there was one.\<close>

definition getShardBlocks :: "(BlockIDExt \<Rightarrow> ShardBlockHeader result option) \<Rightarrow> ShardTracker \<Rightarrow> BlockIDExt
    \<Rightarrow> (ShardBlockHeader list \<times> ShardTracker \<times> go_error option) option" where
  "getShardBlocks header s i =
     map_option (\<lambda>(sent, err). case err of
         None \<Rightarrow> (sent, s\<lparr>tr_lastKnownShardBlock := i\<rparr>, None)
       | Some e \<Rightarrow> (sent, s, Some e))
       (walk header (tr_lastKnownShardBlock s) (Some i) [])"

text \<open>The newest block of the tracked shard that the masterchain block refers to.\<close>

definition newestShardBlock :: "(BlockIDExt \<Rightarrow> nat \<Rightarrow> BlockIDExt list result) \<Rightarrow> byte \<Rightarrow> BlockIDExt \<Rightarrow> BlockIDExt result option" where
  "newestShardBlock GetBlockShardsInfo shard master =
     map_option (\<lambda>r. ebind r (\<lambda>infos. filterByShard infos shard)) (retry (GetBlockShardsInfo master) 0)"

definition loadShardBlocksBatch :: "(BlockIDExt \<Rightarrow> nat \<Rightarrow> BlockIDExt list result)
    \<Rightarrow> (BlockIDExt \<Rightarrow> nat \<Rightarrow> Block result) \<Rightarrow> ShardTracker \<Rightarrow> BlockIDExt
    \<Rightarrow> (ShardBlockHeader list \<times> ShardTracker \<times> go_error option) option" where
  "loadShardBlocksBatch GetBlockShardsInfo GetBlockData s master =
     Option.bind (newestShardBlock GetBlockShardsInfo (tr_shard s) master) (\<lambda>r.
     case r of
       Inl e \<Rightarrow> Some ([], s, Some e)
     | Inr i \<Rightarrow> getShardBlocks (\<lambda>b. getShardBlocksHeader GetBlockData b (tr_shard s)) s i)"

text \<open>Polls until the masterchain has moved on; \<open>n\<close> counts the polls.\<close>

partial_function (option) getCurrentMasterBlock :: "(nat \<Rightarrow> BlockIDExt result) \<Rightarrow> nat \<Rightarrow> ShardTracker
    \<Rightarrow> (ShardTracker \<times> BlockIDExt result) option" where
  "getCurrentMasterBlock GetMasterchainInfo n s =
     (case GetMasterchainInfo n of
        Inl e \<Rightarrow> Some (s, Inl e)
      | Inr masterBlock \<Rightarrow>
          (case tr_lastMasterBlock s of
             None \<Rightarrow> Some (s\<lparr>tr_lastMasterBlock := Some masterBlock\<rparr>, Inr masterBlock)
           | Some l \<Rightarrow>
               if bid_SeqNo masterBlock = bid_SeqNo l
               then getCurrentMasterBlock GetMasterchainInfo (Suc n) s
               else Some (s\<lparr>tr_lastMasterBlock := Some masterBlock\<rparr>, Inr masterBlock)))"

text \<open>One round of the loop in \<open>Start\<close>: an error of either call is logged and the loop goes on,
  a panic or an exit ends it.\<close>

definition tracker_round :: "(nat \<Rightarrow> BlockIDExt result) \<Rightarrow> (BlockIDExt \<Rightarrow> nat \<Rightarrow> BlockIDExt list result)
    \<Rightarrow> (BlockIDExt \<Rightarrow> nat \<Rightarrow> Block result) \<Rightarrow> ShardTracker
    \<Rightarrow> (ShardBlockHeader list \<times> ShardTracker \<times> unit result) option" where
  "tracker_round GetMasterchainInfo GetBlockShardsInfo GetBlockData s =
     Option.bind (getCurrentMasterBlock GetMasterchainInfo 0 s) (\<lambda>(s, r).
     case r of
       Inl e \<Rightarrow> Some ([], s, swallow_err (Inl e))
     | Inr master \<Rightarrow>
         map_option (\<lambda>(sent, s, err). (sent, s, case err of None \<Rightarrow> Inr () | Some e \<Rightarrow> swallow_err (Inl e))) (loadShardBlocksBatch GetBlockShardsInfo GetBlockData s master))"

text \<open>The prefix of a shard with \<open>n\<close> significant bits \<open>v\<close>: the bits, a one, then zeros.\<close>

definition shard_prefix :: "nat \<Rightarrow> byte \<Rightarrow> uint64" where
  "shard_prefix n v = push_bit (64 - n) (ucast v) OR push_bit (63 - n) 1"

text \<open>A stretch of the shard chain: \<open>bs\<close> from the newest block to the child of \<open>known\<close>, each
  with its header and its parent.\<close>

definition newest :: "BlockIDExt \<Rightarrow> BlockIDExt list \<Rightarrow> BlockIDExt" where
  "newest known bs = (case bs of [] \<Rightarrow> known | b # _ \<Rightarrow> b)"

fun chain :: "(BlockIDExt \<Rightarrow> ShardBlockHeader result option) \<Rightarrow> BlockIDExt \<Rightarrow> BlockIDExt list \<Rightarrow> ShardBlockHeader list \<Rightarrow> bool" where
  "chain header known [] [] = True"
| "chain header known (b # bs) (h # hs) =
     (header b = Some (Inr h) \<and> sb_Parent h = Some (newest known bs) \<and>
      (bid_Shard known, bid_SeqNo known) \<noteq> (bid_Shard b, bid_SeqNo b) \<and> chain header known bs hs)"
| "chain _ _ _ _ = False"

text \<open>A chain of two blocks above block 7, for examples.\<close>

definition sample_id :: "uint32 \<Rightarrow> BlockIDExt" where
  "sample_id n = \<lparr>bid_Workchain = 0, bid_Shard = 0x8000000000000000, bid_SeqNo = n, bid_RootHash = [], bid_FileHash = []\<rparr>"

definition sample_header :: "BlockIDExt \<Rightarrow> ShardBlockHeader" where
  "sample_header b = zero_ShardBlockHeader\<lparr>sb_BlockIDExt := Some b, sb_Parent := Some (sample_id (bid_SeqNo b - 1))\<rparr>"

definition sample_headers :: "BlockIDExt \<Rightarrow> ShardBlockHeader result option" where
  "sample_headers b = Some (Inr (sample_header b))"

definition sample_tracker :: ShardTracker where
  "sample_tracker = \<lparr>tr_shard = 0, tr_lastKnownShardBlock = sample_id 7, tr_lastMasterBlock = None\<rparr>"

subsection \<open>Bits\<close>

lemma length_takeWhile_ge_iff:
  "n \<le> length xs \<Longrightarrow> n \<le> length (takeWhile P xs) \<longleftrightarrow> (\<forall>i < n. P (xs ! i))"
proof (induction xs arbitrary: n)
  case (Cons x xs)
  then show ?case by (cases n) (auto simp: nth_Cons' less_Suc_eq_0_disj)
qed simp

lemma LeadingZeros64_ge_iff:
  assumes "n \<le> 64"
  shows "n \<le> LeadingZeros64 w \<longleftrightarrow> (\<forall>i < n. \<not> bit w (63 - i))"
proof -
  have "map (bit w) (rev [0..<64]) ! i = bit w (63 - i)" if "i < 64" for i
    using that by (simp add: rev_nth)
  then show ?thesis using assms
    by (auto simp: LeadingZeros64_def length_takeWhile_ge_iff)
qed

lemma TrailingZeros64_eq:
  assumes "k < 64" and "bit w k" and "\<And>i. i < k \<Longrightarrow> \<not> bit w i"
  shows "TrailingZeros64 w = k"
proof -
  let ?xs = "map (bit w) [0..<64]"
  have "k \<le> length (takeWhile Not ?xs)"
    using assms by (subst length_takeWhile_ge_iff) auto
  moreover have "\<not> Suc k \<le> length (takeWhile Not ?xs)"
    using assms by (subst length_takeWhile_ge_iff) auto
  ultimately show ?thesis by (simp add: TrailingZeros64_def)
qed

lemma bit_shard_prefix:
  assumes "n \<le> 8" and "k < 64"
  shows "bit (shard_prefix n v) k \<longleftrightarrow> (64 - n \<le> k \<and> bit v (k - (64 - n))) \<or> k = 63 - n"
  using assms by (auto simp: shard_prefix_def bit_simps)

lemma TrailingZeros64_shard_prefix: "n \<le> 8 \<Longrightarrow> TrailingZeros64 (shard_prefix n v) = 63 - n"
  by (rule TrailingZeros64_eq) (auto simp: bit_shard_prefix)

lemma shard_prefix_nonzero:
  assumes "n \<le> 8"
  shows "shard_prefix n v \<noteq> 0"
proof -
  have "bit (shard_prefix n v) (63 - n)" using assms by (simp add: bit_shard_prefix)
  then show ?thesis by auto
qed

lemma isInShard_shard_prefix:
  assumes "n \<le> 8"
  shows "isInShard (shard_prefix n v) shard = Inr (\<forall>i < n. bit shard (7 - i) = bit v (n - 1 - i))"
proof -
  let ?p = "shard_prefix n v"
  have "bit (push_bit 56 (ucast shard) XOR ?p) (63 - i) \<longleftrightarrow> (bit shard (7 - i) \<noteq> bit v (n - 1 - i))"
    if "i < n" for i
  proof -
    have "63 - i - 56 = 7 - i" and "63 - i - (64 - n) = n - 1 - i" using that assms by auto
    then show ?thesis using that assms
      by (auto simp: bit_simps bit_shard_prefix)
  qed
  then show ?thesis using assms
    by (simp add: isInShard_def Let_def TrailingZeros64_shard_prefix shard_prefix_nonzero
        LeadingZeros64_ge_iff)
qed

lemma drop_bit_eq_prefix_iff:
  fixes shard v :: byte
  assumes "n \<le> 8" and "take_bit n v = v"
  shows "drop_bit (8 - n) shard = v \<longleftrightarrow> (\<forall>i < n. bit shard (7 - i) = bit v (n - 1 - i))"
    (is "?L \<longleftrightarrow> ?R")
proof
  assume ?L
  show ?R
  proof (intro allI impI)
    fix i assume "i < n"
    then have "7 - i = (8 - n) + (n - 1 - i)" using assms(1) by auto
    then show "bit shard (7 - i) = bit v (n - 1 - i)"
      unfolding \<open>?L\<close> [symmetric] by (simp add: bit_drop_bit_eq)
  qed
next
  assume R: ?R
  show ?L
  proof (rule bit_eqI)
    fix k assume "possible_bit TYPE(byte) k"
    show "bit (drop_bit (8 - n) shard) k \<longleftrightarrow> bit v k"
    proof (cases "k < n")
      case True
      have "bit shard (7 - (n - 1 - k)) = bit v (n - 1 - (n - 1 - k))"
        by (rule R [rule_format]) (use True in simp)
      moreover have "7 - (n - 1 - k) = 8 - n + k" and "n - 1 - (n - 1 - k) = k"
        using True assms(1) by auto
      ultimately show ?thesis by (simp only: bit_drop_bit_eq comp_def)
    next
      case False
      have "\<not> bit v k" using False assms(2) by (metis bit_take_bit_iff)
      moreover have "\<not> bit shard (8 - n + k)" using False assms(1) bit_imp_le_length [of shard "8 - n + k"] by auto
      ultimately show ?thesis by (simp add: bit_drop_bit_eq)
    qed
  qed
qed

subsection \<open>Choosing the shard block\<close>

lemma filterByShard_found:
  assumes "\<forall>h \<in> set hs. \<exists>b. isInShard (bid_Shard h) shard = Inr b"
    and "\<exists>h \<in> set hs. isInShard (bid_Shard h) shard = Inr True"
  shows "\<exists>h \<in> set hs. filterByShard hs shard = Inr h \<and> isInShard (bid_Shard h) shard = Inr True"
  using assms
proof (induction hs)
  case (Cons h hs)
  from Cons.prems(1) obtain b where b: "isInShard (bid_Shard h) shard = Inr b" by auto
  show ?case
  proof (cases b)
    case True
    with b show ?thesis by simp
  next
    case False
    with b Cons.prems have "\<exists>h \<in> set hs. isInShard (bid_Shard h) shard = Inr True" by auto
    with Cons False b show ?thesis by auto
  qed
qed simp

subsection \<open>Retrying and walking\<close>

lemma retry_ready:
  assumes "n \<le> m" and "\<not> not_ready (f m)" and "\<And>k. n \<le> k \<Longrightarrow> k < m \<Longrightarrow> not_ready (f k)"
  shows "retry f n = Some (f m)"
  using assms
proof (induction "m - n" arbitrary: n)
  case 0
  then show ?case by (simp add: retry.simps)
next
  case (Suc d)
  then have "not_ready (f n)" and "retry f (Suc n) = Some (f m)" by auto
  then show ?case by (simp add: retry.simps [of f n])
qed

lemma walk_chain:
  "chain header known bs hs \<Longrightarrow> walk header known (Some (newest known bs)) sent = Some (sent @ hs, None)"
proof (induction header known bs hs arbitrary: sent rule: chain.induct)
  case (1 header known)
  then show ?case by (simp add: walk.simps walk_turn_def newest_def)
next
  case (2 header known b bs h hs)
  then have step: "header b = Some (Inr h)" "sb_Parent h = Some (newest known bs)"
    and new: "\<not> (bid_Shard known = bid_Shard b \<and> bid_SeqNo known = bid_SeqNo b)"
    and IH: "walk header known (Some (newest known bs)) (sent @ [h]) = Some ((sent @ [h]) @ hs, None)"
    by (auto simp: newest_def)
  show ?case
    using new IH by (subst walk.simps) (simp add: walk_turn_def newest_def [of known "b # bs"] step)
qed auto

lemma walk_error:
  assumes "chain header b bs hs" and "header b = Some (Inl e)"
    and "(bid_Shard k, bid_SeqNo k) \<notin> (\<lambda>c. (bid_Shard c, bid_SeqNo c)) ` set (b # bs)"
  shows "walk header k (Some (newest b bs)) sent = Some (sent @ hs, Some e)"
  using assms
proof (induction header b bs hs arbitrary: sent rule: chain.induct)
  case (1 header b)
  then have "\<not> (bid_Shard k = bid_Shard b \<and> bid_SeqNo k = bid_SeqNo b)" by auto
  with "1.prems"(2) show ?case by (subst walk.simps) (simp add: walk_turn_def newest_def)
next
  case (2 header b c bs h hs)
  then have step: "header c = Some (Inr h)" "sb_Parent h = Some (newest b bs)"
    and new: "\<not> (bid_Shard k = bid_Shard c \<and> bid_SeqNo k = bid_SeqNo c)"
    and IH: "walk header k (Some (newest b bs)) (sent @ [h]) = Some ((sent @ [h]) @ hs, Some e)"
    by (auto simp: newest_def)
  show ?case
    using new IH by (subst walk.simps) (simp add: walk_turn_def newest_def [of b "c # bs"] step)
qed auto

lemma chain_length: "chain header known bs hs \<Longrightarrow> length hs = length bs"
  by (induction header known bs hs rule: chain.induct) auto

subsection \<open>What the tracker does\<close>

text \<open>C23: a block belongs to the tracked shard exactly when the shard's bits are the leading bits of
  the tracked address byte. For every prefix of at most 8 bits, \<open>isInShard\<close> answers without
  failing and compares just those bits.\<close>

theorem shard_membership:
  assumes "n \<le> 8" and "take_bit n v = v"
  shows "isInShard (shard_prefix n v) shard = Inr (drop_bit (8 - n) shard = v)"
  by (simp only: isInShard_shard_prefix [OF assms(1)] drop_bit_eq_prefix_iff [OF assms])

theorem shard_membership_witness:
  "isInShard (shard_prefix 2 (2 :: byte)) 0xA5 = Inr (drop_bit (8 - 2) (0xA5 :: byte) = 2)"
  by (rule shard_membership) (simp_all add: take_bit_eq_mod)

text \<open>C22: no shard block is skipped. If the chain from the newest block back to the last known one is
  \<open>bs\<close>, with headers \<open>hs\<close>, \<open>getShardBlocks\<close> terminates without an error, sends each of these
  headers once, newest first, and makes the newest block the last known one.\<close>

theorem getShardBlocks_complete:
  assumes "chain header (tr_lastKnownShardBlock s) bs hs"
  shows "getShardBlocks header s (newest (tr_lastKnownShardBlock s) bs)
      = Some (hs, s\<lparr>tr_lastKnownShardBlock := newest (tr_lastKnownShardBlock s) bs\<rparr>, None)
    \<and> length hs = length bs"
  using walk_chain [OF assms, of "[]"] chain_length [OF assms] by (simp add: getShardBlocks_def)

theorem getShardBlocks_complete_witness:
  "getShardBlocks sample_headers sample_tracker (sample_id 9)
    = Some ([sample_header (sample_id 9), sample_header (sample_id 8)],
        sample_tracker\<lparr>tr_lastKnownShardBlock := sample_id 9\<rparr>, None)"
proof -
  have "chain sample_headers (tr_lastKnownShardBlock sample_tracker) [sample_id 9, sample_id 8]
      [sample_header (sample_id 9), sample_header (sample_id 8)]"
    by (simp add: sample_headers_def sample_header_def sample_tracker_def sample_id_def newest_def)
  from getShardBlocks_complete [OF this] show ?thesis by (simp add: newest_def)
qed

text \<open>An error in the middle of the walk leaves the tracker where it was. The blocks above the
  error have been sent already, the last known block is unchanged, so the next round sends them
  again; that they are saved once only is left to the unique key of \<open>block_data\<close>.\<close>

lemma getShardBlocks_error:
  assumes "chain header b bs hs" and "header b = Some (Inl e)"
    and "(bid_Shard (tr_lastKnownShardBlock s), bid_SeqNo (tr_lastKnownShardBlock s)) \<notin> (\<lambda>c. (bid_Shard c, bid_SeqNo c)) ` set (b # bs)"
  shows "getShardBlocks header s (newest b bs) = Some (hs, s, Some e)"
  using walk_error [OF assms, of "[]"] by (simp add: getShardBlocks_def)

end
