(* ===== verification/Blockchain.thy ===== *)
theory Blockchain
  imports Messages Repository ShardTracker "HOL-Library.Signed_Division"
begin

text \<open>
  \<open>core/blockchain.go\<close> and the interface \<open>Blockchain\<close> of \<open>core/types.go\<close>: the connection to
  a lite server. The client of tonutils-go is a parameter whose calls act on the outside world
  \<open>'w\<close>, so two calls with the same arguments may answer differently. The clock, the state of the
  context and \<open>time.Sleep\<close> are readings and changes of that world. The polling loops need not
  return; that they do under a deadline is proved.
\<close>

text \<open>\<open>tlb.Account\<close> by the fields read here; \<open>State\<close> is a pointer.\<close>

record Account =
  acc_IsActive :: bool
  acc_State :: "(int \<times> AccountStatus) option"

text \<open>An entry of the stack a get method leaves; the service only reads integers.\<close>

datatype StackValue = StackInt int | StackOther

type_synonym TransactionID3 = "byte list \<times> uint64"

definition ID3 :: "TransactionShortInfo \<Rightarrow> TransactionID3" where
  "ID3 t = (ti_Account t, ti_LT t)"

record ('c, 'w) APIClient =
  api_CurrentMasterchainInfo :: "('w, BlockIDExt) io"
  api_GetAccount :: "BlockIDExt \<Rightarrow> tonaddr \<Rightarrow> ('w, Account) io"
  api_LookupBlock :: "int32 \<Rightarrow> uint64 \<Rightarrow> uint32 \<Rightarrow> ('w, BlockIDExt) io"
  api_RunGetMethod :: "BlockIDExt \<Rightarrow> tonaddr \<Rightarrow> string \<Rightarrow> ('w, StackValue list) io"
  api_GetBlockTransactionsV2 :: "BlockIDExt \<Rightarrow> nat \<Rightarrow> TransactionID3 option \<Rightarrow> ('w, TransactionShortInfo list \<times> bool) io"
  api_GetTransaction :: "BlockIDExt \<Rightarrow> tonaddr \<Rightarrow> uint64 \<Rightarrow> ('w, 'c Transaction) io"
  api_GetTime :: "('w, uint32) io"
  api_SendExternalMessage :: "'c ExternalMessage \<Rightarrow> ('w, unit) io"
  api_GetJettonWallet :: "tonaddr \<Rightarrow> tonaddr \<Rightarrow> ('w, tonaddr) io"
  api_FromSeed :: "string list \<Rightarrow> WalletVersion \<Rightarrow> 'c Wallet result"
  api_Now :: "'w \<Rightarrow> int"
  api_Done :: "'w \<Rightarrow> bool"
  api_Sleep :: "int \<Rightarrow> 'w \<Rightarrow> 'w"

text \<open>The interface \<open>Blockchain\<close>, as far as the wallets call it.\<close>

record ('c, 'w) Blockchain =
  bc_GenerateWallet :: "string \<Rightarrow> WalletVersion \<Rightarrow> ('c Wallet \<times> byte \<times> uint32) result"
  bc_GenerateHighloadWallet :: "string \<Rightarrow> ('c Wallet \<times> byte \<times> uint32) result"
  bc_GetAccountCurrentState :: "tonaddr \<Rightarrow> ('w, int \<times> AccountStatus) io"
  bc_GetWalletData :: "tonaddr \<Rightarrow> BlockIDExt \<Rightarrow> ('w, StackValue list) io"
  bc_GetLastWalletData :: "tonaddr \<Rightarrow> ('w, StackValue list) io"
  bc_GetJettonWallet :: "tonaddr \<Rightarrow> tonaddr \<Rightarrow> ('w, tonaddr) io"
  bc_WaitStatus :: "tonaddr \<Rightarrow> AccountStatus \<Rightarrow> ('w, unit) io"

definition millisecond :: int where "millisecond = 1000000"

subsection \<open>Time\<close>

definition getCurrentNodeTime :: "('c, 'w) APIClient \<Rightarrow> ('w, int) io" where
  "getCurrentNodeTime c = io_bind (api_GetTime c) (\<lambda>t. io_lift (Inr (unix_time t)))"

text \<open>\<open>/\<close> on a \<open>time.Duration\<close> truncates, as \<open>sdiv\<close> does.\<close>

definition nodeTimeShift :: "int \<Rightarrow> int \<Rightarrow> int \<Rightarrow> int" where
  "nodeTimeShift prevTime nextTime nodeTime = prevTime + (nextTime - prevTime) sdiv 2 - nodeTime"

definition isTimeSynced :: "('c, 'w) APIClient \<Rightarrow> int \<Rightarrow> ('w, bool) io" where
  "isTimeSynced c cutoff w =
     (let prevTime = api_Now c w in
      io_bind (getCurrentNodeTime c) (\<lambda>nodeTime w'.
        let nextTime = api_Now c w'; shift = nodeTimeShift prevTime nextTime nodeTime
        in Some (w', Inr (\<not> (shift > cutoff \<or> shift < - cutoff)))) w)"

definition NewConnection :: "('c, 'w) APIClient \<Rightarrow> ('w, ('c, 'w) APIClient) io" where
  "NewConnection c w =
     (case isTimeSynced c AllowableServiceToNodeTimeDiff w of
        None \<Rightarrow> None
      | Some (w', r) \<Rightarrow> Some (w',
          ebind (fatal_on ''get node time err'' r) (\<lambda>synced.
          if synced then Inr c else Inl (Fatal ''Service and Node time not synced''))))"

subsection \<open>Accounts\<close>

definition GetAccount :: "('c, 'w) APIClient \<Rightarrow> BlockIDExt \<Rightarrow> tonaddr \<Rightarrow> ('w, Account) io" where
  "GetAccount c block addr w =
     (case api_GetAccount c block addr w of
        Some (w', Inl e) \<Rightarrow>
          if isNotReadyError e
          then io_bind (api_LookupBlock c (bid_Workchain block) (bid_Shard block) (bid_SeqNo block - 1))
                 (\<lambda>prevBlock. api_GetAccount c prevBlock addr) w'
          else Some (w', Inl e)
      | r \<Rightarrow> r)"

definition GetAccountCurrentState :: "('c, 'w) APIClient \<Rightarrow> tonaddr \<Rightarrow> ('w, int \<times> AccountStatus) io" where
  "GetAccountCurrentState c addr =
     io_bind (api_CurrentMasterchainInfo c) (\<lambda>masterID.
     io_bind (GetAccount c masterID addr) (\<lambda>account.
     io_lift (if \<not> acc_IsActive account then Inr (0, AccountStatusNonExist) else deref (acc_State account))))"

definition WaitStatus :: "('c, 'w) APIClient \<Rightarrow> tonaddr \<Rightarrow> AccountStatus \<Rightarrow> ('w, unit) io" where
  "WaitStatus c addr status =
     poll (api_Done c) (api_Sleep c (200 * millisecond)) ErrTimeoutExceeded
       (io_bind (GetAccountCurrentState c addr) (\<lambda>(_, st). io_lift (Inr (if st = status then Some () else None))))"

subsection \<open>Get methods\<close>

definition run_once :: "('c, 'w) APIClient \<Rightarrow> BlockIDExt \<Rightarrow> tonaddr \<Rightarrow> string \<Rightarrow> ('w, StackValue list option) io" where
  "run_once c block addr meth w =
     (case api_RunGetMethod c block addr meth w of
        None \<Rightarrow> None
      | Some (w', Inl e) \<Rightarrow> Some (w', if isNotReadyError e then Inr None else Inl e)
      | Some (w', Inr res) \<Rightarrow> Some (w', Inr (Some res)))"

definition RunGetMethod :: "('c, 'w) APIClient \<Rightarrow> BlockIDExt \<Rightarrow> tonaddr \<Rightarrow> string \<Rightarrow> ('w, StackValue list) io" where
  "RunGetMethod c block addr meth =
     poll (api_Done c) (api_Sleep c (200 * millisecond)) ErrTimeoutExceeded
       (run_once c block addr meth)"

definition get_wallet_data_error :: "go_error \<Rightarrow> go_error" where
  "get_wallet_data_error e = (case e of
       Err s \<Rightarrow> if Contains s ''contract is not initialized'' then Err s else Err (''get wallet data error: '' @ s)
     | _ \<Rightarrow> e)"

definition GetWalletData :: "('c, 'w) APIClient \<Rightarrow> tonaddr \<Rightarrow> BlockIDExt \<Rightarrow> ('w, StackValue list) io" where
  "GetWalletData c addr blockID w =
     (case RunGetMethod c blockID addr ''get_wallet_data'' w of
        None \<Rightarrow> None
      | Some (w', Inl e) \<Rightarrow> Some (w', Inl (get_wallet_data_error e))
      | Some (w', Inr res) \<Rightarrow>
          Some (w', if length res \<noteq> 4 then Inl (Err ''invalid stack size'') else Inr res))"

definition GetLastWalletData :: "('c, 'w) APIClient \<Rightarrow> tonaddr \<Rightarrow> ('w, StackValue list) io" where
  "GetLastWalletData c addr =
     io_bind (api_CurrentMasterchainInfo c) (\<lambda>masterID. GetWalletData c addr masterID)"

subsection \<open>Wallets from a seed\<close>

text \<open>The shard is the first byte of the wallet's address.\<close>

definition first_byte :: "byte list \<Rightarrow> byte result" where
  "first_byte b = (case b of [] \<Rightarrow> Inl (Panic ''index out of range'') | x # _ \<Rightarrow> Inr x)"

definition GenerateWallet :: "('c, 'w) APIClient \<Rightarrow> string \<Rightarrow> WalletVersion \<Rightarrow> ('c Wallet \<times> byte \<times> uint32) result" where
  "GenerateWallet c seed v =
     ebind (api_FromSeed c (split_on (CHR '' '') seed) v) (\<lambda>w.
     ebind (deref (w_Address w)) (\<lambda>a.
     ebind (first_byte (ta_data a)) (\<lambda>shard.
     Inr (w, shard, DefaultSubwallet))))"

definition GenerateHighloadWallet :: "('c, 'w) APIClient \<Rightarrow> string \<Rightarrow> ('c Wallet \<times> byte \<times> uint32) result" where
  "GenerateHighloadWallet c seed = GenerateWallet c seed HighloadV2R2"

subsection \<open>The transactions of a block\<close>

partial_function (option) fetch_pages :: "('c, 'w) APIClient \<Rightarrow> BlockIDExt \<Rightarrow> TransactionID3 option
    \<Rightarrow> TransactionShortInfo list \<Rightarrow> ('w, TransactionShortInfo list) io" where
  "fetch_pages c blockID after txIDList w =
     Option.bind (api_GetBlockTransactionsV2 c blockID 256 after w) (\<lambda>(w', r). case r of
         Inl e \<Rightarrow> Some (w', Inl e)
       | Inr (fetchedIDs, incomplete) \<Rightarrow>
           if \<not> incomplete then Some (w', Inr (txIDList @ fetchedIDs))
           else if fetchedIDs = [] then Some (w', Inl (Panic ''index out of range''))
           else fetch_pages c blockID (Some (ID3 (List.last fetchedIDs))) (txIDList @ fetchedIDs) w')"

text \<open>\<open>sort.Slice\<close> is not stable: \<open>rng\<close> is the order it leaves equal elements in.\<close>

definition GetTransactionIDsFromBlock :: "('c, 'w) APIClient \<Rightarrow> (TransactionShortInfo list \<Rightarrow> TransactionShortInfo list)
    \<Rightarrow> BlockIDExt \<Rightarrow> ('w, TransactionShortInfo list) io" where
  "GetTransactionIDsFromBlock c rng blockID =
     io_bind (fetch_pages c blockID None []) (\<lambda>txIDList. io_lift (Inr (sort_key ti_LT (rng txIDList))))"

definition GetTransactionFromBlock :: "'c tonlib \<Rightarrow> ('c, 'w) APIClient \<Rightarrow> BlockIDExt \<Rightarrow> TransactionShortInfo
    \<Rightarrow> ('w, 'c Transaction) io" where
  "GetTransactionFromBlock lib c blockID txID =
     api_GetTransaction c blockID (new_address lib 0 (ucast (bid_Workchain blockID)) (ti_Account txID)) (ti_LT txID)"

text \<open>The connection as an implementation of the interface.\<close>

definition connection :: "('c, 'w) APIClient \<Rightarrow> ('c, 'w) Blockchain" where
  "connection c = \<lparr>bc_GenerateWallet = GenerateWallet c, bc_GenerateHighloadWallet = GenerateHighloadWallet c,
     bc_GetAccountCurrentState = GetAccountCurrentState c, bc_GetWalletData = GetWalletData c,
     bc_GetLastWalletData = GetLastWalletData c,
     bc_GetJettonWallet = (\<lambda>master owner. api_GetJettonWallet c master owner), bc_WaitStatus = WaitStatus c\<rparr>"

subsection \<open>Documented behaviour of the client\<close>

text \<open>
  \<open>GetBlockTransactionsV2\<close> lists the transactions \<open>txs\<close> of a block in pages: at most \<open>count\<close>
  of those after the cursor, and whether the list goes on.
\<close>

definition pages_ok :: "('c, 'w) APIClient \<Rightarrow> BlockIDExt \<Rightarrow> TransactionShortInfo list \<Rightarrow> bool" where
  "pages_ok c b txs \<longleftrightarrow>
     (\<forall>w. \<exists>w'. api_GetBlockTransactionsV2 c b 256 None w = Some (w', Inr (take 256 txs, 256 < length txs))) \<and>
     (\<forall>i w. i < length txs \<longrightarrow> (\<exists>w'. api_GetBlockTransactionsV2 c b 256 (Some (ID3 (txs ! i))) w =
        Some (w', Inr (take 256 (drop (Suc i) txs), Suc i + 256 < length txs))))"

text \<open>
  A context with a timeout: \<open>left\<close> is the number of pauses of 200 ms until the deadline, a pause
  uses one up, and the requests return without moving the deadline away.
\<close>

definition under_deadline :: "('c, 'w) APIClient \<Rightarrow> ('w \<Rightarrow> nat) \<Rightarrow> bool" where
  "under_deadline c left \<longleftrightarrow>
     (\<forall>w. left w = 0 \<longrightarrow> api_Done c w) \<and>
     (\<forall>w. left (api_Sleep c (200 * millisecond) w) \<le> left w - 1) \<and>
     returns_within left (api_CurrentMasterchainInfo c) \<and>
     (\<forall>b a. returns_within left (api_GetAccount c b a)) \<and>
     (\<forall>wc s n. returns_within left (api_LookupBlock c wc s n)) \<and>
     (\<forall>b a meth. returns_within left (api_RunGetMethod c b a meth))"

text \<open>A client for examples: a world that only counts the pauses left, in which the lite server
  answers that a block is not applied while more than one is left, and the account gets active
  when none is left.\<close>

definition sample_not_applied :: go_error where
  "sample_not_applied = Err ''lite server error: block is not applied''"

definition sample_master :: BlockIDExt where
  "sample_master = \<lparr>bid_Workchain = -1, bid_Shard = 0, bid_SeqNo = 7, bid_RootHash = [], bid_FileHash = []\<rparr>"

definition sample_page :: "TransactionShortInfo list \<Rightarrow> nat \<Rightarrow> TransactionID3 option \<Rightarrow> TransactionShortInfo list \<times> bool" where
  "sample_page txs n after =
     (let rest = (case after of None \<Rightarrow> txs | Some k \<Rightarrow> tl (dropWhile (\<lambda>t. ID3 t \<noteq> k) txs))
      in (take n rest, n < length rest))"

definition sample_api :: "TransactionShortInfo list \<Rightarrow> (tcell, nat) APIClient" where
  "sample_api txs = \<lparr>
     api_CurrentMasterchainInfo = (\<lambda>w. Some (w, Inr sample_master)),
     api_GetAccount = (\<lambda>_ _ w. Some (w, Inr \<lparr>acc_IsActive = w \<le> 1, acc_State = Some (5, AccountStatusActive)\<rparr>)),
     api_LookupBlock = (\<lambda>_ _ _ w. Some (w, Inl (Err ''no block''))),
     api_RunGetMethod = (\<lambda>_ _ _ w. Some (w, if w > 1 then Inl sample_not_applied else Inr [StackInt 9, StackOther, StackOther, StackOther])),
     api_GetBlockTransactionsV2 = (\<lambda>_ n after w. Some (w, Inr (sample_page txs n after))),
     api_GetTransaction = (\<lambda>_ _ _ w. Some (w, Inl (Err ''no transaction''))),
     api_GetTime = (\<lambda>w. Some (w - 1, Inr 3)),
     api_SendExternalMessage = (\<lambda>_ w. Some (w, Inr ())),
     api_GetJettonWallet = (\<lambda>master owner w. Some (w, Inr (sample_tonaddr (map2 (+) (ta_data master) (ta_data owner))))),
     api_FromSeed = (\<lambda>words v. Inr \<lparr>w_Address = Some (sample_tonaddr (replicate 32 (of_nat (length words)))), w_Send = (\<lambda>_. Inr ())\<rparr>),
     api_Now = (\<lambda>w. 4 * second - int w),
     api_Done = (\<lambda>w. w = 0),
     api_Sleep = (\<lambda>_ w. w - 1)\<rparr>"

definition sample_ids :: "TransactionShortInfo list" where
  "sample_ids = map (\<lambda>i. \<lparr>ti_Account = [], ti_LT = of_nat i\<rparr>) (rev [0..<300])"

subsection \<open>Pages\<close>

lemma fetch_pages_from:
  assumes "pages_ok c b txs" and "k \<le> length txs"
    and "after = (if k = 0 then None else Some (ID3 (txs ! (k - 1))))"
  shows "\<exists>w'. fetch_pages c b after (take k txs) w = Some (w', Inr txs)"
  using assms(2,3)
proof (induction "length txs - k" arbitrary: k after w rule: less_induct)
  case less
  obtain w1 where page: "api_GetBlockTransactionsV2 c b 256 after w =
      Some (w1, Inr (take 256 (drop k txs), k + 256 < length txs))"
  proof (cases k)
    case 0
    with less.prems have [simp]: "after = None" by simp
    from assms(1) have "\<exists>w1. api_GetBlockTransactionsV2 c b 256 None w = Some (w1, Inr (take 256 txs, 256 < length txs))"
      unfolding pages_ok_def by blast
    with 0 that show thesis by auto
  next
    case (Suc i)
    with less.prems have "i < length txs" "after = Some (ID3 (txs ! i))" by auto
    with assms(1) Suc that show thesis unfolding pages_ok_def by fastforce
  qed
  have app: "take k txs @ take 256 (drop k txs) = take (k + 256) txs" by (simp add: take_add)
  show ?case
  proof (cases "k + 256 < length txs")
    case False
    then show ?thesis using page app by (simp add: fetch_pages.simps [of c b after])
  next
    case True
    have ne: "take 256 (drop k txs) \<noteq> []" using True by simp
    have "List.last (take 256 (drop k txs)) = txs ! (k + 255)"
      using True by (simp add: last_conv_nth)
    then have step: "fetch_pages c b after (take k txs) w =
        fetch_pages c b (Some (ID3 (txs ! (k + 255)))) (take (k + 256) txs) w1"
      using page True ne app by (simp add: fetch_pages.simps [of c b after])
    have "\<exists>w'. fetch_pages c b (Some (ID3 (txs ! (k + 255)))) (take (k + 256) txs) w1 = Some (w', Inr txs)"
      by (rule less.hyps) (use True in \<open>auto simp: add.commute\<close>)
    then show ?thesis by (simp only: step)
  qed
qed

text \<open>C32: a block's transactions are read completely. When the lite server pages through the list of
  them as documented, the loop over the pages ends, and its result has every transaction of the
  block as often as the block has it, in ascending logical time, however long the block is.\<close>

theorem block_transactions_complete:
  assumes "pages_ok c b txs" and "any_order rng"
  shows "\<exists>w' ids. GetTransactionIDsFromBlock c rng b w = Some (w', Inr ids)
    \<and> mset ids = mset txs \<and> sorted (map ti_LT ids)"
proof -
  obtain w' where "fetch_pages c b None [] w = Some (w', Inr txs)"
    using fetch_pages_from [OF assms(1), of 0 None w] by auto
  then have "GetTransactionIDsFromBlock c rng b w = Some (w', Inr (sort_key ti_LT (rng txs)))"
    by (simp add: GetTransactionIDsFromBlock_def io_bind_def)
  with assms(2) show ?thesis by (simp add: any_order_def)
qed

lemma dropWhile_nth:
  assumes "distinct (map f xs)" and "i < length xs"
  shows "dropWhile (\<lambda>x. f x \<noteq> f (xs ! i)) xs = drop i xs"
  using assms
proof (induction xs arbitrary: i)
  case (Cons x xs)
  show ?case
  proof (cases i)
    case (Suc j)
    with Cons.prems have "f x \<noteq> f (xs ! j)" by auto
    with Suc Cons show ?thesis by simp
  qed simp
qed simp

lemma pages_ok_sample:
  assumes "distinct (map ID3 txs)"
  shows "pages_ok (sample_api txs) b txs"
proof -
  have "Suc i + 256 < length txs \<longleftrightarrow> 256 < length txs - Suc i" for i by arith
  moreover have "tl (drop i txs) = drop (Suc i) txs" for i by (simp add: drop_Suc tl_drop)
  ultimately show ?thesis
    by (simp add: pages_ok_def sample_api_def sample_page_def dropWhile_nth [OF assms] Let_def)
qed

lemma distinct_sample_ids: "distinct (map ID3 sample_ids)"
proof -
  have "inj_on (\<lambda>i. of_nat i :: uint64) {0..<300}"
  proof (rule inj_onI)
    fix i j assume ij: "i \<in> {0..<300}" "j \<in> {0..<300}" and eq: "(of_nat i :: uint64) = of_nat j"
    then have "unat (of_nat i :: uint64) = unat (of_nat j :: uint64)" by simp
    with ij show "i = j" by (simp add: unat_of_nat take_bit_eq_mod)
  qed
  then show ?thesis by (simp add: sample_ids_def rev_map [symmetric] distinct_map comp_def ID3_def inj_on_def)
qed

theorem block_transactions_complete_witness:
  "\<exists>w' ids. GetTransactionIDsFromBlock (sample_api sample_ids) rev sample_master 3 = Some (w', Inr ids)
    \<and> length ids = 300 \<and> sorted (map ti_LT ids)"
proof -
  have "any_order (rev :: TransactionShortInfo list \<Rightarrow> _)" by (simp add: any_order_def)
  from block_transactions_complete [OF pages_ok_sample [OF distinct_sample_ids] this, of sample_master 3]
  obtain w' ids where ids: "GetTransactionIDsFromBlock (sample_api sample_ids) rev sample_master 3 = Some (w', Inr ids)"
      "mset ids = mset sample_ids" "sorted (map ti_LT ids)" by blast
  have "length ids = 300" using mset_eq_length [OF ids(2)] by (simp add: sample_ids_def)
  with ids show ?thesis by blast
qed

subsection \<open>Waiting\<close>

lemma GetAccount_returns:
  assumes "under_deadline c left"
  shows "returns_within left (GetAccount c b a)"
  unfolding returns_within_def
proof
  fix w
  have acc: "returns_within left (api_GetAccount c b' a)" for b' using assms by (simp add: under_deadline_def)
  have prev: "returns_within left (io_bind (api_LookupBlock c (bid_Workchain b) (bid_Shard b) (bid_SeqNo b - 1))
      (\<lambda>prevBlock. api_GetAccount c prevBlock a))"
    by (rule returns_within_bind) (use assms in \<open>simp_all add: under_deadline_def\<close>)
  obtain w' r where w': "api_GetAccount c b a w = Some (w', r)" "left w' \<le> left w"
    using acc unfolding returns_within_def by blast
  obtain w'' r' where "io_bind (api_LookupBlock c (bid_Workchain b) (bid_Shard b) (bid_SeqNo b - 1))
      (\<lambda>prevBlock. api_GetAccount c prevBlock a) w' = Some (w'', r')" "left w'' \<le> left w'"
    using prev unfolding returns_within_def by blast
  with w' show "\<exists>w' r. GetAccount c b a w = Some (w', r) \<and> left w' \<le> left w"
    by (cases r) (auto simp: GetAccount_def)
qed

lemma GetAccountCurrentState_returns:
  assumes "under_deadline c left"
  shows "returns_within left (GetAccountCurrentState c a)"
proof -
  have "returns_within left (api_CurrentMasterchainInfo c)" using assms by (simp add: under_deadline_def)
  then show ?thesis
    unfolding GetAccountCurrentState_def
    by (intro returns_within_bind GetAccount_returns [OF assms]) simp_all
qed

lemma poll_under_deadline:
  assumes "under_deadline c left" and "returns_within left attempt"
  shows "\<exists>w' r. poll (api_Done c) (api_Sleep c (200 * millisecond)) timeout attempt w = Some (w', r)"
  using assms(1) by (intro poll_returns [OF _ _ assms(2)]) (simp_all add: under_deadline_def)

text \<open>C35: waiting for an account to become active does not block the service. Under a context with a
  deadline \<open>WaitStatus\<close> returns, and it returns without an error only if, before the deadline,
  the lite server reported the account in the wanted state.\<close>

theorem wait_status_returns:
  assumes "under_deadline c left"
  shows "\<exists>w' r. WaitStatus c a st w = Some (w', r)
    \<and> (r = Inr () \<longrightarrow> (\<exists>v m. \<not> api_Done c v \<and> GetAccountCurrentState c a v = Some (w', Inr (m, st))))"
proof -
  let ?att = "io_bind (GetAccountCurrentState c a) (\<lambda>(_, s). io_lift (Inr (if s = st then Some () else None)))"
  have "returns_within left ?att"
    by (intro returns_within_bind GetAccountCurrentState_returns [OF assms]) (simp split: prod.split)
  then obtain w' r where r: "WaitStatus c a st w = Some (w', r)"
    using poll_under_deadline [OF assms] unfolding WaitStatus_def by blast
  have "\<exists>v m. \<not> api_Done c v \<and> GetAccountCurrentState c a v = Some (w', Inr (m, st))" if "r = Inr ()"
    using poll_result [OF r [unfolded WaitStatus_def]] that
    by (auto simp: io_bind_Inr_iff split: if_splits)
  with r show ?thesis by blast
qed

lemma under_deadline_sample: "under_deadline (sample_api txs) id"
  by (auto simp: under_deadline_def sample_api_def returns_within_def)

theorem wait_status_returns_witness:
  "\<exists>w' r. WaitStatus (sample_api []) (sample_tonaddr []) AccountStatusActive 3 = Some (w', r) \<and> r = Inr ()"
proof -
  have "WaitStatus (sample_api []) (sample_tonaddr []) AccountStatusActive 3 = Some (1, Inr ())"
    by (simp add: WaitStatus_def poll.simps io_bind_def GetAccountCurrentState_def GetAccount_def sample_api_def)
  with wait_status_returns [OF under_deadline_sample, of "[]" "sample_tonaddr []" AccountStatusActive 3]
  show ?thesis by auto
qed

lemma run_once_returns:
  assumes "under_deadline c left"
  shows "returns_within left (run_once c b a meth)"
  unfolding returns_within_def
proof
  fix w
  have "returns_within left (api_RunGetMethod c b a meth)" using assms by (simp add: under_deadline_def)
  then obtain w' r where "api_RunGetMethod c b a meth w = Some (w', r)" "left w' \<le> left w"
    unfolding returns_within_def by blast
  then show "\<exists>w' r. run_once c b a meth w = Some (w', r) \<and> left w' \<le> left w"
    by (cases r) (auto simp: run_once_def)
qed

lemma run_once_Inl_iff:
  "run_once c b a meth w = Some (w', Inl e) \<longleftrightarrow> api_RunGetMethod c b a meth w = Some (w', Inl e) \<and> \<not> isNotReadyError e"
  by (auto simp: run_once_def split: option.splits sum.splits)

text \<open>Reading a jetton balance survives a lite server that lags behind. Under a deadline
  \<open>GetWalletData\<close> returns; it never fails because a block is not applied yet, only with the
  timeout or another error, and its result is a stack of four entries.\<close>

lemma wallet_data_returns:
  assumes "under_deadline c left"
  shows "\<exists>w' r. GetWalletData c a b w = Some (w', r)
    \<and> (\<forall>res. r = Inr res \<longrightarrow> length res = 4)
    \<and> (\<forall>e. r = Inl e \<longrightarrow> e = get_wallet_data_error ErrTimeoutExceeded \<or> e = Err ''invalid stack size''
        \<or> (\<exists>e' v. api_RunGetMethod c b a ''get_wallet_data'' v = Some (w', Inl e') \<and> \<not> isNotReadyError e' \<and> e = get_wallet_data_error e'))"
proof -
  obtain w' r where r: "RunGetMethod c b a ''get_wallet_data'' w = Some (w', r)"
    using poll_under_deadline [OF assms run_once_returns [OF assms]] unfolding RunGetMethod_def by blast
  have err: "e = ErrTimeoutExceeded \<or> (\<exists>v. api_RunGetMethod c b a ''get_wallet_data'' v = Some (w', Inl e) \<and> \<not> isNotReadyError e)"
    if "r = Inl e" for e
    using poll_result [OF r [unfolded RunGetMethod_def]] that by (auto simp: run_once_Inl_iff)
  show ?thesis using r err by (cases r) (auto simp: GetWalletData_def)
qed

subsection \<open>Clocks\<close>

lemma nodeTimeShift_bound:
  assumes "\<bar>nodeTimeShift p n t\<bar> \<le> k" and "p \<le> m" and "m \<le> n"
  shows "\<bar>m - t\<bar> \<le> k + (n - p + 1) div 2"
proof -
  have "(n - p) sdiv 2 = (n - p) div 2" using assms(2,3) by (simp add: signed_divide_int_def sgn_if)
  with assms show ?thesis unfolding nodeTimeShift_def by arith
qed

lemma isTimeSynced_Inr:
  assumes "isTimeSynced c cutoff w = Some (w', Inr b)"
  obtains t where "api_GetTime c w = Some (w', Inr t)"
    and "b \<longleftrightarrow> \<bar>nodeTimeShift (api_Now c w) (api_Now c w') (unix_time t)\<bar> \<le> cutoff"
  using assms unfolding isTimeSynced_def getCurrentNodeTime_def
  by (auto simp: io_bind_Inr_iff Let_def abs_le_iff)

text \<open>A service whose clock is off does not start. \<open>NewConnection\<close> gives a connection only if the
  node's time was within two seconds of the middle of the request, so at every moment of the
  request the two clocks differed by at most that and half the length of the request.\<close>

lemma connection_time_synced:
  assumes "NewConnection c w = Some (w', Inr c')"
  shows "c' = c \<and> (\<exists>t. api_GetTime c w = Some (w', Inr t)
    \<and> (\<forall>m. api_Now c w \<le> m \<and> m \<le> api_Now c w' \<longrightarrow>
        \<bar>m - unix_time t\<bar> \<le> AllowableServiceToNodeTimeDiff + (api_Now c w' - api_Now c w + 1) div 2))"
proof -
  obtain b where b: "isTimeSynced c AllowableServiceToNodeTimeDiff w = Some (w', Inr b)" and "b" and "c' = c"
    using assms
    by (auto simp: NewConnection_def fatal_on_def ebind_Inr_iff split: option.splits sum.splits go_error.splits if_splits)
  then show ?thesis using nodeTimeShift_bound by (elim isTimeSynced_Inr) blast
qed

lemma sample_NewConnection: "NewConnection (sample_api []) 3 = Some (2, Inr (sample_api []))"
  by (simp add: NewConnection_def isTimeSynced_def getCurrentNodeTime_def io_bind_def Let_def fatal_on_def
      nodeTimeShift_def sample_api_def unix_time_def second_def AllowableServiceToNodeTimeDiff_def signed_divide_int_def)

end
