(* ===== verification/Wallets.thy ===== *)
theory Wallets
  imports Blockchain
begin

text \<open>
  \<open>core/wallet/wallet.go\<close> and \<open>core/wallet/init.go\<close>: the service's own wallets, the search for a
  subwallet whose address lies in the service's shard, and the start-up that checks the hot wallet
  against the database and stores the hot wallets. Start-up acts on the outside world and on the
  database, so its state is a pair. \<open>GetSubwallet\<close> and \<open>TransferNoBounce\<close> are methods of the
  third-party \<open>wallet.Wallet\<close> and are parameters. Logging, audit records and the time to live set
  on the hot wallet's specification are left out.
\<close>

record ('c, 'w) wallet_api =
  wa_GetSubwallet :: "'c Wallet \<Rightarrow> uint32 \<Rightarrow> 'c Wallet result"
  wa_TransferNoBounce :: "'c Wallet \<Rightarrow> tonaddr \<Rightarrow> int \<Rightarrow> string \<Rightarrow> ('w, unit) io"

record ('c, 'w) wallets =
  wl_shard :: byte
  wl_defaultWalletVersion :: WalletVersion
  wl_bc :: "('c, 'w) Blockchain"
  wl_tonHotWallet :: "'c Wallet option"
  wl_tonBasicWallet :: "'c Wallet option"
  wl_jettonHotWallets :: "(string \<times> JettonWallet) list"

definition MaxUint32 :: uint32 where "MaxUint32 = 0xFFFFFFFF"

definition inShard :: "Address \<Rightarrow> byte \<Rightarrow> bool" where
  "inShard addr shard \<longleftrightarrow> addr ! 0 = shard"

definition GenerateDefaultWallet :: "('c, 'w) wallets \<Rightarrow> string \<Rightarrow> bool \<Rightarrow> ('c Wallet \<times> byte \<times> uint32) result" where
  "GenerateDefaultWallet c seed isHighload =
     (if isHighload then bc_GenerateHighloadWallet (wl_bc c) seed
      else bc_GenerateWallet (wl_bc c) seed (wl_defaultWalletVersion c))"

subsection \<open>Balances\<close>

definition stackToBalance :: "StackValue list \<Rightarrow> int result" where
  "stackToBalance stack = (case stack of
       [] \<Rightarrow> Inl (Panic ''index out of range'')
     | StackInt i # _ \<Rightarrow> Inr i
     | StackOther # _ \<Rightarrow> Inl (Err ''invalid balance type''))"

definition GetJettonBalance :: "('c, 'w) wallets \<Rightarrow> tonaddr \<Rightarrow> BlockIDExt \<Rightarrow> ('w, int) io" where
  "GetJettonBalance c addr blockID =
     io_bind (bc_GetWalletData (wl_bc c) addr blockID) (\<lambda>stack. io_lift (stackToBalance stack))"

definition GetLastJettonBalance :: "('c, 'w) wallets \<Rightarrow> tonaddr \<Rightarrow> ('w, int) io" where
  "GetLastJettonBalance c addr =
     io_bind (bc_GetLastWalletData (wl_bc c) addr) (\<lambda>stack. io_lift (stackToBalance stack))"

definition DeployTonWallet :: "('c, 'w) wallet_api \<Rightarrow> ('c, 'w) wallets \<Rightarrow> 'c Wallet \<Rightarrow> ('w, unit) io" where
  "DeployTonWallet api c wallet =
     io_bind (io_lift (deref (w_Address wallet))) (\<lambda>a.
     io_bind (bc_GetAccountCurrentState (wl_bc c) a) (\<lambda>(balance, status).
     if balance = 0 then io_lift (Inl (Err ''empty balance''))
     else if status \<noteq> AccountStatusActive
     then io_bind (wa_TransferNoBounce api wallet a 0 []) (\<lambda>_. bc_WaitStatus (wl_bc c) a AccountStatusActive)
     else io_lift (Inr ())))"

subsection \<open>Subwallets in the shard\<close>

text \<open>\<open>for id := start; id < math.MaxUint32; id++\<close>: the first id for which the body returns a value,
  an error of the body, or \<open>None\<close> when the ids are used up.\<close>

function search_id :: "(uint32 \<Rightarrow> ('w, 'a option) io) \<Rightarrow> uint32 \<Rightarrow> ('w, ('a \<times> uint32) option) io" where
  "search_id f i w =
     (if i < MaxUint32
      then (case f i w of
              None \<Rightarrow> None
            | Some (w', Inl e) \<Rightarrow> Some (w', Inl e)
            | Some (w', Inr (Some x)) \<Rightarrow> Some (w', Inr (Some (x, i)))
            | Some (w', Inr None) \<Rightarrow> search_id f (i + 1) w')
      else Some (w, Inr None))"
  by pat_completeness auto

lemma unat_next_id: "i < MaxUint32 \<Longrightarrow> unat (i + 1) = Suc (unat i)"
  by (simp add: MaxUint32_def word_less_nat_alt unat_word_ariths)

termination search_id
proof (relation "measure (\<lambda>(f, i, w). unat MaxUint32 - unat i)")
qed (auto simp: unat_next_id word_less_nat_alt)

declare search_id.simps [simp del]

text \<open>The search's result as the caller sees it: running out of ids is an error.\<close>

definition or_not_found :: "string \<Rightarrow> 'a option \<Rightarrow> ('w, 'a) io" where
  "or_not_found msg r = io_lift (case r of None \<Rightarrow> Inl (Err msg) | Some x \<Rightarrow> Inr x)"

definition try_subwallet :: "('c, 'w) wallet_api \<Rightarrow> ('c, 'w) wallets \<Rightarrow> 'c Wallet \<Rightarrow> uint32 \<Rightarrow> ('w, 'c Wallet option) io" where
  "try_subwallet api c basic i =
     io_bind (io_lift (wa_GetSubwallet api basic i)) (\<lambda>subWallet.
     io_bind (io_lift (AddressFromTonutilsAddress (w_Address subWallet))) (\<lambda>addr.
     io_lift (Inr (if inShard addr (wl_shard c) then Some subWallet else None))))"

definition GenerateSubWallet :: "('c, 'w) wallet_api \<Rightarrow> ('c, 'w) wallets \<Rightarrow> string \<Rightarrow> uint32 \<Rightarrow> ('w, 'c Wallet \<times> uint32) io" where
  "GenerateSubWallet api c seed startSubWalletID =
     io_bind (io_lift (bc_GenerateWallet (wl_bc c) seed (wl_defaultWalletVersion c))) (\<lambda>(basic, _, _).
     io_bind (search_id (try_subwallet api c basic) startSubWalletID) (or_not_found ''subwallet not found''))"

definition GetJettonWalletAddress :: "('c, 'w) wallets \<Rightarrow> tonaddr \<Rightarrow> tonaddr \<Rightarrow> ('w, tonaddr) io" where
  "GetJettonWalletAddress c ownerAddr masterAddr = bc_GetJettonWallet (wl_bc c) masterAddr ownerAddr"

definition try_proxy :: "'c tonlib \<Rightarrow> config \<Rightarrow> ('c, 'w) wallets \<Rightarrow> tonaddr option \<Rightarrow> tonaddr \<Rightarrow> uint32
    \<Rightarrow> ('w, ('c JettonProxy \<times> tonaddr) option) io" where
  "try_proxy lib cfg c proxyOwner jettonMaster i =
     io_bind (io_lift (NewJettonProxy lib i proxyOwner)) (\<lambda>proxy.
     io_bind (GetJettonWalletAddress c (jp_address proxy) jettonMaster) (\<lambda>jettonWalletAddress.
     io_bind (io_lift (first_byte (ta_data jettonWalletAddress))) (\<lambda>b.
     io_lift (Inr (if b = wl_shard c
       then Some (proxy, jettonWalletAddress\<lparr>ta_testnet := cfg_Testnet cfg\<rparr>) else None)))))"

definition GenerateDepositJettonWalletForProxy :: "'c tonlib \<Rightarrow> config \<Rightarrow> ('c, 'w) wallets \<Rightarrow> tonaddr option \<Rightarrow> tonaddr
    \<Rightarrow> uint32 \<Rightarrow> ('w, 'c JettonProxy \<times> tonaddr) io" where
  "GenerateDepositJettonWalletForProxy lib cfg c proxyOwner jettonMaster startSubWalletID =
     io_bind (search_id (try_proxy lib cfg c proxyOwner jettonMaster) startSubWalletID) (\<lambda>r.
     or_not_found ''jetton wallet address not found'' (map_option fst r))"

subsection \<open>Start-up\<close>

text \<open>Calls on the outside world, reads of the database and writes to it, on the pair of both.\<close>

definition on_world :: "('w, 'a) io \<Rightarrow> ('w \<times> database, 'a) io" where
  "on_world m s = map_option (\<lambda>(w, r). ((w, snd s), r)) (m (fst s))"

definition on_db :: "(database \<Rightarrow> database result) \<Rightarrow> ('w \<times> database, unit) io" where
  "on_db f s = (case f (snd s) of Inl e \<Rightarrow> Some (s, Inl e) | Inr d \<Rightarrow> Some ((fst s, d), Inr ()))"

definition read_db :: "(database \<Rightarrow> 'a) \<Rightarrow> ('w \<times> database, 'a) io" where
  "read_db f s = Some (s, Inr (f (snd s)))"

text \<open>The comparison with the stored address: whether the hot wallet is already saved.\<close>

definition check_saved :: "Address \<Rightarrow> Address result \<Rightarrow> bool result" where
  "check_saved addr addrFromDb = (case addrFromDb of
       Inr a \<Rightarrow> if addr \<noteq> a then Inl (Err ''saved hot wallet not equal generated hot wallet. Maybe seed was being changed'')
                else Inr True
     | Inl e \<Rightarrow> if e = ErrNotFound then Inr False else Inl e)"

definition hot_wallet_data :: "Address \<Rightarrow> WalletData" where
  "hot_wallet_data addr = \<lparr>wd_SubwalletID = DefaultSubwallet, wd_UserID = [], wd_Currency = TonSymbol,
     wd_Type = TonHotWallet, wd_Address = addr\<rparr>"

definition initTonHotWallet :: "('c, 'w) wallet_api \<Rightarrow> config \<Rightarrow> ('c, 'w) wallets \<Rightarrow> string
    \<Rightarrow> ('w \<times> database, 'c Wallet \<times> byte \<times> uint32) io" where
  "initTonHotWallet api cfg c seed =
     io_bind (io_lift (GenerateDefaultWallet c seed True)) (\<lambda>(tonHotWallet, shard, subwalletId).
     io_bind (io_lift (AddressMustFromTonutilsAddress (w_Address tonHotWallet))) (\<lambda>addr.
     io_bind (read_db GetTonHotWalletAddress) (\<lambda>addrFromDb.
     io_bind (io_lift (check_saved addr addrFromDb)) (\<lambda>alreadySaved.
     io_bind (io_lift (deref (w_Address tonHotWallet))) (\<lambda>a.
     io_bind (on_world (bc_GetAccountCurrentState (wl_bc c) a)) (\<lambda>(balance, status).
     if balance < c_HotWalletMin (cfg_Ton cfg)
     then io_lift (Inl (Err ''hot wallet balance must be at least''))
     else io_bind (if status \<noteq> AccountStatusActive then on_world (DeployTonWallet api c tonHotWallet) else io_lift (Inr ())) (\<lambda>_.
          io_bind (if alreadySaved then io_lift (Inr ()) else on_db (SaveTonWallet (hot_wallet_data addr))) (\<lambda>_.
          io_lift (Inr (tonHotWallet, shard, subwalletId))))))))))"

definition initJettonHotWallet :: "('c, 'w) wallets \<Rightarrow> tonaddr option \<Rightarrow> tonaddr \<Rightarrow> string \<Rightarrow> uint32
    \<Rightarrow> ('w \<times> database, JettonWallet) io" where
  "initJettonHotWallet c tonHotWallet jettonMaster currency subwalletId =
     io_bind (io_lift (deref tonHotWallet)) (\<lambda>hot.
     io_bind (on_world (GetJettonWalletAddress c hot jettonMaster)) (\<lambda>a.
     let res = \<lparr>jw_Address = a, jw_Currency = currency\<rparr> in
     io_bind (io_lift (AddressFromTonutilsAddress tonHotWallet)) (\<lambda>ownerAddr.
     io_bind (io_lift (AddressFromTonutilsAddress (Some a))) (\<lambda>jettonWalletAddr.
     io_bind (read_db (GetJettonWallet jettonWalletAddr)) (\<lambda>walletData.
     case walletData of
       Some wd \<Rightarrow> if wd_Currency wd = currency then io_lift (Inr res)
                  else io_lift (Inl (Err ''jetton hot wallet address duplication''))
     | None \<Rightarrow>
         io_bind (on_db (SaveJettonWallet ownerAddr \<lparr>wd_SubwalletID = subwalletId, wd_UserID = [], wd_Currency = currency,
             wd_Type = JettonHotWallet, wd_Address = jettonWalletAddr\<rparr> True)) (\<lambda>_. io_lift (Inr res)))))))"

fun init_jettons :: "('c, 'w) wallets \<Rightarrow> tonaddr option \<Rightarrow> uint32 \<Rightarrow> (string \<times> Jetton) list
    \<Rightarrow> (string \<times> JettonWallet) list \<Rightarrow> ('w \<times> database, (string \<times> JettonWallet) list) io" where
  "init_jettons c hot subwalletId [] acc = io_lift (Inr acc)"
| "init_jettons c hot subwalletId ((currency, j) # js) acc =
     io_bind (initJettonHotWallet c hot (j_Master j) currency subwalletId) (\<lambda>jw.
     init_jettons c hot subwalletId js (put_assoc currency jw acc))"

definition InitWallets :: "('c, 'w) wallet_api \<Rightarrow> config \<Rightarrow> ('c, 'w) Blockchain \<Rightarrow> string \<Rightarrow> (string \<times> Jetton) list
    \<Rightarrow> WalletVersion \<Rightarrow> ('w \<times> database, ('c, 'w) wallets) io" where
  "InitWallets api cfg bc seed jettons defaultWalletVersion =
     (let c = \<lparr>wl_shard = 0, wl_defaultWalletVersion = defaultWalletVersion, wl_bc = bc, wl_tonHotWallet = None,
               wl_tonBasicWallet = None, wl_jettonHotWallets = []\<rparr> in
      io_bind (initTonHotWallet api cfg c seed) (\<lambda>(tonHotWallet, shard, subwalletId).
      io_bind (io_lift (GenerateDefaultWallet c seed False)) (\<lambda>(tonBasicWallet, _, _).
      io_bind (init_jettons c (w_Address tonHotWallet) subwalletId jettons []) (\<lambda>jws.
      io_lift (Inr (c\<lparr>wl_shard := shard, wl_tonHotWallet := Some tonHotWallet, wl_tonBasicWallet := Some tonBasicWallet,
        wl_jettonHotWallets := jws\<rparr>))))))"

subsection \<open>Vocabulary and examples\<close>

text \<open>Documented behaviour of the jetton master's get method: the wallet address of an owner is a
  fixed function \<open>jw\<close> of the owner.\<close>

definition jetton_master_ok :: "('c, 'w) Blockchain \<Rightarrow> tonaddr \<Rightarrow> (tonaddr \<Rightarrow> tonaddr) \<Rightarrow> bool" where
  "jetton_master_ok bc master jw \<longleftrightarrow> (\<forall>ow w. \<exists>w'. bc_GetJettonWallet bc master ow w = Some (w', Inr (jw ow)))"

text \<open>What a search answers: the least id from \<open>start\<close> on that has a value in \<open>P\<close>, if any.\<close>

definition least_id :: "(uint32 \<Rightarrow> 'a option) \<Rightarrow> uint32 \<Rightarrow> ('a \<times> uint32) option \<Rightarrow> bool" where
  "least_id P start r \<longleftrightarrow> (case r of
       None \<Rightarrow> \<forall>i. start \<le> i \<and> i < MaxUint32 \<longrightarrow> P i = None
     | Some (x, k) \<Rightarrow> start \<le> k \<and> k < MaxUint32 \<and> P k = Some x \<and> (\<forall>i. start \<le> i \<and> i < k \<longrightarrow> P i = None))"

text \<open>A step of the start-up that cannot change the database \<open>d\<close>, however it ends.\<close>

definition leaves :: "database \<Rightarrow> ('w \<times> database, 'a) io \<Rightarrow> bool" where
  "leaves d m \<longleftrightarrow> (\<forall>w s r. m (w, d) = Some (s, r) \<longrightarrow> snd s = d)"

text \<open>Every jetton hot wallet of the list is stored under its currency.\<close>

definition stored_jettons :: "database \<Rightarrow> (string \<times> JettonWallet) list \<Rightarrow> bool" where
  "stored_jettons d jws \<longleftrightarrow> (\<forall>(cur, jw) \<in> set jws. jw_Currency jw = cur \<and>
     (\<exists>r \<in> set (jetton_wallets d). jt_address r = ta_data (jw_Address jw) \<and> jt_currency r = cur))"

definition sample_wallet :: "Address \<Rightarrow> tcell Wallet" where
  "sample_wallet a = \<lparr>w_Address = Some (sample_tonaddr a), w_Send = (\<lambda>_. Inr ())\<rparr>"

definition sample_wallet_api :: "(tcell, nat) wallet_api" where
  "sample_wallet_api = \<lparr>wa_GetSubwallet = (\<lambda>_ i. Inr (sample_wallet (sample_addr (ucast i)))),
     wa_TransferNoBounce = (\<lambda>_ _ _ _ w. Some (w, Inr ()))\<rparr>"

definition sample_wallets :: "(tcell, nat) wallets" where
  "sample_wallets = \<lparr>wl_shard = 5, wl_defaultWalletVersion = OtherVersion 3, wl_bc = connection (sample_api []),
     wl_tonHotWallet = None, wl_tonBasicWallet = None, wl_jettonHotWallets = []\<rparr>"

definition sample_proxy :: "uint32 \<Rightarrow> tonaddr \<Rightarrow> tcell JettonProxy" where
  "sample_proxy i ow = \<lparr>jp_Owner = ow, jp_SubwalletID = i, jp_address = sample_tonaddr (sample_addr 0),
     jp_stateInit = (Built [], Built [StoreAddr (Some ow), StoreUInt (unat i) 32])\<rparr>"

definition sample_jettons :: "(string \<times> Jetton) list" where
  "sample_jettons = [(''USDT'', \<lparr>j_Master = sample_tonaddr (sample_addr 7), j_WithdrawalCutoff = 1, j_HotWalletMaxCutoff = 10\<rparr>)]"

definition sample_started :: database where
  "sample_started = empty_database\<lparr>
     ton_wallets := [\<lparr>tw_user_id = [], tw_subwallet_id = DefaultSubwallet, tw_type = TonHotWallet, tw_address = sample_addr 1\<rparr>],
     jetton_wallets := [\<lparr>jt_user_id = [], jt_subwallet_id = DefaultSubwallet, jt_currency = ''USDT'',
       jt_type = JettonHotWallet, jt_address = sample_addr 8\<rparr>]\<rparr>"

subsection \<open>The search\<close>

lemma search_id_stop [simp]: "\<not> i < MaxUint32 \<Longrightarrow> search_id f i w = Some (w, Inr None)"
  by (simp add: search_id.simps)

lemma next_id_le: "i < MaxUint32 \<Longrightarrow> i + 1 \<le> j \<longleftrightarrow> i < j"
  by (simp add: word_less_nat_alt word_le_nat_alt unat_next_id Suc_le_eq)

lemma least_id_here: "start < MaxUint32 \<Longrightarrow> P start = Some x \<Longrightarrow> least_id P start (Some (x, start))"
  by (auto simp: least_id_def)

lemma least_id_exists:
  assumes "least_id P start r" and "start \<le> i" and "i < MaxUint32" and "P i \<noteq> None"
  obtains x k where "r = Some (x, k)"
  using assms by (cases r) (auto simp: least_id_def)

lemma least_id_next:
  assumes "start < MaxUint32" and "P start = None" and "least_id P (start + 1) r"
  shows "least_id P start r"
proof -
  have below: "P i = None" if "start \<le> i" "i \<noteq> start \<Longrightarrow> P i = None" for i
    using that assms(2) by (cases "i = start") auto
  have up: "start + 1 \<le> i \<longleftrightarrow> start \<le> i \<and> i \<noteq> start" for i
    using next_id_le [OF assms(1), of i] by auto
  show ?thesis
  proof (cases r)
    case None
    with assms(3) show ?thesis by (auto simp: least_id_def up intro: below)
  next
    case (Some p)
    with assms(3) show ?thesis by (cases p) (auto simp: least_id_def up intro: below)
  qed
qed

lemma search_id_least:
  assumes "\<And>i w. i < MaxUint32 \<Longrightarrow> \<exists>w'. f i w = Some (w', Inr (P i))"
  shows "\<exists>w' r. search_id f start w = Some (w', Inr r) \<and> least_id P start r"
proof (induction "unat MaxUint32 - unat start" arbitrary: start w rule: less_induct)
  case less
  show ?case
  proof (cases "start < MaxUint32")
    case False
    then have "least_id P start None" by (auto simp: least_id_def)
    with False show ?thesis by simp
  next
    case True
    obtain w1 where w1: "f start w = Some (w1, Inr (P start))" using assms [OF True] by blast
    show ?thesis
    proof (cases "P start")
      case (Some x)
      with True w1 have "search_id f start w = Some (w1, Inr (Some (x, start)))" by (simp add: search_id.simps)
      with least_id_here [of start P x, OF True Some] show ?thesis by blast
    next
      case None
      with True w1 have step: "search_id f start w = search_id f (start + 1) w1" by (simp add: search_id.simps [of f start])
      have "unat MaxUint32 - unat (start + 1) < unat MaxUint32 - unat start"
        using True by (simp add: unat_next_id word_less_nat_alt)
      from less [OF this, of w1] least_id_next [of start P, OF True None] show ?thesis unfolding step by blast
    qed
  qed
qed

lemma search_id_found:
  assumes "search_id f start w = Some (w', Inr (Some (x, k)))"
  shows "start \<le> k \<and> k < MaxUint32 \<and> (\<exists>v. f k v = Some (w', Inr (Some x)))"
  using assms
proof (induction "unat MaxUint32 - unat start" arbitrary: start w rule: less_induct)
  case less
  from less.prems have lt: "start < MaxUint32" by (cases "start < MaxUint32") auto
  from less.prems lt obtain v q where v: "f start w = Some (v, q)"
    by (cases "f start w") (auto simp: search_id.simps [of f start])
  consider e where "q = Inl e" | y where "q = Inr (Some y)" | "q = Inr None" by (metis option.exhaust sum.exhaust)
  then show ?case
  proof cases
    case 3
    with v lt less.prems have "search_id f (start + 1) v = Some (w', Inr (Some (x, k)))"
      by (simp add: search_id.simps [of f start])
    moreover have "unat MaxUint32 - unat (start + 1) < unat MaxUint32 - unat start"
      using lt by (simp add: unat_next_id word_less_nat_alt)
    ultimately show ?thesis using less.hyps next_id_le [OF lt, of k] by auto
  qed (use v lt less.prems in \<open>auto simp: search_id.simps [of f start]\<close>)
qed

lemma try_subwallet_Inr:
  assumes "wa_GetSubwallet api basic i = Inr sub" and "AddressFromTonutilsAddress (w_Address sub) = Inr a"
  shows "try_subwallet api c basic i w = Some (w, Inr (if inShard a (wl_shard c) then Some sub else None))"
  using assms by (simp add: try_subwallet_def)

lemma GenerateSubWallet_found:
  assumes "GenerateSubWallet api c seed start w = Some (w', Inr (sub, i))"
  shows "start \<le> i \<and> i < MaxUint32 \<and> (\<exists>a. AddressFromTonutilsAddress (w_Address sub) = Inr a \<and> inShard a (wl_shard c))"
proof -
  from assms obtain basic w1 where "search_id (try_subwallet api c basic) start w1 = Some (w', Inr (Some (sub, i)))"
    by (auto simp: GenerateSubWallet_def io_bind_Inr_iff or_not_found_def split: option.splits)
  from search_id_found [OF this] show ?thesis
    by (auto simp: try_subwallet_def io_bind_Inr_iff split: if_splits)
qed

lemma GenerateDepositJettonWalletForProxy_found:
  assumes "GenerateDepositJettonWalletForProxy lib cfg c ow master start w = Some (w', Inr (proxy, a))"
  shows "start \<le> jp_SubwalletID proxy \<and> jp_SubwalletID proxy < MaxUint32
    \<and> NewJettonProxy lib (jp_SubwalletID proxy) ow = Inr proxy \<and> first_byte (ta_data a) = Inr (wl_shard c)"
proof -
  from assms obtain i where "search_id (try_proxy lib cfg c ow master) start w = Some (w', Inr (Some ((proxy, a), i)))"
    by (auto simp: GenerateDepositJettonWalletForProxy_def io_bind_Inr_iff or_not_found_def split: option.splits)
  from search_id_found [OF this] obtain v where i: "start \<le> i" "i < MaxUint32"
    and v: "try_proxy lib cfg c ow master i v = Some (w', Inr (Some (proxy, a)))" by blast
  from v have new: "NewJettonProxy lib i ow = Inr proxy" and "first_byte (ta_data a) = Inr (wl_shard c)"
    by (auto simp: try_proxy_def io_bind_Inr_iff split: if_splits)
  moreover from new have "jp_SubwalletID proxy = i"
    by (auto simp: NewJettonProxy_def ebind_Inr_iff split: option.splits)
  ultimately show ?thesis using i by simp
qed

text \<open>C29: the service finds a subwallet in its shard whenever there is one. The search for a deposit
  wallet ends for every start id; it returns the wallet with the least id from the start on whose
  address begins with the shard byte, and an error only if no id below the largest has one.\<close>

theorem subwallet_least_in_shard:
  assumes "bc_GenerateWallet (wl_bc c) seed (wl_defaultWalletVersion c) = Inr (basic, b, n)"
    and "\<And>i. wa_GetSubwallet api basic i = Inr (sub i)" and "\<And>i. AddressFromTonutilsAddress (w_Address (sub i)) = Inr (addr i)"
  shows "\<exists>w' r. least_id (\<lambda>i. if inShard (addr i) (wl_shard c) then Some (sub i) else None) start r
    \<and> GenerateSubWallet api c seed start w =
        Some (w', case r of None \<Rightarrow> Inl (Err ''subwallet not found'') | Some (s, i) \<Rightarrow> Inr (s, i))"
proof -
  let ?P = "\<lambda>i. if inShard (addr i) (wl_shard c) then Some (sub i) else None"
  have "\<exists>w'. try_subwallet api c basic i w = Some (w', Inr (?P i))" for i w
    using try_subwallet_Inr [OF assms(2,3)] by blast
  from search_id_least [of "try_subwallet api c basic" ?P start w, OF this]
  obtain w' r where "search_id (try_subwallet api c basic) start w = Some (w', Inr r)" "least_id ?P start r" by blast
  then show ?thesis
    by (intro exI [of _ w'] exI [of _ r])
      (auto simp: GenerateSubWallet_def assms(1) io_bind_def or_not_found_def split: option.splits)
qed

text \<open>The same for jetton deposits. With a jetton master that answers as documented, the search for a
  proxy contract ends with the proxy of the least subwallet id whose jetton wallet lies in the
  shard, together with the address of that jetton wallet, and with an error if there is none.\<close>

lemma proxy_least_in_shard:
  assumes "jetton_master_ok (wl_bc c) master jw" and "\<And>i. NewJettonProxy lib i (Some ow) = Inr (proxy i)"
    and "\<And>i. first_byte (ta_data (jw (jp_address (proxy i)))) = Inr (shard i)"
  shows "\<exists>w' r. least_id (\<lambda>i. if shard i = wl_shard c then Some (proxy i, (jw (jp_address (proxy i)))\<lparr>ta_testnet := cfg_Testnet cfg\<rparr>) else None) start r
    \<and> GenerateDepositJettonWalletForProxy lib cfg c (Some ow) master start w =
        Some (w', case r of None \<Rightarrow> Inl (Err ''jetton wallet address not found'') | Some (p, i) \<Rightarrow> Inr p)"
proof -
  let ?P = "\<lambda>i. if shard i = wl_shard c then Some (proxy i, (jw (jp_address (proxy i)))\<lparr>ta_testnet := cfg_Testnet cfg\<rparr>) else None"
  have "\<exists>w'. try_proxy lib cfg c (Some ow) master i w = Some (w', Inr (?P i))" for i w
  proof -
    obtain w' where "bc_GetJettonWallet (wl_bc c) master (jp_address (proxy i)) w = Some (w', Inr (jw (jp_address (proxy i))))"
      using assms(1) unfolding jetton_master_ok_def by blast
    then show ?thesis by (simp add: try_proxy_def GetJettonWalletAddress_def io_bind_def assms(2,3))
  qed
  from search_id_least [of "try_proxy lib cfg c (Some ow) master" ?P start w, OF this]
  obtain w' r where "search_id (try_proxy lib cfg c (Some ow) master) start w = Some (w', Inr r)" "least_id ?P start r" by blast
  then show ?thesis
    by (intro exI [of _ w'] exI [of _ r])
      (auto simp: GenerateDepositJettonWalletForProxy_def io_bind_def or_not_found_def split: option.splits)
qed

lemma contract_code_decodes: "\<exists>h. hex_DecodeString JettonProxyContractCode = Some h"
proof -
  have "hex_DecodeString JettonProxyContractCode \<noteq> None" by code_simp
  then show ?thesis by simp
qed

lemma sample_NewJettonProxy: "NewJettonProxy sample_lib i (Some ow) = Inr (sample_proxy i ow)"
proof -
  obtain h where "hex_DecodeString JettonProxyContractCode = Some h" using contract_code_decodes by blast
  then show ?thesis
    by (simp add: NewJettonProxy_def buildJettonProxyStateInit_def sample_lib_def must_build_def fatal_on_def
        sample_proxy_def sample_tonaddr_def sample_addr_def DefaultWorkchain_def)
qed

lemma first_byte_sample [simp]: "first_byte (replicate 32 b) = Inr b" "first_byte (sample_addr b) = Inr b"
  by (simp_all add: first_byte_def sample_addr_def numeral_eq_Suc)

lemma sample_masters:
  "jetton_master_ok (wl_bc sample_wallets) master (\<lambda>ow. sample_tonaddr (map2 (+) (ta_data master) (ta_data ow)))"
  by (simp add: jetton_master_ok_def sample_wallets_def connection_def sample_api_def)

theorem subwallet_least_in_shard_witness:
  "\<exists>w'. GenerateSubWallet sample_wallet_api sample_wallets ''a'' 3 0 = Some (w', Inr (sample_wallet (sample_addr 5), 5))"
proof -
  let ?addr = "\<lambda>i :: uint32. sample_addr (ucast i)"
  have in_shard: "inShard (?addr i) (wl_shard sample_wallets) \<longleftrightarrow> (ucast i :: byte) = 5" for i :: uint32
    by (simp add: inShard_def sample_addr_def sample_wallets_def)
  obtain b n basic where gen: "bc_GenerateWallet (wl_bc sample_wallets) ''a'' (wl_defaultWalletVersion sample_wallets) = Inr (basic, b, n)"
    by (simp add: sample_wallets_def connection_def GenerateWallet_def sample_api_def sample_tonaddr_def)
  obtain w' r where r: "least_id (\<lambda>i. if inShard (?addr i) (wl_shard sample_wallets) then Some (sample_wallet (?addr i)) else None) 3 r"
    and run: "GenerateSubWallet sample_wallet_api sample_wallets ''a'' 3 0 =
        Some (w', case r of None \<Rightarrow> Inl (Err ''subwallet not found'') | Some (s, i) \<Rightarrow> Inr (s, i))"
    using subwallet_least_in_shard [OF gen, of sample_wallet_api "\<lambda>i. sample_wallet (?addr i)" ?addr 3 0]
    by (auto simp: sample_wallet_api_def sample_wallet_def sample_tonaddr_def address_defs sample_addr_def)
  have five: "(5 :: uint32) < MaxUint32" "(3 :: uint32) \<le> 5" by (simp_all add: MaxUint32_def)
  obtain x k where k: "r = Some (x, k)"
    by (rule least_id_exists [OF r five(2,1)]) (simp_all add: inShard_def sample_addr_def sample_wallets_def)
  with r have k': "3 \<le> k" "(ucast k :: byte) = 5" "x = sample_wallet (?addr k)"
      and least: "\<And>i. 3 \<le> i \<Longrightarrow> i < k \<Longrightarrow> (ucast i :: byte) \<noteq> 5"
    by (auto simp: least_id_def in_shard split: if_splits)
  have "k \<le> 5" using least [of 5] five(2) by force
  with k'(1) have "unat k = 3 \<or> unat k = 4 \<or> unat k = 5" by (auto simp: word_le_nat_alt)
  then have "k = 3 \<or> k = 4 \<or> k = 5" by (simp add: word_unat_eq_iff)
  with k'(2) have "k = 5" by auto
  with k k'(3) have "r = Some (sample_wallet (sample_addr 5), 5)" by simp
  then show ?thesis using run by simp
qed

lemma proxy_least_in_shard_example:
  "\<exists>w' a. GenerateDepositJettonWalletForProxy sample_lib sample_config (sample_wallets\<lparr>wl_shard := 7\<rparr>) (Some (sample_tonaddr []))
     (sample_tonaddr (sample_addr 7)) 3 0 = Some (w', Inr (sample_proxy 3 (sample_tonaddr []), a))"
proof -
  let ?c = "sample_wallets\<lparr>wl_shard := 7\<rparr>" and ?m = "sample_tonaddr (sample_addr 7)" and ?ow = "sample_tonaddr []"
  let ?jw = "\<lambda>ow. sample_tonaddr (map2 (+) (ta_data ?m) (ta_data ow))"
  let ?p = "\<lambda>i. sample_proxy i ?ow"
  have master: "jetton_master_ok (wl_bc ?c) ?m ?jw" using sample_masters by simp
  have shard: "first_byte (ta_data (?jw (jp_address (?p i)))) = Inr 7" for i
    by (simp add: sample_proxy_def sample_tonaddr_def sample_addr_def zip_replicate)
  obtain w' r where r: "least_id (\<lambda>i. if (7 :: byte) = wl_shard ?c
        then Some (?p i, (?jw (jp_address (?p i)))\<lparr>ta_testnet := cfg_Testnet sample_config\<rparr>) else None) 3 r"
    and run: "GenerateDepositJettonWalletForProxy sample_lib sample_config ?c (Some ?ow) ?m 3 0 =
        Some (w', case r of None \<Rightarrow> Inl (Err ''jetton wallet address not found'') | Some (p, i) \<Rightarrow> Inr p)"
    using proxy_least_in_shard [OF master sample_NewJettonProxy shard, of sample_config 3 0] by blast
  have three: "(3 :: uint32) < MaxUint32" by (simp add: MaxUint32_def)
  obtain p k where k: "r = Some (p, k)" using least_id_exists [OF r _ three] by auto
  with r have "\<not> 3 < k" "3 \<le> k" by (auto simp: least_id_def)
  then have "k = 3" by simp
  with r k have "\<exists>a. p = (?p 3, a)" by (auto simp: least_id_def)
  with run k show ?thesis by auto
qed

subsection \<open>Start-up\<close>

lemma on_world_iff [simp]: "on_world m (w, d) = Some ((w', d'), r) \<longleftrightarrow> m w = Some (w', r) \<and> d' = d"
  by (auto simp: on_world_def)

lemma on_db_Inr_iff [simp]: "on_db f (w, d) = Some ((w', d'), Inr u) \<longleftrightarrow> w' = w \<and> f d = Inr d'"
  by (auto simp: on_db_def split: sum.splits)

lemma read_db_Inr_iff [simp]: "read_db f s = Some (s', Inr x) \<longleftrightarrow> s' = s \<and> x = f (snd s)"
  by (auto simp: read_db_def)

lemma leaves_lift [simp]: "leaves d (io_lift r)"
  by (simp add: leaves_def)

lemma leaves_world [simp]: "leaves d (on_world m)"
  by (auto simp: leaves_def on_world_def)

lemma leaves_read [simp]: "leaves d (read_db f)"
  by (simp add: leaves_def read_db_def)

lemma leaves_bind:
  assumes "leaves d m" and "\<And>w w' x. m (w, d) = Some ((w', d), Inr x) \<Longrightarrow> leaves d (f x)"
  shows "leaves d (io_bind m f)"
  unfolding leaves_def
proof (intro allI impI)
  fix w s r assume run: "io_bind m f (w, d) = Some (s, r)"
  then obtain s1 q where s1: "m (w, d) = Some (s1, q)" by (cases "m (w, d)") (auto simp: io_bind_def)
  then have d1: "snd s1 = d" using assms(1) unfolding leaves_def by blast
  show "snd s = d"
  proof (cases q)
    case (Inl e)
    with run s1 d1 show ?thesis by (simp add: io_bind_def)
  next
    case (Inr x)
    obtain w1 where [simp]: "s1 = (w1, d)" using d1 by (cases s1) auto
    have "leaves d (f x)" using assms(2) s1 Inr by simp
    moreover have "f x (w1, d) = Some (s, r)" using run s1 Inr by (simp add: io_bind_def)
    ultimately show ?thesis unfolding leaves_def by blast
  qed
qed

lemma AddressMust_Inr_iff [res_simps]:
  "AddressMustFromTonutilsAddress p = Inr a \<longleftrightarrow> AddressFromTonutilsAddress p = Inr a"
  by (auto simp: AddressMustFromTonutilsAddress_def split: sum.splits go_error.splits)

lemma find_snoc: "find P xs = None \<Longrightarrow> find P (xs @ [x]) = (if P x then Some x else None)"
  by (induction xs) (auto split: if_splits)

lemma GetTonHotWalletAddress_saved:
  assumes "GetTonHotWalletAddress d = Inl ErrNotFound" and "SaveTonWallet (hot_wallet_data a) d = Inr d'" and "wf_address a"
  shows "GetTonHotWalletAddress d' = Inr a"
proof -
  have "find (\<lambda>r. tw_type r = TonHotWallet) (ton_wallets d) = None"
    using assms(1) by (auto simp: GetTonHotWalletAddress_def Scan_def Value_def ErrNotFound_def split: option.splits if_splits)
  moreover have "ton_wallets d' = ton_wallets d @ [\<lparr>tw_user_id = [], tw_subwallet_id = DefaultSubwallet, tw_type = TonHotWallet, tw_address = a\<rparr>]"
    using assms(2) by (auto simp: SaveTonWallet_def hot_wallet_data_def res_simps)
  ultimately show ?thesis
    using assms(3) by (simp add: GetTonHotWalletAddress_def find_snoc)
qed

lemma find_unique: "distinct (map f xs) \<Longrightarrow> x \<in> set xs \<Longrightarrow> find (\<lambda>y. f y = f x) xs = Some x"
  by (induction xs) auto

lemma initTonHotWallet_Inr:
  assumes "initTonHotWallet api cfg c seed (w, d) = Some ((w', d'), Inr (hot, shard, n))"
  obtains a where "GenerateDefaultWallet c seed True = Inr (hot, shard, n)"
    and "AddressFromTonutilsAddress (w_Address hot) = Inr a"
    and "GetTonHotWalletAddress d = Inr a \<and> d' = d \<or>
      GetTonHotWalletAddress d = Inl ErrNotFound \<and> SaveTonWallet (hot_wallet_data a) d = Inr d'"
  using assms
  by (auto simp: initTonHotWallet_def io_bind_Inr_iff AddressMust_Inr_iff check_saved_def
      split: if_splits sum.splits)

lemma initTonHotWallet_stored:
  assumes "initTonHotWallet api cfg c seed (w, d) = Some ((w', d'), Inr (hot, shard, n))" and "wf_database d"
  obtains a where "GenerateDefaultWallet c seed True = Inr (hot, shard, n)"
    and "AddressFromTonutilsAddress (w_Address hot) = Inr a" and "GetTonHotWalletAddress d' = Inr a"
    and "wf_database d'" and "jetton_wallets d' = jetton_wallets d"
proof (rule initTonHotWallet_Inr [OF assms(1)])
  fix a assume gen: "GenerateDefaultWallet c seed True = Inr (hot, shard, n)" "AddressFromTonutilsAddress (w_Address hot) = Inr a"
    and saved: "GetTonHotWalletAddress d = Inr a \<and> d' = d \<or>
      GetTonHotWalletAddress d = Inl ErrNotFound \<and> SaveTonWallet (hot_wallet_data a) d = Inr d'"
  have "GetTonHotWalletAddress d' = Inr a"
    using saved gen(2) GetTonHotWalletAddress_saved by (auto simp: AddressFromTonutilsAddress_Inr_iff)
  moreover have "wf_database d'" using saved assms(2) wf_SaveTonWallet by blast
  moreover have "jetton_wallets d' = jetton_wallets d" using saved by (auto simp: SaveTonWallet_def res_simps)
  ultimately show thesis using gen that by blast
qed

lemma initJettonHotWallet_steps:
  assumes "initJettonHotWallet c hot master cur n (w, d) = Some ((w', d'), Inr jw)"
  obtains h where "hot = Some h" and "bc_GetJettonWallet (wl_bc c) master h w = Some (w', Inr (jw_Address jw))"
    and "jw_Currency jw = cur"
    and "(\<exists>wd. GetJettonWallet (ta_data (jw_Address jw)) d = Some wd \<and> wd_Currency wd = cur \<and> d' = d)
      \<or> SaveJettonWallet (ta_data h) \<lparr>wd_SubwalletID = n, wd_UserID = [], wd_Currency = cur, wd_Type = JettonHotWallet,
          wd_Address = ta_data (jw_Address jw)\<rparr> True d = Inr d'"
  using assms
  by (auto simp: initJettonHotWallet_def io_bind_Inr_iff Let_def GetJettonWalletAddress_def AddressFromTonutilsAddress_Inr_iff
      deref_Inr_iff split: option.splits if_splits)

lemma GetJettonWallet_row:
  "GetJettonWallet a d = Some wd \<Longrightarrow> \<exists>r \<in> set (jetton_wallets d). jt_address r = a \<and> jt_currency r = wd_Currency wd"
  by (auto simp: GetJettonWallet_def dest!: find_SomeD)

lemma SaveJettonWallet_hot:
  assumes "SaveJettonWallet ow w True d = Inr d'"
  shows "ton_wallets d' = ton_wallets d
    \<and> (\<exists>r. jetton_wallets d' = jetton_wallets d @ [r] \<and> jt_address r = wd_Address w \<and> jt_currency r = wd_Currency w)"
  using assms by (auto simp: SaveJettonWallet_def res_simps)

lemma initJettonHotWallet_Inr:
  assumes "initJettonHotWallet c hot master cur n (w, d) = Some ((w', d'), Inr jw)" and "wf_database d"
  shows "stored_jettons d' [(cur, jw)] \<and> wf_database d' \<and> set (jetton_wallets d) \<subseteq> set (jetton_wallets d')
    \<and> ton_wallets d' = ton_wallets d"
proof (rule initJettonHotWallet_steps [OF assms(1)])
  fix h assume cur: "jw_Currency jw = cur"
    and "(\<exists>wd. GetJettonWallet (ta_data (jw_Address jw)) d = Some wd \<and> wd_Currency wd = cur \<and> d' = d)
      \<or> SaveJettonWallet (ta_data h) \<lparr>wd_SubwalletID = n, wd_UserID = [], wd_Currency = cur, wd_Type = JettonHotWallet,
          wd_Address = ta_data (jw_Address jw)\<rparr> True d = Inr d'" (is "?old \<or> ?new")
  then consider ?old | ?new by blast
  then show ?thesis
  proof cases
    case 1
    with cur assms(2) show ?thesis by (auto simp: stored_jettons_def dest!: GetJettonWallet_row)
  next
    case 2
    then show ?thesis
      using cur assms(2) wf_SaveJettonWallet [OF assms(2) 2] SaveJettonWallet_hot [OF 2] by (auto simp: stored_jettons_def)
  qed
qed

lemma init_jettons_Inr:
  assumes "init_jettons c hot n js acc (w, d) = Some ((w', d'), Inr jws)" and "wf_database d" and "stored_jettons d acc"
  shows "stored_jettons d' jws \<and> wf_database d' \<and> ton_wallets d' = ton_wallets d \<and> fst ` set jws = fst ` set js \<union> fst ` set acc
    \<and> set (jetton_wallets d) \<subseteq> set (jetton_wallets d')"
  using assms
proof (induction js arbitrary: acc w d)
  case (Cons cj js)
  obtain cur j where cj: "cj = (cur, j)" by (cases cj)
  from Cons.prems(1) obtain w1 d1 jw where one: "initJettonHotWallet c hot (j_Master j) cur n (w, d) = Some ((w1, d1), Inr jw)"
    and rest: "init_jettons c hot n js (put_assoc cur jw acc) (w1, d1) = Some ((w', d'), Inr jws)"
    by (auto simp: cj io_bind_Inr_iff)
  note step = initJettonHotWallet_Inr [OF one Cons.prems(2)]
  have "stored_jettons d1 (put_assoc cur jw acc)"
    using step Cons.prems(3) by (fastforce simp: stored_jettons_def put_assoc_def)
  then show ?case
    using Cons.IH [OF rest] step by (auto simp: cj put_assoc_def)
qed simp

text \<open>The row that each jetton of the configuration has after the loop.\<close>

lemma init_jettons_rows:
  assumes "init_jettons c (Some hot) n js acc (w, d) = Some ((w', d'), Inr jws)" and "wf_database d" and "stored_jettons d acc"
    and "(cur, j) \<in> set js" and "jetton_master_ok (wl_bc c) (j_Master j) jw"
  shows "\<exists>r \<in> set (jetton_wallets d'). jt_address r = ta_data (jw hot) \<and> jt_currency r = cur"
  using assms(1-4)
proof (induction js arbitrary: acc w d)
  case (Cons cj js)
  obtain cur1 j1 where cj: "cj = (cur1, j1)" by (cases cj)
  from Cons.prems(1) obtain w1 d1 jw1 where one: "initJettonHotWallet c (Some hot) (j_Master j1) cur1 n (w, d) = Some ((w1, d1), Inr jw1)"
    and rest: "init_jettons c (Some hot) n js (put_assoc cur1 jw1 acc) (w1, d1) = Some ((w', d'), Inr jws)"
    by (auto simp: cj io_bind_Inr_iff)
  note step = initJettonHotWallet_Inr [OF one Cons.prems(2)]
  have acc: "stored_jettons d1 (put_assoc cur1 jw1 acc)"
    using step Cons.prems(3) by (fastforce simp: stored_jettons_def put_assoc_def)
  show ?case
  proof (cases "(cur, j) = cj")
    case True
    obtain w2 where "bc_GetJettonWallet (wl_bc c) (j_Master j) hot w = Some (w2, Inr (jw hot))"
      using assms(5) unfolding jetton_master_ok_def by blast
    then have "jw_Address jw1 = jw hot"
      using True cj by (auto intro: initJettonHotWallet_steps [OF one])
    then show ?thesis
      using True cj step init_jettons_Inr [OF rest _ acc] by (auto simp: stored_jettons_def)
  next
    case False
    with Cons.prems(4) have "(cur, j) \<in> set js" by simp
    then show ?thesis using Cons.IH [OF rest _ acc] step by blast
  qed
qed simp

lemma stored_jettons_distinct:
  assumes "stored_jettons d jws" and "wf_database d" and "(cur, jw) \<in> set jws" and "(cur', jw') \<in> set jws"
    and "ta_data (jw_Address jw) = ta_data (jw_Address jw')"
  shows "cur = cur'"
proof -
  have row: "\<exists>r \<in> set (jetton_wallets d). jt_address r = ta_data (jw_Address x) \<and> jt_currency r = k"
    if "(k, x) \<in> set jws" for k x
    using assms(1) that by (auto simp: stored_jettons_def)
  from row [OF assms(3)] obtain r where "r \<in> set (jetton_wallets d)" "jt_address r = ta_data (jw_Address jw)" "jt_currency r = cur" by blast
  moreover from row [OF assms(4)] obtain r' where
    "r' \<in> set (jetton_wallets d)" "jt_address r' = ta_data (jw_Address jw')" "jt_currency r' = cur'" by blast
  ultimately show ?thesis
    using assms(2,5) jt.key_unique [of "jetton_wallets d" r r'] by (simp add: wf_database_def)
qed

text \<open>C30: a started service knows its hot wallets and the database knows them too. When \<open>InitWallets\<close>
  returns wallets, the TON hot wallet is the one of the seed, its address is the one stored in the
  database, every configured jetton has a hot wallet that is stored under its currency, no two
  currencies share one, and the constraints of the schema still hold.\<close>

theorem init_wallets_stored:
  assumes "InitWallets api cfg bc seed jettons v (w, d) = Some ((w', d'), Inr ws)" and "wf_database d"
  shows "(\<exists>hot n a. wl_tonHotWallet ws = Some hot \<and> bc_GenerateHighloadWallet bc seed = Inr (hot, wl_shard ws, n)
      \<and> AddressFromTonutilsAddress (w_Address hot) = Inr a \<and> GetTonHotWalletAddress d' = Inr a)
    \<and> fst ` set (wl_jettonHotWallets ws) = fst ` set jettons
    \<and> stored_jettons d' (wl_jettonHotWallets ws)
    \<and> (\<forall>(cur, jw) \<in> set (wl_jettonHotWallets ws). \<forall>(cur', jw') \<in> set (wl_jettonHotWallets ws).
        ta_data (jw_Address jw) = ta_data (jw_Address jw') \<longrightarrow> cur = cur')
    \<and> wf_database d'"
proof -
  let ?c = "\<lparr>wl_shard = 0, wl_defaultWalletVersion = v, wl_bc = bc, wl_tonHotWallet = None,
               wl_tonBasicWallet = None, wl_jettonHotWallets = []\<rparr>"
  from assms(1) obtain hot shard n w1 d1 jws where ton: "initTonHotWallet api cfg ?c seed (w, d) = Some ((w1, d1), Inr (hot, shard, n))"
    and jet: "init_jettons ?c (w_Address hot) n jettons [] (w1, d1) = Some ((w', d'), Inr jws)"
    and ws: "wl_tonHotWallet ws = Some hot" "wl_shard ws = shard" "wl_jettonHotWallets ws = jws"
    by (auto simp: InitWallets_def Let_def io_bind_Inr_iff)
  obtain a where a: "GenerateDefaultWallet ?c seed True = Inr (hot, shard, n)" "AddressFromTonutilsAddress (w_Address hot) = Inr a"
    "GetTonHotWalletAddress d1 = Inr a" "wf_database d1"
    by (rule initTonHotWallet_stored [OF ton assms(2)])
  have j: "stored_jettons d' jws \<and> wf_database d' \<and> ton_wallets d' = ton_wallets d1 \<and> fst ` set jws = fst ` set jettons"
    using init_jettons_Inr [OF jet a(4)] by (simp add: stored_jettons_def)
  then have "GetTonHotWalletAddress d' = Inr a" using a(3) by (simp add: GetTonHotWalletAddress_def)
  moreover have "bc_GenerateHighloadWallet bc seed = Inr (hot, shard, n)" using a(1) by (simp add: GenerateDefaultWallet_def)
  moreover have "\<forall>(cur, jw) \<in> set jws. \<forall>(cur', jw') \<in> set jws. ta_data (jw_Address jw) = ta_data (jw_Address jw') \<longrightarrow> cur = cur'"
    using stored_jettons_distinct [of d' jws] j by blast
  ultimately show ?thesis using a(2) j ws by auto
qed

text \<open>A changed seed is noticed before anything is done. If the database holds another hot wallet than
  the one the seed generates, \<open>InitWallets\<close> returns an error, and neither the network nor the
  database has been touched.\<close>

lemma seed_change_refused:
  assumes "bc_GenerateHighloadWallet bc seed = Inr (hot, shard, n)" and "AddressFromTonutilsAddress (w_Address hot) = Inr a"
    and "GetTonHotWalletAddress d = Inr saved" and "saved \<noteq> a"
  shows "InitWallets api cfg bc seed jettons v (w, d) =
    Some ((w, d), Inl (Err ''saved hot wallet not equal generated hot wallet. Maybe seed was being changed''))"
  using assms
  by (auto simp: InitWallets_def Let_def initTonHotWallet_def io_bind_def GenerateDefaultWallet_def
      AddressMustFromTonutilsAddress_def read_db_def check_saved_def)

lemma initTonHotWallet_leaves:
  assumes "GenerateDefaultWallet c seed True = Inr (hot, shard, n)" and "AddressFromTonutilsAddress (w_Address hot) = Inr a"
    and "GetTonHotWalletAddress d = Inr a"
  shows "leaves d (initTonHotWallet api cfg c seed)"
  unfolding initTonHotWallet_def
  by (intro leaves_bind)
    (use assms in \<open>auto simp: AddressMust_Inr_iff check_saved_def intro!: leaves_bind\<close>)

lemma initJettonHotWallet_leaves:
  assumes "jetton_master_ok (wl_bc c) master jw" and "wf_database d"
    and "r \<in> set (jetton_wallets d)" and "jt_address r = ta_data (jw hot)" and "jt_currency r = cur"
  shows "leaves d (initJettonHotWallet c (Some hot) master cur n)"
proof -
  have ans: "a = jw hot" if "bc_GetJettonWallet (wl_bc c) master hot w = Some (w', Inr a)" for w w' a
    using assms(1) that unfolding jetton_master_ok_def by (metis option.inject prod.inject sum.inject(2))
  have "find (\<lambda>x. jt_address x = ta_data (jw hot)) (jetton_wallets d) = Some r"
    using find_unique [of jt_address "jetton_wallets d" r] assms(2-4) by (simp add: wf_database_def)
  then have "\<exists>wd. GetJettonWallet (ta_data (jw hot)) d = Some wd \<and> wd_Currency wd = cur"
    using assms(5) by (simp add: GetJettonWallet_def)
  then show ?thesis
    unfolding initJettonHotWallet_def Let_def
    by (intro leaves_bind)
      (auto simp: GetJettonWalletAddress_def AddressFromTonutilsAddress_Inr_iff intro!: leaves_bind dest!: ans)
qed

lemma init_jettons_leaves:
  assumes "wf_database d"
    and "\<And>cur j. (cur, j) \<in> set js \<Longrightarrow> \<exists>jw. jetton_master_ok (wl_bc c) (j_Master j) jw
      \<and> (\<exists>r \<in> set (jetton_wallets d). jt_address r = ta_data (jw hot) \<and> jt_currency r = cur)"
  shows "leaves d (init_jettons c (Some hot) n js acc)"
  using assms(2)
proof (induction js arbitrary: acc)
  case (Cons cj js)
  obtain cur j where cj: "cj = (cur, j)" by (cases cj)
  have "leaves d (initJettonHotWallet c (Some hot) (j_Master j) cur n)"
    using Cons.prems [of cur j] cj initJettonHotWallet_leaves [OF _ assms(1)] by fastforce
  moreover have "leaves d (init_jettons c (Some hot) n js acc')" for acc'
    by (rule Cons.IH) (use Cons.prems in auto)
  ultimately show ?case by (simp add: cj leaves_bind)
qed simp

text \<open>C31: starting again changes nothing. After a successful \<open>InitWallets\<close> any later call with the same seed
  and configuration leaves the database as it is, whatever the network answers and however the
  call ends, provided that the jetton masters keep answering with the same addresses.\<close>

theorem init_wallets_again:
  assumes "InitWallets api cfg bc seed jettons v (w, d) = Some ((w', d'), Inr ws)" and "wf_database d"
    and "\<And>cur j. (cur, j) \<in> set jettons \<Longrightarrow> \<exists>jw. jetton_master_ok bc (j_Master j) jw"
    and "InitWallets api cfg bc seed jettons v (w2, d') = Some ((w3, d3), r)"
  shows "d3 = d'"
proof -
  let ?c = "\<lparr>wl_shard = 0, wl_defaultWalletVersion = v, wl_bc = bc, wl_tonHotWallet = None,
               wl_tonBasicWallet = None, wl_jettonHotWallets = []\<rparr>"
  from assms(1) obtain hot shard n w1 d1 jws where ton: "initTonHotWallet api cfg ?c seed (w, d) = Some ((w1, d1), Inr (hot, shard, n))"
    and jet: "init_jettons ?c (w_Address hot) n jettons [] (w1, d1) = Some ((w', d'), Inr jws)"
    by (auto simp: InitWallets_def Let_def io_bind_Inr_iff)
  obtain a where a: "GenerateDefaultWallet ?c seed True = Inr (hot, shard, n)" "AddressFromTonutilsAddress (w_Address hot) = Inr a"
    "GetTonHotWalletAddress d1 = Inr a" "wf_database d1"
    by (rule initTonHotWallet_stored [OF ton assms(2)])
  from a(2) obtain h where h: "w_Address hot = Some h" by (auto simp: AddressFromTonutilsAddress_Inr_iff)
  have none: "stored_jettons d1 []" by (simp add: stored_jettons_def)
  note jets = init_jettons_Inr [OF jet a(4) none]
  have rows: "\<exists>jw. jetton_master_ok (wl_bc ?c) (j_Master j) jw
      \<and> (\<exists>r \<in> set (jetton_wallets d'). jt_address r = ta_data (jw h) \<and> jt_currency r = cur)" if "(cur, j) \<in> set jettons" for cur j
    using assms(3) [OF that] init_jettons_rows [OF jet [unfolded h] a(4) none that] by auto
  have "GetTonHotWalletAddress d' = Inr a" using a(3) jets by (simp add: GetTonHotWalletAddress_def)
  then have "leaves d' (initTonHotWallet api cfg ?c seed)" by (rule initTonHotWallet_leaves [OF a(1,2)])
  moreover have "leaves d' (init_jettons ?c (w_Address hot) n jettons acc)" for acc
    unfolding h by (rule init_jettons_leaves) (use jets rows in auto)
  moreover have "x = (hot, shard, n)" if "initTonHotWallet api cfg ?c seed (u, d') = Some ((u', e), Inr x)" for u u' e x
    using that a(1) by (cases x) (auto elim: initTonHotWallet_Inr)
  ultimately have "leaves d' (InitWallets api cfg bc seed jettons v)"
    unfolding InitWallets_def Let_def by (intro leaves_bind) (auto intro!: leaves_bind)
  with assms(4) show ?thesis unfolding leaves_def by fastforce
qed

lemma sample_calls:
  "bc_GetAccountCurrentState (connection (sample_api txs)) a w = Some (w, Inr (if w \<le> 1 then (5, AccountStatusActive) else (0, AccountStatusNonExist)))"
  "bc_GenerateHighloadWallet (connection (sample_api txs)) ''a'' = Inr (sample_wallet (sample_addr 1), 1, DefaultSubwallet)"
  "bc_GenerateWallet (connection (sample_api txs)) ''a'' v = Inr (sample_wallet (sample_addr 1), 1, DefaultSubwallet)"
  "bc_GetJettonWallet (connection (sample_api txs)) master ow w = Some (w, Inr (sample_tonaddr (map2 (+) (ta_data master) (ta_data ow))))"
  by (simp_all add: connection_def sample_api_def GetAccountCurrentState_def GetAccount_def io_bind_def
      GenerateHighloadWallet_def GenerateWallet_def sample_wallet_def sample_addr_def sample_tonaddr_def)

lemma sample_address [simp]:
  "w_Address (sample_wallet a) = Some (sample_tonaddr a)"
  "wf_address a \<Longrightarrow> AddressFromTonutilsAddress (Some (sample_tonaddr a)) = Inr a"
  by (simp_all add: sample_wallet_def sample_tonaddr_def address_defs wf_address_def)

lemma sample_init_ton:
  "wl_bc c = connection (sample_api []) \<Longrightarrow>
   initTonHotWallet sample_wallet_api sample_config c ''a'' (0, empty_database) =
     Some ((0, sample_started\<lparr>jetton_wallets := []\<rparr>), Inr (sample_wallet (sample_addr 1), 1, DefaultSubwallet))"
  by (simp add: initTonHotWallet_def io_bind_def GenerateDefaultWallet_def sample_calls AddressMustFromTonutilsAddress_def
      read_db_def on_world_def on_db_def GetTonHotWalletAddress_def check_saved_def sample_config_def SaveTonWallet_def
      insert_ton_wallet_def insert_unique_def hot_wallet_data_def sample_started_def empty_database_def)

lemma sample_init_jettons:
  "wl_bc c = connection (sample_api []) \<Longrightarrow>
   \<exists>jws. init_jettons c (Some (sample_tonaddr (sample_addr 1))) DefaultSubwallet sample_jettons [] (0, sample_started\<lparr>jetton_wallets := []\<rparr>) =
     Some ((0, sample_started), Inr jws)"
proof -
  have "map2 (+) (ta_data (sample_tonaddr (sample_addr 7))) (ta_data (sample_tonaddr (sample_addr 1))) = sample_addr 8"
    by (simp add: sample_tonaddr_def sample_addr_def zip_replicate)
  then show "wl_bc c = connection (sample_api []) \<Longrightarrow> ?thesis"
    by (simp add: sample_jettons_def initJettonHotWallet_def io_bind_def Let_def GetJettonWalletAddress_def sample_calls
      read_db_def on_world_def on_db_def GetJettonWallet_def SaveJettonWallet_def insert_jetton_wallet_def insert_unique_def
      sample_started_def empty_database_def)
qed

lemma sample_init:
  "\<exists>ws. InitWallets sample_wallet_api sample_config (connection (sample_api [])) ''a'' sample_jettons (OtherVersion 3) (0, empty_database)
     = Some ((0, sample_started), Inr ws)"
proof -
  let ?c = "\<lparr>wl_shard = 0, wl_defaultWalletVersion = OtherVersion 3, wl_bc = connection (sample_api []), wl_tonHotWallet = None,
               wl_tonBasicWallet = None, wl_jettonHotWallets = []\<rparr> :: (tcell, nat) wallets"
  obtain jws where "init_jettons ?c (Some (sample_tonaddr (sample_addr 1))) DefaultSubwallet sample_jettons [] (0, sample_started\<lparr>jetton_wallets := []\<rparr>) =
     Some ((0, sample_started), Inr jws)" using sample_init_jettons [of ?c] by auto
  then show ?thesis
    using sample_init_ton [of ?c]
    by (simp add: InitWallets_def Let_def io_bind_def GenerateDefaultWallet_def sample_calls)
qed

theorem init_wallets_stored_witness:
  "\<exists>ws. InitWallets sample_wallet_api sample_config (connection (sample_api [])) ''a'' sample_jettons (OtherVersion 3) (0, empty_database)
      = Some ((0, sample_started), Inr ws) \<and> stored_jettons sample_started (wl_jettonHotWallets ws)
      \<and> fst ` set (wl_jettonHotWallets ws) = {''USDT''}"
proof -
  obtain ws where ws: "InitWallets sample_wallet_api sample_config (connection (sample_api [])) ''a'' sample_jettons (OtherVersion 3) (0, empty_database)
      = Some ((0, sample_started), Inr ws)" using sample_init by blast
  show ?thesis using ws init_wallets_stored [OF ws] by (auto simp: sample_jettons_def)
qed

theorem init_wallets_again_witness:
  "\<exists>w3 d3 r. InitWallets sample_wallet_api sample_config (connection (sample_api [])) ''a'' sample_jettons (OtherVersion 3) (2, sample_started)
      = Some ((w3, d3), r) \<and> d3 = sample_started"
proof -
  obtain ws where ws: "InitWallets sample_wallet_api sample_config (connection (sample_api [])) ''a'' sample_jettons (OtherVersion 3) (0, empty_database)
      = Some ((0, sample_started), Inr ws)" using sample_init by blast
  have "\<exists>jw. jetton_master_ok (connection (sample_api [])) m jw" for m
    using sample_masters [of m] by (auto simp: sample_wallets_def)
  moreover have "\<exists>s r. InitWallets sample_wallet_api sample_config (connection (sample_api [])) ''a'' sample_jettons (OtherVersion 3) (2, sample_started)
      = Some (s, r)"
    by (simp add: InitWallets_def Let_def initTonHotWallet_def io_bind_def GenerateDefaultWallet_def sample_calls
        AddressMustFromTonutilsAddress_def read_db_def on_world_def GetTonHotWalletAddress_def check_saved_def
        sample_config_def sample_started_def empty_database_def)
  ultimately show ?thesis using init_wallets_again [OF ws wf_empty_database] by fastforce
qed

end
