(* ===== verification/Usecases.thy ===== *)
theory Usecases
  imports Wallets WithdrawalRepository
begin

text \<open>
  \<open>api/types\<close>, \<open>api/helpers\<close> and \<open>api/usecases\<close>: what the HTTP interface asks of the
  repositories and the wallets. A usecase holds interfaces that may be nil: a repository is
  \<open>Some ()\<close> when it is set, an address book and the wallets are themselves optional, and a call
  on a nil interface panics. Operations that create addresses act on the outside world and on the
  database; the others only on the database.
\<close>

subsection \<open>Requests and responses\<close>

record ServiceTonWithdrawalRequest =
  stw_From :: string

record ServiceJettonWithdrawalRequest =
  sjw_Owner :: string
  sjw_JettonMaster :: string

record CreateWithdrawalRequest =
  cw_UserID :: string
  cw_QueryID :: string
  cw_Currency :: string
  cw_Amount :: Coins
  cw_Destination :: string
  cw_Comment :: string

record GetHistoryRequest =
  gh_UserID :: int
  gh_Currency :: string
  gh_Page :: int
  gh_PerPage :: int

record Income =
  in_DepositAddress :: string
  in_Time :: int
  in_SourceAddress :: string
  in_Amount :: string
  in_Comment :: string

record TotalIncomeView =
  tv_Address :: string
  tv_Amount :: string
  tv_Currency :: string

record GetIncomeResponse =
  gi_Side :: string
  gi_TotalIncomes :: "TotalIncomeView list"

record CreateAddressRequest =
  ca_UserID :: int
  ca_Currency :: string

record WalletAddress =
  wad_Address :: string
  wad_Currency :: string

subsection \<open>Helpers\<close>

definition ParseAddress :: "'c tonlib \<Rightarrow> config \<Rightarrow> string \<Rightarrow> Address result" where
  "ParseAddress lib cfg addr =
     (if addr = [] then Inl (Err ''empty address'')
      else ebind (wrap_err ''invalid address'' (parse_addr lib addr)) (\<lambda>a.
           if ta_testnet a \<and> \<not> cfg_Testnet cfg then Inl (Err ''address for testnet only'')
           else if ta_workchain a \<noteq> DefaultWorkchain then Inl (Err ''address must be in 0 workchain'')
           else AddressFromTonutilsAddress (Some a)))"

definition IsValidCurrency :: "config \<Rightarrow> string \<Rightarrow> bool" where
  "IsValidCurrency cfg cur \<longleftrightarrow> map_of (cfg_Jettons cfg) cur \<noteq> None \<or> cur = TonSymbol"

text \<open>\<open>strconv.FormatInt(i, 10)\<close>.\<close>

fun digits :: "nat \<Rightarrow> string" where
  "digits n = (if n < 10 then [char_of (48 + n)] else digits (n div 10) @ [char_of (48 + n mod 10)])"

definition FormatInt :: "int \<Rightarrow> string" where
  "FormatInt i = (if i < 0 then CHR ''-'' # digits (nat (- i)) else digits (nat i))"

declare digits.simps [simp del]

subsection \<open>Addresses\<close>

record ('c, 'w) AddressUsecases =
  au_repo :: "unit option"
  au_wallets :: "('c, 'w) wallets option"
  au_hotWalletAddress :: tonaddr

definition GetAddresses :: "'c tonlib \<Rightarrow> config \<Rightarrow> ('c, 'w) AddressUsecases \<Rightarrow> int \<Rightarrow> database \<Rightarrow> WalletAddress list result" where
  "GetAddresses lib cfg u userID d =
     ebind (deref (au_repo u)) (\<lambda>_.
     ebind (GetTonWalletsAddresses (FormatInt userID) [TonDepositWallet] d) (\<lambda>tonAddr.
     ebind (GetJettonOwnersAddresses (FormatInt userID) [JettonDepositWallet] d) (\<lambda>jettonAddr.
     Inr (map (\<lambda>a. \<lparr>wad_Address = ToUserFormat lib cfg a, wad_Currency = TonSymbol\<rparr>) tonAddr
        @ map (\<lambda>a. \<lparr>wad_Address = ToUserFormat lib cfg (ow_Address a), wad_Currency = ow_Currency a\<rparr>) jettonAddr))))"

definition createTonAddress :: "'c tonlib \<Rightarrow> ('c, 'w) wallet_api \<Rightarrow> config \<Rightarrow> ('c, 'w) AddressUsecases \<Rightarrow> string \<Rightarrow> uint32
    \<Rightarrow> ('w \<times> database, string) io" where
  "createTonAddress lib api cfg u userID subwalletID =
     io_bind (io_lift (deref (au_wallets u))) (\<lambda>ws.
     io_bind (on_world (GenerateSubWallet api ws (cfg_Seed cfg) (subwalletID + 1))) (\<lambda>(w, i).
     io_bind (io_lift (AddressFromTonutilsAddress (w_Address w))) (\<lambda>a.
     io_bind (on_db (SaveTonWallet \<lparr>wd_SubwalletID = i, wd_UserID = userID, wd_Currency = TonSymbol,
         wd_Type = TonDepositWallet, wd_Address = a\<rparr>)) (\<lambda>_.
     io_lift (Inr (ToUserFormat lib cfg a))))))"

definition createJettonAddress :: "'c tonlib \<Rightarrow> config \<Rightarrow> ('c, 'w) AddressUsecases \<Rightarrow> string \<Rightarrow> string \<Rightarrow> uint32
    \<Rightarrow> ('w \<times> database, string) io" where
  "createJettonAddress lib cfg u userID currency subwalletID =
     (case map_of (cfg_Jettons cfg) currency of
        None \<Rightarrow> io_lift (Inl (Err ''jetton address not found''))
      | Some jetton \<Rightarrow>
          io_bind (io_lift (deref (au_wallets u))) (\<lambda>ws.
          io_bind (on_world (GenerateDepositJettonWalletForProxy lib cfg ws (Some (au_hotWalletAddress u)) (j_Master jetton)
              (subwalletID + 1))) (\<lambda>(proxy, addr).
          io_bind (io_lift (AddressFromTonutilsAddress (Some addr))) (\<lambda>jettonWalletAddr.
          io_bind (io_lift (AddressFromTonutilsAddress (Some (jp_address proxy)))) (\<lambda>proxyAddr.
          io_bind (on_db (SaveJettonWallet proxyAddr \<lparr>wd_SubwalletID = jp_SubwalletID proxy, wd_UserID = userID,
              wd_Currency = currency, wd_Type = JettonDepositWallet, wd_Address = jettonWalletAddr\<rparr> False)) (\<lambda>_.
          io_lift (Inr (ToUserFormat lib cfg proxyAddr))))))))"

definition CreateAddress :: "'c tonlib \<Rightarrow> ('c, 'w) wallet_api \<Rightarrow> config \<Rightarrow> ('c, 'w) AddressUsecases \<Rightarrow> int \<Rightarrow> string
    \<Rightarrow> ('w \<times> database, string) io" where
  "CreateAddress lib api cfg u userID currency =
     (if \<not> IsValidCurrency cfg currency then io_lift (Inl (Err ''invalid currency''))
      else io_bind (io_lift (deref (au_repo u))) (\<lambda>_.
           io_bind (read_db GetLastSubwalletID) (\<lambda>subwalletID.
           if currency = TonSymbol then createTonAddress lib api cfg u (FormatInt userID) subwalletID
           else createJettonAddress lib cfg u (FormatInt userID) currency subwalletID)))"

subsection \<open>Incomes\<close>

record IncomeUsecases =
  iu_repo :: "unit option"
  iu_addressBook :: "addressBook option"

definition SideHotWallet :: string where "SideHotWallet = ''hot_wallet''"
definition SideDeposit :: string where "SideDeposit = ''deposit''"

text \<open>\<open>u.addressBook.GetOwner(a)\<close>, which must not be nil for a jetton deposit.\<close>

definition deposit_owner :: "IncomeUsecases \<Rightarrow> Address \<Rightarrow> Address result" where
  "deposit_owner u a =
     ebind (deref (iu_addressBook u)) (\<lambda>ab.
     ebind (GetOwner ab a) (\<lambda>owner. case owner of
         None \<Rightarrow> Inl (Err ''can not find owner for deposit'')
       | Some ow \<Rightarrow> Inr ow))"

definition deposit_view :: "IncomeUsecases \<Rightarrow> string \<Rightarrow> Address \<Rightarrow> Address result" where
  "deposit_view u currency a = (if currency = TonSymbol then Inr a else deposit_owner u a)"

definition convertHistory :: "'c tonlib \<Rightarrow> config \<Rightarrow> IncomeUsecases \<Rightarrow> string \<Rightarrow> ExternalIncome list \<Rightarrow> Income list result" where
  "convertHistory lib cfg u currency incomes =
     map_result (\<lambda>i. ebind (deposit_view u currency (ei_To i)) (\<lambda>dep.
       Inr \<lparr>in_DepositAddress = ToUserFormat lib cfg dep, in_Time = uint (ei_Utime i),
            in_SourceAddress = (case (ei_From i, ei_FromWorkchain i) of
                (Some b, Some wc) \<Rightarrow> if length b = 32
                  then addr_string lib ((new_address lib 0 (ucast wc) b)\<lparr>ta_testnet := cfg_Testnet cfg\<rparr>) else []
              | _ \<Rightarrow> []),
            in_Amount = coins_String lib (ei_Amount i), in_Comment = ei_Comment i\<rparr>)) incomes"

definition convertIncome :: "'c tonlib \<Rightarrow> config \<Rightarrow> IncomeUsecases \<Rightarrow> TotalIncome list \<Rightarrow> GetIncomeResponse result" where
  "convertIncome lib cfg u totalIncomes =
     ebind (map_result (\<lambda>b. ebind (deposit_view u (ti_Currency b) (ti_Deposit b)) (\<lambda>dep.
         Inr \<lparr>tv_Address = ToUserFormat lib cfg dep, tv_Amount = coins_String lib (ti_Amount b), tv_Currency = ti_Currency b\<rparr>))
       totalIncomes) (\<lambda>ts.
     Inr \<lparr>gi_Side = (if cfg_IsDepositSideCalculation cfg then SideDeposit else SideHotWallet), gi_TotalIncomes = ts\<rparr>)"

definition GetIncome :: "'c tonlib \<Rightarrow> config \<Rightarrow> IncomeUsecases \<Rightarrow> int \<Rightarrow> bool \<Rightarrow> database \<Rightarrow> GetIncomeResponse result" where
  "GetIncome lib cfg u userID internal d =
     ebind (deref (iu_repo u)) (\<lambda>_.
     convertIncome lib cfg u (if internal then GetInternalIncome (FormatInt userID) d else GetExternalIncome (FormatInt userID) d))"

definition GetHistory :: "'c tonlib \<Rightarrow> config \<Rightarrow> IncomeUsecases \<Rightarrow> GetHistoryRequest \<Rightarrow> database \<Rightarrow> Income list result" where
  "GetHistory lib cfg u data d =
     (if \<not> IsValidCurrency cfg (gh_Currency data) then Inl (Err ''invalid currency'')
      else ebind (deref (iu_repo u)) (\<lambda>_.
           ebind (GetIncomeHistory \<lparr>hq_Page = gh_Page data, hq_PerPage = gh_PerPage data,
               hq_UserID = FormatInt (gh_UserID data), hq_Currency = gh_Currency data\<rparr> d) (\<lambda>hh.
           convertHistory lib cfg u (gh_Currency data) hh)))"

subsection \<open>Synchronisation\<close>

definition IsSynced :: "unit option \<Rightarrow> int \<Rightarrow> database \<Rightarrow> bool result" where
  "IsSynced repo now d =
     ebind (deref repo) (\<lambda>_.
     ebind (GetLastSavedBlock d) (\<lambda>block. Inr (\<not> IsExpired now (sb_GenUtime block))))"

subsection \<open>Withdrawals\<close>

record WithdrawalUsecases =
  wu_withdrawalRepo :: "unit option"
  wu_addressBook :: "addressBook option"

definition GetWithdrawalStatus :: "schema \<Rightarrow> WithdrawalUsecases \<Rightarrow> int \<Rightarrow> database \<Rightarrow> string result" where
  "GetWithdrawalStatus sch u i d =
     ebind (deref (wu_withdrawalRepo u)) (\<lambda>_. GetExternalWithdrawalStatus sch i d)"

definition convertTonServiceWithdrawal :: "'c tonlib \<Rightarrow> config \<Rightarrow> WithdrawalUsecases \<Rightarrow> ServiceTonWithdrawalRequest
    \<Rightarrow> ServiceWithdrawalRequest result" where
  "convertTonServiceWithdrawal lib cfg u w =
     ebind (wrap_err ''invalid from address'' (ParseAddress lib cfg (stw_From w))) (\<lambda>from.
     ebind (deref (wu_addressBook u)) (\<lambda>ab.
     case GetWalletType ab from of
       None \<Rightarrow> Inl (Err ''unknown deposit address'')
     | Some t \<Rightarrow> if t \<noteq> JettonOwner then Inl (Err ''service withdrawal allowed only for Jetton deposit owner'')
                 else Inr \<lparr>sr_From = from, sr_JettonMaster = None\<rparr>))"

definition convertJettonServiceWithdrawal :: "'c tonlib \<Rightarrow> config \<Rightarrow> WithdrawalUsecases \<Rightarrow> ServiceJettonWithdrawalRequest
    \<Rightarrow> ServiceWithdrawalRequest result" where
  "convertJettonServiceWithdrawal lib cfg u w =
     ebind (wrap_err ''invalid from address'' (ParseAddress lib cfg (sjw_Owner w))) (\<lambda>from.
     ebind (deref (wu_addressBook u)) (\<lambda>ab.
     case GetWalletType ab from of
       None \<Rightarrow> Inl (Err ''unknown deposit address'')
     | Some t \<Rightarrow>
         if t \<noteq> JettonOwner \<and> t \<noteq> TonDepositWallet
         then Inl (Err ''service withdrawal allowed only for Jetton deposit owner or TON deposit'')
         else ebind (wrap_err ''invalid jetton master address'' (ParseAddress lib cfg (sjw_JettonMaster w))) (\<lambda>jetton.
              Inr \<lparr>sr_From = from, sr_JettonMaster = Some jetton\<rparr>)))"

text \<open>\<open>memo\<close> is the value the database draws for the new row.\<close>

definition CreateServiceTonWithdrawal :: "'c tonlib \<Rightarrow> config \<Rightarrow> WithdrawalUsecases \<Rightarrow> UUID \<Rightarrow> ServiceTonWithdrawalRequest
    \<Rightarrow> database \<Rightarrow> database result" where
  "CreateServiceTonWithdrawal lib cfg u memo req d =
     ebind (convertTonServiceWithdrawal lib cfg u req) (\<lambda>w.
     ebind (deref (wu_withdrawalRepo u)) (\<lambda>_. CreateServiceWithdrawalRequest memo w d))"

definition CreateServiceJettonWithdrawal :: "'c tonlib \<Rightarrow> config \<Rightarrow> WithdrawalUsecases \<Rightarrow> UUID \<Rightarrow> ServiceJettonWithdrawalRequest
    \<Rightarrow> database \<Rightarrow> database result" where
  "CreateServiceJettonWithdrawal lib cfg u memo req d =
     ebind (convertJettonServiceWithdrawal lib cfg u req) (\<lambda>w.
     ebind (deref (wu_withdrawalRepo u)) (\<lambda>_. CreateServiceWithdrawalRequest memo w d))"

text \<open>The request is built and printed; the statements that would store it are commented out.\<close>

definition CreateWithdrawal :: "'c tonlib \<Rightarrow> config \<Rightarrow> CreateWithdrawalRequest \<Rightarrow> database \<Rightarrow> database \<times> int result" where
  "CreateWithdrawal lib cfg body d =
     (d, ebind (wrap_err ''invalid destination address'' (ParseAddress lib cfg (cw_Destination body))) (\<lambda>addr. Inr 0))"

subsection \<open>Vocabulary and examples\<close>

text \<open>Subwallet ids stay below the largest \<open>uint32\<close>, so the next one does not wrap around.\<close>

definition ids_ok :: "database \<Rightarrow> bool" where
  "ids_ok d \<longleftrightarrow> (\<forall>t \<in> set (ton_wallets d). tw_subwallet_id t < MaxUint32)"

text \<open>The wallet tables can be listed: 32-byte addresses, and an owner for every jetton wallet.\<close>

definition listable :: "database \<Rightarrow> bool" where
  "listable d \<longleftrightarrow> (\<forall>t \<in> set (ton_wallets d). wf_address (tw_address t)) \<and>
     (\<forall>j \<in> set (jetton_wallets d). \<exists>t \<in> set (ton_wallets d). tw_subwallet_id t = jt_subwallet_id j)"

definition sample_addresses :: "(tcell, nat) AddressUsecases" where
  "sample_addresses = \<lparr>au_repo = Some (), au_wallets = Some sample_wallets, au_hotWalletAddress = sample_tonaddr (sample_addr 4)\<rparr>"

definition sample_withdrawals :: WithdrawalUsecases where
  "sample_withdrawals = \<lparr>wu_withdrawalRepo = Some (),
     wu_addressBook = Some \<lparr>ab_addresses = Some [replicate 32 97 \<mapsto> \<lparr>ai_Type = JettonOwner, ai_Owner = None\<rparr>]\<rparr>\<rparr>"

subsection \<open>New subwallet ids\<close>

text \<open>
  What the wallets promise the usecases: an id they generate is not below the start they were
  given and not the largest. That is enough for every new id to be fresh.
\<close>

locale id_source =
  fixes gen :: "uint32 \<Rightarrow> uint32 \<Rightarrow> bool"
  assumes range: "gen start i \<Longrightarrow> start \<le> i \<and> i < MaxUint32"
begin

lemma fresh:
  assumes "ids_ok d" and "gen (GetLastSubwalletID d + 1) i"
  shows "(\<forall>t \<in> set (ton_wallets d). tw_subwallet_id t < i) \<and> i < MaxUint32"
proof -
  have "tw_subwallet_id t < i" if t: "t \<in> set (ton_wallets d)" for t
  proof -
    obtain m where m: "sql_max (map tw_subwallet_id (ton_wallets d)) = Some m"
      using t by (cases "sql_max (map tw_subwallet_id (ton_wallets d))") auto
    then have "tw_subwallet_id t \<le> m" and "m \<in> tw_subwallet_id ` set (ton_wallets d)"
      using t by (auto simp: sql_max_Some_iff)
    with assms(1) have "m < MaxUint32" by (auto simp: ids_ok_def)
    moreover have "m + 1 \<le> i" using range [OF assms(2)] m by (simp add: GetLastSubwalletID_def)
    ultimately have "m < i" by (simp add: next_id_le)
    with \<open>tw_subwallet_id t \<le> m\<close> show ?thesis by simp
  qed
  with range [OF assms(2)] show ?thesis by blast
qed

end

interpretation ton_ids: id_source "\<lambda>start i. \<exists>w w' sub. GenerateSubWallet api ws seed start w = Some (w', Inr (sub, i))"
  for api ws seed
  by unfold_locales (auto dest: GenerateSubWallet_found)

interpretation proxy_ids: id_source "\<lambda>start i. \<exists>w w' proxy a.
    GenerateDepositJettonWalletForProxy lib cfg ws ow master start w = Some (w', Inr (proxy, a)) \<and> i = jp_SubwalletID proxy"
  for lib cfg ws ow master
  by unfold_locales (auto dest: GenerateDepositJettonWalletForProxy_found)

text \<open>The row that creating an address appends.\<close>

lemma CreateAddress_row:
  assumes "CreateAddress lib api cfg u userID currency (w, d) = Some ((w', d'), Inr s)" and "ids_ok d"
  obtains r where "ton_wallets d' = ton_wallets d @ [r]" and "s = ToUserFormat lib cfg (tw_address r)"
    and "tw_user_id r = FormatInt userID" and "wf_address (tw_address r)"
    and "(\<forall>t \<in> set (ton_wallets d). tw_subwallet_id t < tw_subwallet_id r) \<and> tw_subwallet_id r < MaxUint32"
    and "if currency = TonSymbol then tw_type r = TonDepositWallet \<and> jetton_wallets d' = jetton_wallets d
      else tw_type r = JettonOwner \<and> (\<exists>j. jetton_wallets d' = jetton_wallets d @ [j] \<and> jt_subwallet_id j = tw_subwallet_id r
        \<and> jt_user_id j = FormatInt userID \<and> jt_currency j = currency \<and> jt_type j = JettonDepositWallet)"
proof (cases "currency = TonSymbol")
  case True
  with assms(1) obtain ws sub i a w1 where
      gen: "GenerateSubWallet api ws (cfg_Seed cfg) (GetLastSubwalletID d + 1) w = Some (w1, Inr (sub, i))"
    and a: "AddressFromTonutilsAddress (w_Address sub) = Inr a" and s: "s = ToUserFormat lib cfg a"
    and save: "SaveTonWallet \<lparr>wd_SubwalletID = i, wd_UserID = FormatInt userID, wd_Currency = TonSymbol,
         wd_Type = TonDepositWallet, wd_Address = a\<rparr> d = Inr d'"
    by (auto simp: CreateAddress_def createTonAddress_def io_bind_Inr_iff split: if_splits)
  have "(\<forall>t \<in> set (ton_wallets d). tw_subwallet_id t < i) \<and> i < MaxUint32"
    by (rule ton_ids.fresh [OF assms(2)]) (intro exI, rule gen)
  then show thesis
    using save s a True
    by (intro that [of "\<lparr>tw_user_id = FormatInt userID, tw_subwallet_id = i, tw_type = TonDepositWallet, tw_address = a\<rparr>"])
      (auto simp: SaveTonWallet_def res_simps)
next
  case False
  with assms(1) obtain ws proxy addr ja a w1 and jetton :: Jetton where
      gen: "GenerateDepositJettonWalletForProxy lib cfg ws (Some (au_hotWalletAddress u)) (j_Master jetton)
              (GetLastSubwalletID d + 1) w = Some (w1, Inr (proxy, addr))"
    and a: "AddressFromTonutilsAddress (Some (jp_address proxy)) = Inr a" and s: "s = ToUserFormat lib cfg a"
    and save: "SaveJettonWallet a \<lparr>wd_SubwalletID = jp_SubwalletID proxy, wd_UserID = FormatInt userID,
              wd_Currency = currency, wd_Type = JettonDepositWallet, wd_Address = ja\<rparr> False d = Inr d'"
    by (auto simp: CreateAddress_def createJettonAddress_def io_bind_Inr_iff split: if_splits option.splits)
  have "(\<forall>t \<in> set (ton_wallets d). tw_subwallet_id t < jp_SubwalletID proxy) \<and> jp_SubwalletID proxy < MaxUint32"
    by (rule proxy_ids.fresh [OF assms(2)]) (intro exI conjI, rule gen, rule refl)
  then show thesis
    using save s a False
    by (intro that [of "\<lparr>tw_user_id = FormatInt userID, tw_subwallet_id = jp_SubwalletID proxy, tw_type = JettonOwner, tw_address = a\<rparr>"])
      (auto simp: SaveJettonWallet_def res_simps)
qed

lemma wf_CreateAddress:
  assumes "CreateAddress lib api cfg u userID currency (w, d) = Some ((w', d'), Inr s)" and "wf_database d"
  shows "wf_database d'"
  using assms
  by (auto simp: CreateAddress_def createTonAddress_def createJettonAddress_def io_bind_Inr_iff
      split: if_splits option.splits intro: wf_SaveTonWallet wf_SaveJettonWallet)

text \<open>C28: a new deposit address belongs to one user. When an address is created, for TON or for a jetton, it
  is stored in a new row with the user and a subwallet id above all ids in use and below the
  largest one, the answer is that row's address, and what was true of the tables stays true, so
  the next id will not wrap around either.\<close>

theorem created_address_fresh:
  assumes "CreateAddress lib api cfg u userID currency (w, d) = Some ((w', d'), Inr s)" and "ids_ok d" and "wf_database d"
  shows "\<exists>r. ton_wallets d' = ton_wallets d @ [r] \<and> s = ToUserFormat lib cfg (tw_address r)
    \<and> tw_user_id r = FormatInt userID
    \<and> (\<forall>t \<in> set (ton_wallets d). tw_subwallet_id t < tw_subwallet_id r) \<and> ids_ok d' \<and> wf_database d'"
proof (rule CreateAddress_row [OF assms(1,2)])
  fix r assume r: "ton_wallets d' = ton_wallets d @ [r]" "s = ToUserFormat lib cfg (tw_address r)" "tw_user_id r = FormatInt userID"
    and "(\<forall>t \<in> set (ton_wallets d). tw_subwallet_id t < tw_subwallet_id r) \<and> tw_subwallet_id r < MaxUint32"
  then have "ids_ok d'" "\<forall>t \<in> set (ton_wallets d). tw_subwallet_id t < tw_subwallet_id r" using assms(2) by (auto simp: ids_ok_def)
  then show ?thesis using r wf_CreateAddress [OF assms(1,3)] by blast
qed

subsection \<open>Listing\<close>

lemma map_result_all: "(\<And>x. x \<in> set xs \<Longrightarrow> f x = Inr (g x)) \<Longrightarrow> map_result f xs = Inr (map g xs)"
  by (induction xs) auto

lemma map_result_map: "map_result f (map g xs) = map_result (f \<circ> g) xs"
  by (induction xs) auto

lemma GetTonWalletsAddresses_listable:
  assumes "listable d"
  shows "GetTonWalletsAddresses user types d =
    Inr (map tw_address (filter (\<lambda>r. tw_user_id r = user \<and> tw_type r \<in> set types) (ton_wallets d)))"
  unfolding GetTonWalletsAddresses_def using assms by (intro map_result_all) (auto simp: listable_def)

lemma owner_rows_listable:
  assumes "listable d" and "j \<in> set (jetton_wallets d)"
  shows "owner_rows (ton_wallets d) j =
    map (\<lambda>t. Value (tw_address t)) (filter (\<lambda>t. tw_subwallet_id t = jt_subwallet_id j) (ton_wallets d))"
proof -
  have "filter (\<lambda>t. tw_subwallet_id t = jt_subwallet_id j) (ton_wallets d) \<noteq> []"
    using assms by (auto simp: listable_def filter_empty_conv)
  then show ?thesis by (simp add: owner_rows_def split: list.splits)
qed

lemma GetJettonOwnersAddresses_ok:
  assumes "listable d"
  shows "\<exists>as. GetJettonOwnersAddresses user types d = Inr as \<and>
    set as = {\<lparr>ow_Address = tw_address t, ow_Currency = jt_currency j\<rparr> |j t. j \<in> set (jetton_wallets d) \<and> jt_user_id j = user
      \<and> jt_type j \<in> set types \<and> t \<in> set (ton_wallets d) \<and> tw_subwallet_id t = jt_subwallet_id j}"
proof -
  define js where "js = filter (\<lambda>j. jt_user_id j = user \<and> jt_type j \<in> set types) (jetton_wallets d)"
  define owners where "owners j = filter (\<lambda>t. tw_subwallet_id t = jt_subwallet_id j) (ton_wallets d)" for j :: jetton_wallet_row
  let ?scan = "\<lambda>(ow, cur). ebind (Scan ow) (\<lambda>a. Inr \<lparr>ow_Address = a, ow_Currency = cur\<rparr>)"
  have "map (\<lambda>j. map (\<lambda>ow. (ow, jt_currency j)) (owner_rows (ton_wallets d) j)) js =
      map (\<lambda>j. map (\<lambda>t. (Value (tw_address t), jt_currency j)) (owners j)) js"
    using owner_rows_listable [OF assms] by (auto simp: js_def owners_def)
  then have rows: "GetJettonOwnersAddresses user types d =
      map_result ?scan (concat (map (\<lambda>j. map (\<lambda>t. (Value (tw_address t), jt_currency j)) (owners j)) js))"
    unfolding GetJettonOwnersAddresses_def js_def [symmetric] by (simp only:)
  also have "concat (map (\<lambda>j. map (\<lambda>t. (Value (tw_address t), jt_currency j)) (owners j)) js) =
      map (\<lambda>(t, cur). (Value (tw_address t), cur)) (concat (map (\<lambda>j. map (\<lambda>t. (t, jt_currency j)) (owners j)) js))"
    by (simp add: map_concat comp_def)
  also have "map_result ?scan \<dots> = Inr (map (\<lambda>(t, cur). \<lparr>ow_Address = tw_address t, ow_Currency = cur\<rparr>)
      (concat (map (\<lambda>j. map (\<lambda>t. (t, jt_currency j)) (owners j)) js)))"
    unfolding map_result_map
  proof (rule map_result_all)
    fix x assume "x \<in> set (concat (map (\<lambda>j. map (\<lambda>t. (t, jt_currency j)) (owners j)) js))"
    then have "wf_address (tw_address (fst x))" using assms by (auto simp: owners_def listable_def)
    then show "(?scan \<circ> (\<lambda>(t, cur). (Value (tw_address t), cur))) x = Inr ((\<lambda>(t, cur). \<lparr>ow_Address = tw_address t, ow_Currency = cur\<rparr>) x)"
      by (cases x) simp
  qed
  finally show ?thesis by (simp add: image_UN image_image js_def owners_def) blast
qed


subsection \<open>Service withdrawals\<close>

lemma CreateServiceWithdrawalRequest_row:
  assumes "CreateServiceWithdrawalRequest memo w d = Inr d'"
  shows "\<exists>r. service_withdrawal_requests d' = service_withdrawal_requests d @ [r] \<and> sv_memo r = memo
    \<and> sv_from_address r = sr_From w \<and> sv_jetton_master r = sr_JettonMaster w \<and> \<not> sv_processed r \<and> \<not> sv_filled r"
  using assms by (auto simp: CreateServiceWithdrawalRequest_def res_simps)

text \<open>C37: the service only moves money between its own addresses on request. A service withdrawal of TON is
  stored only for the owner of a jetton deposit, one of jettons only for such an owner or for a
  TON deposit, with an open row for the parsed address; any other address is refused.\<close>

theorem service_requests_guarded:
  "(CreateServiceTonWithdrawal lib cfg u memo req d = Inr d' \<longrightarrow>
      (\<exists>ab a r. wu_addressBook u = Some ab \<and> ParseAddress lib cfg (stw_From req) = Inr a \<and> GetWalletType ab a = Some JettonOwner
        \<and> service_withdrawal_requests d' = service_withdrawal_requests d @ [r] \<and> sv_memo r = memo \<and> sv_from_address r = a
        \<and> sv_jetton_master r = None \<and> \<not> sv_processed r))
    \<and> (CreateServiceJettonWithdrawal lib cfg u memo req' d = Inr d' \<longrightarrow>
      (\<exists>ab a m r. wu_addressBook u = Some ab \<and> ParseAddress lib cfg (sjw_Owner req') = Inr a
        \<and> GetWalletType ab a \<in> {Some JettonOwner, Some TonDepositWallet} \<and> ParseAddress lib cfg (sjw_JettonMaster req') = Inr m
        \<and> service_withdrawal_requests d' = service_withdrawal_requests d @ [r] \<and> sv_memo r = memo \<and> sv_from_address r = a
        \<and> sv_jetton_master r = Some m \<and> \<not> sv_processed r))"
  by (auto simp: CreateServiceTonWithdrawal_def CreateServiceJettonWithdrawal_def convertTonServiceWithdrawal_def
      convertJettonServiceWithdrawal_def res_simps split: option.splits if_splits dest!: CreateServiceWithdrawalRequest_row)

subsection \<open>Witnesses\<close>

lemma sample_subwallet:
  "\<exists>w. GenerateSubWallet sample_wallet_api sample_wallets [] 4 0 = Some (w, Inr (sample_wallet (sample_addr 5), 5))"
proof -
  have att: "try_subwallet sample_wallet_api sample_wallets basic i w =
      Some (w, Inr (if (ucast i :: byte) = 5 then Some (sample_wallet (sample_addr (ucast i))) else None))" for basic i w
    by (simp add: try_subwallet_def sample_wallet_api_def inShard_def sample_wallets_def)
      (simp add: sample_addr_def)
  have "search_id (try_subwallet sample_wallet_api sample_wallets basic) 4 0 = Some (0, Inr (Some (sample_wallet (sample_addr 5), 5)))" for basic
    by (simp add: search_id.simps [of _ 4] search_id.simps [of _ 5] att MaxUint32_def)
  moreover obtain basic b n where "bc_GenerateWallet (wl_bc sample_wallets) [] (wl_defaultWalletVersion sample_wallets) = Inr (basic, b, n)"
    by (simp add: sample_wallets_def connection_def GenerateWallet_def sample_api_def sample_tonaddr_def)
  ultimately show ?thesis by (simp add: GenerateSubWallet_def io_bind_def or_not_found_def)
qed

lemma sample_create:
  "\<exists>w d'. CreateAddress sample_lib sample_wallet_api sample_config sample_addresses 1 TonSymbol (0, sample_database) =
     Some ((w, d'), Inr (ToUserFormat sample_lib sample_config (sample_addr 5)))"
proof -
  have last: "GetLastSubwalletID sample_database = 3" by (simp add: GetLastSubwalletID_def sample_database_def)
  obtain w where "GenerateSubWallet sample_wallet_api sample_wallets [] 4 0 = Some (w, Inr (sample_wallet (sample_addr 5), 5))"
    using sample_subwallet by blast
  then show ?thesis
    by (simp add: CreateAddress_def IsValidCurrency_def createTonAddress_def io_bind_def sample_addresses_def read_db_def last
        sample_config_def on_world_def on_db_def)
      (simp add: SaveTonWallet_def insert_ton_wallet_def insert_unique_def sample_database_def)
qed

lemma sample_tables:
  shows ids_sample: "ids_ok sample_database" and listable_sample: "listable sample_database"
  by (simp_all add: ids_ok_def listable_def sample_database_def MaxUint32_def)

lemma wf_sample: "wf_database sample_database"
  by (simp add: wf_database_def sample_database_def empty_database_def sample_request_def rq_key_def numeral_eq_Suc)

theorem created_address_fresh_witness:
  "\<exists>w d' s. CreateAddress sample_lib sample_wallet_api sample_config sample_addresses 1 TonSymbol (0, sample_database) = Some ((w, d'), Inr s)
    \<and> ids_ok d' \<and> wf_database d' \<and> length (ton_wallets d') = 4"
proof -
  obtain w d' where d': "CreateAddress sample_lib sample_wallet_api sample_config sample_addresses 1 TonSymbol (0, sample_database) =
     Some ((w, d'), Inr (ToUserFormat sample_lib sample_config (sample_addr 5)))" using sample_create by blast
  from created_address_fresh [OF d' ids_sample wf_sample] obtain r where r: "ton_wallets d' = ton_wallets sample_database @ [r]"
    "ids_ok d'" "wf_database d'" by blast
  moreover have "length (ton_wallets d') = 4" using r(1) by (simp add: sample_database_def)
  ultimately show ?thesis using d' by blast
qed


theorem service_requests_guarded_witness:
  "\<exists>d'. CreateServiceTonWithdrawal sample_lib sample_config sample_withdrawals [9] \<lparr>stw_From = replicate 32 CHR ''a''\<rparr> empty_database = Inr d'
    \<and> length (service_withdrawal_requests d') = 1"
proof -
  have "CreateServiceTonWithdrawal sample_lib sample_config sample_withdrawals [9] \<lparr>stw_From = replicate 32 CHR ''a''\<rparr> empty_database =
      CreateServiceWithdrawalRequest [9] \<lparr>sr_From = replicate 32 97, sr_JettonMaster = None\<rparr> empty_database"
    by (simp add: CreateServiceTonWithdrawal_def convertTonServiceWithdrawal_def ParseAddress_def sample_lib_def sample_tonaddr_def
        DefaultWorkchain_def address_defs wrap_err_def sample_withdrawals_def GetWalletType_def ab_get_def)
  moreover have "\<exists>d'. CreateServiceWithdrawalRequest [9] \<lparr>sr_From = replicate 32 97, sr_JettonMaster = None\<rparr> empty_database = Inr d'"
    by (simp add: CreateServiceWithdrawalRequest_def insert_service_withdrawal_def insert_unique_def empty_database_def)
  ultimately obtain d' where d': "CreateServiceTonWithdrawal sample_lib sample_config sample_withdrawals [9] \<lparr>stw_From = replicate 32 CHR ''a''\<rparr> empty_database = Inr d'"
    by auto
  then have "\<exists>r. service_withdrawal_requests d' = service_withdrawal_requests empty_database @ [r]"
    using service_requests_guarded by blast
  then have "length (service_withdrawal_requests d') = 1" by (auto simp: empty_database_def)
  with d' show ?thesis by blast
qed

end
