(* ===== verification/Handlers.thy ===== *)
theory Handlers
  imports Usecases
begin

text \<open>
  \<open>api/handlers\<close> and \<open>api/middleware.go\<close>: the HTTP handlers, the three middlewares around them
  and the table of routes. A handler acts on the response writer and on the state of the usecases
  and ends with the error it returns, a panic or nothing. The writer keeps the first status it is
  given and the values written after it; their encoding as JSON is left out. What a request is
  decoded into is read off the request: \<open>encoding/json\<close>, \<open>gorilla/schema\<close> and the route
  parameters of bunrouter are the fields of \<open>request\<close>.
\<close>

datatype reply =
    ErrorReply string
  | AddressReply string
  | AddressesReply "WalletAddress list"
  | WithdrawalReply int
  | StatusReply string
  | MemoReply UUID
  | SyncReply bool
  | IncomeReply GetIncomeResponse
  | HistoryReply "Income list"
  | NotFoundReply string

record ResponseWriter =
  rw_status :: "int option"
  rw_headers :: "(string \<times> string) list"
  rw_replies :: "reply list"

definition new_writer :: ResponseWriter where
  "new_writer = \<lparr>rw_status = None, rw_headers = [], rw_replies = []\<rparr>"

definition WriteHeader :: "int \<Rightarrow> ResponseWriter \<Rightarrow> ResponseWriter" where
  "WriteHeader st w = (if rw_status w = None then w\<lparr>rw_status := Some st\<rparr> else w)"

text \<open>Writing a body sends status 200 if none was set.\<close>

definition Encode :: "reply \<Rightarrow> ResponseWriter \<Rightarrow> ResponseWriter" where
  "Encode b w = (let w = WriteHeader 200 w in w\<lparr>rw_replies := rw_replies w @ [b]\<rparr>)"

record request =
  req_Method :: string
  req_Path :: string
  req_Authorization :: string
  req_UserID :: "int result"
  req_ID :: "int result"
  req_Type :: string
  req_CreateAddress :: "CreateAddressRequest result"
  req_CreateWithdrawal :: "CreateWithdrawalRequest result"
  req_ServiceTon :: "ServiceTonWithdrawalRequest result"
  req_ServiceJetton :: "ServiceJettonWithdrawalRequest result"
  req_History :: GetHistoryRequest

type_synonym 's handler = "request \<Rightarrow> (ResponseWriter \<times> 's, unit) io"

record ('c, 'w) Handler =
  h_withdrawalUsecases :: WithdrawalUsecases
  h_incomeUsecases :: IncomeUsecases
  h_AddressUsecases :: "('c, 'w) AddressUsecases"
  h_SyncUsecases :: "unit option"

text \<open>\<open>&Handler{}\<close>: every interface in it is nil, and the hot wallet address is the zero address.\<close>

definition NewHandler :: "('c, 'w) Handler" where
  "NewHandler = \<lparr>h_withdrawalUsecases = \<lparr>wu_withdrawalRepo = None, wu_addressBook = None\<rparr>,
     h_incomeUsecases = \<lparr>iu_repo = None, iu_addressBook = None\<rparr>,
     h_AddressUsecases = \<lparr>au_repo = None, au_wallets = None,
       au_hotWalletAddress = \<lparr>ta_type = NoneAddress, ta_workchain = 0, ta_data = [], ta_bounceable = False, ta_testnet = False\<rparr>\<rparr>,
     h_SyncUsecases = None\<rparr>"

subsection \<open>Steps of a handler\<close>

definition respond :: "(ResponseWriter \<Rightarrow> ResponseWriter) \<Rightarrow> (ResponseWriter \<times> 's, unit) io" where
  "respond f s = Some ((f (fst s), snd s), Inr ())"

definition on_state :: "('s, 'a) io \<Rightarrow> (ResponseWriter \<times> 's, 'a) io" where
  "on_state m s = map_option (\<lambda>(t, r). ((fst s, t), r)) (m (snd s))"

definition writeHttpError :: "int \<Rightarrow> string \<Rightarrow> (ResponseWriter \<times> 's, unit) io" where
  "writeHttpError status comment = respond (\<lambda>w. Encode (ErrorReply comment) (WriteHeader status w))"

definition writeOK :: "reply \<Rightarrow> (ResponseWriter \<times> 's, unit) io" where
  "writeOK b = respond (\<lambda>w. Encode b (WriteHeader 200 w))"

text \<open>\<open>x, err := m(); if err != nil { h(err) }; f(x)\<close>; a panic goes on.\<close>

definition if_err :: "('s, 'a) io \<Rightarrow> (string \<Rightarrow> ('s, 'b) io) \<Rightarrow> ('a \<Rightarrow> ('s, 'b) io) \<Rightarrow> ('s, 'b) io" where
  "if_err m h f s = (case m s of
       None \<Rightarrow> None
     | Some (s', Inl (Err e)) \<Rightarrow> h e s'
     | Some (s', Inl e) \<Rightarrow> Some (s', Inl e)
     | Some (s', Inr x) \<Rightarrow> f x s')"

text \<open>\<open>writeHttpError(w, status, fmt.Sprintf("comment: %v", err)); return err\<close>.\<close>

definition fail :: "int \<Rightarrow> string \<Rightarrow> string \<Rightarrow> (ResponseWriter \<times> 's, unit) io" where
  "fail status comment e = io_bind (writeHttpError status (comment @ '': '' @ e)) (\<lambda>_. io_lift (Inl (Err e)))"

subsection \<open>Handlers\<close>

definition createAddress :: "'c tonlib \<Rightarrow> ('c, 'w) wallet_api \<Rightarrow> config \<Rightarrow> ('c, 'w) Handler \<Rightarrow> ('w \<times> database) handler" where
  "createAddress lib api cfg h req =
     if_err (io_lift (req_CreateAddress req)) (fail 400 ''decode payload data err'') (\<lambda>data.
     if_err (on_state (CreateAddress lib api cfg (h_AddressUsecases h) (ca_UserID data) (ca_Currency data)))
       (\<lambda>e. writeHttpError 500 (''generate address err: '' @ e)) (\<lambda>addr.
     writeOK (AddressReply addr)))"

definition getAddresses :: "'c tonlib \<Rightarrow> config \<Rightarrow> ('c, 'w) Handler \<Rightarrow> ('w \<times> database) handler" where
  "getAddresses lib cfg h req =
     if_err (io_lift (req_UserID req)) (fail 400 ''failed to parse user_id'') (\<lambda>userID.
     if_err (on_state (io_bind (read_db (GetAddresses lib cfg (h_AddressUsecases h) userID)) io_lift)) (fail 500 ''get addresses err'') (\<lambda>res.
     writeOK (AddressesReply res)))"

text \<open>The error of the usecase is returned after an answer with status 200.\<close>

definition createWithdrawal :: "'c tonlib \<Rightarrow> config \<Rightarrow> ('w \<times> database) handler" where
  "createWithdrawal lib cfg req =
     if_err (io_lift (req_CreateWithdrawal req)) (fail 400 ''decode payload err'') (\<lambda>body s.
       case CreateWithdrawal lib cfg body (snd (snd s)) of (d, r) \<Rightarrow>
         let w = fst s; s' = (fst (snd s), d) in
         (case r of
            Inr n \<Rightarrow> writeOK (WithdrawalReply n) (w, s')
          | Inl (Err e) \<Rightarrow> io_bind (writeOK (WithdrawalReply 0)) (\<lambda>_. io_lift (Inl (Err e))) (w, s')
          | Inl e \<Rightarrow> Some ((w, s'), Inl e)))"

definition getWithdrawalStatus :: "schema \<Rightarrow> ('c, 'w) Handler \<Rightarrow> ('w \<times> database) handler" where
  "getWithdrawalStatus sch h req =
     if_err (io_lift (req_ID req)) (fail 400 ''convert request ID err'') (\<lambda>i.
     if_err (on_state (io_bind (read_db (GetWithdrawalStatus sch (h_withdrawalUsecases h) i)) io_lift))
       (\<lambda>e. if Err e = ErrNotFound then io_bind (writeHttpError 400 ''request ID not found'') (\<lambda>_. io_lift (Inl (Err e)))
            else fail 500 ''get external withdrawal status err'' e) (\<lambda>status.
     writeOK (StatusReply status)))"

definition serviceTonWithdrawal :: "'c tonlib \<Rightarrow> config \<Rightarrow> UUID \<Rightarrow> ('c, 'w) Handler \<Rightarrow> ('w \<times> database) handler" where
  "serviceTonWithdrawal lib cfg memo h req =
     if_err (io_lift (req_ServiceTon req)) (fail 400 ''decode payload err'') (\<lambda>body.
     if_err (on_state (on_db (CreateServiceTonWithdrawal lib cfg (h_withdrawalUsecases h) memo body)))
       (fail 500 ''save service withdrawal request err'') (\<lambda>_.
     writeOK (MemoReply memo)))"

definition serviceJettonWithdrawal :: "'c tonlib \<Rightarrow> config \<Rightarrow> UUID \<Rightarrow> ('c, 'w) Handler \<Rightarrow> ('w \<times> database) handler" where
  "serviceJettonWithdrawal lib cfg memo h req =
     if_err (io_lift (req_ServiceJetton req)) (fail 400 ''decode payload err'') (\<lambda>body.
     if_err (on_state (on_db (CreateServiceJettonWithdrawal lib cfg (h_withdrawalUsecases h) memo body)))
       (fail 500 ''save service withdrawal request err'') (\<lambda>_.
     writeOK (MemoReply memo)))"

definition getSync :: "int \<Rightarrow> ('c, 'w) Handler \<Rightarrow> ('w \<times> database) handler" where
  "getSync now h req =
     if_err (on_state (io_bind (read_db (IsSynced (h_SyncUsecases h) now)) io_lift)) (fail 500 ''failed to sync'') (\<lambda>b.
     writeOK (SyncReply b))"

definition getIncome_handler :: "'c tonlib \<Rightarrow> config \<Rightarrow> ('c, 'w) Handler \<Rightarrow> ('w \<times> database) handler" where
  "getIncome_handler lib cfg h req =
     if_err (io_lift (req_UserID req)) (\<lambda>e. writeHttpError 400 (''failed to parse iser_id: '' @ e)) (\<lambda>i.
     if_err (on_state (io_bind (read_db (GetIncome lib cfg (h_incomeUsecases h) i (req_Type req = ''internal''))) io_lift))
       (fail 500 ''get balances err'') (\<lambda>ii.
     writeOK (IncomeReply ii)))"

text \<open>The error of decoding the query is overwritten by that of \<open>GetHistory\<close>.\<close>

definition getIncomeHistory :: "'c tonlib \<Rightarrow> config \<Rightarrow> ('c, 'w) Handler \<Rightarrow> ('w \<times> database) handler" where
  "getIncomeHistory lib cfg h req =
     if_err (on_state (io_bind (read_db (GetHistory lib cfg (h_incomeUsecases h) (req_History req))) io_lift)) (fail 400 ''GetHistory err'') (\<lambda>hh.
     writeOK (HistoryReply hh))"

text \<open>\<open>Register\<close>: the routes of the group, with the handler of each.\<close>

definition Register :: "'c tonlib \<Rightarrow> ('c, 'w) wallet_api \<Rightarrow> config \<Rightarrow> schema \<Rightarrow> UUID \<Rightarrow> int \<Rightarrow> ('c, 'w) Handler
    \<Rightarrow> ((string \<times> string) \<times> ('w \<times> database) handler) list" where
  "Register lib api cfg sch memo now h = [
     ((''POST'', ''/address''), createAddress lib api cfg h),
     ((''GET'', ''/address/all''), getAddresses lib cfg h),
     ((''POST'', ''/withdrawal''), createWithdrawal lib cfg),
     ((''POST'', ''/withdrawal/service/ton''), serviceTonWithdrawal lib cfg memo h),
     ((''POST'', ''/withdrawal/service/jetton''), serviceJettonWithdrawal lib cfg memo h),
     ((''GET'', ''/withdrawal/status''), getWithdrawalStatus sch h),
     ((''GET'', ''/system/sync''), getSync now h),
     ((''GET'', ''/income/:type''), getIncome_handler lib cfg h),
     ((''GET'', ''/deposit/history''), getIncomeHistory lib cfg h)]"

subsection \<open>Middlewares\<close>

text \<open>\<open>subtle.ConstantTimeCompare\<close> is 1 for equal contents.\<close>

definition checkToken :: "string \<Rightarrow> string \<Rightarrow> bool" where
  "checkToken authorization token =
     (let auth = split_on (CHR '' '') authorization in
      if length auth \<noteq> 2 then False
      else if auth ! 0 \<noteq> ''Bearer'' then False
      else auth ! 1 = token)"

definition RecoverMiddleware :: "'s handler \<Rightarrow> 's handler" where
  "RecoverMiddleware nxt req s = (case nxt req s of
       Some (s', Inl (Panic _)) \<Rightarrow> Some ((WriteHeader 500 (fst s'), snd s'), Inr ())
     | r \<Rightarrow> r)"

definition AuthMiddleware :: "config \<Rightarrow> 's handler \<Rightarrow> 's handler" where
  "AuthMiddleware cfg nxt req =
     (if \<not> checkToken (req_Authorization req) (cfg_APIToken cfg) then respond (WriteHeader 401) else nxt req)"

definition HeadersMiddleware :: "'s handler \<Rightarrow> 's handler" where
  "HeadersMiddleware nxt req =
     io_bind (respond (\<lambda>w. w\<lparr>rw_headers := rw_headers w @ [(''Content-Type'', ''application/json'')]\<rparr>)) (\<lambda>_. nxt req)"

text \<open>The chain that \<open>main\<close> builds around a route; the first middleware is the outermost.\<close>

definition serve :: "config \<Rightarrow> 's handler \<Rightarrow> 's handler" where
  "serve cfg nxt = HeadersMiddleware (RecoverMiddleware (AuthMiddleware cfg nxt))"

definition notFoundHandler :: "'s handler" where
  "notFoundHandler req = respond (\<lambda>w. Encode (NotFoundReply (req_Path req)) (WriteHeader 404 w))"

subsection \<open>Vocabulary and examples\<close>

text \<open>The request carries the API token.\<close>

definition authorised :: "config \<Rightarrow> request \<Rightarrow> bool" where
  "authorised cfg req \<longleftrightarrow> req_Authorization req = ''Bearer '' @ cfg_APIToken cfg \<and> CHR '' '' \<notin> set (cfg_APIToken cfg)"

definition sample_req :: request where
  "sample_req = \<lparr>req_Method = ''GET'', req_Path = ''/v1/system/sync'', req_Authorization = ''Bearer 123'',
     req_UserID = Inr 1, req_ID = Inr 2, req_Type = ''internal'',
     req_CreateAddress = Inr \<lparr>ca_UserID = 1, ca_Currency = TonSymbol\<rparr>,
     req_CreateWithdrawal = Inr \<lparr>cw_UserID = ''1'', cw_QueryID = ''2'', cw_Currency = TonSymbol, cw_Amount = 5, cw_Destination = [], cw_Comment = []\<rparr>,
     req_ServiceTon = Inl (Err ''EOF''), req_ServiceJetton = Inl (Err ''EOF''),
     req_History = \<lparr>gh_UserID = 1, gh_Currency = TonSymbol, gh_Page = 1, gh_PerPage = 20\<rparr>\<rparr>"

subsection \<open>Authorisation\<close>

lemma split_on_single: "split_on c xs = [y] \<longleftrightarrow> y = xs \<and> c \<notin> set xs"
proof (induction xs arbitrary: y)
  case (Cons x xs)
  then show ?case using split_on_nonempty [of c xs] by (cases "split_on c xs") (auto split: list.splits)
qed auto

lemma split_on_pair: "split_on c xs = [a, b] \<longleftrightarrow> xs = a @ c # b \<and> c \<notin> set a \<and> c \<notin> set b"
proof (induction xs arbitrary: a)
  case (Cons x xs)
  show ?case
  proof (cases "x = c")
    case True
    then show ?thesis by (cases a) (auto simp: split_on_single)
  next
    case False
    obtain y ys where ys: "split_on c xs = y # ys" using split_on_nonempty [of c xs] by (cases "split_on c xs") auto
    have "split_on c (x # xs) = [a, b] \<longleftrightarrow> (\<exists>a'. a = x # a' \<and> split_on c xs = [a', b])"
      using False ys by auto
    also have "\<dots> \<longleftrightarrow> x # xs = a @ c # b \<and> c \<notin> set a \<and> c \<notin> set b"
      using False by (cases a) (auto simp: Cons.IH)
    finally show ?thesis .
  qed
qed simp

lemma checkToken_iff: "checkToken hdr token \<longleftrightarrow> hdr = ''Bearer '' @ token \<and> CHR '' '' \<notin> set token"
proof -
  have two: "length xs = 2 \<and> xs ! 0 = ''Bearer'' \<and> xs ! 1 = token \<longleftrightarrow> xs = [''Bearer'', token]" for xs
    by (auto simp: numeral_2_eq_2 length_Suc_conv)
  have "checkToken hdr token \<longleftrightarrow> split_on (CHR '' '') hdr = [''Bearer'', token]"
    unfolding checkToken_def Let_def two [symmetric] by auto
  then show ?thesis by (simp add: split_on_pair)
qed

lemma serve_authorised:
  assumes "authorised cfg req"
  shows "serve cfg h req = HeadersMiddleware (RecoverMiddleware h) req"
proof -
  have "AuthMiddleware cfg h req = h req"
    using assms by (simp add: AuthMiddleware_def authorised_def checkToken_iff)
  then have "RecoverMiddleware (AuthMiddleware cfg h) req = RecoverMiddleware h req"
    by (intro ext) (simp add: RecoverMiddleware_def)
  then show ?thesis by (simp add: serve_def HeadersMiddleware_def)
qed

text \<open>C38: the API answers only those who have the token. A request is let through exactly when its
  authorization header is \<open>Bearer\<close>, one space and the configured token, which must not contain a
  space; every other request is answered with status 401 and an empty body, and it changes nothing
  and does not reach the handler of its route.\<close>

theorem unauthorised_rejected:
  "(authorised cfg req \<longrightarrow> serve cfg h req = HeadersMiddleware (RecoverMiddleware h) req)
    \<and> (\<not> authorised cfg req \<longrightarrow> (\<exists>w. serve cfg h req (new_writer, s) = Some ((w, s), Inr ())
        \<and> rw_status w = Some 401 \<and> rw_replies w = []))"
proof (cases "authorised cfg req")
  case True
  then show ?thesis by (simp add: serve_authorised)
next
  case False
  then have "\<not> checkToken (req_Authorization req) (cfg_APIToken cfg)" by (simp add: authorised_def checkToken_iff)
  with False show ?thesis
    by (simp add: serve_def HeadersMiddleware_def RecoverMiddleware_def AuthMiddleware_def io_bind_def respond_def
        WriteHeader_def new_writer_def)
qed

theorem unauthorised_rejected_witness:
  "\<exists>w. serve (sample_config\<lparr>cfg_APIToken := ''321''\<rparr>) (createWithdrawal sample_lib sample_config) sample_req
      (new_writer, 0 :: nat, empty_database) = Some ((w, 0, empty_database), Inr ()) \<and> rw_status w = Some 401"
proof -
  have "\<not> authorised (sample_config\<lparr>cfg_APIToken := ''321''\<rparr>) sample_req" by (simp add: authorised_def sample_req_def)
  then show ?thesis
    using unauthorised_rejected [of "sample_config\<lparr>cfg_APIToken := ''321''\<rparr>" sample_req "createWithdrawal sample_lib sample_config" "(0, empty_database)"]
    by metis
qed

subsection \<open>What the handlers do\<close>

text \<open>The withdrawal endpoint accepts everything and does nothing. For every decodable body
  \<open>createWithdrawal\<close> answers with status 200 and the id 0, also when the destination is not an
  address, and no request changes the database or the outside world.\<close>

lemma create_withdrawal_noop:
  "\<exists>w r. createWithdrawal lib cfg req (new_writer, s) = Some ((w, s), r)
    \<and> (\<forall>body. req_CreateWithdrawal req = Inr body
        \<and> ((\<exists>e. ParseAddress lib cfg (cw_Destination body) = Inl (Err e)) \<or> (\<exists>a. ParseAddress lib cfg (cw_Destination body) = Inr a))
        \<longrightarrow> rw_status w = Some 200 \<and> rw_replies w = [WithdrawalReply 0])"
proof (cases "req_CreateWithdrawal req")
  case (Inl e)
  then show ?thesis
    by (cases e) (simp_all add: createWithdrawal_def if_err_def fail_def writeHttpError_def respond_def io_bind_def)
next
  case (Inr body)
  show ?thesis
  proof (cases "ParseAddress lib cfg (cw_Destination body)")
    case (Inl e)
    with \<open>req_CreateWithdrawal req = Inr body\<close> show ?thesis
      by (cases e) (simp_all add: createWithdrawal_def if_err_def CreateWithdrawal_def wrap_err_def writeOK_def respond_def io_bind_def
          Encode_def WriteHeader_def new_writer_def Let_def)
  next
    case (Inr a)
    with \<open>req_CreateWithdrawal req = Inr body\<close> show ?thesis
      by (simp add: createWithdrawal_def if_err_def CreateWithdrawal_def wrap_err_def writeOK_def respond_def
          Encode_def WriteHeader_def new_writer_def Let_def)
  qed
qed



end
