(* ===== verification/Notificators.thy ===== *)
theory Notificators
  imports BlockScanner
begin

text \<open>
  \<open>webhook/webhook.go\<close> and \<open>queue/queue.go\<close>: the two implementations of \<open>models.Notificator\<close>, and
  what the block scanner can rely on when it publishes the incomes of a block through them.
  \<open>json.Marshal\<close> of a payload is the parameter \<open>marshal\<close>. The network behind \<open>http.Client\<close>
  is a function of the request that also says how much of the body it read: the body is a
  \<open>bytes.Buffer\<close>, and what an attempt has read is gone for the next. The AMQP package is a
  parameter.
\<close>

subsection \<open>Webhook\<close>

record HttpRequest =
  hr_Method :: string
  hr_URI :: string
  hr_Headers :: "(string \<times> string) list"
  hr_Body :: string
  hr_ContentLength :: nat

text \<open>A response by its status code and the error of closing its body.\<close>

record HttpResponse =
  rs_StatusCode :: int
  rs_CloseErr :: bool

type_synonym 'w network = "HttpRequest \<Rightarrow> 'w \<Rightarrow> 'w \<times> nat \<times> HttpResponse result"

record WebhookClient =
  wh_uri :: string
  wh_token :: string

definition NewWebhookClient :: "string \<Rightarrow> string \<Rightarrow> WebhookClient result" where
  "NewWebhookClient uri token =
     (if uri = [] then Inl (Err ''emty uri'') else Inr \<lparr>wh_uri = uri, wh_token = token\<rparr>)"

text \<open>\<open>client.Do\<close>: the transport refuses a request whose body is shorter than its content length.\<close>

definition client_Do :: "'w network \<Rightarrow> HttpRequest \<Rightarrow> 'w \<Rightarrow> 'w \<times> HttpRequest \<times> HttpResponse result" where
  "client_Do net req w =
     (case net req w of (w', n, r) \<Rightarrow>
        (w', req\<lparr>hr_Body := drop n (hr_Body req)\<rparr>,
         if length (hr_Body req) \<noteq> hr_ContentLength req then Inl (Err ''http: ContentLength with Body length'') else r))"

definition send :: "'w network \<Rightarrow> HttpRequest \<Rightarrow> 'w \<Rightarrow> 'w \<times> HttpRequest \<times> unit result" where
  "send net req w =
     (case client_Do net req w of (w', req', r) \<Rightarrow>
        (w', req', ebind (wrap_err ''webhook sending error'' r) (\<lambda>response.
           if rs_CloseErr response then Inl (Fatal ''response body close error'')
           else if rs_StatusCode response = 200 then Inr ()
           else Inl (Err ''webhook response status''))))"

text \<open>\<open>for i := 0; i < 3; i++\<close>: errors of \<open>send\<close> are logged and the next attempt is made.\<close>

fun send_attempts :: "'w network \<Rightarrow> nat \<Rightarrow> HttpRequest \<Rightarrow> 'w \<Rightarrow> 'w \<times> unit result" where
  "send_attempts net 0 req w = (w, Inl (Err ''attempts to send a webhook ended''))"
| "send_attempts net (Suc n) req w =
     (case send net req w of
        (w', req', Inr _) \<Rightarrow> (w', Inr ())
      | (w', req', Inl (Err _)) \<Rightarrow> send_attempts net n req' w'
      | (w', req', Inl e) \<Rightarrow> (w', Inl e))"

definition webhook_request :: "WebhookClient \<Rightarrow> string \<Rightarrow> HttpRequest" where
  "webhook_request s jsonData = \<lparr>hr_Method = ''POST'', hr_URI = wh_uri s,
     hr_Headers = (''Content-Type'', ''application/json; charset=UTF-8'') #
       (if wh_token s \<noteq> [] then [(''Authorization'', ''Bearer '' @ wh_token s)] else []),
     hr_Body = jsonData, hr_ContentLength = length jsonData\<rparr>"

text \<open>\<open>valid_uri\<close> is whether \<open>http.NewRequest\<close> accepts the URI.\<close>

definition webhook_Publish :: "(string \<Rightarrow> bool) \<Rightarrow> ('p \<Rightarrow> string result) \<Rightarrow> 'w network \<Rightarrow> WebhookClient
    \<Rightarrow> 'p \<Rightarrow> 'w \<Rightarrow> 'w \<times> unit result" where
  "webhook_Publish valid_uri marshal net s payload w =
     (case marshal payload of
        Inl e \<Rightarrow> (w, Inl e)
      | Inr jsonData \<Rightarrow>
          if \<not> valid_uri (wh_uri s) then (w, Inl (Err ''invalid request''))
          else send_attempts net 3 (webhook_request s jsonData) w)"

subsection \<open>Queue\<close>

record 'w amqp_api =
  amqp_Dial :: "string \<Rightarrow> 'w \<Rightarrow> 'w \<times> unit result"
  amqp_Channel :: "'w \<Rightarrow> 'w \<times> unit result"
  amqp_ExchangeDeclare :: "string \<Rightarrow> string \<Rightarrow> 'w \<Rightarrow> 'w \<times> unit result"
  amqp_Publish :: "string \<Rightarrow> string \<Rightarrow> string \<Rightarrow> 'w \<Rightarrow> 'w \<times> unit result"

record AmqpClient =
  aq_exchange :: string
  aq_enabled :: bool

definition declareExchange :: "'w amqp_api \<Rightarrow> AmqpClient \<Rightarrow> string \<Rightarrow> 'w \<Rightarrow> 'w \<times> AmqpClient result" where
  "declareExchange api c exchangeName w =
     (case amqp_ExchangeDeclare api exchangeName ''fanout'' w of
        (w', Inl e) \<Rightarrow> (w', Inl e)
      | (w', Inr _) \<Rightarrow> (w', Inr (c\<lparr>aq_exchange := exchangeName\<rparr>)))"

definition NewAmqpClient :: "'w amqp_api \<Rightarrow> string \<Rightarrow> bool \<Rightarrow> string \<Rightarrow> 'w \<Rightarrow> 'w \<times> AmqpClient result" where
  "NewAmqpClient api uri enabled queueName w =
     (if \<not> enabled then (w, Inr \<lparr>aq_exchange = [], aq_enabled = False\<rparr>)
      else case amqp_Dial api uri w of
          (w1, Inl e) \<Rightarrow> (w1, Inl e)
        | (w1, Inr _) \<Rightarrow>
            (case amqp_Channel api w1 of
               (w2, Inl e) \<Rightarrow> (w2, Inl e)
             | (w2, Inr _) \<Rightarrow> declareExchange api \<lparr>aq_exchange = [], aq_enabled = enabled\<rparr> queueName w2))"

definition queue_Publish :: "('p \<Rightarrow> string result) \<Rightarrow> 'w amqp_api \<Rightarrow> AmqpClient \<Rightarrow> 'p \<Rightarrow> 'w \<Rightarrow> 'w \<times> unit result" where
  "queue_Publish marshal api c payload w =
     (if \<not> aq_enabled c then (w, Inr ())
      else if aq_exchange c = [] then (w, Inl (Err ''exchange not init''))
      else case marshal payload of
          Inl e \<Rightarrow> (w, Inl e)
        | Inr body \<Rightarrow> amqp_Publish api (aq_exchange c) ''application/json'' body w)"

subsection \<open>The notificators of the service\<close>

text \<open>The part of \<open>main\<close> that creates the notificators the configuration asks for.\<close>

definition make_notificators :: "(string \<Rightarrow> bool) \<Rightarrow> ('p \<Rightarrow> string result) \<Rightarrow> 'w network \<Rightarrow> 'w amqp_api
    \<Rightarrow> string \<Rightarrow> bool \<Rightarrow> string \<Rightarrow> string \<Rightarrow> string \<Rightarrow> 'w \<Rightarrow> 'w \<times> ('p \<Rightarrow> 'w \<Rightarrow> 'w \<times> unit result) list result" where
  "make_notificators valid_uri marshal net api queueURI queueEnabled queueName webhookEndpoint webhookToken w =
     (case (if queueEnabled
            then (case NewAmqpClient api queueURI queueEnabled queueName w of
                    (w', r) \<Rightarrow> (w', ebind (fatal_on ''new queue client creating error'' r) (\<lambda>c. Inr [queue_Publish marshal api c])))
            else (w, Inr [])) of
        (w', Inl e) \<Rightarrow> (w', Inl e)
      | (w', Inr queues) \<Rightarrow>
          (w', ebind (if webhookEndpoint \<noteq> []
             then ebind (fatal_on ''new webhook client creating error'' (NewWebhookClient webhookEndpoint webhookToken))
                    (\<lambda>c. Inr [webhook_Publish valid_uri marshal net c])
             else Inr []) (\<lambda>hooks. Inr (queues @ hooks))))"

text \<open>The notifications due for the events of a block.\<close>

definition known_owner :: "addressBook \<Rightarrow> Address \<Rightarrow> Address option" where
  "known_owner ab a = (case GetOwner ab a of Inr ow \<Rightarrow> ow | Inl _ \<Rightarrow> None)"

definition due_notifications :: "'c tonlib \<Rightarrow> config \<Rightarrow> addressBook \<Rightarrow> BlockEvents \<Rightarrow> incomeNotification list" where
  "due_notifications lib cfg ab e =
     (if cfg_IsDepositSideCalculation cfg
      then map (\<lambda>ei. income_notification lib cfg (known_owner ab (ei_To ei)) (ei_To ei) (ei_Amount ei) (ei_Utime ei)
             (ei_From ei) (ei_FromWorkchain ei) (ei_Comment ei)) (ExternalIncomes (be_Events e))
      else map (\<lambda>ii. income_notification lib cfg (known_owner ab (ii_From ii)) (ii_From ii) (ii_Amount ii) (ii_Utime ii)
             None None []) (InternalIncomes (be_Events e)))"

text \<open>For examples: a network that reads every request to its end and answers 500 to the first and 200 to the
  others, an exchange that takes everything, and a scanner of a block with one TON deposit.\<close>

definition sample_net :: "nat network" where
  "sample_net req w = (Suc w, length (hr_Body req), Inr \<lparr>rs_StatusCode = (if w = 0 then 500 else 200), rs_CloseErr = False\<rparr>)"

definition sample_amqp :: "nat amqp_api" where
  "sample_amqp = \<lparr>amqp_Dial = (\<lambda>_ w. (w, Inr ())), amqp_Channel = (\<lambda>w. (w, Inr ())),
     amqp_ExchangeDeclare = (\<lambda>_ _ w. (w, Inr ())), amqp_Publish = (\<lambda>_ _ _ w. (w, Inr ()))\<rparr>"

definition sample_hook :: "incomeNotification \<Rightarrow> nat \<Rightarrow> nat \<times> unit result" where
  "sample_hook = webhook_Publish (\<lambda>_. True) (\<lambda>n. Inr (nf_Amount n @ ''0'')) sample_net \<lparr>wh_uri = ''u'', wh_token = []\<rparr>"

definition sample_notifier :: "(tcell, nat) BlockScanner" where
  "sample_notifier = \<lparr>bs_addressBook = Some sample_ab,
     bs_GetTransactionIDsFromBlock = (\<lambda>b. Inr [\<lparr>ti_Account = sample_addr 1, ti_LT = 60\<rparr>]),
     bs_GetTransactionFromBlock = (\<lambda>b i. Inr (sample_tx (Some (MsgInternal (sample_msg 9 1))) [])),
     bs_GetJettonBalance = sample_balance, bs_notificators = [sample_hook]\<rparr>"

subsection \<open>The contract of a notificator\<close>

text \<open>What an endpoint has to have done during a successful call: answered 200 to a request with the
  whole payload, or taken the payload over into the exchange.\<close>

definition webhook_acked :: "('p \<Rightarrow> string result) \<Rightarrow> 'w network \<Rightarrow> WebhookClient \<Rightarrow> 'p \<Rightarrow> 'w \<Rightarrow> bool" where
  "webhook_acked marshal net s p w' \<longleftrightarrow> (\<exists>jsonData v n r. marshal p = Inr jsonData
     \<and> net (webhook_request s jsonData) v = (w', n, Inr r) \<and> rs_StatusCode r = 200)"

definition queue_acked :: "('p \<Rightarrow> string result) \<Rightarrow> 'w amqp_api \<Rightarrow> AmqpClient \<Rightarrow> 'p \<Rightarrow> 'w \<Rightarrow> bool" where
  "queue_acked marshal api c p w' \<longleftrightarrow> \<not> aq_enabled c \<or> (\<exists>body v. marshal p = Inr body
     \<and> amqp_Publish api (aq_exchange c) ''application/json'' body v = (w', Inr ()))"

text \<open>
  The interface \<open>Notificator\<close>: a call of \<open>Publish\<close> that returns nil has delivered its payload.
\<close>

locale notificator =
  fixes publish :: "'p \<Rightarrow> 'w \<Rightarrow> 'w \<times> unit result"
    and acked :: "'p \<Rightarrow> 'w \<Rightarrow> bool"
  assumes delivered: "publish p w = (w', Inr ()) \<Longrightarrow> acked p w'"
begin

lemma all_delivered:
  assumes "for_each_io publish ps w = (w', Inr ())" and "p \<in> set ps"
  shows "\<exists>v. acked p v"
  using assms by (induction ps arbitrary: w) (auto split: prod.splits sum.splits intro: delivered)

end

subsection \<open>Delivery\<close>

lemma send_request:
  "send net req w = (w', req', r) \<Longrightarrow> \<exists>n. req' = req\<lparr>hr_Body := drop n (hr_Body req)\<rparr>"
  by (auto simp: send_def client_Do_def split: prod.splits)

lemma send_Inr:
  assumes "send net req w = (w', req', Inr ())"
  shows "length (hr_Body req) = hr_ContentLength req \<and> (\<exists>n r. net req w = (w', n, Inr r) \<and> rs_StatusCode r = 200)"
  using assms
  by (auto simp: send_def client_Do_def res_simps split: prod.splits if_splits)

lemma send_attempts_Inr:
  assumes "send_attempts net k (req\<lparr>hr_Body := drop m (hr_Body req)\<rparr>) w = (w', Inr ())"
    and "hr_ContentLength req = length (hr_Body req)"
  shows "\<exists>v n r. net req v = (w', n, Inr r) \<and> rs_StatusCode r = 200"
  using assms(1)
proof (induction k arbitrary: m w)
  case (Suc k)
  let ?req = "req\<lparr>hr_Body := drop m (hr_Body req)\<rparr>"
  obtain w1 req1 r where s: "send net ?req w = (w1, req1, r)" by (metis prod.exhaust)
  obtain n where req1: "req1 = req\<lparr>hr_Body := drop (n + m) (hr_Body req)\<rparr>"
    using send_request [OF s] by (auto simp: add.commute)
  show ?case
  proof (cases r)
    case (Inl e)
    with Suc.prems s obtain msg where "e = Err msg" by (cases e) auto
    with Inl Suc.prems s req1 have "send_attempts net k (req\<lparr>hr_Body := drop (n + m) (hr_Body req)\<rparr>) w1 = (w', Inr ())" by simp
    then show ?thesis by (rule Suc.IH)
  next
    case (Inr u)
    with Suc.prems s have "send net ?req w = (w', req1, Inr ())" by simp
    from send_Inr [OF this] have full: "length (drop m (hr_Body req)) = length (hr_Body req)"
      and ok: "\<exists>n r. net ?req w = (w', n, Inr r) \<and> rs_StatusCode r = 200" using assms(2) by auto
    from full have "drop m (hr_Body req) = hr_Body req" by (cases "m = 0"; cases "hr_Body req") auto
    then have "?req = req" by simp
    with ok show ?thesis by auto
  qed
qed simp

interpretation webhook: notificator "webhook_Publish valid_uri marshal net s" "webhook_acked marshal net s"
  for valid_uri marshal net s
proof
  fix p w w' assume "webhook_Publish valid_uri marshal net s p w = (w', Inr ())"
  then obtain jsonData where j: "marshal p = Inr jsonData"
    and "send_attempts net 3 (webhook_request s jsonData) w = (w', Inr ())"
    by (auto simp: webhook_Publish_def split: sum.splits if_splits)
  then have "send_attempts net 3 ((webhook_request s jsonData)\<lparr>hr_Body := drop 0 (hr_Body (webhook_request s jsonData))\<rparr>) w = (w', Inr ())"
    by simp
  then have "\<exists>v n r. net (webhook_request s jsonData) v = (w', n, Inr r) \<and> rs_StatusCode r = 200"
    by (rule send_attempts_Inr) (simp add: webhook_request_def)
  with j show "webhook_acked marshal net s p w'" by (auto simp: webhook_acked_def)
qed

interpretation queue: notificator "queue_Publish marshal api c" "queue_acked marshal api c" for marshal api c
  by unfold_locales (auto simp: queue_Publish_def queue_acked_def split: if_splits sum.splits)

lemma send_attempts_short:
  assumes "length (hr_Body req) < hr_ContentLength req"
  shows "snd (send_attempts net k req w) \<noteq> Inr ()"
  using assms
proof (induction k arbitrary: req w)
  case (Suc k)
  obtain w1 req1 r where s: "send net req w = (w1, req1, r)" by (metis prod.exhaust)
  have req1: "length (hr_Body req1) < hr_ContentLength req1" using send_request [OF s] Suc.prems by auto
  show ?case
  proof (cases r)
    case (Inl e)
    with s Suc.IH [OF req1] show ?thesis by (cases e) auto
  next
    case (Inr u)
    with s have "send net req w = (w1, req1, Inr ())" by simp
    from send_Inr [OF this] Suc.prems show ?thesis by simp
  qed
qed simp

text \<open>C34: a failed webhook is not really repeated. If the first of the three attempts fails after the
  network has read any of the body, \<open>Publish\<close> fails, whatever the endpoint would have answered to
  the other two: they carry what is left of the body and are refused for their length.\<close>

theorem webhook_not_repeated:
  assumes "marshal p = Inr jsonData" and "jsonData \<noteq> []" and "net (webhook_request s jsonData) w = (w1, n, r)" and "0 < n"
    and "\<forall>resp. r = Inr resp \<longrightarrow> rs_StatusCode resp \<noteq> 200"
  shows "snd (webhook_Publish valid_uri marshal net s p w) \<noteq> Inr ()"
proof (cases "valid_uri (wh_uri s)")
  case True
  let ?req = "webhook_request s jsonData"
  have CL: "hr_ContentLength ?req = length (hr_Body ?req)" "hr_Body ?req = jsonData" by (simp_all add: webhook_request_def)
  have fails: "snd (snd (send net ?req w)) \<noteq> Inr ()"
    using assms(3,5) CL by (cases r) (auto simp: send_def client_Do_def wrap_err_def split: go_error.splits if_splits)
  obtain r1 where s1: "send net ?req w = (w1, ?req\<lparr>hr_Body := drop n jsonData\<rparr>, r1)"
    using assms(3) CL by (simp add: send_def client_Do_def)
  have "snd (send_attempts net 2 (?req\<lparr>hr_Body := drop n jsonData\<rparr>) w1) \<noteq> Inr ()"
    by (rule send_attempts_short) (use assms(2,4) CL in simp)
  then have "snd (send_attempts net 3 ?req w) \<noteq> Inr ()"
    using fails s1 by (cases r1; cases "projl r1") (auto simp: numeral_3_eq_3 numeral_2_eq_2)
  with True assms(1) show ?thesis by (simp add: webhook_Publish_def)
qed (use assms(1) in \<open>simp add: webhook_Publish_def\<close>)

subsection \<open>Blocks and notifications\<close>

lemma for_each_io_Inr:
  assumes "for_each_io f xs w = (w', Inr ())" and "x \<in> set xs"
  shows "\<exists>v v'. f x v = (v', Inr ())"
  using assms by (induction xs arbitrary: w) (auto split: prod.splits sum.splits)

lemma pushNotification_Inr:
  assumes "pushNotification lib cfg s addr amount t from wc comment v = (v', Inr ())" and "bs_addressBook s = Some ab"
    and "n \<in> set (bs_notificators s)"
  shows "\<exists>u u'. n (income_notification lib cfg (known_owner ab addr) addr amount t from wc comment) u = (u', Inr ())"
  using assms for_each_io_Inr [of "\<lambda>n. n (income_notification lib cfg (known_owner ab addr) addr amount t from wc comment)"]
  by (auto simp: pushNotification_def known_owner_def Let_def split: sum.splits)

lemma pushNotifications_Inr:
  assumes "pushNotifications lib cfg s e w = (w', Inr ())" and "bs_addressBook s = Some ab"
    and "n \<in> set (bs_notificators s)" and "nf \<in> set (due_notifications lib cfg ab e)"
  shows "\<exists>u u'. n nf u = (u', Inr ())"
proof -
  have some: "bs_notificators s \<noteq> []" using assms(3) by auto
  show ?thesis
  proof (cases "cfg_IsDepositSideCalculation cfg")
    case True
    with assms(4) obtain ei where ei: "ei \<in> set (ExternalIncomes (be_Events e))"
      "nf = income_notification lib cfg (known_owner ab (ei_To ei)) (ei_To ei) (ei_Amount ei) (ei_Utime ei)
               (ei_From ei) (ei_FromWorkchain ei) (ei_Comment ei)" by (auto simp: due_notifications_def)
    have "for_each_io (\<lambda>ei. pushNotification lib cfg s (ei_To ei) (ei_Amount ei) (ei_Utime ei)
               (ei_From ei) (ei_FromWorkchain ei) (ei_Comment ei)) (ExternalIncomes (be_Events e)) w = (w', Inr ())"
      using assms(1) some True by (simp add: pushNotifications_def)
    from for_each_io_Inr [OF this ei(1)] show ?thesis
      using pushNotification_Inr [OF _ assms(2,3)] ei(2) by blast
  next
    case False
    with assms(4) obtain ii where ii: "ii \<in> set (InternalIncomes (be_Events e))"
      "nf = income_notification lib cfg (known_owner ab (ii_From ii)) (ii_From ii) (ii_Amount ii) (ii_Utime ii) None None []"
      by (auto simp: due_notifications_def)
    have "for_each_io (\<lambda>ii. pushNotification lib cfg s (ii_From ii) (ii_Amount ii) (ii_Utime ii) None None [])
        (InternalIncomes (be_Events e)) w = (w', Inr ())"
      using assms(1) some False by (simp add: pushNotifications_def)
    from for_each_io_Inr [OF this ii(1)] show ?thesis
      using pushNotification_Inr [OF _ assms(2,3)] ii(2) by blast
  qed
qed

lemma processBlock_saved:
  assumes "processBlock lib cfg sch rng beginErr commitErr s block w d = ((w', d'), r)" and "d' \<noteq> d"
  obtains e where "be_Block e = block" and "pushNotifications lib cfg s e w = (w', Inr ())"
    and "SaveParsedBlockData lib sch beginErr commitErr e d = (d', r)"
  using assms by (elim processBlock_cases) (auto intro: that)

lemma NewAmqpClient_Inr:
  "NewAmqpClient api uri True queueName w = (w', Inr c) \<Longrightarrow> c = \<lparr>aq_exchange = queueName, aq_enabled = True\<rparr>"
  by (auto simp: NewAmqpClient_def declareExchange_def split: prod.splits sum.splits)

lemma make_notificators_Inr:
  assumes "make_notificators valid_uri marshal net api queueURI qEnabled queueName endpoint token w0 = (w1, Inr ns)"
  shows "endpoint \<noteq> [] \<Longrightarrow> webhook_Publish valid_uri marshal net \<lparr>wh_uri = endpoint, wh_token = token\<rparr> \<in> set ns"
    and "qEnabled \<Longrightarrow> queue_Publish marshal api \<lparr>aq_exchange = queueName, aq_enabled = True\<rparr> \<in> set ns"
  using assms
  by (auto simp: make_notificators_def NewWebhookClient_def fatal_on_def ebind_Inr_iff
      split: prod.splits sum.splits if_splits go_error.splits dest: NewAmqpClient_Inr)

text \<open>C33: no income is credited silently. With the notificators that \<open>main\<close> builds, whenever processing a
  block changes the database, the events saved are those of that block, and for each income due
  for notification the webhook endpoint, if one is configured, has answered 200 to the complete
  notification, and the exchange, if the queue is enabled, has taken it over.\<close>

theorem saved_incomes_notified:
  assumes "make_notificators valid_uri marshal net api queueURI qEnabled queueName endpoint token w0 = (w1, Inr (bs_notificators s))"
    and "bs_addressBook s = Some ab"
    and "processBlock lib cfg sch rng beginErr commitErr s block w d = ((w', d'), r)" and "d' \<noteq> d"
  shows "\<exists>e. be_Block e = block \<and> SaveParsedBlockData lib sch beginErr commitErr e d = (d', r)
    \<and> (\<forall>nf \<in> set (due_notifications lib cfg ab e).
        (endpoint \<noteq> [] \<longrightarrow> (\<exists>v. webhook_acked marshal net \<lparr>wh_uri = endpoint, wh_token = token\<rparr> nf v))
      \<and> (qEnabled \<longrightarrow> (\<exists>v. queue_acked marshal api \<lparr>aq_exchange = queueName, aq_enabled = True\<rparr> nf v)))"
proof (rule processBlock_saved [OF assms(3,4)])
  fix e assume e: "be_Block e = block" "pushNotifications lib cfg s e w = (w', Inr ())"
    "SaveParsedBlockData lib sch beginErr commitErr e d = (d', r)"
  note made = make_notificators_Inr [OF assms(1)]
  show ?thesis
    using e pushNotifications_Inr [OF e(2) assms(2)] made webhook.delivered queue.delivered by metis
qed

subsection \<open>Witnesses\<close>

theorem webhook_not_repeated_witness:
  "snd (webhook_Publish (\<lambda>_. True) Inr sample_net \<lparr>wh_uri = ''u'', wh_token = []\<rparr> ''{}'' 0) \<noteq> Inr ()"
  by (rule webhook_not_repeated [where jsonData = "''{}''"]) (auto simp: sample_net_def webhook_request_def)

lemma sample_filtered:
  "filterTXs sample_notifier (\<lambda>ks. ks) sample_block_id [\<lparr>ti_Account = sample_addr 1, ti_LT = 60\<rparr>] =
     Inr [sample_txs 1 TonDepositWallet (sample_tx (Some (MsgInternal (sample_msg 9 1))) [])]"
  by (simp add: filterTXs_def collect_tx_def sample_notifier_def AddressFromBytes_def sample_ab_type append_tx_def put_assoc_def sample_txs_def)
    (simp add: sample_addr_def)

lemma sample_processed:
  "\<exists>inc. processTXs sample_lib (\<lambda>ks. ks) sample_notifier [sample_txs 1 TonDepositWallet (sample_tx (Some (MsgInternal (sample_msg 9 1))) [])]
     sample_block = Inr \<lparr>be_Events = no_events\<lparr>ExternalIncomes := [inc]\<rparr>, be_Block = sample_block\<rparr> \<and> ei_Lt inc = 60 \<and> ei_To inc = sample_addr 1"
  by (simp add: processTXs_def account_txs_def sample_notifier_def sample_txs_def processTonDepositWalletTXs_def
        ton_deposit_tx_def sample_tx_def processTonDepositWalletInternalInMsg_def sample_msg_def sample_ab_type)
    (auto simp: no_events_def)

lemma sample_hook_ok: "0 < w \<Longrightarrow> sample_hook nf w = (Suc w, Inr ())"
  by (simp add: sample_hook_def webhook_Publish_def numeral_3_eq_3 send_def client_Do_def sample_net_def webhook_request_def wrap_err_def)

theorem saved_incomes_notified_witness:
  "\<exists>e d'. be_Block e = sample_block \<and> SaveParsedBlockData sample_lib query_schema None None e sample_database = (d', Inr ()) \<and> d' \<noteq> sample_database"
proof -
  obtain inc where e: "processTXs sample_lib (\<lambda>ks. ks) sample_notifier [sample_txs 1 TonDepositWallet (sample_tx (Some (MsgInternal (sample_msg 9 1))) [])]
     sample_block = Inr \<lparr>be_Events = no_events\<lparr>ExternalIncomes := [inc]\<rparr>, be_Block = sample_block\<rparr>" and inc: "ei_Lt inc = 60" "ei_To inc = sample_addr 1"
    using sample_processed by blast
  let ?e = "\<lparr>be_Events = no_events\<lparr>ExternalIncomes := [inc]\<rparr>, be_Block = sample_block\<rparr>"
  have push: "pushNotifications sample_lib sample_config sample_notifier ?e 5 = (6, Inr ())"
    using inc by (simp add: pushNotifications_def pushNotification_def sample_notifier_def sample_config_def sample_hook_ok
        GetOwner_def ab_get_def sample_ab_def)
  have save: "\<exists>d'. SaveParsedBlockData sample_lib query_schema None None ?e sample_database = (d', Inr ()) \<and> d' \<noteq> sample_database"
    using inc by (simp add: SaveParsedBlockData_def RunInTx_def save_events_def SaveExternalIncome_def bigint_def
        SaveBlock_def sample_block_def sample_block_id_def insert_block_def insert_unique_def sample_database_def empty_database_def)
  then obtain d' where d': "SaveParsedBlockData sample_lib query_schema None None ?e sample_database = (d', Inr ())" "d' \<noteq> sample_database" by blast
  have ids: "sb_BlockIDExt sample_block = Some sample_block_id"
    "bs_GetTransactionIDsFromBlock sample_notifier sample_block_id = Inr [\<lparr>ti_Account = sample_addr 1, ti_LT = 60\<rparr>]"
    by (simp_all add: sample_block_def sample_notifier_def)
  have run: "processBlock sample_lib sample_config query_schema (\<lambda>ks. ks) None None sample_notifier sample_block 5 sample_database = ((6, d'), Inr ())"
    by (simp add: processBlock_def block_events_def ids sample_filtered e push d'(1))
  have made: "make_notificators (\<lambda>_. True) (\<lambda>n. Inr (nf_Amount n @ ''0'')) sample_net sample_amqp [] False [] ''u'' [] 0 = (0, Inr (bs_notificators sample_notifier))"
    by (simp add: make_notificators_def NewWebhookClient_def fatal_on_def sample_notifier_def sample_hook_def)
  have "bs_addressBook sample_notifier = Some sample_ab" by (simp add: sample_notifier_def)
  from saved_incomes_notified [OF made this run d'(2)] d'(2) show ?thesis by blast
qed

end
