(* ===== verification/Processor.thy ===== *)
theory Processor
  imports Handlers Notificators
begin

text \<open>
  \<open>cmd/processor/main.go\<close>: the start of the service. What \<open>main\<close> does before the services run is
  one operation on the outside world and the database: it loads the configuration, connects to the
  lite servers and the database, reads the last saved block, initialises the wallets, and creates
  the notificators and the services. Connecting is code of other packages: a connection is a call
  on the outside world that is given as an argument.
\<close>

record ('c, 'w) connections =
  cn_liteclient :: "config \<Rightarrow> ('w, ('c, 'w) APIClient) io"
  cn_connect :: "config \<Rightarrow> ('w, unit) io"
  cn_ping :: "('w, unit) io"
  cn_pool :: "config \<Rightarrow> ('w, unit) io"
  cn_pool_ping :: "('w, unit) io"

text \<open>What \<open>main\<close> hands to the services it starts.\<close>

record ('c, 'w, 'p) services =
  sv_tracker :: ShardTracker
  sv_wallets :: "('c, 'w) wallets"
  sv_notificators :: "('p \<Rightarrow> 'w \<Rightarrow> 'w \<times> unit result) list"
  sv_coldWallet :: "tonaddr option"
  sv_handler :: "('c, 'w) Handler"

text \<open>\<open>if err != nil { log.Fatalf(msg) }\<close> after a call.\<close>

definition or_fatal :: "string \<Rightarrow> ('w, 'a) io \<Rightarrow> ('w, 'a) io" where
  "or_fatal msg m w = map_option (\<lambda>(w', r). (w', fatal_on msg r)) (m w)"

definition connect_all :: "'c tonlib \<Rightarrow> 'd declib \<Rightarrow> config result \<Rightarrow> ('c, 'w) connections
    \<Rightarrow> ('w, config \<times> ('c, 'w) APIClient) io" where
  "connect_all lib dec env cn =
     io_bind (io_lift (GetConfig lib dec env)) (\<lambda>cfg.
     io_bind (or_fatal ''connection err'' (cn_liteclient cn cfg)) (\<lambda>tonApi.
     io_bind (or_fatal ''blockchain connection error'' (NewConnection tonApi)) (\<lambda>bcClient.
     io_bind (or_fatal ''DB connection error'' (cn_connect cn cfg)) (\<lambda>_.
     io_bind (or_fatal ''failed to ping db'' (cn_ping cn)) (\<lambda>_.
     io_bind (or_fatal ''DB connection error'' (cn_pool cn cfg)) (\<lambda>_.
     io_bind (or_fatal ''failed to ping db'' (cn_pool_ping cn)) (\<lambda>_.
     io_lift (Inr (cfg, bcClient)))))))))"

text \<open>\<open>startBlock, err := repo.GetLastSavedBlock(ctx)\<close>: only \<open>ErrNotFound\<close> is let through, with a nil block.\<close>

definition load_start_block :: "ShardBlockHeader result \<Rightarrow> ShardBlockHeader option result" where
  "load_start_block r = (case r of
       Inr b \<Rightarrow> Inr (Some b)
     | Inl (Err e) \<Rightarrow> if Err e = ErrNotFound then Inr None else Inl (Fatal ''Get last saved block error'')
     | Inl e \<Rightarrow> Inl e)"

text \<open>\<open>wallets, err := wallet.InitWallets(...)\<close>: the error is not looked at and leaves nil wallets.\<close>

definition ignore_err :: "('s, 'a) io \<Rightarrow> ('s, 'a option) io" where
  "ignore_err m s = map_option (\<lambda>(s', r). (s', case r of Inr x \<Rightarrow> Inr (Some x) | Inl (Err _) \<Rightarrow> Inr None | Inl e \<Rightarrow> Inl e)) (m s)"

text \<open>The start block is dereferenced twice, here and by the first turn of the tracker; both are
  taken together.\<close>

definition startup :: "'c tonlib \<Rightarrow> 'd declib \<Rightarrow> config result \<Rightarrow> ('c, 'w) connections \<Rightarrow> ('c, 'w) wallet_api
    \<Rightarrow> (string \<Rightarrow> bool) \<Rightarrow> ('p \<Rightarrow> string result) \<Rightarrow> 'w network \<Rightarrow> 'w amqp_api \<Rightarrow> ('w \<times> database, ('c, 'w, 'p) services) io" where
  "startup lib dec env cn api valid_uri marshal net amqp =
     io_bind (on_world (connect_all lib dec env cn)) (\<lambda>(cfg, bcClient).
     io_bind (io_bind (read_db GetLastSavedBlock) (\<lambda>r. io_lift (load_start_block r))) (\<lambda>startBlock.
     io_bind (ignore_err (InitWallets api cfg (connection bcClient) (cfg_Seed cfg) (cfg_Jettons cfg) (cfg_DefaultWalletVersion cfg))) (\<lambda>wallets.
     io_bind (on_world (\<lambda>w. Some (make_notificators valid_uri marshal net amqp (cfg_QueueURI cfg) (cfg_QueueEnabled cfg) (cfg_QueueName cfg)
       (cfg_WebhookEndpoint cfg) (cfg_WebhookToken cfg) w))) (\<lambda>notificators.
     io_bind (io_lift (deref wallets)) (\<lambda>ws.
     io_bind (io_lift (ebind (deref startBlock) (\<lambda>b. deref (sb_BlockIDExt b)))) (\<lambda>b.
     io_lift (Inr \<lparr>sv_tracker = NewShardTracker (wl_shard ws) b, sv_wallets = ws, sv_notificators = notificators,
       sv_coldWallet = cfg_ColdWallet cfg, sv_handler = NewHandler\<rparr>)))))))"

definition sample_connections :: "(tcell, nat) connections" where
  "sample_connections = \<lparr>cn_liteclient = (\<lambda>_. io_lift (Inr (sample_api []))), cn_connect = (\<lambda>_. io_lift (Inr ())),
     cn_ping = io_lift (Inr ()), cn_pool = (\<lambda>_. io_lift (Inr ())), cn_pool_ping = io_lift (Inr ())\<rparr>"

subsection \<open>Configuration\<close>

lemma sample_GetConfig:
  "\<exists>cfg. GetConfig sample_lib sample_dec (Inr sample_env) = Inr cfg \<and> cfg_ColdWallet cfg \<noteq> None"
  by (simp add: GetConfig_def sample_env_def sample_config_def parseJettonString_def parseTonString_def sample_dec_def
      sample_lib_def sample_tonaddr_def)

text \<open>An accepted configuration is safe to start with. Every currency is configured once, the
  lower bound of the TON hot wallet is not above the upper, and a cold wallet, if there is one, is
  a standard address that is not a testnet address on the main net.\<close>

lemma config_safe:
  assumes "GetConfig lib dec (Inr env) = Inr cfg" and "cfg_ColdWallet env = None" and "decimal_ok dec"
  shows "distinct (map fst (cfg_Jettons cfg)) \<and> c_HotWalletMin (cfg_Ton cfg) \<le> c_HotWalletMax (cfg_Ton cfg)
    \<and> (\<forall>a. cfg_ColdWallet cfg = Some a \<longrightarrow> ta_type a = StdAddress \<and> (ta_testnet a \<longrightarrow> cfg_Testnet cfg))"
proof (rule GetConfig_steps [OF assms(1)], intro conjI)
qed (use assms(2,3) parseJettonString_distinct parseTonString_ordered in auto)

end
