(* ===== verification/Effects.thy ===== *)
theory Effects
  imports Payments Handlers "HOL-Library.Sublist"
begin

text \<open>
  What the processors and the HTTP handlers do to the database, as relations between the database
  before and after. Each writes only through a few statements of the repositories, so a reflexive
  and transitive relation that holds for these statements holds for every turn of a processor and
  for every request that is served. The relation is instantiated three times: the constraints of
  the schema are kept, the saved blocks are left alone, and the change is a sequence of steps of the
  payment protocol of \<open>Payments\<close>.
\<close>

text \<open>Every run of \<open>m\<close> that ends relates the databases \<open>db\<close> of its first and its last state.\<close>

definition io_in :: "(database \<Rightarrow> database \<Rightarrow> bool) \<Rightarrow> ('s \<Rightarrow> database) \<Rightarrow> ('s, 'a) io \<Rightarrow> bool" where
  "io_in R db m \<longleftrightarrow> (\<forall>s s' r. m s = Some (s', r) \<longrightarrow> R (db s) (db s'))"

definition wf_kept :: "database \<Rightarrow> database \<Rightarrow> bool" where
  "wf_kept d d' \<longleftrightarrow> (wf_database d \<longrightarrow> wf_database d')"

definition same_blocks :: "database \<Rightarrow> database \<Rightarrow> bool" where
  "same_blocks d d' \<longleftrightarrow> block_data d' = block_data d"

text \<open>The payment protocol between two databases with no task picked and the messages \<open>seen\<close> seen.\<close>

definition pay_idle :: "database \<Rightarrow> UUID set \<Rightarrow> pay_state" where
  "pay_idle d seen = \<lparr>ps_db = d, ps_pending = [], ps_seen = seen\<rparr>"

definition pay_path :: "'c tonlib \<Rightarrow> schema \<Rightarrow> UUID set \<Rightarrow> database \<Rightarrow> database \<Rightarrow> bool" where
  "pay_path lib sch seen d d' \<longleftrightarrow> (pay_step lib sch)\<^sup>*\<^sup>* (pay_idle d seen) (pay_idle d' seen)"

lemma io_inD: "io_in R db m \<Longrightarrow> m s = Some (s', r) \<Longrightarrow> R (db s) (db s')"
  by (simp add: io_in_def)

subsection \<open>Sequences of statements\<close>

locale db_relation =
  fixes R :: "database \<Rightarrow> database \<Rightarrow> bool"
  assumes refl [simp, intro]: "R d d"
    and trans [trans]: "R d d1 \<Longrightarrow> R d1 d2 \<Longrightarrow> R d d2"
begin

lemma io_lift [simp]: "io_in R db (io_lift r)"
  by (simp add: io_in_def)

lemma io_world [simp]: "io_in R snd (on_world m)"
  by (auto simp: io_in_def on_world_def)

lemma io_read [simp]: "io_in R snd (read_db f)"
  by (simp add: io_in_def read_db_def)

lemma io_db: "(\<And>d d'. f d = Inr d' \<Longrightarrow> R d d') \<Longrightarrow> io_in R snd (on_db f)"
  by (auto simp: io_in_def on_db_def split: sum.splits)

lemma io_bind [intro!]:
  assumes m: "io_in R db m" and f: "\<And>x s s'. m s = Some (s', Inr x) \<Longrightarrow> io_in R db (f x)"
  shows "io_in R db (io_bind m f)"
  unfolding io_in_def
proof (intro allI impI)
  fix s s' r assume "io_bind m f s = Some (s', r)"
  then obtain s1 q where s1: "m s = Some (s1, q)"
    and rest: "case q of Inl e \<Rightarrow> s' = s1 | Inr x \<Rightarrow> f x s1 = Some (s', r)"
    by (auto simp: io_bind_def split: option.splits sum.splits)
  have "R (db s) (db s1)" by (rule io_inD [OF m s1])
  also have "R (db s1) (db s')" using rest io_inD [OF f [of s s1]] s1 by (cases q) auto
  finally show "R (db s) (db s')" .
qed

lemma io_if_err [intro!]:
  assumes m: "io_in R db m" and h: "\<And>e. io_in R db (h e)" and f: "\<And>x. io_in R db (f x)"
  shows "io_in R db (if_err m h f)"
  unfolding io_in_def
proof (intro allI impI)
  fix s s' r assume "if_err m h f s = Some (s', r)"
  then obtain s1 q where s1: "m s = Some (s1, q)"
    and rest: "case q of Inr x \<Rightarrow> f x s1 = Some (s', r) | Inl (Err e) \<Rightarrow> h e s1 = Some (s', r) | Inl e \<Rightarrow> s' = s1"
    by (auto simp: if_err_def split: option.splits sum.splits go_error.splits)
  have "R (db s) (db s1)" by (rule io_inD [OF m s1])
  also have "R (db s1) (db s')" using rest io_inD [OF h] io_inD [OF f] by (auto split: sum.splits go_error.splits)
  finally show "R (db s) (db s')" .
qed

lemma io_respond [simp]: "io_in R (snd \<circ> snd) (respond g)"
  by (simp add: io_in_def respond_def)

lemma io_state: "io_in R snd m \<Longrightarrow> io_in R (snd \<circ> snd) (on_state m)"
  by (auto simp: io_in_def on_state_def)

lemma io_answers [simp]:
  "io_in R (snd \<circ> snd) (writeOK b)" "io_in R (snd \<circ> snd) (writeHttpError st msg)" "io_in R (snd \<circ> snd) (fail st msg e)"
  by (auto simp: writeOK_def writeHttpError_def fail_def)

lemma all_for_each_io:
  assumes "\<And>x d. R d (fst (f x d))"
  shows "R d (fst (for_each_io f xs d))"
proof (induction xs arbitrary: d)
  case (Cons x xs)
  have "R d (fst (f x d))" by (rule assms)
  also have "R (fst (f x d)) (fst (for_each_io f (x # xs) d))"
    using Cons by (auto split: prod.split sum.split)
  finally show ?case .
qed simp

end

subsection \<open>Processors\<close>

lemma external_loop_batch:
  assumes "external_loop lib p ts (b, w) = Inr (b', w')"
  shows "\<exists>es. ws_External w' = ws_External w @ es \<and> subseq es ts"
  using assms
proof (induction ts arbitrary: b w)
  case (Cons t ts)
  from Cons.prems consider "w' = w" | "external_loop lib p ts (b, w) = Inr (b', w')"
    | b1 msg where "external_loop lib p ts (b1, w\<lparr>ws_Messages := ws_Messages w @ [msg], ws_External := ws_External w @ [t]\<rparr>) = Inr (b', w')"
    by (auto simp: ebind_Inr_iff split: if_splits)
  then show ?case
  proof cases
    case 3
    with Cons.IH obtain es where "ws_External w' = (ws_External w @ [t]) @ es" "subseq es ts" by force
    then show ?thesis by (intro exI [of _ "t # es"]) simp
  qed (use Cons.IH [of b w] in auto)
qed simp

text \<open>The payments of a hot-wallet message were open on the database that is left, one per destination.\<close>

lemma built_batch:
  assumes "buildWithdrawalMessages lib cfg sch p now d = (d', Inr w)"
  shows "\<exists>ts. GetExternalWithdrawalTasks sch 250 d' = Inr ts \<and> set (ws_External w) \<subseteq> set ts \<and> distinct (map et_Destination (ws_External w))"
proof -
  obtain b0 b1 used w1 b2 w2 ts b3 where s: "getHotWalletBalances p = Inr b0"
    "service_loop lib p now (GetServiceHotWithdrawalTasks 250 d) (b0, [], no_withdrawals) d = (d', Inr (b1, used, w1))"
    "internal_loop lib cfg p (GetJettonInternalWithdrawalTasks used 250 d') (b1, w1) = Inr (b2, w2)"
    and ts: "GetExternalWithdrawalTasks sch 250 d' = Inr ts" and e: "external_loop lib p ts (b2, w2) = Inr (b3, w)"
    by (rule buildWithdrawalMessages_steps [OF assms])
  have any: "within Map.empty b v" for b and v :: "'a withdrawals" by (simp add: within_def)
  have "counted w1 \<and> length (ws_Messages w1) \<le> 251 \<and> ws_External w1 = []"
    using service_loop_keeps [OF s(2) any] service_tasks_limit [of 250 d] by (simp add: no_withdrawals_def counted_def)
  then have "ws_External w2 = []" using internal_loop_keeps [OF s(3) any] by simp
  then have "subseq (ws_External w) ts" using external_loop_batch [OF e] by auto
  moreover have "distinct (map et_Destination ts)" by (rule external_tasks_distinct [OF ts])
  ultimately show ?thesis using ts by (auto simp: subseq_conv_nths nths_map [symmetric] distinct_nthsI dest: in_set_nthsD)
qed

text \<open>The statements the processors write through. A batch is recorded on the database it was
  picked from: other goroutines may run in between, but then the picking and the recording are
  steps of their own in \<open>Payments\<close>.\<close>

locale processor_db = db_relation R for R +
  fixes sch :: schema
  assumes request: "wf_address (wr_Destination w) \<Longrightarrow> R d (fst (CreateWithdrawalRequest sch w d))"
    and service: "R d (UpdateServiceWithdrawalRequest st m expiredAt filled d)"
    and batch: "GetExternalWithdrawalTasks sch n d = Inr ts \<Longrightarrow> set xs \<subseteq> set ts \<Longrightarrow> distinct (map et_Destination xs)
      \<Longrightarrow> CreateExternalWithdrawals sch xs u expiredAt d = Inr d' \<Longrightarrow> R d d'"
    and sweep: "SaveInternalWithdrawalTask t expiredAt memo d = Inr d' \<Longrightarrow> R d d'"
    and expire: "R d (fst (SetExpired sch beginErr commitErr now now' d))"
begin

text \<open>Each operation, as a step from the database \<open>d\<close> to \<open>d'\<close>.\<close>

lemma fst_in: "R d (fst x) \<Longrightarrow> x = (d', r) \<Longrightarrow> R d d'"
  by simp

lemma cold_request_dest [simp]: "wr_Destination (cold_request cur amount bounceable dest q) = dest"
  by (simp add: cold_request_def)

lemma save_cold_request_in: "wf_address (wr_Destination req) \<Longrightarrow> save_cold_request sch req d = (d', r) \<Longrightarrow> R d d'"
  using request [of req d] by (auto simp: save_cold_request_def split: prod.splits sum.splits)

lemma cold_loop_in: "wf_address dest \<Longrightarrow> cold_loop lib cfg sch p dest jws ton d = (d', r) \<Longrightarrow> R d d'"
proof (induction jws arbitrary: ton d)
  case (Cons cj jws)
  obtain cur jw where cj: "cj = (cur, jw)" by force
  from Cons.prems(2) consider "d' = d" | t where "cold_loop lib cfg sch p dest jws t d = (d', r)"
    | req r1 where "save_cold_request sch req d = (d', r1)" "wr_Destination req = dest"
    | req d1 r1 t where "save_cold_request sch req d = (d1, r1)" "wr_Destination req = dest" "cold_loop lib cfg sch p dest jws t d1 = (d', r)"
    by (auto simp: cj ebind_Inr_iff split: sum.splits option.splits prod.splits if_splits)
  then show ?case
  proof cases
    case 4
    then show ?thesis using Cons.IH [OF Cons.prems(1)] Cons.prems(1) save_cold_request_in trans by metis
  qed (use Cons.prems(1) in \<open>auto intro: Cons.IH save_cold_request_in\<close>)
qed simp

lemma makeColdWalletWithdrawals_in:
  assumes "makeColdWalletWithdrawals lib cfg sch p d = (d', r)"
  shows "R d d'"
proof -
  from assms consider "d' = d"
    | dest t q where "wf_address dest" "cold_loop lib cfg sch p dest (wp_JettonHotWallets p) t d = (d', q)"
    | dest t d1 q req where "wf_address dest" "cold_loop lib cfg sch p dest (wp_JettonHotWallets p) t d = (d1, q)"
        "save_cold_request sch req d1 = (d', r)" "wr_Destination req = dest"
    by (auto simp: makeColdWalletWithdrawals_def ebind_Inr_iff AddressMust_Inr_iff AddressFromTonutilsAddress_Inr_iff
        split: sum.splits option.splits prod.splits if_splits)
  then show ?thesis
  proof cases
    case 3
    then show ?thesis using cold_loop_in save_cold_request_in trans by metis
  qed (auto intro: cold_loop_in)
qed

lemma service_loop_in: "service_loop lib p now ts s d = (d', r) \<Longrightarrow> R d d'"
proof (induction ts arbitrary: s d)
  case (Cons t ts)
  obtain b used res where s: "s = (b, used, res)" by (cases s)
  from Cons.prems consider "d' = d" | s1 where "service_loop lib p now ts s1 d = (d', r)"
    | st m f s1 where "service_loop lib p now ts s1 (UpdateServiceWithdrawalRequest st m now f d) = (d', r)"
    by (auto simp: s split: sum.splits option.splits prod.splits bool.splits)
  then show ?case
  proof cases
    case 3
    then show ?thesis using Cons.IH service trans by blast
  qed (auto intro: Cons.IH)
qed simp

lemma buildWithdrawalMessages_in:
  assumes "buildWithdrawalMessages lib cfg sch p now d = (d', r)"
  shows "R d d'"
  using assms by (auto simp: buildWithdrawalMessages_def split: sum.splits prod.splits intro: service_loop_in)

lemma save_services_in: "R d (save_services ttl sws d)"
proof (induction sws arbitrary: d)
  case (Cons sw sws)
  then show ?case using service trans by (simp add: save_services_def) blast
qed (simp add: save_services_def)

lemma save_internals_in: "R d (fst (for_each_io (save_internal ttl) iws d))"
  by (rule all_for_each_io) (auto simp: save_internal_def intro: sweep split: sum.split)

lemma record_and_send_in:
  assumes "record_and_send lib sch p w d = ((d', m), r)"
    and "GetExternalWithdrawalTasks sch n d = Inr ts" and "set (ws_External w) \<subseteq> set ts" and "distinct (map et_Destination (ws_External w))"
  shows "R d d'"
proof -
  from assms(1) consider "d' = d"
    | u e d1 q where "CreateExternalWithdrawals sch (ws_External w) u e d = Inr d1"
        "for_each_io (save_internal e) (ws_Internal w) (save_services e (ws_Service w) d1) = (d', q)"
    by (auto simp: record_and_send_def ebind_Inr_iff fatal_on_Inr_iff split: sum.splits prod.splits)
  then show ?thesis
  proof cases
    case (2 u e d1 q)
    have "R d d1" by (rule batch [OF assms(2-4) 2(1)])
    also have "R d1 (save_services e (ws_Service w) d1)" by (rule save_services_in)
    also have "R (save_services e (ws_Service w) d1) d'" by (rule fst_in [OF save_internals_in 2(2)])
    finally show ?thesis .
  qed simp
qed

lemma withdrawals_round_in:
  assumes "withdrawals_round lib cfg sch p now d = ((d', m), r)"
  shows "R d d'"
proof -
  obtain d1 q1 where cold: "makeColdWalletWithdrawals lib cfg sch p d = (d1, q1)" by force
  obtain d2 q2 where build: "buildWithdrawalMessages lib cfg sch p now d1 = (d2, q2)" by force
  from assms cold build consider "d' = d1" | "d' = d2"
    | w where "q2 = Inr w" "record_and_send lib sch p w d2 = ((d', m), r)"
    by (auto simp: withdrawals_round_def split: sum.splits if_splits)
  then show ?thesis
  proof cases
    case (3 w)
    obtain ts where "GetExternalWithdrawalTasks sch 250 d2 = Inr ts" "set (ws_External w) \<subseteq> set ts"
      "distinct (map et_Destination (ws_External w))" using built_batch [of lib cfg sch p now d1 d2 w] build 3(1) by blast
    then have "R d2 d'" by (rule record_and_send_in [OF 3(2)])
    then show ?thesis using makeColdWalletWithdrawals_in [OF cold] buildWithdrawalMessages_in [OF build] trans by blast
  qed (use makeColdWalletWithdrawals_in [OF cold] buildWithdrawalMessages_in [OF build] trans in blast)+
qed

lemma serviceWithdrawJettons_in: "R d (fst (serviceWithdrawJettons lib p now task d))"
  using service by (auto simp: serviceWithdrawJettons_def split: sum.split option.split)

lemma withdrawTONsFromDeposit_in: "R d (fst (withdrawTONsFromDeposit lib cfg p now task d))"
  by (auto simp: withdrawTONsFromDeposit_def ebind_Inr_iff split: sum.splits option.splits if_splits intro: sweep)

lemma logged_in: "(\<And>x d. R d (fst (f x d))) \<Longrightarrow> R d (fst (for_each_io (logged f) xs d))"
  by (rule all_for_each_io) (simp add: logged_def split: prod.split, metis fst_conv)

lemma internal_ton_round_in: "R d (fst (internal_ton_round lib cfg p now d))"
proof -
  obtain d1 q where first: "for_each_io (logged (serviceWithdrawJettons lib p now)) (GetServiceDepositWithdrawalTasks 5 d) d = (d1, q)" by force
  have "R d d1" by (rule fst_in [OF logged_in first]) (rule serviceWithdrawJettons_in)
  moreover have "R d1 (fst (for_each_io (logged (withdrawTONsFromDeposit lib cfg p now)) ts d1))" for ts
    by (rule logged_in) (rule withdrawTONsFromDeposit_in)
  ultimately show ?thesis using first trans by (auto simp: internal_ton_round_def split: sum.split)
qed

lemma expiration_round_in: "R d (fst (expiration_round sch beginErr commitErr now now' d))"
  using expire [of d beginErr commitErr now now'] by (simp add: expiration_round_def split: prod.split) (metis fst_conv)

end

subsection \<open>Requests\<close>

lemma ParseAddress_wf: "ParseAddress lib cfg addr = Inr a \<Longrightarrow> wf_address a"
  by (auto simp: ParseAddress_def ebind_Inr_iff AddressFromTonutilsAddress_Inr_iff split: if_splits)

lemma converted_wf:
  "convertTonServiceWithdrawal lib cfg u body = Inr sr \<Longrightarrow> wf_address (sr_From sr) \<and> pred_option wf_address (sr_JettonMaster sr)"
  "convertJettonServiceWithdrawal lib cfg u body' = Inr sr \<Longrightarrow> wf_address (sr_From sr) \<and> pred_option wf_address (sr_JettonMaster sr)"
  by (auto simp: convertTonServiceWithdrawal_def convertJettonServiceWithdrawal_def ebind_Inr_iff wrap_err_Inr_iff dest!: ParseAddress_wf)
    (auto simp: ebind_Inr_iff wrap_err_Inr_iff split: option.splits if_splits dest!: ParseAddress_wf)

text \<open>The statements the HTTP handlers write through.\<close>

locale api_db = db_relation R for R +
  assumes service_request: "CreateServiceWithdrawalRequest memo sr d = Inr d' \<Longrightarrow> wf_address (sr_From sr)
      \<Longrightarrow> pred_option wf_address (sr_JettonMaster sr) \<Longrightarrow> R d d'"
    and ton_address: "SaveTonWallet wd d = Inr d' \<Longrightarrow> wf_address (wd_Address wd) \<Longrightarrow> R d d'"
    and jetton_address: "SaveJettonWallet ow wd notSaveOwner d = Inr d' \<Longrightarrow> wf_address ow \<Longrightarrow> wf_address (wd_Address wd) \<Longrightarrow> R d d'"
begin

lemma CreateAddress_in: "io_in R snd (CreateAddress lib api cfg u userID currency)"
  by (auto simp: CreateAddress_def createTonAddress_def createJettonAddress_def AddressFromTonutilsAddress_Inr_iff split: option.split
      intro!: io_db dest!: ton_address jetton_address)

lemma service_requests_in:
  "io_in R snd (on_db (CreateServiceTonWithdrawal lib cfg u memo body))"
  "io_in R snd (on_db (CreateServiceJettonWithdrawal lib cfg u memo body'))"
  by (auto simp: CreateServiceTonWithdrawal_def CreateServiceJettonWithdrawal_def ebind_Inr_iff intro!: io_db
      dest!: converted_wf dest: service_request)

lemma createWithdrawal_in: "io_in R (snd \<circ> snd) (createWithdrawal lib cfg req)"
proof -
  have "d' = snd (snd s)" if "createWithdrawal lib cfg req s = Some ((w, v, d'), r)" for s w v d' r
    using that by (auto simp: createWithdrawal_def if_err_def CreateWithdrawal_def fail_def writeHttpError_def writeOK_def respond_def
        io_bind_def Let_def split: sum.splits go_error.splits)
  then show ?thesis by (force simp: io_in_def)
qed

lemma route_in:
  assumes "(route, h) \<in> set (Register lib api cfg sch memo now hs)"
  shows "io_in R (snd \<circ> snd) (h req)"
proof -
  from assms consider "h = createAddress lib api cfg hs" | "h = getAddresses lib cfg hs" | "h = createWithdrawal lib cfg"
    | "h = serviceTonWithdrawal lib cfg memo hs" | "h = serviceJettonWithdrawal lib cfg memo hs" | "h = getWithdrawalStatus sch hs"
    | "h = getSync now hs" | "h = getIncome_handler lib cfg hs" | "h = getIncomeHistory lib cfg hs"
    by (auto simp: Register_def)
  then show ?thesis
  proof cases
    case 3
    then show ?thesis by (simp add: createWithdrawal_in)
  qed (auto simp: createAddress_def getAddresses_def serviceTonWithdrawal_def serviceJettonWithdrawal_def getWithdrawalStatus_def
      getSync_def getIncome_handler_def getIncomeHistory_def intro!: io_state CreateAddress_in service_requests_in)
qed

lemma served_in:
  assumes "(route, h) \<in> set (Register lib api cfg sch memo now hs)"
  shows "io_in R (snd \<circ> snd) (serve cfg h req)"
proof -
  have auth: "io_in R (snd \<circ> snd) (AuthMiddleware cfg h req)" using route_in [OF assms] by (simp add: AuthMiddleware_def)
  have "io_in R (snd \<circ> snd) (RecoverMiddleware (AuthMiddleware cfg h) req)"
    unfolding io_in_def
  proof (intro allI impI)
    fix s s' r assume "RecoverMiddleware (AuthMiddleware cfg h) req s = Some (s', r)"
    then obtain s1 q where "AuthMiddleware cfg h req s = Some (s1, q)" "snd s' = snd s1"
      by (auto simp: RecoverMiddleware_def split: option.splits sum.splits go_error.splits)
    then show "R ((snd \<circ> snd) s) ((snd \<circ> snd) s')" using io_inD [OF auth] by simp
  qed
  then show ?thesis by (auto simp: serve_def HeadersMiddleware_def)
qed

end

locale service_db = processor_db R sch + api_db R for R sch

subsection \<open>The three relations\<close>

interpretation wf_db: service_db wf_kept sch for sch
  by unfold_locales (auto simp: wf_kept_def intro: wf_CreateWithdrawalRequest wf_UpdateServiceWithdrawalRequest wf_CreateExternalWithdrawals
      wf_SaveInternalWithdrawalTask wf_SetExpired wf_CreateServiceWithdrawalRequest wf_SaveTonWallet wf_SaveJettonWallet)

lemma CreateWithdrawalRequest_blocks: "block_data (fst (CreateWithdrawalRequest sch w d)) = block_data d"
  by (auto simp: CreateWithdrawalRequest_def Let_def split: sum.split)

lemma expire_external_blocks: "expire_external sch now d = Inr d' \<Longrightarrow> block_data d' = block_data d"
  by (auto simp: expire_external_def dest!: for_each_set_processing)

lemma SetExpired_blocks: "block_data (fst (SetExpired sch beginErr commitErr now now' d)) = block_data d"
  by (auto simp: SetExpired_def Let_def expire_internal_def split: option.split sum.split dest!: expire_external_blocks)

interpretation blocks_db: service_db same_blocks sch for sch
  by unfold_locales (auto simp: same_blocks_def CreateWithdrawalRequest_blocks SetExpired_blocks UpdateServiceWithdrawalRequest_def
      SaveInternalWithdrawalTask_def CreateServiceWithdrawalRequest_def SaveTonWallet_def SaveJettonWallet_def res_simps
      dest!: CreateExternalWithdrawals_Inr split: if_splits)

text \<open>A batch is two steps of the payment protocol, each other statement is one.\<close>

lemma pay_idle_simps [simp]:
  "ps_db (pay_idle d seen) = d" "ps_pending (pay_idle d seen) = []" "ps_seen (pay_idle d seen) = seen"
  "(pay_idle d seen)\<lparr>ps_db := d'\<rparr> = pay_idle d' seen" "(pay_idle d seen)\<lparr>ps_pending := []\<rparr> = pay_idle d seen"
  by (simp_all add: pay_idle_def)

lemmas pay_idle_steps =
  pay_step.request [of lib sch "pay_idle d seen" for lib sch d seen, simplified]
  pay_step.expire [of lib sch "pay_idle d seen" for lib sch d seen, simplified]
  pay_step.service [of lib sch "pay_idle d seen" for lib sch d seen, simplified]
  pay_step.sweep [of _ _ _ "pay_idle d seen" for d seen, simplified]
  pay_step.service_request [of _ _ "pay_idle d seen" for d seen, simplified]
  pay_step.ton_address [of _ "pay_idle d seen" for d seen, simplified]
  pay_step.jetton_address [of _ _ _ "pay_idle d seen" for d seen, simplified]

lemma pay_path_step: "pay_step lib sch (pay_idle d seen) (pay_idle d' seen) \<Longrightarrow> pay_path lib sch seen d d'"
  by (simp add: pay_path_def)

lemma pay_path_batch:
  assumes "GetExternalWithdrawalTasks sch n d = Inr ts" and "set xs \<subseteq> set ts" and "distinct (map et_Destination xs)"
    and "CreateExternalWithdrawals sch xs u expiredAt d = Inr d'"
  shows "pay_path lib sch seen d d'"
proof -
  have "pay_step lib sch (pay_idle d seen) ((pay_idle d seen)\<lparr>ps_pending := xs\<rparr>)"
    by (rule pay_step.select [OF _ _ assms(2,3)]) (use assms(1) in simp_all)
  moreover have "pay_step lib sch ((pay_idle d seen)\<lparr>ps_pending := xs\<rparr>) (pay_idle d' seen)"
    using pay_step.record_batch [of sch "(pay_idle d seen)\<lparr>ps_pending := xs\<rparr>" u expiredAt d' lib] assms(4)
    by (simp add: pay_idle_def)
  ultimately show ?thesis by (simp add: pay_path_def)
qed

interpretation pay_db: service_db "pay_path lib sch seen" sch for lib sch seen
proof
  fix d d1 d2 assume "pay_path lib sch seen d d1" "pay_path lib sch seen d1 d2"
  then show "pay_path lib sch seen d d2" unfolding pay_path_def by (rule rtranclp_trans)
qed (auto simp: pay_path_def [of _ _ _ d d for d] intro: pay_path_step pay_idle_steps pay_path_batch)

end
