(* ===== verification/Typing.thy ===== *)
theory Typing
  imports Effects
begin

text \<open>
  Addresses are \<open>[32]byte\<close> arrays in the code and byte lists in the model: what Go's types say of
  every address that the scanner reports and of every address in the tables is stated here as an
  invariant and shown of the scanner, the processors and the handlers. The conversions from the
  addresses of tonutils are the only way in; each checks the kind and the length of an address.
\<close>

definition typed_events :: "Events \<Rightarrow> bool" where
  "typed_events e \<longleftrightarrow> (\<forall>i \<in> set (ExternalIncomes e). wf_address (ei_To i))
     \<and> (\<forall>i \<in> set (InternalIncomes e). wf_address (ii_From i) \<and> wf_address (ii_To i))
     \<and> (\<forall>c \<in> set (SendingConfirmations e). wf_address (sc_From c))
     \<and> (\<forall>w \<in> set (InternalWithdrawals e). wf_address (iw_From w))
     \<and> (\<forall>w \<in> set (ExternalWithdrawals e). wf_address (ew_To w))"

text \<open>Every address of the tables but those of \<open>internal_withdrawals\<close>, which are copied from the
  incomes.\<close>

definition stored_addresses :: "database \<Rightarrow> Address set" where
  "stored_addresses d = tw_address ` set (ton_wallets d) \<union> jt_address ` set (jetton_wallets d)
     \<union> ni_deposit_address ` set (internal_incomes d) \<union> xi_deposit_address ` set (external_incomes d)
     \<union> xw_address ` set (external_withdrawals d) \<union> rq_dest_address ` set (withdrawal_requests d)
     \<union> sv_from_address ` set (service_withdrawal_requests d)
     \<union> (\<Union>m \<in> sv_jetton_master ` set (service_withdrawal_requests d). set_option m)"

definition typed_database :: "database \<Rightarrow> bool" where
  "typed_database d \<longleftrightarrow> (\<forall>a \<in> stored_addresses d. wf_address a)"

definition types_kept :: "database \<Rightarrow> database \<Rightarrow> bool" where
  "types_kept d d' \<longleftrightarrow> (typed_database d \<longrightarrow> typed_database d')"

subsection \<open>Events\<close>

lemma typed_no_events [simp]: "typed_events no_events"
  by (simp add: typed_events_def)

lemma typed_Append [simp]: "typed_events (Append e f) \<longleftrightarrow> typed_events e \<and> typed_events f"
  by (auto simp: typed_events_def)

lemmas typed_simps = AddressFromTonutilsAddress_Inr_iff ebind_Inr_iff wrap_err_Inr_iff

lemma proxy_msg_typed: "processTonHotWalletProxyMsg lib ab msg = Inr e \<Longrightarrow> typed_events e"
  by (auto simp: processTonHotWalletProxyMsg_def typed_simps split: if_splits) (auto simp: typed_events_def)

interpretation hot_out_typed: kept_by "\<lambda>(e, out). typed_events e" "\<lambda>_. True" "hot_out_msg lib ab u" for lib ab u
proof
  fix s m s' assume inv: "case s of (e, out) \<Rightarrow> typed_events e" and step: "hot_out_msg lib ab u m s = Inr s'"
  obtain e out where s: "s = (e, out)" by force
  from inv have "typed_events e" by (simp add: s)
  with step show "case s' of (e, out) \<Rightarrow> typed_events e"
    by (auto simp: s hot_out_msg_def typed_simps dest!: proxy_msg_typed split: Message.splits)
      (auto simp: typed_simps typed_events_def dest!: proxy_msg_typed split: option.splits WalletType.splits)
qed

lemma parse_ext_typed:
  "parse_ext_messages lib ms as = Inr (Some bs) \<Longrightarrow> (\<forall>a \<in> set as. wf_address a) \<Longrightarrow> a \<in> set bs \<Longrightarrow> wf_address a"
proof (induction ms arbitrary: as)
  case (Cons m ms)
  from Cons.prems(1) obtain a r where "(case AddressFromTonutilsAddress a of Inl _ \<Rightarrow> Inr None
       | Inr addr \<Rightarrow> if addr \<in> set as then Inr None else parse_ext_messages lib ms (as @ [addr])) = Inr (Some bs)"
    by (auto simp: ebind_Inr_iff)
  then obtain b where "parse_ext_messages lib ms (as @ [b]) = Inr (Some bs)" "wf_address b"
    by (auto simp: AddressFromTonutilsAddress_Inr_iff split: sum.splits if_splits)
  with Cons show ?case by auto
qed auto

lemma hot_external_typed:
  assumes "processTonHotWalletExternalInMsg lib ab rng m tx = Inr e" and "any_order rng"
  shows "typed_events e"
proof -
  from assms(1) obtain u ins ms ev out where p: "parseExternalMessage lib (Some m) = Inr (Some (u, ins))"
    and l: "for_each (hot_out_msg lib ab u) ms (no_events, []) = Inr (ev, out)"
    and e: "e = ev\<lparr>ExternalWithdrawals := ExternalWithdrawals ev @ failedWithdrawals ab (rng ins) out u\<rparr>"
    by (auto simp: processTonHotWalletExternalInMsg_def ebind_Inr_iff split: option.splits)
  have "wf_address a" if "a \<in> set ins" for a
    using p that by (auto simp: parseExternalMessage_def ebind_Inr_iff dest: parse_ext_typed)
  moreover have "typed_events ev" using hot_out_typed.for_each_kept [OF _ _ l] by simp
  ultimately show ?thesis using any_order_set [OF assms(2)]
    by (auto simp: e typed_events_def failedWithdrawals_def)
qed

lemma hot_internal_typed:
  assumes "processTonHotWalletInternalInMsg lib ab m tx = Inr e"
  shows "typed_events e"
proof -
  from assms obtain src dst where a: "AddressFromTonutilsAddress (im_SrcAddr m) = Inr src" "AddressFromTonutilsAddress (im_DstAddr m) = Inr dst"
    by (auto simp: processTonHotWalletInternalInMsg_def ebind_Inr_iff)
  then have wf: "wf_address src" "wf_address dst" by (auto simp: AddressFromTonutilsAddress_Inr_iff)
  note run = assms [unfolded processTonHotWalletInternalInMsg_def a, simplified]
  show ?thesis
  proof (cases "GetWalletType ab src")
    case None
    with run show ?thesis by (auto simp: typed_events_def split: sum.splits)
  next
    case (Some t)
    show ?thesis
    proof (cases "t = JettonHotWallet \<and> (\<exists>n. decodeJettonTransferNotification lib (Some m) = Inr n)")
      case True
      then obtain n where "t = JettonHotWallet" "decodeJettonTransferNotification lib (Some m) = Inr n" by blast
      with run Some obtain sender where "AddressFromTonutilsAddress (jn_Sender n) = Inr sender"
        and "e = no_events \<or> e = no_events\<lparr>InternalIncomes := [\<lparr>ii_Utime = im_CreatedAt m, ii_Lt = im_CreatedLT m, ii_From = sender,
          ii_To = src, ii_Amount = jn_Amount n, ii_Memo = jn_Comment n, ii_IsFailed = False\<rparr>]\<rparr>"
        by (auto simp: ebind_Inr_iff split: if_split_asm)
      then show ?thesis using wf by (auto simp: AddressFromTonutilsAddress_Inr_iff typed_events_def)
    next
      case False
      then have "e = no_events \<or> (\<exists>i. ii_From i = src \<and> ii_To i = dst \<and> e = no_events\<lparr>InternalIncomes := [i]\<rparr>)"
        using run Some by (cases t) (force split: sum.splits)+
      then show ?thesis using wf by (auto simp: typed_events_def)
    qed
  qed
qed

interpretation hot_tx_typed: kept_by typed_events "\<lambda>_. any_order rng" "hot_wallet_tx lib ab rng" for lib ab rng
  by unfold_locales (auto simp: hot_wallet_tx_def ebind_Inr_iff split: option.splits Message.splits
      dest: hot_external_typed hot_internal_typed)

interpretation deposit_out_typed: kept_by typed_events "\<lambda>_. wf_address dst" "deposit_out_msg lib ab dst" for lib ab dst
  by unfold_locales (auto simp: deposit_out_msg_def typed_events_def split: Message.splits if_splits)

lemma deposit_external_typed: "processTonDepositWalletExternalInMsg lib ab m tx = Inr e \<Longrightarrow> typed_events e"
  by (auto simp: processTonDepositWalletExternalInMsg_def typed_simps intro: deposit_out_typed.for_each_kept [OF typed_no_events])

lemma deposit_internal_typed: "processTonDepositWalletInternalInMsg lib ab m = Inr e \<Longrightarrow> typed_events e"
  by (auto simp: processTonDepositWalletInternalInMsg_def typed_simps split: if_splits) (auto simp: typed_events_def)

interpretation deposit_tx_typed: kept_by typed_events "\<lambda>_. True" "ton_deposit_tx lib ab" for lib ab
  by unfold_locales (auto simp: ton_deposit_tx_def ebind_Inr_iff split: option.splits Message.splits if_splits
      dest: deposit_external_typed deposit_internal_typed)

interpretation jetton_out_typed: kept_by "\<lambda>(e, k, b). typed_events e" "\<lambda>_. True" "jetton_out_msg lib ab" for lib ab
proof
  fix s m s' assume inv: "case s of (e, k, b) \<Rightarrow> typed_events e" and step: "jetton_out_msg lib ab m s = Inr s'"
  obtain e k b e' k' b' where s: "s = (e, k, b)" and s': "s' = (e', k', b')" by (metis prod_cases3)
  with inv step jetton_out_msg_Inr [of lib ab m e k b e' k' b'] show "case s' of (e, k, b) \<Rightarrow> typed_events e"
    by (auto simp: typed_events_def)
qed

lemma jetton_in_typed: "processJettonDepositInMsg lib ab tx = Inr (e, k, b) \<Longrightarrow> typed_events e"
  by (auto simp: processJettonDepositInMsg_def typed_simps split: option.splits Message.splits)
    (auto simp: typed_simps typed_events_def Let_def split: sum.splits if_splits)

lemma jetton_outs_typed: "processJettonDepositOutMsgs lib ab tx = Inr (e, k, b) \<Longrightarrow> typed_events e"
  by (auto simp: processJettonDepositOutMsgs_def ebind_Inr_iff dest!: jetton_out_typed.for_each_kept [rotated 2])

interpretation jetton_tx_typed: kept_by "\<lambda>(e, k, w, u). typed_events e" "\<lambda>_. True" "jetton_deposit_tx lib ab" for lib ab
proof
  fix s tx s' assume inv: "case s of (e, k, w, u) \<Rightarrow> typed_events e" and step: "jetton_deposit_tx lib ab tx s = Inr s'"
  obtain e k w u where s: "s = (e, k, w, u)" by (metis prod_cases4)
  from step inv show "case s' of (e, k, w, u) \<Rightarrow> typed_events e"
    by (auto simp: s elim!: jetton_deposit_tx_Inr dest: jetton_in_typed jetton_outs_typed)
qed

lemma unknown_to: "i \<in> set (convertUnknownJettonTxs txs a n) \<Longrightarrow> ei_To i = a"
  by (auto simp: convertUnknownJettonTxs_def unknown_income_def split: list.splits)

lemma jetton_deposit_typed:
  assumes "processJettonDepositWalletTXs lib ab bal txs b p = Inr e" and "wf_address (tr_Address txs)"
  shows "typed_events e"
proof -
  from assms(1) obtain ev k w u where l: "for_each (jetton_deposit_tx lib ab) (tr_Transactions txs) (no_events, 0, 0, []) = Inr (ev, k, w, u)"
    and e: "e = ev \<or> (\<exists>n. e = ev\<lparr>ExternalIncomes := ExternalIncomes ev @ convertUnknownJettonTxs u (tr_Address txs) n\<rparr>)"
    by (auto simp: processJettonDepositWalletTXs_def ebind_Inr_iff split: if_splits)
  have "typed_events ev" using jetton_tx_typed.for_each_kept [OF _ _ l] by simp
  then show ?thesis using e assms(2)
    by (auto simp: typed_events_def unknown_to)
qed

lemma account_typed:
  assumes "account_txs lib rng s block t = Inr e" and "any_order rng" and "wf_address (tr_Address t)"
  shows "typed_events e"
proof -
  obtain ab where "bs_addressBook s = Some ab" using assms(1) by (auto simp: account_txs_def ebind_Inr_iff deref_Inr_iff)
  with assms show ?thesis
    by (cases "tr_WalletType t") (auto simp: account_txs_def processTonHotWalletTXs_def processTonDepositWalletTXs_def
      intro: jetton_deposit_typed hot_tx_typed.for_each_kept [OF typed_no_events] deposit_tx_typed.for_each_kept [OF typed_no_events])
qed

interpretation accounts_typed: kept_by typed_events "\<lambda>t. any_order rng \<and> wf_address (tr_Address t)"
  "\<lambda>t events. ebind (account_txs lib rng s block t) (\<lambda>e. Inr (Append events e))" for lib rng s block
  by unfold_locales (auto simp: ebind_Inr_iff dest: account_typed)

interpretation collect_typed: kept_by "\<lambda>m. \<forall>a \<in> set (map fst m). wf_address a" "\<lambda>_. True" "collect_tx s b" for s b
  by unfold_locales (auto simp: collect_tx_def append_tx_def AddressFromBytes_Inr_iff ebind_Inr_iff put_assoc_def split: if_splits)

lemma map_result_in: "map_result f xs = Inr ys \<Longrightarrow> y \<in> set ys \<Longrightarrow> \<exists>x \<in> set xs. f x = Inr y"
  by (induction xs arbitrary: ys) (auto simp: ebind_Inr_iff)

lemma filterTXs_typed:
  assumes "filterTXs s rng b ids = Inr ts" and "any_order rng" and "t \<in> set ts"
  shows "wf_address (tr_Address t)"
proof -
  from assms(1) obtain m where m: "for_each (collect_tx s b) ids [] = Inr m"
    and ts: "map_result (\<lambda>a. ebind (deref (bs_addressBook s)) (\<lambda>ab. Inr \<lparr>tr_Address = a,
      tr_WalletType = (case GetWalletType ab a of None \<Rightarrow> TonHotWallet | Some t \<Rightarrow> t),
      tr_Transactions = (case map_of m a of None \<Rightarrow> [] | Some txs \<Rightarrow> txs)\<rparr>)) (rng (map fst m)) = Inr ts"
    by (auto simp: filterTXs_def ebind_Inr_iff)
  have "tr_Address t \<in> set (rng (map fst m))" using map_result_in [OF ts assms(3)] by (auto simp: ebind_Inr_iff)
  moreover have "\<forall>a \<in> set (map fst m). wf_address a"
    by (rule collect_typed.for_each_kept [OF _ _ m]) simp_all
  ultimately show ?thesis using any_order_set [OF assms(2)] by blast
qed

lemma block_events_typed:
  assumes "block_events lib rng s block = Inr e" and "any_order rng"
  shows "typed_events (be_Events e)"
proof -
  from assms(1) obtain b ids ts ev where f: "filterTXs s rng b ids = Inr ts"
    and l: "for_each (\<lambda>t events. ebind (account_txs lib rng s block t) (\<lambda>e. Inr (Append events e))) ts no_events = Inr ev"
    and e: "e = \<lparr>be_Events = ev, be_Block = block\<rparr>"
    by (auto simp: block_events_def processTXs_def ebind_Inr_iff)
  have "typed_events ev"
    by (rule accounts_typed.for_each_kept [OF typed_no_events _ l]) (use filterTXs_typed [OF f assms(2)] assms(2) in blast)
  then show ?thesis by (simp add: e)
qed

subsection \<open>Tables\<close>

lemma typed_grow:
  assumes "stored_addresses d' \<subseteq> stored_addresses d \<union> A" and "\<And>a. a \<in> A \<Longrightarrow> wf_address a" and "typed_database d"
  shows "typed_database d'"
  using assms by (auto simp: typed_database_def)

lemma typed_same: "typed_database d \<Longrightarrow> stored_addresses d' = stored_addresses d \<Longrightarrow> typed_database d'"
  by (simp add: typed_database_def)

lemma update_where_image [simp]: "(\<And>r. f (g r) = f r) \<Longrightarrow> f ` set (update_where P g rs) = f ` set rs"
proof -
  assume "\<And>r. f (g r) = f r"
  then have "map f (update_where P g rs) = map f rs" by (simp add: map_update_where)
  then show ?thesis by (metis list.set_map)
qed

text \<open>The statements of a block.\<close>

interpretation SaveExternalIncome_typed: kept_by typed_database "\<lambda>i. wf_address (ei_To i)" SaveExternalIncome
  by unfold_locales (auto simp: SaveExternalIncome_def res_simps typed_database_def stored_addresses_def)

interpretation SaveInternalIncome_typed: kept_by typed_database "\<lambda>i. wf_address (ii_From i)" "SaveInternalIncome lib" for lib
  by unfold_locales (auto simp: SaveInternalIncome_def res_simps typed_database_def stored_addresses_def
      insert_internal_income_def insert_unique_Inr_iff)

interpretation ApplySendingConfirmations_typed: kept_by typed_database "\<lambda>_. True" "ApplySendingConfirmations lib" for lib
  by unfold_locales (auto simp: ApplySendingConfirmations_def res_simps typed_database_def stored_addresses_def)

interpretation UpdateInternalWithdrawal_typed: kept_by typed_database "\<lambda>_. True" "UpdateInternalWithdrawal lib" for lib
  by unfold_locales (erule UpdateInternalWithdrawal_Inr, simp add: typed_database_def stored_addresses_def)

interpretation UpdateExternalWithdrawal_typed: kept_by typed_database "\<lambda>_. True" "UpdateExternalWithdrawal sch" for sch
  by unfold_locales (erule UpdateExternalWithdrawal_Inr; simp add: typed_database_def stored_addresses_def)

interpretation ApplyJettonWithdrawalConfirmation_typed: kept_by typed_database "\<lambda>_. True" ApplyJettonWithdrawalConfirmation
proof
  fix d c d' assume "typed_database d" and "ApplyJettonWithdrawalConfirmation c d = Inr d'"
  then show "typed_database d'"
    by (clarsimp simp: ApplyJettonWithdrawalConfirmation_def ebind_Inr_iff) (erule typed_same, simp add: stored_addresses_def)
qed

interpretation SaveBlock_typed: kept_by typed_database "\<lambda>_. True" SaveBlock
  by unfold_locales (auto simp: SaveBlock_def res_simps typed_database_def stored_addresses_def)

interpretation typed_block: block_kept typed_database "\<lambda>i. wf_address (ei_To i)" "\<lambda>i. wf_address (ii_From i)" "\<lambda>_. True" lib sch for lib sch
  by unfold_locales

text \<open>The statements of the processors and the handlers.\<close>

lemma CreateWithdrawalRequest_typed:
  "wf_address (wr_Destination w) \<Longrightarrow> typed_database d \<Longrightarrow> typed_database (fst (CreateWithdrawalRequest sch w d))"
  by (auto simp: CreateWithdrawalRequest_def Let_def typed_database_def stored_addresses_def insert_withdrawal_request_def
      insert_unique_Inr_iff ebind_Inr_iff request_row_def split: sum.splits)

lemma batch_typed:
  assumes "GetExternalWithdrawalTasks sch n d = Inr ts" and "set xs \<subseteq> set ts" and "CreateExternalWithdrawals sch xs u expiredAt d = Inr d'"
    and "typed_database d"
  shows "typed_database d'"
proof (rule typed_grow [OF _ _ assms(4)])
  show "stored_addresses d' \<subseteq> stored_addresses d \<union> et_Destination ` set xs"
    unfolding CreateExternalWithdrawals_Inr [OF assms(3)] by (auto simp: stored_addresses_def sent_row_def)
  fix a assume "a \<in> et_Destination ` set xs"
  then obtain r where "r \<in> set (withdrawal_requests d)" "a = rq_dest_address r"
    using external_tasks_open [OF assms(1)] assms(2) by (force simp: task_of_request_def)
  then show "wf_address a" using assms(4) by (auto simp: typed_database_def stored_addresses_def)
qed

lemma SetExpired_typed: "typed_database d \<Longrightarrow> typed_database (fst (SetExpired sch beginErr commitErr now now' d))"
proof -
  assume d: "typed_database d"
  have "typed_database (expire_internal now d)" using d by (rule typed_same) (simp add: expire_internal_def stored_addresses_def)
  moreover have "typed_database d2" if "expire_external sch now' d1 = Inr d2" "typed_database d1" for d1 d2
  proof -
    have "stored_addresses d2 = stored_addresses d1"
      unfolding for_each_set_processing [OF that(1) [unfolded expire_external_def]] by (simp add: stored_addresses_def)
    with that(2) show ?thesis by (rule typed_same)
  qed
  ultimately show ?thesis by (auto simp: SetExpired_def Let_def split: option.split sum.split)
qed

interpretation typed_db: service_db types_kept sch for sch
proof
  fix d and w :: WithdrawalRequest assume "wf_address (wr_Destination w)"
  then show "types_kept d (fst (CreateWithdrawalRequest sch w d))" by (simp add: types_kept_def CreateWithdrawalRequest_typed)
next
  fix d st m expiredAt filled show "types_kept d (UpdateServiceWithdrawalRequest st m expiredAt filled d)"
    unfolding types_kept_def by (auto elim!: typed_same simp: UpdateServiceWithdrawalRequest_def stored_addresses_def)
next
  fix t expiredAt memo d d' assume "SaveInternalWithdrawalTask t expiredAt memo d = Inr d'"
  then show "types_kept d d'" unfolding types_kept_def by (auto elim!: typed_same simp: SaveInternalWithdrawalTask_def ebind_Inr_iff stored_addresses_def)
next
  fix d memo sr d' assume "CreateServiceWithdrawalRequest memo sr d = Inr d'" "wf_address (sr_From sr)" "pred_option wf_address (sr_JettonMaster sr)"
  then have "stored_addresses d' \<subseteq> stored_addresses d \<union> ({sr_From sr} \<union> set_option (sr_JettonMaster sr))"
    by (auto simp: stored_addresses_def CreateServiceWithdrawalRequest_def insert_service_withdrawal_def insert_unique_Inr_iff ebind_Inr_iff)
  moreover have "wf_address a" if "a \<in> {sr_From sr} \<union> set_option (sr_JettonMaster sr)" for a
    using that \<open>wf_address (sr_From sr)\<close> \<open>pred_option wf_address (sr_JettonMaster sr)\<close> by (auto simp: pred_option_def)
  ultimately show "types_kept d d'" unfolding types_kept_def by (blast intro: typed_grow)
next
  fix d d' wd assume "SaveTonWallet wd d = Inr d'" "wf_address (wd_Address wd)"
  moreover from this(1) have "stored_addresses d' \<subseteq> stored_addresses d \<union> {wd_Address wd}"
    by (auto simp: stored_addresses_def SaveTonWallet_def insert_ton_wallet_def insert_unique_Inr_iff ebind_Inr_iff)
  ultimately show "types_kept d d'" unfolding types_kept_def by (blast intro: typed_grow)
next
  fix d d' ow wd b assume "SaveJettonWallet ow wd b d = Inr d'" "wf_address ow" "wf_address (wd_Address wd)"
  moreover from this(1) have "stored_addresses d' \<subseteq> stored_addresses d \<union> {ow, wd_Address wd}"
    by (auto simp: stored_addresses_def SaveJettonWallet_def insert_ton_wallet_def insert_jetton_wallet_def insert_unique_Inr_iff ebind_Inr_iff
        split: if_splits)
  ultimately show "types_kept d d'" unfolding types_kept_def by (blast intro: typed_grow)
qed (auto simp: types_kept_def intro: batch_typed SetExpired_typed)

subsection \<open>A block\<close>

lemma processBlock_typed:
  assumes "processBlock lib cfg sch rng beginErr commitErr s block w d = ((w', d'), r)" and "any_order rng" and "typed_database d"
  shows "typed_database d'"
  using assms(1)
proof (cases rule: processBlock_cases)
  case failed
  then show ?thesis using assms(3) by simp
next
  case (saved e)
  have typed: "typed_events (be_Events e)" by (rule block_events_typed [OF saved(1) assms(2)])
  have "typed_database d''" if "save_events lib sch e d = Inr d''" for d''
    by (rule typed_block.save_events_kept [OF assms(3) _ _ _ that]) (use typed in \<open>auto simp: typed_events_def\<close>)
  then show ?thesis using saved(4) assms(3)
    by (auto simp: SaveParsedBlockData_def RunInTx_def split: option.splits sum.splits)
qed

end
