(* ===== verification/Lifecycle.thy ===== *)
theory Lifecycle
  imports Typing ShardTracker
begin

text \<open>
  The running service: the goroutines that \<open>main\<close> starts and how they interact. The tracker hands
  block headers to the scanner over an unbuffered channel, three processors take turns on the
  database, the HTTP server answers requests, and a goroutine waits for a signal, upon which it
  cancels the context of the scanner, closes the channel and sets the flag that stops the processors
  (\<open>cmd/processor/main.go\<close>, \<open>Start\<close> and \<open>Stop\<close> of the three services). A turn of a processor,
  the processing of a block and the serving of a request are one step each; that the statements of
  a turn may interleave with those of others is in \<open>Payments\<close>. A panic or an exit in any goroutine
  ends the process.
\<close>

text \<open>What the goroutines are started with. The repository's \<open>GetLastSavedBlock\<close> is an argument here.\<close>

record ('c, 'w) deployment =
  dp_lib :: "'c tonlib"
  dp_cfg :: config
  dp_schema :: schema
  dp_scanner :: "('c, 'w) BlockScanner"
  dp_processor :: "'c WithdrawalsProcessor"
  dp_wallet_api :: "('c, 'w) wallet_api"
  dp_handler :: "('c, 'w) Handler"
  dp_GetLastSavedBlock :: "database \<Rightarrow> ShardBlockHeader result"

datatype tracker_pc = TrackerTop | Walking BlockIDExt "BlockIDExt option" | Sending BlockIDExt ShardBlockHeader

datatype scanner_pc = Receiving | Scanning ShardBlockHeader | ScannerStopped

text \<open>A processor waits in \<open>waitSync\<close>, then looks at the flag, then takes its turn.\<close>

datatype processor_pc = Waiting | Synced | Turn | ProcessorStopped

datatype handler_pc = AwaitingSignal | Cancelled | ChannelClosed | Finished

datatype processor = ExternalProcessor | InternalTonProcessor | ExpirationProcessor

datatype thread = TrackerThread | ScannerThread | SignalThread | ServerThread | ProcessorThread processor

text \<open>The shared state, where each goroutine is, and the error that ended the process. Three fields
  only record what happened: the headers handed over, those whose processing returned an error or
  whose commit failed, and the ids of the hot-wallet messages in the blocks that were saved.\<close>

record 'w run_state =
  rs_world :: 'w
  rs_db :: database
  rs_tracker :: ShardTracker
  rs_ctxDone :: bool
  rs_chanClosed :: bool
  rs_gracefulShutdown :: bool
  rs_tracker_pc :: tracker_pc
  rs_scanner_pc :: scanner_pc
  rs_processor_pc :: "processor \<Rightarrow> processor_pc"
  rs_handler_pc :: handler_pc
  rs_crash :: "go_error option"
  rs_handed :: "ShardBlockHeader list"
  rs_failed :: "ShardBlockHeader list"
  rs_seen :: "UUID set"

definition run_init :: "'w \<Rightarrow> database \<Rightarrow> ShardTracker \<Rightarrow> UUID set \<Rightarrow> 'w run_state" where
  "run_init w d t seen = \<lparr>rs_world = w, rs_db = d, rs_tracker = t, rs_ctxDone = False, rs_chanClosed = False,
     rs_gracefulShutdown = False, rs_tracker_pc = TrackerTop, rs_scanner_pc = Receiving,
     rs_processor_pc = (\<lambda>_. Waiting), rs_handler_pc = AwaitingSignal, rs_crash = None, rs_handed = [], rs_failed = [], rs_seen = seen\<rparr>"

text \<open>An error returned by a step that its goroutine only logs, or the end of the process.\<close>

definition crash_on :: "unit result \<Rightarrow> 'w run_state \<Rightarrow> 'w run_state" where
  "crash_on r s = (case swallow_err r of Inr _ \<Rightarrow> s | Inl e \<Rightarrow> s\<lparr>rs_crash := Some e\<rparr>)"

subsection \<open>Tracker\<close>

text \<open>The top of the tracker's loop: it asks for the masterchain and for the block to walk from.\<close>

definition tracker_top :: "BlockIDExt result \<Rightarrow> ShardTracker \<Rightarrow> 'w run_state \<Rightarrow> 'w run_state" where
  "tracker_top r t s = (case r of
       Inr i \<Rightarrow> s\<lparr>rs_tracker := t, rs_tracker_pc := Walking i (Some i)\<rparr>
     | Inl e \<Rightarrow> crash_on (Inl e) (s\<lparr>rs_tracker := t\<rparr>))"

definition tracker_walk :: "BlockIDExt \<Rightarrow> walk_outcome \<Rightarrow> 'w run_state \<Rightarrow> 'w run_state" where
  "tracker_walk i out s = (case out of
       WalkSends h \<Rightarrow> s\<lparr>rs_tracker_pc := Sending i h\<rparr>
     | WalkEnds None \<Rightarrow> s\<lparr>rs_tracker := (rs_tracker s)\<lparr>tr_lastKnownShardBlock := i\<rparr>, rs_tracker_pc := TrackerTop\<rparr>
     | WalkEnds (Some e) \<Rightarrow> crash_on (Inl e) (s\<lparr>rs_tracker_pc := TrackerTop\<rparr>))"

text \<open>\<open>s.blocksChan <- &h\<close>: it panics on a closed channel and waits for the scanner otherwise.\<close>

definition send_closed :: "'w run_state \<Rightarrow> 'w run_state" where
  "send_closed s = s\<lparr>rs_crash := Some (Panic ''send on closed channel'')\<rparr>"

definition hand_over :: "BlockIDExt \<Rightarrow> ShardBlockHeader \<Rightarrow> 'w run_state \<Rightarrow> 'w run_state" where
  "hand_over i h s = s\<lparr>rs_tracker_pc := Walking i (sb_Parent h), rs_scanner_pc := Scanning h, rs_handed := rs_handed s @ [h]\<rparr>"

subsection \<open>Scanner\<close>

definition msgs_of :: "BlockEvents result \<Rightarrow> UUID set" where
  "msgs_of r = (case r of Inl _ \<Rightarrow> {} | Inr e \<Rightarrow> ew_ExtMsgUuid ` set (ExternalWithdrawals (be_Events e)))"

definition scan_block :: "('c, 'w) deployment \<Rightarrow> (Address list \<Rightarrow> Address list) \<Rightarrow> go_error option \<Rightarrow> go_error option
    \<Rightarrow> ShardBlockHeader \<Rightarrow> 'w run_state \<Rightarrow> 'w run_state" where
  "scan_block c rng beginErr commitErr h s =
     (case processBlock (dp_lib c) (dp_cfg c) (dp_schema c) rng beginErr commitErr (dp_scanner c) h (rs_world s) (rs_db s) of
        ((w, d), r) \<Rightarrow>
          let saved = (r = Inr () \<and> commitErr = None) in
          crash_on r (s\<lparr>rs_world := w, rs_db := d, rs_scanner_pc := Receiving,
            rs_failed := (if saved then rs_failed s else rs_failed s @ [h]),
            rs_seen := (if saved then rs_seen s \<union> msgs_of (block_events (dp_lib c) rng (dp_scanner c) h) else rs_seen s)\<rparr>))"

text \<open>What the chain guarantees of a block that is not saved yet: its hot-wallet messages are new.\<close>

definition new_messages :: "('c, 'w) deployment \<Rightarrow> (Address list \<Rightarrow> Address list) \<Rightarrow> ShardBlockHeader \<Rightarrow> 'w run_state \<Rightarrow> bool" where
  "new_messages c rng h s \<longleftrightarrow> (case (block_events (dp_lib c) rng (dp_scanner c) h, sb_BlockIDExt h) of
       (Inr e, Some b) \<Rightarrow> (bid_Shard b, bid_SeqNo b) \<in> bd_key ` set (block_data (rs_db s))
         \<or> fresh_withdrawals (rs_seen s) (ExternalWithdrawals (be_Events e))
     | _ \<Rightarrow> True)"

subsection \<open>Processors\<close>

text \<open>The turn of a processor on the database.\<close>

definition processor_turn :: "('c, 'w) deployment \<Rightarrow> processor \<Rightarrow> go_error option \<Rightarrow> go_error option \<Rightarrow> int \<Rightarrow> int
    \<Rightarrow> database \<Rightarrow> database \<times> unit result" where
  "processor_turn c q beginErr commitErr now now' d = (case q of
       ExternalProcessor \<Rightarrow>
         (case withdrawals_round (dp_lib c) (dp_cfg c) (dp_schema c) (dp_processor c) now d of ((d', _), r) \<Rightarrow> (d', r))
     | InternalTonProcessor \<Rightarrow> internal_ton_round (dp_lib c) (dp_cfg c) (dp_processor c) now d
     | ExpirationProcessor \<Rightarrow> expiration_round (dp_schema c) beginErr commitErr now now' d)"

definition set_pc :: "processor \<Rightarrow> processor_pc \<Rightarrow> 'w run_state \<Rightarrow> 'w run_state" where
  "set_pc q pc s = s\<lparr>rs_processor_pc := (rs_processor_pc s)(q := pc)\<rparr>"

definition wait_sync :: "('c, 'w) deployment \<Rightarrow> processor \<Rightarrow> int \<Rightarrow> 'w run_state \<Rightarrow> 'w run_state" where
  "wait_sync c q now s = (case waitSync_step (dp_GetLastSavedBlock c (rs_db s)) (rs_gracefulShutdown s) now of
       Inr True \<Rightarrow> set_pc q Synced s
     | Inr False \<Rightarrow> s
     | Inl e \<Rightarrow> s\<lparr>rs_crash := Some e\<rparr>)"

definition check_shutdown :: "processor \<Rightarrow> 'w run_state \<Rightarrow> 'w run_state" where
  "check_shutdown q s = set_pc q (if rs_gracefulShutdown s then ProcessorStopped else Turn) s"

definition take_turn :: "('c, 'w) deployment \<Rightarrow> processor \<Rightarrow> go_error option \<Rightarrow> go_error option \<Rightarrow> int \<Rightarrow> int \<Rightarrow> 'w run_state \<Rightarrow> 'w run_state" where
  "take_turn c q beginErr commitErr now now' s =
     (case processor_turn c q beginErr commitErr now now' (rs_db s) of
        (d, Inr _) \<Rightarrow> set_pc q Waiting (s\<lparr>rs_db := d\<rparr>)
      | (d, Inl e) \<Rightarrow> s\<lparr>rs_db := d, rs_crash := Some e\<rparr>)"

subsection \<open>Server\<close>

text \<open>What a request leaves behind. Panics are recovered; an exit of a handler ends the process.\<close>

definition served :: "(ResponseWriter \<times> 'w \<times> database) \<times> unit result \<Rightarrow> 'w run_state \<Rightarrow> 'w run_state" where
  "served res s = (case res of ((_, w, d), r) \<Rightarrow> crash_on r (s\<lparr>rs_world := w, rs_db := d\<rparr>))"

subsection \<open>Signal handler\<close>

text \<open>\<open>scannerCancel(); close(blocksChan); withdrawalsProcessor.Stop()\<close>.\<close>

definition handle_signal :: "'w run_state \<Rightarrow> 'w run_state" where
  "handle_signal s = (case rs_handler_pc s of
       AwaitingSignal \<Rightarrow> s\<lparr>rs_ctxDone := True, rs_handler_pc := Cancelled\<rparr>
     | Cancelled \<Rightarrow> s\<lparr>rs_chanClosed := True, rs_handler_pc := ChannelClosed\<rparr>
     | ChannelClosed \<Rightarrow> s\<lparr>rs_gracefulShutdown := True, rs_handler_pc := Finished\<rparr>
     | Finished \<Rightarrow> s)"

subsection \<open>Steps and runs\<close>

text \<open>The scanner's \<open>select\<close> may take either branch when the context is done and the channel is closed;
  a receive from a closed channel gives nil and changes nothing.\<close>

inductive run_step :: "('c, 'w) deployment \<Rightarrow> thread \<Rightarrow> 'w run_state \<Rightarrow> 'w run_state \<Rightarrow> bool" for c where
  top_err: "rs_crash s = None \<Longrightarrow> rs_tracker_pc s = TrackerTop
    \<Longrightarrow> getCurrentMasterBlock GetMasterchainInfo 0 (rs_tracker s) = Some (t, Inl e)
    \<Longrightarrow> run_step c TrackerThread s (tracker_top (Inl e) t s)"
| top: "rs_crash s = None \<Longrightarrow> rs_tracker_pc s = TrackerTop
    \<Longrightarrow> getCurrentMasterBlock GetMasterchainInfo 0 (rs_tracker s) = Some (t, Inr master)
    \<Longrightarrow> newestShardBlock GetBlockShardsInfo (tr_shard t) master = Some r
    \<Longrightarrow> run_step c TrackerThread s (tracker_top r t s)"
| walk: "rs_crash s = None \<Longrightarrow> rs_tracker_pc s = Walking i cur
    \<Longrightarrow> walk_turn (\<lambda>b. getShardBlocksHeader GetBlockData b (tr_shard (rs_tracker s))) (tr_lastKnownShardBlock (rs_tracker s)) cur = Some out
    \<Longrightarrow> run_step c TrackerThread s (tracker_walk i out s)"
| send: "rs_crash s = None \<Longrightarrow> rs_tracker_pc s = Sending i h \<Longrightarrow> rs_scanner_pc s = Receiving \<Longrightarrow> \<not> rs_chanClosed s
    \<Longrightarrow> run_step c TrackerThread s (hand_over i h s)"
| send_closed: "rs_crash s = None \<Longrightarrow> rs_tracker_pc s = Sending i h \<Longrightarrow> rs_chanClosed s
    \<Longrightarrow> run_step c TrackerThread s (send_closed s)"
| receive_nil: "rs_crash s = None \<Longrightarrow> rs_scanner_pc s = Receiving \<Longrightarrow> rs_chanClosed s \<Longrightarrow> run_step c ScannerThread s s"
| scanner_done: "rs_crash s = None \<Longrightarrow> rs_scanner_pc s = Receiving \<Longrightarrow> rs_ctxDone s
    \<Longrightarrow> run_step c ScannerThread s (s\<lparr>rs_scanner_pc := ScannerStopped\<rparr>)"
| scan: "rs_crash s = None \<Longrightarrow> rs_scanner_pc s = Scanning h \<Longrightarrow> any_order rng \<Longrightarrow> new_messages c rng h s
    \<Longrightarrow> run_step c ScannerThread s (scan_block c rng beginErr commitErr h s)"
| wait: "rs_crash s = None \<Longrightarrow> rs_processor_pc s q = Waiting \<Longrightarrow> run_step c (ProcessorThread q) s (wait_sync c q now s)"
| check: "rs_crash s = None \<Longrightarrow> rs_processor_pc s q = Synced \<Longrightarrow> run_step c (ProcessorThread q) s (check_shutdown q s)"
| turn: "rs_crash s = None \<Longrightarrow> rs_processor_pc s q = Turn
    \<Longrightarrow> run_step c (ProcessorThread q) s (take_turn c q beginErr commitErr now now' s)"
| request: "rs_crash s = None
    \<Longrightarrow> (route, h) \<in> set (Register (dp_lib c) (dp_wallet_api c) (dp_cfg c) (dp_schema c) memo now (dp_handler c))
    \<Longrightarrow> serve (dp_cfg c) h req (new_writer, rs_world s, rs_db s) = Some res
    \<Longrightarrow> run_step c ServerThread s (served res s)"
| signal: "rs_crash s = None \<Longrightarrow> rs_handler_pc s \<noteq> Finished \<Longrightarrow> run_step c SignalThread s (handle_signal s)"

text \<open>A run, with the goroutine that took each step.\<close>

inductive run :: "('c, 'w) deployment \<Rightarrow> thread list \<Rightarrow> 'w run_state \<Rightarrow> 'w run_state \<Rightarrow> bool" for c where
  run_refl: "run c [] s s"
| run_snoc: "run c ts s s1 \<Longrightarrow> run_step c th s1 s2 \<Longrightarrow> run c (ts @ [th]) s s2"

inductive_cases processor_stepE: "run_step c (ProcessorThread q) s s'"

subsection \<open>What a step changes\<close>

lemma crash_on_fields [simp]:
  "rs_world (crash_on r s) = rs_world s" "rs_db (crash_on r s) = rs_db s" "rs_seen (crash_on r s) = rs_seen s"
  "rs_handed (crash_on r s) = rs_handed s" "rs_failed (crash_on r s) = rs_failed s"
  "rs_scanner_pc (crash_on r s) = rs_scanner_pc s" "rs_processor_pc (crash_on r s) = rs_processor_pc s"
  "rs_tracker_pc (crash_on r s) = rs_tracker_pc s" "rs_gracefulShutdown (crash_on r s) = rs_gracefulShutdown s"
  "rs_chanClosed (crash_on r s) = rs_chanClosed s" "rs_handler_pc (crash_on r s) = rs_handler_pc s" "rs_ctxDone (crash_on r s) = rs_ctxDone s"
  by (cases "swallow_err r"; simp add: crash_on_def)+

lemma tracker_top_frame [simp]:
  "rs_db (tracker_top r t s) = rs_db s" "rs_seen (tracker_top r t s) = rs_seen s" "rs_handed (tracker_top r t s) = rs_handed s"
  "rs_failed (tracker_top r t s) = rs_failed s" "rs_scanner_pc (tracker_top r t s) = rs_scanner_pc s"
  "rs_gracefulShutdown (tracker_top r t s) = rs_gracefulShutdown s" "rs_processor_pc (tracker_top r t s) = rs_processor_pc s"
  by (cases r; simp add: tracker_top_def)+

lemma tracker_walk_frame [simp]:
  "rs_db (tracker_walk i out s) = rs_db s" "rs_seen (tracker_walk i out s) = rs_seen s"
  "rs_handed (tracker_walk i out s) = rs_handed s" "rs_failed (tracker_walk i out s) = rs_failed s"
  "rs_scanner_pc (tracker_walk i out s) = rs_scanner_pc s" "rs_gracefulShutdown (tracker_walk i out s) = rs_gracefulShutdown s"
  "rs_processor_pc (tracker_walk i out s) = rs_processor_pc s"
  by (simp_all add: tracker_walk_def split: walk_outcome.split option.split)

lemma send_closed_frame [simp]:
  "rs_db (send_closed s) = rs_db s" "rs_seen (send_closed s) = rs_seen s" "rs_handed (send_closed s) = rs_handed s"
  "rs_failed (send_closed s) = rs_failed s" "rs_scanner_pc (send_closed s) = rs_scanner_pc s"
  "rs_gracefulShutdown (send_closed s) = rs_gracefulShutdown s" "rs_processor_pc (send_closed s) = rs_processor_pc s"
  by (simp_all add: send_closed_def)

lemma set_pc_frame [simp]:
  "rs_db (set_pc q pc s) = rs_db s" "rs_seen (set_pc q pc s) = rs_seen s" "rs_handed (set_pc q pc s) = rs_handed s"
  "rs_failed (set_pc q pc s) = rs_failed s" "rs_scanner_pc (set_pc q pc s) = rs_scanner_pc s"
  "rs_gracefulShutdown (set_pc q pc s) = rs_gracefulShutdown s" "rs_crash (set_pc q pc s) = rs_crash s"
  by (simp_all add: set_pc_def)

lemma set_pc_pc [simp]: "rs_processor_pc (set_pc q pc s) = (rs_processor_pc s)(q := pc)"
  by (simp add: set_pc_def)

lemma wait_sync_frame [simp]:
  "rs_db (wait_sync c q now s) = rs_db s" "rs_seen (wait_sync c q now s) = rs_seen s" "rs_handed (wait_sync c q now s) = rs_handed s"
  "rs_failed (wait_sync c q now s) = rs_failed s" "rs_scanner_pc (wait_sync c q now s) = rs_scanner_pc s"
  "rs_gracefulShutdown (wait_sync c q now s) = rs_gracefulShutdown s"
  by (simp_all add: wait_sync_def split: sum.split bool.split)

lemma check_shutdown_frame [simp]:
  "rs_db (check_shutdown q s) = rs_db s" "rs_seen (check_shutdown q s) = rs_seen s" "rs_handed (check_shutdown q s) = rs_handed s"
  "rs_failed (check_shutdown q s) = rs_failed s" "rs_scanner_pc (check_shutdown q s) = rs_scanner_pc s"
  "rs_gracefulShutdown (check_shutdown q s) = rs_gracefulShutdown s" "rs_crash (check_shutdown q s) = rs_crash s"
  by (simp_all add: check_shutdown_def)

lemma take_turn_frame [simp]:
  "rs_seen (take_turn c q beginErr commitErr now now' s) = rs_seen s"
  "rs_handed (take_turn c q beginErr commitErr now now' s) = rs_handed s"
  "rs_failed (take_turn c q beginErr commitErr now now' s) = rs_failed s"
  "rs_scanner_pc (take_turn c q beginErr commitErr now now' s) = rs_scanner_pc s"
  "rs_gracefulShutdown (take_turn c q beginErr commitErr now now' s) = rs_gracefulShutdown s"
  by (simp_all add: take_turn_def split: prod.split sum.split)

lemma served_frame [simp]:
  "rs_seen (served res s) = rs_seen s" "rs_handed (served res s) = rs_handed s" "rs_failed (served res s) = rs_failed s"
  "rs_scanner_pc (served res s) = rs_scanner_pc s" "rs_gracefulShutdown (served res s) = rs_gracefulShutdown s"
  "rs_processor_pc (served res s) = rs_processor_pc s"
  by (simp_all add: served_def split: prod.split)

lemma handle_signal_frame [simp]:
  "rs_db (handle_signal s) = rs_db s" "rs_seen (handle_signal s) = rs_seen s" "rs_handed (handle_signal s) = rs_handed s"
  "rs_failed (handle_signal s) = rs_failed s" "rs_scanner_pc (handle_signal s) = rs_scanner_pc s"
  "rs_processor_pc (handle_signal s) = rs_processor_pc s"
  by (simp_all add: handle_signal_def split: handler_pc.split)

lemma SaveParsedBlockData_cases:
  assumes "SaveParsedBlockData lib sch beginErr commitErr e d = (d', r)"
  shows "if r = Inr () \<and> commitErr = None then save_events lib sch e d = Inr d' else d' = d"
  using assms by (auto simp: SaveParsedBlockData_def RunInTx_def split: option.splits sum.splits)

lemma scan_block_db:
  obtains (lost) "rs_db (scan_block c rng beginErr commitErr h s) = rs_db s"
      and "rs_seen (scan_block c rng beginErr commitErr h s) = rs_seen s"
      and "rs_failed (scan_block c rng beginErr commitErr h s) = rs_failed s @ [h]"
  | (saved) e where "block_events (dp_lib c) rng (dp_scanner c) h = Inr e" and "be_Block e = h"
      and "save_events (dp_lib c) (dp_schema c) e (rs_db s) = Inr (rs_db (scan_block c rng beginErr commitErr h s))"
      and "rs_seen (scan_block c rng beginErr commitErr h s) = rs_seen s \<union> ew_ExtMsgUuid ` set (ExternalWithdrawals (be_Events e))"
      and "rs_failed (scan_block c rng beginErr commitErr h s) = rs_failed s"
proof -
  obtain w d r where p: "processBlock (dp_lib c) (dp_cfg c) (dp_schema c) rng beginErr commitErr (dp_scanner c) h (rs_world s) (rs_db s)
      = ((w, d), r)" by (metis prod.collapse)
  note eff = scan_block_def p Let_def
  from p show thesis
  proof (cases rule: processBlock_cases)
    case failed
    then show ?thesis by (intro lost) (simp_all add: eff)
  next
    case (saved e)
    show ?thesis
    proof (cases "r = Inr () \<and> commitErr = None")
      case True
      then have "save_events (dp_lib c) (dp_schema c) e (rs_db s) = Inr d" using SaveParsedBlockData_cases [OF saved(4)] by simp
      with True saved(1,2) p show ?thesis by (intro that(2) [of e]) (simp_all add: scan_block_def Let_def msgs_of_def)
    next
      case False
      then show ?thesis using SaveParsedBlockData_cases [OF saved(4)] by (intro lost) (auto simp: eff)
    qed
  qed
qed

text \<open>The database of a turn of a processor, for each relation of \<open>Effects\<close>.\<close>

context service_db
begin

lemma processor_turn_in:
  assumes "dp_schema c = sch"
  shows "R d (fst (processor_turn c q beginErr commitErr now now' d))"
proof (cases q)
  case ExternalProcessor
  then show ?thesis using withdrawals_round_in [of "dp_lib c" "dp_cfg c" "dp_processor c" now d]
    by (auto simp: processor_turn_def assms split: prod.split)
qed (simp_all add: processor_turn_def assms internal_ton_round_in expiration_round_in)

lemma take_turn_in: "dp_schema c = sch \<Longrightarrow> R (rs_db s) (rs_db (take_turn c q beginErr commitErr now now' s))"
  using processor_turn_in [of c "rs_db s" q beginErr commitErr now now']
  by (auto simp: take_turn_def set_pc_def split: prod.split sum.split)

lemma served_step_in:
  assumes "(route, h) \<in> set (Register lib api cfg sch' memo now hs)"
    and "serve cfg h req (new_writer, rs_world s, rs_db s) = Some res"
  shows "R (rs_db s) (rs_db (served res s))"
  using io_inD [OF served_in [OF assms(1)], of req "(new_writer, rs_world s, rs_db s)"] assms(2)
  by (cases res) (auto simp: served_def split: prod.split)

text \<open>A step saves a block, hands a header over, or changes the database as the relation says.\<close>

lemma step_in:
  assumes "run_step c th s s'" and "dp_schema c = sch"
  obtains (scan) h rng beginErr commitErr where "rs_scanner_pc s = Scanning h" and "any_order rng" and "new_messages c rng h s"
      and "s' = scan_block c rng beginErr commitErr h s"
  | (hand_over) i h where "rs_scanner_pc s = Receiving" and "s' = hand_over i h s"
  | (other) "R (rs_db s) (rs_db s')" and "rs_seen s' = rs_seen s" and "rs_handed s' = rs_handed s" and "rs_failed s' = rs_failed s"
      and "\<And>h. rs_scanner_pc s = Scanning h \<Longrightarrow> rs_scanner_pc s' = Scanning h"
  using assms(1)
proof (cases rule: run_step.cases)
  case turn
  then show ?thesis by (intro other) (simp_all add: take_turn_in assms(2))
next
  case request
  then show ?thesis by (intro other) (simp_all add: served_step_in)
next
  case (scan h rng beginErr commitErr)
  then show ?thesis using that(1) by blast
next
  case (send i h)
  then show ?thesis using that(2) by blast
qed (rule other; simp)+

end

subsection \<open>Payments of the running service\<close>

definition pay_of :: "'w run_state \<Rightarrow> pay_state" where
  "pay_of s = pay_idle (rs_db s) (rs_seen s)"

lemma SaveBlock_saved:
  assumes "SaveBlock h d = Inr d'"
  shows "\<exists>b. sb_BlockIDExt h = Some b \<and> (bid_Shard b, bid_SeqNo b) \<notin> bd_key ` set (block_data d)
    \<and> bd_key ` set (block_data d') = insert (bid_Shard b, bid_SeqNo b) (bd_key ` set (block_data d))"
proof -
  from assms obtain b t where "sb_BlockIDExt h = Some b" "d' = d\<lparr>block_data := t\<rparr>"
    "insert_block \<lparr>bd_shard = bid_Shard b, bd_seqno = bid_SeqNo b, bd_gen_utime = unix_time (sb_GenUtime h), bd_root_hash = bid_RootHash b,
      bd_file_hash = bid_FileHash b\<rparr> (block_data d) = Inr t"
    by (auto simp: SaveBlock_def ebind_Inr_iff deref_Inr_iff)
  then show ?thesis by (intro exI [of _ b]) (auto simp: insert_block_def insert_unique_Inr_iff bd_key_def)
qed

lemma save_events_saved:
  assumes "save_events lib sch ev d = Inr d'"
  shows "\<exists>b. sb_BlockIDExt (be_Block ev) = Some b \<and> (bid_Shard b, bid_SeqNo b) \<notin> bd_key ` set (block_data d)
    \<and> bd_key ` set (block_data d') = insert (bid_Shard b, bid_SeqNo b) (bd_key ` set (block_data d))"
proof -
  from assms obtain d2 where "block_data d2 = block_data d" and "SaveBlock (be_Block ev) d2 = Inr d'"
    by (elim save_events_steps) blast
  then show ?thesis using SaveBlock_saved [of "be_Block ev" d2 d'] by simp
qed

lemma step_pays:
  assumes "run_step c th s s'"
  shows "(pay_step (dp_lib c) (dp_schema c))\<^sup>*\<^sup>* (pay_of s) (pay_of s')"
  using assms refl
proof (cases rule: pay_db.step_in [where lib = "dp_lib c" and seen = "rs_seen s"])
  case (scan h rng beginErr commitErr)
  show ?thesis
  proof (cases rule: scan_block_db [of c rng beginErr commitErr h s])
    case lost
    then show ?thesis by (simp add: scan(4) pay_of_def)
  next
    case (saved e)
    obtain b where "sb_BlockIDExt h = Some b" "(bid_Shard b, bid_SeqNo b) \<notin> bd_key ` set (block_data (rs_db s))"
      using save_events_saved [OF saved(3), unfolded saved(2)] by blast
    then have "fresh_withdrawals (rs_seen s) (ExternalWithdrawals (be_Events e))"
      using scan(3) saved(1) by (simp add: new_messages_def)
    then have "pay_step (dp_lib c) (dp_schema c) (pay_of s) ((pay_of s)\<lparr>ps_db := rs_db s', ps_seen := rs_seen s'\<rparr>)"
      unfolding scan(4) saved(4) using pay_step.scan [of "dp_lib c" "dp_schema c" e "pay_of s"] saved(3) by (simp add: pay_of_def)
    moreover have "(pay_of s)\<lparr>ps_db := rs_db s', ps_seen := rs_seen s'\<rparr> = pay_of s'" by (simp add: pay_of_def pay_idle_def)
    ultimately show ?thesis by simp
  qed
qed (simp_all add: pay_of_def hand_over_def pay_path_def)

text \<open>C3: the running service implements the payment protocol. Every step of every goroutine, a whole
  turn of a processor, a request that is served, the processing of a block, is a sequence of steps
  of the protocol on the database, so what holds in every reachable state of the protocol, above
  all that no request is paid twice, holds at every moment of every run, whatever the schedule and
  also when a goroutine ends the process in the middle.\<close>

theorem service_refines_payments:
  assumes "run c ts s s'"
  shows "(pay_step (dp_lib c) (dp_schema c))\<^sup>*\<^sup>* (pay_of s) (pay_of s')"
  using assms
proof induction
  case (run_snoc ts s s1 th s2)
  then show ?case using step_pays by (meson rtranclp_trans)
qed simp

subsection \<open>Types and constraints of the running service\<close>

lemma scan_block_keeps:
  assumes "any_order rng" and "wf_database (rs_db s)" and "typed_database (rs_db s)"
  shows "wf_database (rs_db (scan_block c rng beginErr commitErr h s))" and "typed_database (rs_db (scan_block c rng beginErr commitErr h s))"
proof -
  have "wf_database (rs_db (scan_block c rng beginErr commitErr h s)) \<and> typed_database (rs_db (scan_block c rng beginErr commitErr h s))"
  proof (cases rule: scan_block_db [of c rng beginErr commitErr h s])
    case lost
    then show ?thesis using assms by simp
  next
    case (saved e)
    have "typed_events (be_Events e)" by (rule block_events_typed [OF saved(1) assms(1)])
    then have "typed_database (rs_db (scan_block c rng beginErr commitErr h s))"
      by (intro typed_block.save_events_kept [OF assms(3) _ _ _ saved(3)]) (auto simp: typed_events_def)
    then show ?thesis using wf_save_events [OF assms(2) saved(3)] by blast
  qed
  then show "wf_database (rs_db (scan_block c rng beginErr commitErr h s))" and "typed_database (rs_db (scan_block c rng beginErr commitErr h s))"
    by blast+
qed

lemma step_keeps:
  assumes "run_step c th s s'" and "wf_database (rs_db s)" and "typed_database (rs_db s)"
  shows "wf_database (rs_db s') \<and> typed_database (rs_db s')"
  using assms(1) HOL.refl
proof (cases rule: typed_db.step_in)
  case (scan h rng beginErr commitErr)
  then show ?thesis using assms(2,3) by (simp add: scan_block_keeps)
next
  case other
  from assms(1) HOL.refl have "wf_database (rs_db s')"
    by (cases rule: wf_db.step_in) (use assms in \<open>auto simp: wf_kept_def hand_over_def scan_block_keeps\<close>)
  then show ?thesis using other(1) assms(3) by (simp add: types_kept_def)
qed (use assms(2,3) in \<open>simp add: hand_over_def\<close>)


subsection \<open>Blocks of the running service\<close>

definition saved_block :: "ShardBlockHeader \<Rightarrow> database \<Rightarrow> bool" where
  "saved_block h d \<longleftrightarrow> (\<exists>b. sb_BlockIDExt h = Some b \<and> (bid_Shard b, bid_SeqNo b) \<in> bd_key ` set (block_data d))"

definition accounted :: "'w run_state \<Rightarrow> bool" where
  "accounted s \<longleftrightarrow> (\<forall>h \<in> set (rs_handed s). saved_block h (rs_db s) \<or> h \<in> set (rs_failed s) \<or> rs_scanner_pc s = Scanning h)"

lemma scan_block_frame:
  "rs_handed (scan_block c rng beginErr commitErr h s) = rs_handed s"
  "rs_scanner_pc (scan_block c rng beginErr commitErr h s) = Receiving"
  by (simp_all add: scan_block_def Let_def split: prod.split)

lemma step_accounted:
  assumes "run_step c th s s'" and "accounted s"
  shows "accounted s'"
  using assms(1) refl
proof (cases rule: blocks_db.step_in)
  case (scan h rng beginErr commitErr)
  show ?thesis
  proof (cases rule: scan_block_db [of c rng beginErr commitErr h s])
    case lost
    then show ?thesis using assms(2) scan(1) by (auto simp: scan(4) accounted_def scan_block_frame)
  next
    case (saved e)
    obtain b where b: "sb_BlockIDExt h = Some b"
      "bd_key ` set (block_data (rs_db s')) = insert (bid_Shard b, bid_SeqNo b) (bd_key ` set (block_data (rs_db s)))"
      using save_events_saved [OF saved(3), unfolded saved(2), folded scan(4)] by blast
    then have "saved_block h' (rs_db s')" if "saved_block h' (rs_db s) \<or> h' = h" for h'
      using that by (auto simp: saved_block_def)
    moreover have "rs_handed s' = rs_handed s" "rs_failed s' = rs_failed s" by (simp_all add: scan(4) scan_block_frame saved(5))
    ultimately show ?thesis using assms(2) scan(1) by (auto simp: accounted_def)
  qed
next
  case (hand_over i h)
  then show ?thesis using assms(2) by (auto simp: accounted_def hand_over_def)
next
  case other
  then show ?thesis using assms(2) by (auto simp: accounted_def saved_block_def same_blocks_def)
qed


subsection \<open>Shutdown\<close>

text \<open>How many steps a processor has left once the flag is set.\<close>

fun steps_left :: "processor_pc \<Rightarrow> nat" where
  "steps_left Turn = 3"
| "steps_left Waiting = 2"
| "steps_left Synced = 1"
| "steps_left ProcessorStopped = 0"

lemma steps_left_0: "steps_left pc = 0 \<longleftrightarrow> pc = ProcessorStopped"
  by (cases pc) simp_all

lemma take_turn_pc:
  "rs_crash (take_turn c q beginErr commitErr now now' s) = None \<Longrightarrow>
    rs_processor_pc (take_turn c q beginErr commitErr now now' s) = (rs_processor_pc s)(q := Waiting)"
  by (simp add: take_turn_def split: prod.splits sum.splits)

lemma step_uncrashed: "run_step c th s s' \<Longrightarrow> rs_crash s = None"
  by (cases rule: run_step.cases) simp_all

lemma flag_stays:
  assumes "run_step c th s s'" and "rs_gracefulShutdown s"
  shows "rs_gracefulShutdown s'"
  using assms by (cases rule: run_step.cases)
    (simp_all add: hand_over_def handle_signal_def scan_block_def Let_def split: handler_pc.split prod.split)

lemma other_thread_pc:
  assumes "run_step c th s s'" and "th \<noteq> ProcessorThread q"
  shows "rs_processor_pc s' q = rs_processor_pc s q"
  using assms
proof (cases rule: run_step.cases)
  case (turn q' beginErr commitErr now now')
  then show ?thesis using assms(2) by (simp add: take_turn_def split: prod.split sum.split)
next
  case (wait q' now)
  then show ?thesis using assms(2) by (simp add: wait_sync_def split: sum.split bool.split)
qed (simp_all add: hand_over_def check_shutdown_def scan_block_def Let_def split: prod.split)

lemma stopping_step:
  assumes "run_step c (ProcessorThread q) s s'" and "rs_gracefulShutdown s" and "rs_crash s' = None"
  shows "steps_left (rs_processor_pc s' q) < steps_left (rs_processor_pc s q)"
  using assms(1)
proof (elim processor_stepE)
  fix now assume "s' = wait_sync c q now s" "rs_processor_pc s q = Waiting"
  then show ?thesis using assms(2) by (simp add: wait_sync_def waitSync_step_def)
next
  assume "s' = check_shutdown q s" "rs_processor_pc s q = Synced"
  then show ?thesis using assms(2) by (simp add: check_shutdown_def)
next
  fix beginErr commitErr now now' assume "s' = take_turn c q beginErr commitErr now now' s" "rs_processor_pc s q = Turn"
  then show ?thesis using assms(3) by (simp add: take_turn_pc)
qed

lemma stopping_le:
  assumes "run_step c th s s'" and "rs_gracefulShutdown s" and "rs_crash s' = None"
  shows "steps_left (rs_processor_pc s' q) \<le> steps_left (rs_processor_pc s q)"
  using stopping_step [OF _ assms(2,3)] other_thread_pc [OF assms(1)] assms(1) by (cases "th = ProcessorThread q") force+

lemma processor_enabled:
  assumes "rs_crash s = None" and "rs_processor_pc s q \<noteq> ProcessorStopped"
  shows "\<exists>s'. run_step c (ProcessorThread q) s s'"
  using assms run_step.wait run_step.check run_step.turn by (cases "rs_processor_pc s q") blast+

text \<open>A schedule: the goroutine of every step and the states between them. It is fair to a goroutine
  that is not left out for ever while it could take a step.\<close>

definition fair_to :: "('c, 'w) deployment \<Rightarrow> thread \<Rightarrow> (nat \<Rightarrow> thread) \<Rightarrow> (nat \<Rightarrow> 'w run_state) \<Rightarrow> bool" where
  "fair_to c t th st \<longleftrightarrow> (\<forall>n. \<exists>m \<ge> n. th m = t \<or> \<not> (\<exists>s'. run_step c t (st m) s'))"

lemma schedule_stopping:
  assumes sched: "\<And>i. run_step c (th i) (st i) (st (Suc i))" and flag: "rs_gracefulShutdown (st k)" and "k \<le> m" and "m \<le> n"
  shows "rs_gracefulShutdown (st n) \<and> steps_left (rs_processor_pc (st n) q) \<le> steps_left (rs_processor_pc (st m) q)"
proof -
  have on: "rs_gracefulShutdown (st i)" if "k \<le> i" for i
    using that by (induction i rule: dec_induct) (auto intro: flag flag_stays [OF sched])
  have "steps_left (rs_processor_pc (st n) q) \<le> steps_left (rs_processor_pc (st m) q)"
    using assms(4)
  proof (induction n rule: dec_induct)
    case (step n)
    have "steps_left (rs_processor_pc (st (Suc n)) q) \<le> steps_left (rs_processor_pc (st n) q)"
      by (rule stopping_le [OF sched on step_uncrashed [OF sched]]) (use step assms(3) in simp)
    with step show ?case by simp
  qed simp
  then show ?thesis using on assms(3,4) by simp
qed

lemma eventually_stopped:
  assumes sched: "\<And>i. run_step c (th i) (st i) (st (Suc i))" and flag: "rs_gracefulShutdown (st k)"
    and fair: "fair_to c (ProcessorThread q) th st" and "k \<le> n"
  shows "\<exists>m \<ge> n. rs_processor_pc (st m) q = ProcessorStopped"
  using \<open>k \<le> n\<close>
proof (induction "steps_left (rs_processor_pc (st n) q)" arbitrary: n rule: less_induct)
  case less
  obtain m where m: "m \<ge> n" and taken: "th m = ProcessorThread q \<or> \<not> (\<exists>s'. run_step c (ProcessorThread q) (st m) s')"
    using fair by (auto simp: fair_to_def)
  show ?case
  proof (cases "rs_processor_pc (st m) q = ProcessorStopped")
    case True
    then show ?thesis using m by blast
  next
    case False
    then have "th m = ProcessorThread q" using taken processor_enabled step_uncrashed [OF sched] by blast
    then have "run_step c (ProcessorThread q) (st m) (st (Suc m))" using sched [of m] by simp
    then have "steps_left (rs_processor_pc (st (Suc m)) q) < steps_left (rs_processor_pc (st m) q)"
      by (rule stopping_step) (use schedule_stopping [OF sched flag less.prems m] step_uncrashed [OF sched] in auto)
    also have "\<dots> \<le> steps_left (rs_processor_pc (st n) q)" using schedule_stopping [OF sched flag less.prems m] by blast
    finally show ?thesis using less.hyps [of "Suc m"] less.prems m by (meson Suc_leD le_Suc_eq le_trans)
  qed
qed

text \<open>C14: \<open>Stop\<close> is effective. Once the flag is set, in every schedule that goes on for ever and does not
  leave the processor out for ever, the processor ends and never takes a turn again.\<close>

theorem processors_stop:
  assumes "\<forall>i. run_step c (th i) (st i) (st (Suc i))" and "rs_gracefulShutdown (st k)" and "fair_to c (ProcessorThread q) th st"
  shows "\<exists>n \<ge> k. \<forall>m \<ge> n. rs_processor_pc (st m) q = ProcessorStopped"
proof -
  have sched: "run_step c (th i) (st i) (st (Suc i))" for i using assms(1) by blast
  obtain n where n: "n \<ge> k" "rs_processor_pc (st n) q = ProcessorStopped"
    using eventually_stopped [OF sched assms(2,3) order_refl] by blast
  have "rs_processor_pc (st m) q = ProcessorStopped" if "n \<le> m" for m
    using schedule_stopping [OF sched assms(2) n(1) that, of q] n(2) by (simp add: steps_left_0)
  then show ?thesis using n(1) by blast
qed

text \<open>C15: the shutdown can crash the service. If the signal arrives while the tracker waits for the
  scanner to take a header, the channel may be closed under it: the send panics and ends the process
  before \<open>Stop\<close> has been called, and the header is lost.\<close>

theorem shutdown_may_panic:
  assumes "rs_crash s = None" and "rs_tracker_pc s = Sending i h" and "rs_handler_pc s = AwaitingSignal"
  shows "\<exists>s'. run c [SignalThread, SignalThread, TrackerThread] s s'
    \<and> rs_crash s' = Some (Panic ''send on closed channel'') \<and> rs_gracefulShutdown s' = rs_gracefulShutdown s
    \<and> rs_handed s' = rs_handed s \<and> (\<forall>th s''. \<not> run_step c th s' s'')"
proof -
  let ?s1 = "handle_signal s"
  let ?s2 = "handle_signal ?s1"
  have 1: "run_step c SignalThread s ?s1" by (rule run_step.signal) (simp_all add: assms)
  have 2: "run_step c SignalThread ?s1 ?s2" by (rule run_step.signal) (simp_all add: assms handle_signal_def)
  have 3: "run_step c TrackerThread ?s2 (send_closed ?s2)"
    by (rule run_step.send_closed [where i = i and h = h]) (simp_all add: assms handle_signal_def)
  have "run c ((([] @ [SignalThread]) @ [SignalThread]) @ [TrackerThread]) s (send_closed ?s2)"
    by (rule run_snoc [OF run_snoc [OF run_snoc [OF run_refl 1] 2] 3])
  moreover have "rs_crash (send_closed ?s2) = Some (Panic ''send on closed channel'')" by (simp add: send_closed_def)
  moreover have "\<not> run_step c th (send_closed ?s2) s''" for th s'' using step_uncrashed by (force simp: send_closed_def)
  ultimately show ?thesis by (intro exI [of _ "send_closed ?s2"]) (simp add: assms handle_signal_def)
qed

subsection \<open>An example\<close>

text \<open>A service with an open request, over a chain in which block 8 follows the known block 7.\<close>

definition sample_service :: "(tcell, nat) deployment" where
  "sample_service = \<lparr>dp_lib = sample_lib, dp_cfg = sample_config, dp_schema = query_schema,
     dp_scanner = \<lparr>bs_addressBook = Some sample_ab, bs_GetTransactionIDsFromBlock = (\<lambda>_. Inr []),
       bs_GetTransactionFromBlock = (\<lambda>_ _. Inl (Err [])), bs_GetJettonBalance = sample_balance, bs_notificators = []\<rparr>,
     dp_processor = sample_processor, dp_wallet_api = sample_wallet_api, dp_handler = NewHandler,
     dp_GetLastSavedBlock = (\<lambda>_. Inr sample_block)\<rparr>"

definition sample_start :: "nat run_state" where
  "sample_start = run_init 0 sample_open sample_tracker {}"

definition sample_next :: ShardBlockHeader where
  "sample_next = zero_ShardBlockHeader\<lparr>sb_BlockIDExt := Some (sample_id 8), sb_Parent := Some (sample_id 7)\<rparr>"

lemma sample_service_simps [simp]:
  "dp_lib sample_service = sample_lib" "dp_cfg sample_service = sample_config" "dp_schema sample_service = query_schema"
  "dp_processor sample_service = sample_processor" "dp_GetLastSavedBlock sample_service d = Inr sample_block"
  by (simp_all add: sample_service_def)

lemma run_trans: "run c us s1 s2 \<Longrightarrow> run c ts s s1 \<Longrightarrow> run c (ts @ us) s s2"
proof (induction rule: run.induct)
  case (run_snoc us s1 s2 th s3)
  then have "run c ((ts @ us) @ [th]) s s3" by (blast intro: run.run_snoc)
  then show ?case by simp
qed simp

lemma run_one: "run_step c th s s' \<Longrightarrow> run c [th] s s'"
  using run_snoc [OF run_refl, of c th s s'] by simp

lemma sample_in_shard: "isInShard 0x8000000000000000 0 = Inr True"
  using isInShard_shard_prefix [of 0 0 0] by (simp add: shard_prefix_def)

lemma sample_sending:
  "\<exists>s. run sample_service [TrackerThread, TrackerThread] sample_start s \<and> rs_crash s = None \<and> rs_tracker_pc s = Sending (sample_id 8) sample_next
    \<and> rs_handler_pc s = AwaitingSignal \<and> rs_scanner_pc s = Receiving \<and> \<not> rs_chanClosed s \<and> rs_handed s = [] \<and> rs_failed s = [] \<and> rs_db s = sample_open"
proof -
  let ?t = "sample_tracker\<lparr>tr_lastMasterBlock := Some (sample_id 20)\<rparr>"
  let ?s = "tracker_top (Inr (sample_id 8)) ?t sample_start"
  have 1: "run_step sample_service TrackerThread sample_start ?s"
  proof (rule run_step.top)
    show "getCurrentMasterBlock (\<lambda>_. Inr (sample_id 20)) 0 (rs_tracker sample_start) = Some (?t, Inr (sample_id 20))"
      by (subst getCurrentMasterBlock.simps) (simp add: sample_start_def run_init_def sample_tracker_def)
    show "newestShardBlock (\<lambda>_ _. Inr [sample_id 8]) (tr_shard ?t) (sample_id 20) = Some (Inr (sample_id 8))"
      by (simp add: newestShardBlock_def retry.simps not_ready_def sample_tracker_def sample_id_def sample_in_shard)
  qed (simp_all add: sample_start_def run_init_def)
  have 2: "run_step sample_service TrackerThread ?s (tracker_walk (sample_id 8) (WalkSends sample_next) ?s)"
  proof (rule run_step.walk)
    show "walk_turn (\<lambda>b. getShardBlocksHeader (\<lambda>_ _. Inr \<lparr>blk_NotMaster = False, blk_GenUtime = 0, blk_StartLt = 0, blk_EndLt = 0,
        blk_Parents = Inr [sample_id 7]\<rparr>) b (tr_shard (rs_tracker ?s))) (tr_lastKnownShardBlock (rs_tracker ?s)) (Some (sample_id 8))
      = Some (WalkSends sample_next)"
      by (simp add: walk_turn_def getShardBlocksHeader_def retry.simps not_ready_def convertBlockToShardHeader_def tracker_top_def
          sample_tracker_def sample_id_def sample_in_shard sample_next_def zero_ShardBlockHeader_def)
  qed (simp_all add: tracker_top_def sample_start_def run_init_def)
  show ?thesis
    using run_trans [OF run_one [OF 2] run_one [OF 1]]
    by (intro exI [of _ "tracker_walk (sample_id 8) (WalkSends sample_next) ?s"])
      (simp add: tracker_walk_def tracker_top_def sample_start_def run_init_def)
qed

theorem shutdown_may_panic_witness:
  "\<exists>s. run sample_service [TrackerThread, TrackerThread, SignalThread, SignalThread, TrackerThread] sample_start s
    \<and> rs_crash s = Some (Panic ''send on closed channel'')"
proof -
  obtain s where s: "run sample_service [TrackerThread, TrackerThread] sample_start s" "rs_crash s = None"
    "rs_tracker_pc s = Sending (sample_id 8) sample_next" "rs_handler_pc s = AwaitingSignal" using sample_sending by blast
  from shutdown_may_panic [OF s(2-4), of sample_service] obtain s' where
    "run sample_service [SignalThread, SignalThread, TrackerThread] s s'" "rs_crash s' = Some (Panic ''send on closed channel'')" by blast
  with run_trans [OF _ s(1)] show ?thesis by fastforce
qed

lemma sample_scan:
  "\<exists>d. processBlock sample_lib sample_config query_schema (\<lambda>ks. ks) None None (dp_scanner sample_service) sample_next w sample_open = ((w, d), Inr ())
    \<and> saved_block sample_next d"
  by (simp add: processBlock_def block_events_def sample_service_def sample_next_def filterTXs_def processTXs_def pushNotifications_def
      no_events_def SaveParsedBlockData_def RunInTx_def save_events_def SaveBlock_def sample_open_def empty_database_def insert_block_def
      insert_unique_def saved_block_def bd_key_def)


lemma sample_turn:
  "\<exists>s. run sample_service [ProcessorThread ExternalProcessor, ProcessorThread ExternalProcessor, ProcessorThread ExternalProcessor] sample_start s
    \<and> external_withdrawals (rs_db s) \<noteq> []"
proof -
  let ?q = ExternalProcessor
  let ?s1 = "wait_sync sample_service ?q 0 sample_start"
  let ?s2 = "check_shutdown ?q ?s1"
  let ?s3 = "take_turn sample_service ?q None None 0 0 ?s2"
  have w: "?s1 = set_pc ?q Synced sample_start"
    by (simp add: wait_sync_def waitSync_step_def fatal_on_def IsExpired_def sample_block_def zero_ShardBlockHeader_def AllowableBlockchainLagging_def
        unix_time_def second_def sample_start_def run_init_def)
  have 1: "run_step sample_service (ProcessorThread ?q) sample_start ?s1"
    by (rule run_step.wait) (simp_all add: sample_start_def run_init_def)
  have 2: "run_step sample_service (ProcessorThread ?q) ?s1 ?s2"
    by (rule run_step.check) (simp_all add: w, simp add: sample_start_def run_init_def)
  have 3: "run_step sample_service (ProcessorThread ?q) ?s2 ?s3"
    by (rule run_step.turn) (simp_all add: w check_shutdown_def, simp_all add: sample_start_def run_init_def)
  have "rs_db ?s2 = sample_open" by (simp add: sample_start_def run_init_def)
  then have "external_withdrawals (rs_db ?s3) \<noteq> []" using sample_round by (auto simp: take_turn_def processor_turn_def)
  moreover have "run sample_service [ProcessorThread ?q, ProcessorThread ?q, ProcessorThread ?q] sample_start ?s3"
    using run_trans [OF run_trans [OF run_one [OF 3] run_one [OF 2]] run_one [OF 1]] by simp
  ultimately show ?thesis by blast
qed

theorem service_refines_payments_witness:
  "\<exists>s. (pay_step sample_lib query_schema)\<^sup>*\<^sup>* (pay_of sample_start) (pay_of (s :: nat run_state)) \<and> external_withdrawals (rs_db s) \<noteq> []"
proof -
  obtain s where run: "run sample_service [ProcessorThread ExternalProcessor, ProcessorThread ExternalProcessor, ProcessorThread ExternalProcessor]
      sample_start s" and s: "external_withdrawals (rs_db s) \<noteq> []" using sample_turn by blast
  show ?thesis using service_refines_payments [OF run] s by (intro exI [of _ s]) simp
qed


lemma stopped_disabled: "rs_processor_pc s q = ProcessorStopped \<Longrightarrow> \<not> run_step c (ProcessorThread q) s s'"
  by (auto elim: processor_stepE)

theorem processors_stop_witness:
  "\<exists>(th :: nat \<Rightarrow> thread) (st :: nat \<Rightarrow> nat run_state). (\<exists>i. th i = ProcessorThread ExternalProcessor) \<and> rs_gracefulShutdown (st 0) \<and> rs_processor_pc (st 0) ExternalProcessor = Waiting
    \<and> run_step sample_service (th 0) (st 0) (st 1) \<and> (\<exists>n. rs_processor_pc (st n) ExternalProcessor = ProcessorStopped)"
proof -
  let ?q = ExternalProcessor
  define s0 where "s0 = sample_start\<lparr>rs_gracefulShutdown := True\<rparr>"
  define st where "st n = (if n = 0 then s0 else if n = 1 then set_pc ?q Synced s0 else set_pc ?q ProcessorStopped (set_pc ?q Synced s0))" for n :: nat
  define th where "th n = (if n < 2 then ProcessorThread ?q else TrackerThread)" for n :: nat
  have s0: "rs_crash s0 = None" "rs_processor_pc s0 ?q = Waiting" "rs_gracefulShutdown s0" "rs_tracker_pc s0 = TrackerTop" "rs_tracker s0 = sample_tracker"
    by (simp_all add: s0_def sample_start_def run_init_def)
  let ?e = "set_pc ?q ProcessorStopped (set_pc ?q Synced s0)"
  have 0: "run_step sample_service (ProcessorThread ?q) s0 (set_pc ?q Synced s0)"
    using run_step.wait [OF s0(1,2), of sample_service 0] by (simp add: wait_sync_def waitSync_step_def s0)
  have 1: "run_step sample_service (ProcessorThread ?q) (set_pc ?q Synced s0) ?e"
    using run_step.check [of "set_pc ?q Synced s0" ?q sample_service] by (simp add: check_shutdown_def s0)
  have "run_step sample_service TrackerThread ?e (tracker_top (Inl (Err ''timeout'')) sample_tracker ?e)"
    by (rule run_step.top_err [where GetMasterchainInfo = "\<lambda>_. Inl (Err ''timeout'')"])
      (simp_all add: s0, simp_all add: set_pc_def s0 getCurrentMasterBlock.simps)
  moreover have "?e\<lparr>rs_tracker := sample_tracker\<rparr> = ?e" using s0(5) by (cases s0) (simp add: set_pc_def)
  ultimately have 2: "run_step sample_service TrackerThread ?e ?e" by (simp add: tracker_top_def crash_on_def swallow_err_def)
  have sched: "\<forall>i. run_step sample_service (th i) (st i) (st (Suc i))"
    using 0 1 2 by (auto simp: th_def st_def)
  moreover have "fair_to sample_service (ProcessorThread ?q) th st"
    unfolding fair_to_def
  proof
    fix n show "\<exists>m\<ge>n. th m = ProcessorThread ?q \<or> \<not> (\<exists>s'. run_step sample_service (ProcessorThread ?q) (st m) s')"
      by (rule exI [of _ "n + 2"]) (simp add: st_def stopped_disabled)
  qed
  moreover have flag: "rs_gracefulShutdown (st 0)" by (simp add: st_def s0)
  ultimately obtain n where "rs_processor_pc (st n) ?q = ProcessorStopped" using processors_stop by blast
  moreover have "th 0 = ProcessorThread ?q" "st 0 = s0" "st 1 = set_pc ?q Synced s0" by (simp_all add: th_def st_def)
  ultimately show ?thesis using flag 0 s0(2) by (intro exI [of _ th] exI [of _ st]) auto
qed

end
