(* ===== verification/AuditLog.thy ===== *)
theory AuditLog
  imports Messages
begin

text \<open>
  \<open>audit/log.go\<close>: the audit lines that the scanner, the processors, the repository and the wallets
  write beside what they do. The other theories leave the calls out, since nothing reads the log
  back; what a line tells about a transaction is shown here. The log is the list of its lines; the
  formatted time of a line is an argument.
\<close>

definition Severity_Error :: string where "Severity_Error = ''ERROR''"
definition Severity_Warning :: string where "Severity_Warning = ''WARNING''"
definition Severity_Info :: string where "Severity_Info = ''INFO''"

record message =
  msg_Severity :: string
  msg_Text :: string

text \<open>\<open>log.Printf("AUDIT|%v|%v|%s", m.Severity, now, m.Text)\<close>; another severity writes nothing.\<close>

definition audit_line :: "string \<Rightarrow> message \<Rightarrow> string" where
  "audit_line now m = ''AUDIT|'' @ msg_Severity m @ ''|'' @ now @ ''|'' @ msg_Text m"

definition pushLog :: "string \<Rightarrow> message \<Rightarrow> string list \<Rightarrow> string list" where
  "pushLog now m out =
     (if msg_Severity m = Severity_Error then out @ [audit_line now m]
      else if msg_Severity m = Severity_Warning then out @ [audit_line now m]
      else if msg_Severity m = Severity_Info then out @ [audit_line now m]
      else out)"

text \<open>The verb \<open>%x\<close> on a byte slice: two lower-case digits for each byte.\<close>

definition hex_char :: "nat \<Rightarrow> char" where
  "hex_char n = (if n < 10 then char_of (48 + n) else char_of (87 + n))"

definition format_hex :: "byte list \<Rightarrow> string" where
  "format_hex bs = concat (map (\<lambda>b. [hex_char (unat b div 16), hex_char (unat b mod 16)]) bs)"

definition LogTX :: "string \<Rightarrow> string \<Rightarrow> string \<Rightarrow> byte list \<Rightarrow> string \<Rightarrow> string list \<Rightarrow> string list" where
  "LogTX now severity location hash txt =
     pushLog now \<lparr>msg_Severity = severity, msg_Text = location @ ''|TX:'' @ format_hex hash @ ''|'' @ txt\<rparr>"

definition Log :: "string \<Rightarrow> string \<Rightarrow> string \<Rightarrow> string \<Rightarrow> string \<Rightarrow> string list \<Rightarrow> string list" where
  "Log now severity location event txt =
     pushLog now \<lparr>msg_Severity = severity, msg_Text = location @ ''|'' @ event @ ''|'' @ txt\<rparr>"

text \<open>The severities the package names.\<close>

definition severities :: "string set" where
  "severities = {Severity_Error, Severity_Warning, Severity_Info}"

subsection \<open>Reading a line back\<close>

lemma hex_char_digit:
  assumes "n < 16"
  shows "hex_digit (hex_char n) = Some n" and "hex_char n \<noteq> CHR ''|''"
proof -
  have "(of_char (hex_char n) :: nat) = (if n < 10 then 48 + n else 87 + n)"
    using assms by (simp add: hex_char_def)
  then show "hex_digit (hex_char n) = Some n" and "hex_char n \<noteq> CHR ''|''"
    using assms by (auto simp: hex_digit_def split: if_splits)
qed

lemma byte_digits: "unat (b :: byte) div 16 < 16" "unat b mod 16 < 16" "of_nat (16 * (unat b div 16) + unat b mod 16) = b"
proof -
  have "unat b < 2 ^ LENGTH(8)" by (rule unsigned_less)
  then show "unat b div 16 < 16" by simp
qed simp_all

lemma format_hex_decodes: "hex_DecodeString (format_hex bs) = Some bs"
proof (induction bs)
  case (Cons b bs)
  then show ?case using byte_digits [of b] by (simp add: format_hex_def hex_char_digit)
qed (simp add: format_hex_def)

lemma format_hex_bar: "CHR ''|'' \<notin> set (format_hex bs)"
proof
  assume "CHR ''|'' \<in> set (format_hex bs)"
  then obtain b where "CHR ''|'' = hex_char (unat b div 16) \<or> CHR ''|'' = hex_char (unat (b :: byte) mod 16)"
    by (auto simp: format_hex_def)
  then show False using hex_char_digit(2) [OF byte_digits(1)] hex_char_digit(2) [OF byte_digits(2)] by metis
qed

lemma split_on_field: "c \<notin> set xs \<Longrightarrow> split_on c (xs @ c # ys) = xs # split_on c ys"
  by (induction xs) auto

text \<open>C40: an audit line identifies its transaction. Of the fields of a line that \<open>LogTX\<close> writes, the
  second is the severity, the fourth the location, and the fifth decodes to the hash it was given,
  whatever the text is, as long as the time and the location contain no bar; a severity that the
  package does not name writes no line.\<close>

theorem audit_tx_round_trip:
  assumes "CHR ''|'' \<notin> set now" and "CHR ''|'' \<notin> set location"
  shows "LogTX now severity location hash txt out =
      (if severity \<in> severities then out @ [audit_line now \<lparr>msg_Severity = severity, msg_Text = location @ ''|TX:'' @ format_hex hash @ ''|'' @ txt\<rparr>] else out)
    \<and> (severity \<in> severities \<longrightarrow> (\<exists>tx rest.
        split_on (CHR ''|'') (last (LogTX now severity location hash txt out)) = [''AUDIT'', severity, now, location, ''TX:'' @ tx] @ rest
        \<and> hex_DecodeString tx = Some hash))"
proof (cases "severity \<in> severities")
  case False
  then show ?thesis by (simp add: LogTX_def pushLog_def severities_def)
next
  case True
  let ?line = "''AUDIT'' @ CHR ''|'' # severity @ CHR ''|'' # now @ CHR ''|'' # location @ CHR ''|'' # (''TX:'' @ format_hex hash) @ CHR ''|'' # txt"
  have line: "LogTX now severity location hash txt out = out @ [?line]"
    "audit_line now \<lparr>msg_Severity = severity, msg_Text = location @ ''|TX:'' @ format_hex hash @ ''|'' @ txt\<rparr> = ?line"
    using True by (auto simp: LogTX_def pushLog_def audit_line_def severities_def)
  have "CHR ''|'' \<notin> set severity" using True by (auto simp: severities_def Severity_Error_def Severity_Warning_def Severity_Info_def)
  then have "split_on (CHR ''|'') ?line = [''AUDIT'', severity, now, location, ''TX:'' @ format_hex hash] @ split_on (CHR ''|'') txt"
    using assms format_hex_bar [of hash] by (subst split_on_field, simp)+ simp
  then show ?thesis unfolding line using True format_hex_decodes [of hash] by (simp del: append_Cons append_Nil)
qed

theorem audit_tx_round_trip_witness:
  "\<exists>tx rest. split_on (CHR ''|'') (last (LogTX ''Mon'' ''ERROR'' ''hot'' [1, 255] ''a|b'' [])) = [''AUDIT'', ''ERROR'', ''Mon'', ''hot'', ''TX:'' @ tx] @ rest
    \<and> hex_DecodeString tx = Some [1, 255]"
proof -
  have "''ERROR'' \<in> severities" by (simp add: severities_def Severity_Error_def)
  moreover have "CHR ''|'' \<notin> set ''Mon''" and "CHR ''|'' \<notin> set ''hot''" by simp_all
  ultimately show ?thesis using audit_tx_round_trip by blast
qed

end
