(* ===== verification/TestWebhook.thy ===== *)
theory TestWebhook
  imports Handlers Notificators
begin

text \<open>
  \<open>cmd/testwebhook/main.go\<close>: the listener that the webhook client is tried against. A handler acts
  on the response writer and on what the listener prints.
\<close>

text \<open>A request by its method, its authorization header and the outcome of reading its body.\<close>

record hook_request =
  hk_Method :: string
  hk_Authorization :: string
  hk_Body :: "string result"

text \<open>A call of \<open>fmt.Printf\<close>; the text of an error is left out of what is printed.\<close>

definition print :: "string \<Rightarrow> string list \<Rightarrow> string list" where
  "print l out = out @ [l]"

text \<open>The token check only prints; it returns nothing.\<close>

definition hook_checkToken :: "hook_request \<Rightarrow> string \<Rightarrow> string list \<Rightarrow> string list" where
  "hook_checkToken req token out =
     (let header = hk_Authorization req in
      if header = [] then print ''no authorization header'' out
      else let auth = split_on (CHR '' '') header in
           if length auth \<noteq> 2 \<or> auth ! 0 \<noteq> ''Bearer'' then print ''not Bearer token'' out
           else if auth ! 1 = token then out
           else print ''invalid token'' out)"

definition getNotification :: "hook_request \<Rightarrow> ResponseWriter \<times> string list \<Rightarrow> ResponseWriter \<times> string list" where
  "getNotification req = (\<lambda>(resp, out).
     let out = (if hk_Method req \<noteq> ''POST'' then print ''Not a post request!'' out else out);
         out = hook_checkToken req ''123'' out in
     case hk_Body req of
       Inl _ \<Rightarrow> (resp, print ''notification read error'' out)
     | Inr res \<Rightarrow> (WriteHeader 200 resp, print (''Notification: '' @ res) out))"

text \<open>The status the server sends: 200 if the handler set none.\<close>

definition sent_status :: "ResponseWriter \<Rightarrow> int" where
  "sent_status w = (case rw_status w of None \<Rightarrow> 200 | Some st \<Rightarrow> st)"

text \<open>The network between the client and the listener; the whole body is read and the bodies that
  reached the listener are its state.\<close>

definition hook_network :: "string list network" where
  "hook_network req out =
     (case getNotification \<lparr>hk_Method = hr_Method req,
         hk_Authorization = (case map_of (hr_Headers req) ''Authorization'' of None \<Rightarrow> [] | Some h \<Rightarrow> h),
         hk_Body = Inr (hr_Body req)\<rparr> (new_writer, out) of
        (resp, out') \<Rightarrow> (out', length (hr_Body req), Inr \<lparr>rs_StatusCode = sent_status resp, rs_CloseErr = False\<rparr>))"

text \<open>The listener acknowledges every request, also one without the token or whose body it could
  not read.\<close>

lemma hook_accepts_all: "sent_status (fst (getNotification req (new_writer, out))) = 200"
  by (simp add: getNotification_def sent_status_def new_writer_def WriteHeader_def Let_def split: sum.split)

text \<open>So the client delivers at the first attempt, whatever its token, and the payload is printed.\<close>

lemma hook_delivers:
  assumes "valid_uri (wh_uri s)" and "marshal p = Inr jsonData"
  shows "\<exists>out'. webhook_Publish valid_uri marshal hook_network s p out = (out', Inr ()) \<and> ''Notification: '' @ jsonData \<in> set out'"
  using assms by (simp add: webhook_Publish_def numeral_3_eq_3 send_def client_Do_def hook_network_def webhook_request_def wrap_err_def
      getNotification_def sent_status_def new_writer_def WriteHeader_def print_def Let_def)

end
