(* ===== verification/Spec2Isabelle.thy ===== *)
theory Spec2Isabelle
  imports PaymentSpec Processor Lifecycle AuditLog TestWebhook
begin

text \<open>
  \<^bold>\<open>A payment processor for TON and jettons\<close>

  The program watches a shard of the TON blockchain for deposits to its own addresses, sweeps them
  to a hot wallet, and pays withdrawal requests from it. Its parts and how they interact:

  \<^item> The shard tracker (\<open>core/shard_tracker.go\<close>) follows the shard of the hot wallet and sends the
    header of each new block to a channel.
  \<^item> The block scanner (\<open>core/block_scanner.go\<close>) receives the headers, loads the transactions of the
    service's own accounts, turns them into events (incomes, sendings, withdrawals, confirmations),
    notifies about incomes, and saves the events of a block in one database transaction.
  \<^item> The withdrawals processor (\<open>core/withdrawal_processor.go\<close>) runs three loops: it builds and sends
    batches of payments and jetton sweeps from the hot wallet, sweeps TON deposits, and marks what
    was not seen in time as expired.
  \<^item> The repositories (\<open>db/\<close>) hold all state that these parts share, in PostgreSQL, together with an
    in-memory book of the service's addresses.
  \<^item> The connection to the node (\<open>core/blockchain.go\<close>) and the wallets (\<open>core/wallet/\<close>) give
    access to the chain and generate addresses; at the start the hot wallets are derived from the
    seed and stored.
  \<^item> The notificators (\<open>webhook/\<close>, \<open>queue/\<close>) publish incomes.
  \<^item> The HTTP interface (\<open>api/\<close>) creates addresses and withdrawal requests and reports incomes.
  \<^item> The audit log (\<open>audit/log.go\<close>) prints what the scanner and the processor find suspicious.
  \<^item> The program (\<open>cmd/processor/main.go\<close>) builds the parts, starts the tracker, the scanner and the three
    loops as goroutines, serves HTTP, and stops the goroutines on \<open>SIGTERM\<close>. \<open>cmd/testwebhook\<close> is
    a receiver to try the webhook with.

  \<^bold>\<open>Theories\<close>

  \<^item> \<open>Prelude\<close>: results (\<open>'a result\<close> with \<open>Err\<close>, \<open>Panic\<close> and \<open>Fatal\<close> for a returned error, a panic and
    \<open>log.Fatalf\<close>), loops with an early return (\<open>for_each\<close>, \<open>map_result\<close>), tables with unique keys
    (\<open>insert_unique\<close>, locale \<open>sql_table\<close>), calls on the outside world (\<open>io\<close>: no result when the call
    does not return), polling loops (\<open>poll\<close>), and the locale \<open>kept_by\<close> that lifts an invariant of
    one step to a loop.
  \<^item> \<open>Tonutils\<close>: the interface of the tonutils, uuid and cell libraries that the code calls, as the
    record \<open>tonlib\<close> of functions; what the theorems need of it is stated as a named hypothesis
    where it is used, and \<open>sample_lib\<close> satisfies each.
  \<^item> \<open>Config\<close> (\<open>config/config.go\<close>) and \<open>Models\<close> (\<open>models/models.go\<close>): one record per struct, one
    datatype per enumeration. Integers of the code that can wrap are words; \<open>big.Int\<close> is \<open>int\<close>.
  \<^item> \<open>Tables\<close> (\<open>deploy/db/01_init.up.sql\<close>): one record per table, a database as a record of lists of
    rows, and its well-formedness \<open>wf_database\<close>: the unique keys of the schema. Which of the columns that the statements
    name are there is the argument \<open>schema\<close>.
  \<^item> \<open>AddressBook\<close>, \<open>Repository\<close>, \<open>WithdrawalRepository\<close> (\<open>db/\<close>): one definition per method, an SQL
    statement as its effect on the tables. \<open>RunInTx\<close> has the errors of begin and commit as arguments.
  \<^item> \<open>ShardTracker\<close>: \<open>isInShard\<close> on 64-bit words, the retry loops and the walk over the chain.
  \<^item> \<open>Messages\<close> (\<open>core/withdrawal.go\<close>, \<open>core/proxy.go\<close>, \<open>core/helper.go\<close>): what is built into a message
    and what the scanner reads back.
  \<^item> \<open>BlockScanner\<close>: every handler, with \<open>range\<close> over a Go map as an arbitrary permutation.
  \<^item> \<open>WithdrawalsProcessor\<close>: the batches and one turn of each loop.
  \<^item> \<open>Payments\<close>: the life of a withdrawal request as a step relation \<open>pay_step\<close> in which request
    creation, selection of a batch, its recording, the saving of blocks and expiration interleave.
  \<^item> \<open>PaymentSpec\<close>: the life of a request as an abstract machine \<open>spec_step\<close>, which \<open>pay_step\<close> refines
    through \<open>request_state_of\<close>.
  \<^item> \<open>Blockchain\<close>, \<open>Wallets\<close>: the node's client as a record of calls on an outside world, the
    connection built on it, generation of addresses, initialisation of the hot wallets.
  \<^item> \<open>Notificators\<close>: both clients behind the locale \<open>notificator\<close>, whose lemmas the scanner's
    notifications rest on.
  \<^item> \<open>Usecases\<close>, \<open>Handlers\<close>: the HTTP interface; a nil interface is \<open>None\<close> and a call on it panics.
  \<^item> \<open>Processor\<close> (\<open>cmd/processor/main.go\<close>): the start of the service, from the configuration to what
    the services are created with.
  \<^item> \<open>Effects\<close>: what a turn of the processor and a call of the interface may do to the database, as the locales
    \<open>db_relation\<close>, \<open>processor_db\<close>, \<open>api_db\<close> and \<open>service_db\<close>: a relation between the database before and after
    that the single statements respect is respected by the whole turn. Interpreted with the well-formedness of the
    database, its saved blocks, and the paths of \<open>pay_step\<close>.
  \<^item> \<open>Typing\<close>: the types of the stored values (\<open>typed_database\<close>: the addresses in the tables have the length
    of the code's \<open>Address\<close> array) as one more instance of \<open>service_db\<close>, down to the events of a block.
  \<^item> \<open>Lifecycle\<close>: the running service as a step relation \<open>run_step\<close>. A state holds the program counters of the
    goroutines, whether the channel is closed, the database and the outside world; a step is a turn of a
    goroutine, a request that is served, or a statement of the signal handler.
  \<^item> \<open>AuditLog\<close> (\<open>audit/log.go\<close>): the text of an audit line.
  \<^item> \<open>TestWebhook\<close> (\<open>cmd/testwebhook/main.go\<close>): the receiver, as a network for the webhook client.

  \<^bold>\<open>What is shown\<close>

  \<^item> Money out: every step of the service refines the abstract life of a request, a request is paid at
    most once in every reachable interleaving and then stays paid, a message leaves only
    after it is recorded, a batch never spends more than the hot wallet has and has at most one
    payment per destination, deposits are not swept twice, the tasks selected are the oldest ones, and a
    request whose message expired unseen is offered to the next batch again.
  \<^item> Money in: blocks are saved atomically and once, every transaction of an own account is processed,
    jetton incomes add up to what the balance says, the result does not depend on the order of map
    iterations, and no income is saved without its notification.
  \<^item> Books: totals and pages of incomes, round trips of rows and messages, loading of the address book.
  \<^item> Chain: shard prefixes, completeness of the walk over the shard and of the pages of a block.
  \<^item> Start: an accepted configuration, the hot wallets stored once and never replaced, clocks in step.
  \<^item> Running: in every run, with the goroutines and the requests interleaved in any order, what happens to the database is a
    path of \<open>pay_step\<close> (so what is shown of requests there holds of the running service) and keeps the types of
    the stored values; every block handed to the scanner is saved, being scanned, or its processing has failed; after \<open>Stop\<close>
    the loops of the processor end under a fair schedule, but the tracker may send on the channel that the
    signal handler closed, which panics.
  \<^item> Audit: an audit line determines the transaction it is about.
  \<^item> Interface: fresh and listed addresses, guards of service withdrawals, rejection without the token.
  \<^item> Flaws: an empty address book, a panic in \<open>GetLastSavedBlock\<close> that keeps the service from starting, handlers without repositories, a
    withdrawal endpoint without effect, a webhook that cannot be repeated, blocks sent again after an error.

  \<^bold>\<open>Bounds and loops\<close>

  No definition has fuel. The loops that need not end (\<open>retry\<close>, \<open>walk\<close>, \<open>getCurrentMasterBlock\<close>, \<open>poll\<close>,
  \<open>fetch_pages\<close>) are partial functions into \<open>option\<close>, and that they return is part of the theorems
  about them, under what the node documents (a chain back to the known block, pages that end, a
  context with a deadline). The search for an id, \<open>search_id\<close>, is a total function: its measure is the distance
  to the largest 32-bit number, which the loop never passes. The endless loops of the services are modelled as one turn each,
  and the turns as steps of \<open>run_step\<close>, in which a loop goes on until its goroutine reads the request to stop.

  \<^bold>\<open>Not modelled\<close>

  Log lines other than those of the audit log, timers other than the deadline of a context (a turn may start at any
  time), the calls that connect to the database and the node (arguments of the start), JSON and the inside of the HTTP server
  (a request is a step, its parsed body an argument), the load tests and the unit tests (\<open>tests/\<close>, \<open>*_test.go\<close>:
  they are programs that exercise this one over the network). A mutex makes an access one step; the
  interleavings of the services are those of their turns in \<open>run_step\<close> and of their database operations in \<open>pay_step\<close>.
  In \<open>Lifecycle\<close> the last saved block is an argument of the deployment: the query of the code panics, so
  no run of the code itself gets past it. The addresses of \<open>internal_withdrawals\<close> are not part of
  \<open>typed_database\<close>: they are written from a message that the scanner only decodes.
\<close>

subsection \<open>The service does not start\<close>

text \<open>C27: \<open>main\<close> never gets to its services. Whatever the configuration, the database and the network are,
  every run of the start that ends at all ends with an error and leaves the database as it was; and once all
  connections are made it ends in a panic, in the query for the last saved block.\<close>

theorem service_cannot_start:
  "(\<forall>s' r. startup lib dec env cn api valid_uri marshal net amqp (w, d) = Some (s', r) \<longrightarrow> snd s' = d \<and> (\<exists>e. r = Inl e))
    \<and> (\<forall>w' x. connect_all lib dec env cn w = Some (w', Inr x)
        \<longrightarrow> (\<exists>m. startup lib dec env cn api valid_uri marshal net amqp (w, d) = Some ((w', d), Inl (Panic m))))"
proof -
  obtain m where m: "GetLastSavedBlock d = Inl (Panic m)" using GetLastSavedBlock_panics by blast
  show ?thesis
  proof (cases "connect_all lib dec env cn w")
    case (Some p)
    then obtain w' r where p: "connect_all lib dec env cn w = Some (w', r)" by (cases p) simp
    show ?thesis
      using p m by (cases r) (auto simp: startup_def io_bind_def on_world_def read_db_def load_start_block_def split: prod.splits)
  qed (simp add: startup_def io_bind_def on_world_def)
qed

theorem service_cannot_start_witness:
  "\<exists>w' x m. connect_all sample_lib sample_dec (Inr sample_env) sample_connections 3 = Some (w', Inr x)
    \<and> startup sample_lib sample_dec (Inr sample_env) sample_connections sample_wallet_api (\<lambda>_. True) (\<lambda>p :: string. Inr p)
        sample_net sample_amqp (3, empty_database) = Some ((w', empty_database), Inl (Panic m))"
proof -
  have "\<exists>cfg. GetConfig sample_lib sample_dec (Inr sample_env) = Inr cfg" using sample_GetConfig by blast
  moreover have "\<exists>w' c. NewConnection (sample_api []) 3 = Some (w', Inr c)"
    using sample_NewConnection by blast
  ultimately have "\<exists>w' x. connect_all sample_lib sample_dec (Inr sample_env) sample_connections 3 = Some (w', Inr x)"
    by (auto simp: connect_all_def sample_connections_def or_fatal_def io_bind_def io_lift_def)
  then obtain w' x where c: "connect_all sample_lib sample_dec (Inr sample_env) sample_connections 3 = Some (w', Inr x)" by blast
  from service_cannot_start [THEN conjunct2, rule_format, OF this] obtain m
    where "startup sample_lib sample_dec (Inr sample_env) sample_connections sample_wallet_api (\<lambda>_. True) (\<lambda>p :: string. Inr p)
        sample_net sample_amqp (3, empty_database) = Some ((w', empty_database), Inl (Panic m))" by blast
  with c show ?thesis by blast
qed

end
